(* ===== verification/Go_Prelude.thy ===== *)
theory Go_Prelude
  imports Main "HOL-Library.Word"
begin

text \<open>
  Shared vocabulary of the development: the machine types of the Go program, the
  fallible results, the external world a handler runs in, and the generic lemmas the
  component theories use.

  A Go \<^verbatim>\<open>string\<close> and a \<^verbatim>\<open>[]byte\<close> are byte sequences, so both are \<open>string\<close> (a \<open>char\<close> is
  a byte). A \<^verbatim>\<open>uint\<close> and an \<^verbatim>\<open>int\<close> are 64-bit words (the service is built for 64-bit
  targets); an \<^verbatim>\<open>int\<close> is read with \<open>sint\<close>. A \<^verbatim>\<open>time.Duration\<close> is a signed 64-bit word of
  nanoseconds, a \<^verbatim>\<open>time.Time\<close> an integer number of nanoseconds since the epoch.
\<close>

type_synonym uint = "64 word"
type_synonym goint = "64 word"
type_synonym duration = "64 word"
type_synonym time = int
type_synonym bytes = string

named_theorems go_defs \<open>definitions unfolded together by the functional lemmas\<close>
named_theorems go_frame \<open>what an operation leaves unchanged\<close>

section \<open>Durations and points in time\<close>

definition nanosecond :: int where "nanosecond = 1"
definition millisecond :: int where "millisecond = 1000000"
definition second :: int where "second = 1000000000"

text \<open>The zero \<^verbatim>\<open>time.Time\<close>: the first of January of the year 1, UTC.\<close>

definition zero_time :: time where "zero_time = - 62135596800 * second"

definition time_Add :: "time \<Rightarrow> duration \<Rightarrow> time" where
  "time_Add t d = t + sint d"

definition time_After :: "time \<Rightarrow> time \<Rightarrow> bool" where
  "time_After t u = (u < t)"

definition time_Before :: "time \<Rightarrow> time \<Rightarrow> bool" where
  "time_Before t u = (t < u)"

lemmas time_defs = time_Add_def time_After_def time_Before_def

section \<open>JSON values and log records\<close>

text \<open>
  A value that \<^verbatim>\<open>json.Unmarshal\<close> leaves in an \<^verbatim>\<open>any\<close>: a \<^verbatim>\<open>map[string]any\<close> is a list of
  entries with distinct keys, a number is kept as its text.
\<close>

datatype json =
    JNull
  | JBool bool
  | JNum string
  | JStr string
  | JArr "json list"
  | JObj "(string \<times> json) list"

datatype log_level = DebugLevel | InfoLevel | WarnLevel | ErrorLevel

text \<open>A field handed to \<^verbatim>\<open>With\<close>; a latency is kept in whole microseconds.\<close>

datatype log_value =
    LInt int
  | LStr string
  | LMicros int
  | LJson json

record log_entry =
  le_level :: log_level
  le_fields :: "(string \<times> log_value) list"
  le_msg :: string

section \<open>The external world\<close>

text \<open>
  What a request reads from outside the process: the database behind GORM, the clock and
  the kernel's entropy. \<open>w_clock\<close> and \<open>w_entropy\<close> give the answers of the successive
  readings (\<^verbatim>\<open>time.Now\<close>, \<^verbatim>\<open>rand.Read\<close> of a number of bytes, or its error's text); \<open>w_ticks\<close> and \<open>w_draws\<close> count the readings made so
  far, so that two readings in one request may differ. \<open>w_log\<close> holds the records written
  to the log, the last one first.
\<close>

record 's world =
  w_db :: 's
  w_clock :: "nat \<Rightarrow> time"
  w_ticks :: nat
  w_entropy :: "nat \<Rightarrow> nat \<Rightarrow> string + bytes"
  w_draws :: nat
  w_log :: "log_entry list"

definition time_Now :: "'s world \<Rightarrow> time \<times> 's world" where
  "time_Now w = (w_clock w (w_ticks w), w\<lparr>w_ticks := Suc (w_ticks w)\<rparr>)"

text \<open>A database operation acts on the database of the world and on nothing else.\<close>

definition on_db :: "('s \<Rightarrow> 'a \<times> 's) \<Rightarrow> 's world \<Rightarrow> 'a \<times> 's world" where
  "on_db f w = (case f (w_db w) of (r, d) \<Rightarrow> (r, w\<lparr>w_db := d\<rparr>))"

definition log_write :: "log_entry \<Rightarrow> 's world \<Rightarrow> 's world" where
  "log_write e w = w\<lparr>w_log := e # w_log w\<rparr>"

lemma log_write_db [simp]: "w_db (log_write e w) = w_db w"
  by (simp add: log_write_def)

lemma on_db_eq:
  "on_db f w = (r, w') \<longleftrightarrow> (\<exists>d. f (w_db w) = (r, d) \<and> w' = w\<lparr>w_db := d\<rparr>)"
  by (auto simp: on_db_def split: prod.splits)

lemma time_Now_db [simp]: "w_db (snd (time_Now w)) = w_db w"
  by (simp add: time_Now_def)

lemma time_Now_eq:
  "time_Now w = (t, w') \<longleftrightarrow> t = w_clock w (w_ticks w) \<and> w' = w\<lparr>w_ticks := Suc (w_ticks w)\<rparr>"
  by (auto simp: time_Now_def)

section \<open>Lists of bytes\<close>

fun hex_digit :: "nat \<Rightarrow> char" where
  "hex_digit n = (if n < 10 then char_of (48 + n) else char_of (87 + n))"

text \<open>\<^verbatim>\<open>encoding/hex.EncodeToString\<close>: two lower-case digits for each byte.\<close>

fun hex_EncodeToString :: "bytes \<Rightarrow> string" where
  "hex_EncodeToString [] = []"
| "hex_EncodeToString (b # bs) =
     hex_digit (of_char b div 16) # hex_digit (of_char b mod 16) # hex_EncodeToString bs"

lemma hex_digit_inject:
  assumes "m < 16" "n < 16" "hex_digit m = hex_digit n"
  shows "m = n"
proof -
  have "(if m < 10 then 48 + m else 87 + m) mod 256 = (if n < 10 then 48 + n else 87 + n) mod 256"
    using assms(3) by (auto dest: arg_cong [where f = "of_char :: char \<Rightarrow> nat"] split: if_splits)
  then show ?thesis using assms(1,2) by (auto split: if_splits)
qed

lemma of_char_less_256: "(of_char c :: nat) < 256"
  by (metis of_char_mod_256 mod_less_divisor zero_less_numeral)

lemma hex_EncodeToString_inject:
  "hex_EncodeToString xs = hex_EncodeToString ys \<longleftrightarrow> xs = ys"
proof (induction xs arbitrary: ys)
  case Nil
  then show ?case by (cases ys) simp_all
next
  case (Cons x xs)
  show ?case
  proof (cases ys)
    case Nil
    then show ?thesis by simp
  next
    case (Cons y zs)
    have "x = y" if "hex_digit (of_char x div 16) = hex_digit (of_char y div 16)"
      and "hex_digit (of_char x mod 16) = hex_digit (of_char y mod 16)"
    proof -
      have "of_char x div 16 = (of_char y div 16 :: nat)"
        using that(1) of_char_less_256 [of x] of_char_less_256 [of y]
        by (intro hex_digit_inject) (simp_all only: less_mult_imp_div_less)
      moreover have "of_char x mod 16 = (of_char y mod 16 :: nat)"
        using that(2) by (intro hex_digit_inject) simp_all
      ultimately have "(of_char x :: nat) = of_char y"
        by (metis div_mult_mod_eq)
      then show ?thesis by simp
    qed
    with Cons.IH [of zs] Cons show ?thesis by (auto simp del: hex_digit.simps)
  qed
qed

lemma length_hex_EncodeToString [simp]: "length (hex_EncodeToString bs) = 2 * length bs"
  by (induction bs) simp_all

section \<open>Words\<close>

lemma unat_less_2p64: "unat (i :: uint) < 2 ^ 64"
  using unsigned_less [of i] by simp


end
