(* ===== verification/Go_Errors.thy ===== *)
theory Go_Errors
  imports Go_Prelude
begin

text \<open>
  Errors as values: \<^verbatim>\<open>pkg/errorutil\<close> (\<^verbatim>\<open>code.go\<close>, \<^verbatim>\<open>error.go\<close>, \<^verbatim>\<open>validation.go\<close>), the error
  chain walked by \<^verbatim>\<open>errors.Is\<close> and \<^verbatim>\<open>errors.As\<close>, the sentinels of the repository's
  packages and of the libraries it compares against, and gRPC status values.
\<close>

section \<open>Codes\<close>

datatype Code =
    CodeInternal
  | CodeNotFound
  | CodeAlreadyExists
  | CodeInvalidInput
  | CodeUnauthorized
  | CodeForbidden
  | CodeConflict
  | CodePrecondition

text \<open>The gRPC status codes, in the order of their wire numbers 0 to 16.\<close>

datatype grpc_code =
    OK | Cancelled | Unknown | InvalidArgument | DeadlineExceeded | NotFound
  | AlreadyExists | PermissionDenied | ResourceExhausted | FailedPrecondition
  | Aborted | OutOfRange | Unimplemented | Internal | Unavailable | DataLoss
  | Unauthenticated

section \<open>Error values\<close>

text \<open>
  \<^verbatim>\<open>errors.New\<close> variables, compared by identity. The first group is declared in the
  repository, the second in libraries whose sentinels the code tests for.
\<close>

datatype sentinel =
    ErrInvalidToken | ErrExpiredToken | ErrInvalidSubject
  | ErrConcurrentRequest | ErrQueueFull | ErrPoolClosed | ErrInvalidCursor
  | GormRecordNotFound | RedisNil | JwtTokenExpired | ContextCanceled | ServerClosed | IoEOF

text \<open>
  A Go \<^verbatim>\<open>error\<close> value. \<open>AppError\<close> is \<^verbatim>\<open>errorutil.AppError\<close>; \<open>Wrapped p e s\<close> is the result
  of \<^verbatim>\<open>fmt.Errorf\<close> with one \<^verbatim>\<open>%w\<close>, whose text is \<open>p\<close>, the text of \<open>e\<close>, then \<open>s\<close>;
  \<open>StatusErr\<close> is \<^verbatim>\<open>status.Error\<close>; \<open>ContextDeadline\<close> is \<^verbatim>\<open>context.DeadlineExceeded\<close>;
  \<open>NetErr\<close> is an error of a library that implements \<^verbatim>\<open>net.Error\<close>, \<open>Foreign\<close> any other
  library error, both known by their texts only.
\<close>

datatype go_error =
    AppError Code string "go_error option"
  | Wrapped string go_error string
  | Sentinel sentinel
  | StatusErr grpc_code string
  | ContextDeadline
  | NetErr string
  | Foreign string

type_synonym 'a result = "go_error + 'a"

text \<open>How a call of a function with results \<^verbatim>\<open>(T, error)\<close> ends: it returns both, or panics.\<close>

datatype 'a outcome = Returns 'a "go_error option" | Panics string

text \<open>\<^verbatim>\<open>errorutil.New\<close>, \<^verbatim>\<open>errorutil.Wrap\<close> and \<^verbatim>\<open>errorutil.NewValidation\<close>.\<close>

definition New :: "Code \<Rightarrow> string \<Rightarrow> go_error" where
  "New code message = AppError code message None"

definition Wrap :: "Code \<Rightarrow> string \<Rightarrow> go_error \<Rightarrow> go_error" where
  "Wrap code message err = AppError code message (Some err)"

definition NewValidation :: "string \<Rightarrow> string \<Rightarrow> go_error" where
  "NewValidation field message =
     AppError CodeInvalidInput
       (''validation failed on field '' @ field @ '': '' @ message) None"

lemmas app_error_defs = New_def Wrap_def NewValidation_def

section \<open>Walking the chain\<close>

text \<open>The \<^verbatim>\<open>Unwrap\<close> method, where the dynamic type has one.\<close>

fun Unwrap :: "go_error \<Rightarrow> go_error option" where
  "Unwrap (AppError c m e) = e"
| "Unwrap (Wrapped p e s) = Some e"
| "Unwrap _ = None"

text \<open>\<^verbatim>\<open>errors.Is\<close> for a sentinel or \<^verbatim>\<open>context.DeadlineExceeded\<close> as the target.\<close>

fun errors_Is :: "go_error \<Rightarrow> go_error \<Rightarrow> bool" where
  "errors_Is (AppError c m None) t = (AppError c m None = t)"
| "errors_Is (AppError c m (Some e)) t = (AppError c m (Some e) = t \<or> errors_Is e t)"
| "errors_Is (Wrapped p e s) t = (Wrapped p e s = t \<or> errors_Is e t)"
| "errors_Is e t = (e = t)"

text \<open>\<^verbatim>\<open>errors.As(err, &appErr)\<close>: the first \<^verbatim>\<open>*AppError\<close> of the chain.\<close>

fun errors_As_AppError :: "go_error \<Rightarrow> (Code \<times> string \<times> go_error option) option" where
  "errors_As_AppError (AppError c m e) = Some (c, m, e)"
| "errors_As_AppError (Wrapped p e s) = errors_As_AppError e"
| "errors_As_AppError _ = None"

text \<open>
  The texts of the sentinels. Those of the libraries are given by \<open>txt\<close>.
\<close>

fun sentinel_text :: "(go_error \<Rightarrow> string) \<Rightarrow> sentinel \<Rightarrow> string" where
  "sentinel_text txt ErrInvalidToken = ''invalid token''"
| "sentinel_text txt ErrExpiredToken = ''token has expired''"
| "sentinel_text txt ErrInvalidSubject = ''invalid token subject''"
| "sentinel_text txt ErrConcurrentRequest =
     ''idempotency: concurrent request in progress with the same idempotency key''"
| "sentinel_text txt ErrQueueFull = ''routine: worker pool queue is full''"
| "sentinel_text txt ErrPoolClosed = ''routine: worker pool is closed''"
| "sentinel_text txt ErrInvalidCursor = ''pagination: invalid cursor format''"
| "sentinel_text txt ContextCanceled = ''context canceled''"
| "sentinel_text txt s = txt (Sentinel s)"

text \<open>
  The \<^verbatim>\<open>Error\<close> method. \<open>txt\<close> is the text of the error values of libraries that the
  repository does not compute itself (status values, library sentinels).
\<close>

fun error_Error :: "(go_error \<Rightarrow> string) \<Rightarrow> go_error \<Rightarrow> string" where
  "error_Error txt (AppError c m (Some e)) = m @ '': '' @ error_Error txt e"
| "error_Error txt (AppError c m None) = m"
| "error_Error txt (Wrapped p e s) = p @ error_Error txt e @ s"
| "error_Error txt (Sentinel s) = sentinel_text txt s"
| "error_Error txt (StatusErr c m) = txt (StatusErr c m)"
| "error_Error txt ContextDeadline = ''context deadline exceeded''"
| "error_Error txt (NetErr m) = m"
| "error_Error txt (Foreign m) = m"

text \<open>
  A type assertion to \<^verbatim>\<open>net.Error\<close> on the value itself, without unwrapping.
  \<^verbatim>\<open>context.DeadlineExceeded\<close> has the methods, \<^verbatim>\<open>context.Canceled\<close> has not.
\<close>

fun is_net_error :: "go_error \<Rightarrow> bool" where
  "is_net_error (NetErr m) = True"
| "is_net_error ContextDeadline = True"
| "is_net_error _ = False"

text \<open>No \<^verbatim>\<open>AppError\<close> and no status value in the chain: an error from outside.\<close>

fun foreign_chain :: "go_error \<Rightarrow> bool" where
  "foreign_chain (AppError c m e) = False"
| "foreign_chain (StatusErr c m) = False"
| "foreign_chain (Wrapped p e s) = foreign_chain e"
| "foreign_chain _ = True"

lemma errors_Is_refl [simp]: "errors_Is e e"
  by (cases e rule: Unwrap.cases) (auto, metis errors_Is.simps(1,2) option.exhaust)

lemma errors_Is_Unwrap: "Unwrap e = Some e' \<Longrightarrow> errors_Is e' t \<Longrightarrow> errors_Is e t"
  by (cases e rule: Unwrap.cases) auto

lemma foreign_chain_not_app: "foreign_chain e \<Longrightarrow> errors_As_AppError e = None"
  by (induction e rule: foreign_chain.induct) auto

lemma errors_As_AppError_Wrap [simp]: "errors_As_AppError (Wrap c m e) = Some (c, m, Some e)"
  by (simp add: Wrap_def)

lemma errors_As_AppError_New [simp]: "errors_As_AppError (New c m) = Some (c, m, None)"
  by (simp add: New_def)

lemma errors_Is_New [simp]: "errors_Is (New c m) (Sentinel s) = False"
  by (simp add: New_def)

lemma errors_Is_Wrap [simp]: "errors_Is (Wrap c m e) (Sentinel s) = errors_Is e (Sentinel s)"
  by (simp add: Wrap_def)

section \<open>gRPC status conversion\<close>

text \<open>
  \<^verbatim>\<open>status.FromError\<close> belongs to the gRPC library: the definitions that call it take it as
  an argument, together with the \<open>bool\<close> it returns. \<open>status_FromError_spec\<close> is what its
  documentation promises of the values the service produces.
\<close>

type_synonym from_error = "go_error option \<Rightarrow> (grpc_code \<times> string) \<times> bool"

definition status_FromError_spec :: "from_error \<Rightarrow> bool" where
  "status_FromError_spec fe \<longleftrightarrow>
     fe None = ((OK, []), True) \<and>
     (\<forall>c m. c \<noteq> OK \<longrightarrow> fe (Some (StatusErr c m)) = ((c, m), True)) \<and>
     (\<forall>e. foreign_chain e \<longrightarrow> fst (fst (fe (Some e))) = Unknown \<and> \<not> snd (fe (Some e)))"

text \<open>A concrete conversion with that behaviour, for witnesses.\<close>

fun plain_FromError :: from_error where
  "plain_FromError None = ((OK, []), True)"
| "plain_FromError (Some (StatusErr c m)) = ((c, m), True)"
| "plain_FromError (Some e) = ((Unknown, error_Error (\<lambda>_. []) e), False)"

lemma plain_FromError_spec: "status_FromError_spec plain_FromError"
  unfolding status_FromError_spec_def
proof (intro conjI allI impI)
  fix e assume "foreign_chain e"
  then show "fst (fst (plain_FromError (Some e))) = Unknown" and "\<not> snd (plain_FromError (Some e))"
    by (cases e; simp)+
qed simp_all

end
