(* ===== verification/Go_Context.thy ===== *)
theory Go_Context
  imports Go_Errors
begin

text \<open>
  \<^verbatim>\<open>context.Context\<close> as the service uses it: the request-scoped values of
  \<^verbatim>\<open>pkg/contextutil/context.go\<close>, \<^verbatim>\<open>pkg/logger/logger.go\<close> and
  \<^verbatim>\<open>infrastructure/database/postgres/tx_manager.go\<close>, the incoming gRPC metadata, and
  deadline and cancellation.
\<close>

section \<open>The context value\<close>

text \<open>\<^verbatim>\<open>logger.RPCMetadata\<close>.\<close>

record RPCMetadata =
  rpc_System :: string
  rpc_Service :: string
  rpc_Method :: string
  rpc_ClientIP :: string
  rpc_UserAgent :: string

text \<open>
  One field for each private key type. \<open>ctx_md\<close> is the incoming metadata (its keys are
  lower case), \<open>ctx_peer\<close> the peer's address, \<open>ctx_tx\<close> the transaction handle stored by
  the transaction manager, \<open>ctx_deadline\<close> what \<^verbatim>\<open>Deadline\<close> returns and \<open>ctx_cancel\<close> the
  moment at which the caller cancels, if it does.
\<close>

record ctx =
  ctx_user_id :: "uint option"
  ctx_role :: "string option"
  ctx_request_id :: "string option"
  ctx_rpc :: "RPCMetadata option"
  ctx_md :: "(string \<Rightarrow> string list) option"
  ctx_peer :: "string option"
  ctx_tx :: "nat option"
  ctx_deadline :: "time option"
  ctx_cancel :: "time option"

definition Background :: ctx where
  "Background = \<lparr>ctx_user_id = None, ctx_role = None, ctx_request_id = None, ctx_rpc = None,
     ctx_md = None, ctx_peer = None, ctx_tx = None, ctx_deadline = None, ctx_cancel = None\<rparr>"

section \<open>Accessors (pkg/contextutil)\<close>

definition WithRequestID :: "ctx \<Rightarrow> string \<Rightarrow> ctx" where
  "WithRequestID c requestID = c\<lparr>ctx_request_id := Some requestID\<rparr>"

definition GetRequestID :: "ctx \<Rightarrow> string \<times> bool" where
  "GetRequestID c = (case ctx_request_id c of Some v \<Rightarrow> (v, True) | None \<Rightarrow> ([], False))"

definition WithUserID :: "ctx \<Rightarrow> uint \<Rightarrow> ctx" where
  "WithUserID c userID = c\<lparr>ctx_user_id := Some userID\<rparr>"

definition GetUserID :: "ctx \<Rightarrow> uint \<times> bool" where
  "GetUserID c = (case ctx_user_id c of Some v \<Rightarrow> (v, True) | None \<Rightarrow> (0, False))"

definition WithRole :: "ctx \<Rightarrow> string \<Rightarrow> ctx" where
  "WithRole c role = c\<lparr>ctx_role := Some role\<rparr>"

definition GetRole :: "ctx \<Rightarrow> string \<times> bool" where
  "GetRole c = (case ctx_role c of Some v \<Rightarrow> (v, True) | None \<Rightarrow> ([], False))"

definition WithRPCMetadata :: "ctx \<Rightarrow> RPCMetadata \<Rightarrow> ctx" where
  "WithRPCMetadata c meta = c\<lparr>ctx_rpc := Some meta\<rparr>"

definition GetRPCMetadata :: "ctx \<Rightarrow> RPCMetadata \<times> bool" where
  "GetRPCMetadata c =
     (case ctx_rpc c of Some v \<Rightarrow> (v, True) | None \<Rightarrow> (\<lparr>rpc_System = [], rpc_Service = [],
        rpc_Method = [], rpc_ClientIP = [], rpc_UserAgent = []\<rparr>, False))"

lemmas contextutil_defs = WithRequestID_def GetRequestID_def WithUserID_def GetUserID_def
  WithRole_def GetRole_def WithRPCMetadata_def GetRPCMetadata_def

lemma context_get_put [simp]:
  "GetUserID (WithUserID c u) = (u, True)"
  "GetRole (WithRole c r) = (r, True)"
  "GetRequestID (WithRequestID c i) = (i, True)"
  "GetRPCMetadata (WithRPCMetadata c m) = (m, True)"
  by (simp_all add: contextutil_defs)

lemma context_get_other [simp]:
  "GetUserID (WithRole c r) = GetUserID c"
  "GetUserID (WithRequestID c i) = GetUserID c"
  "GetUserID (WithRPCMetadata c m) = GetUserID c"
  "GetRole (WithUserID c u) = GetRole c"
  "GetRole (WithRequestID c i) = GetRole c"
  "GetRole (WithRPCMetadata c m) = GetRole c"
  "GetRequestID (WithUserID c u) = GetRequestID c"
  "GetRequestID (WithRole c r) = GetRequestID c"
  "GetRequestID (WithRPCMetadata c m) = GetRequestID c"
  by (simp_all add: contextutil_defs)

lemma context_fields [simp]:
  "ctx_tx (WithUserID c u) = ctx_tx c" "ctx_tx (WithRole c r) = ctx_tx c"
  "ctx_tx (WithRequestID c i) = ctx_tx c" "ctx_tx (WithRPCMetadata c m) = ctx_tx c"
  "ctx_md (WithUserID c u) = ctx_md c" "ctx_md (WithRole c r) = ctx_md c"
  "ctx_md (WithRequestID c i) = ctx_md c" "ctx_md (WithRPCMetadata c m) = ctx_md c"
  "ctx_tx Background = None" "ctx_md Background = None"
  by (simp_all add: contextutil_defs Background_def)

section \<open>Deadlines and cancellation (package context)\<close>

text \<open>
  \<^verbatim>\<open>ctx.Err()\<close> read at time \<open>now\<close>: the reason of whichever of deadline and cancellation
  came first.
\<close>

definition ctx_Err :: "ctx \<Rightarrow> time \<Rightarrow> go_error option" where
  "ctx_Err c now =
     (case (ctx_deadline c, ctx_cancel c) of
        (None, None) \<Rightarrow> None
      | (Some d, None) \<Rightarrow> if d \<le> now then Some ContextDeadline else None
      | (None, Some k) \<Rightarrow> if k \<le> now then Some (Sentinel ContextCanceled) else None
      | (Some d, Some k) \<Rightarrow>
          if d \<le> now \<and> d \<le> k then Some ContextDeadline
          else if k \<le> now then Some (Sentinel ContextCanceled) else None)"

text \<open>\<^verbatim>\<open>context.WithTimeout\<close>: the parent's deadline stays when it is earlier.\<close>

definition WithTimeout :: "ctx \<Rightarrow> time \<Rightarrow> duration \<Rightarrow> ctx" where
  "WithTimeout c now d =
     c\<lparr>ctx_deadline :=
        (case ctx_deadline c of
           Some p \<Rightarrow> Some (if time_Before p (time_Add now d) then p else time_Add now d)
         | None \<Rightarrow> Some (time_Add now d))\<rparr>"

text \<open>\<^verbatim>\<open>context.WithoutCancel\<close>: values stay, deadline and cancellation go.\<close>

definition WithoutCancel :: "ctx \<Rightarrow> ctx" where
  "WithoutCancel c = c\<lparr>ctx_deadline := None, ctx_cancel := None\<rparr>"

lemma ctx_Err_WithoutCancel [simp]: "ctx_Err (WithoutCancel c) now = None"
  by (simp add: ctx_Err_def WithoutCancel_def)

lemma ctx_Err_cases:
  "ctx_Err c now = Some e \<Longrightarrow> e = ContextDeadline \<or> e = Sentinel ContextCanceled"
  by (auto simp: ctx_Err_def split: option.splits if_splits)

lemma ctx_Err_mono: "ctx_Err c now = Some e \<Longrightarrow> now \<le> now' \<Longrightarrow> ctx_Err c now' = Some e"
  by (auto simp: ctx_Err_def split: option.splits if_splits)

lemma WithTimeout_deadline_le:
  "\<exists>d'. ctx_deadline (WithTimeout c now d) = Some d' \<and> d' \<le> time_Add now d"
  by (auto simp: WithTimeout_def time_defs split: option.splits)

lemma WithTimeout_values [simp]:
  "ctx_md (WithTimeout c now d) = ctx_md c" "GetUserID (WithTimeout c now d) = GetUserID c"
  "ctx_tx (WithTimeout c now d) = ctx_tx c" "GetRole (WithTimeout c now d) = GetRole c"
  by (simp_all add: WithTimeout_def contextutil_defs)

end
