(* ===== verification/Entities.thy ===== *)
theory Entities
  imports Go_Context
begin

text \<open>
  The domain data of the user and auth features: \<^verbatim>\<open>internal/user/entity/user.go\<close>,
  \<^verbatim>\<open>internal/auth/entity/token.go\<close>, the request and response types of both \<^verbatim>\<open>dto\<close>
  packages, and the domain errors of both \<^verbatim>\<open>errors\<close> packages.
\<close>

section \<open>Entities\<close>

type_synonym Role = string

definition RoleUser :: Role where "RoleUser = ''user''"
definition RoleAdmin :: Role where "RoleAdmin = ''admin''"

record user =
  u_ID :: uint
  u_Name :: string
  u_Email :: string
  u_Password :: string
  u_Role :: Role
  u_Active :: bool
  u_CreatedAt :: time
  u_UpdatedAt :: time

record refresh_token =
  t_ID :: uint
  t_UserID :: uint
  t_Token :: string
  t_Revoked :: bool
  t_ExpiresAt :: time
  t_CreatedAt :: time

text \<open>\<^verbatim>\<open>IsExpired\<close> and \<^verbatim>\<open>IsValid\<close> read the clock; \<open>now\<close> is that reading.\<close>

definition IsExpired :: "refresh_token \<Rightarrow> time \<Rightarrow> bool" where
  "IsExpired t now = time_After now (t_ExpiresAt t)"

definition IsValid :: "refresh_token \<Rightarrow> time \<Rightarrow> bool" where
  "IsValid t now = (\<not> t_Revoked t \<and> \<not> IsExpired t now)"

section \<open>Requests and responses\<close>

record LoginRequest =
  lr_Email :: string
  lr_Password :: string

record RefreshTokenRequest =
  rr_RefreshToken :: string

record LogoutRequest =
  or_RefreshToken :: string

record TokenPair =
  tp_AccessToken :: string
  tp_RefreshToken :: string

record CreateUserRequest =
  cr_Name :: string
  cr_Email :: string
  cr_Password :: string

record UpdateUserRequest =
  ur_ID :: uint
  ur_CallerID :: uint
  ur_Name :: string

record UserResponse =
  us_ID :: uint
  us_Name :: string
  us_Email :: string
  us_Role :: string
  us_Active :: bool
  us_CreatedAt :: time
  us_UpdatedAt :: time

definition ToUserResponse :: "user \<Rightarrow> UserResponse" where
  "ToUserResponse u =
     \<lparr>us_ID = u_ID u, us_Name = u_Name u, us_Email = u_Email u, us_Role = u_Role u,
      us_Active = u_Active u, us_CreatedAt = u_CreatedAt u, us_UpdatedAt = u_UpdatedAt u\<rparr>"

text \<open>
  The structs handed to \<^verbatim>\<open>validator.ValidateStruct\<close>; the library reads their
  \<^verbatim>\<open>validate\<close> tags.
\<close>

datatype validated =
    V_Login LoginRequest
  | V_Refresh RefreshTokenRequest
  | V_Logout LogoutRequest
  | V_CreateUser CreateUserRequest
  | V_UpdateUser UpdateUserRequest

text \<open>
  \<^verbatim>\<open>pkg/validator\<close>: the first call of \<^verbatim>\<open>Get\<close> stores the instance (\<open>fresh\<close>, made by the library),
  every later one answers it. \<open>Struct\<close> is the library's check of a struct by an instance.
\<close>

definition validator_Get :: "'v \<Rightarrow> 'v option \<Rightarrow> 'v \<times> 'v option" where
  "validator_Get fresh stored =
     (case stored of None \<Rightarrow> (fresh, Some fresh) | Some v \<Rightarrow> (v, stored))"

definition ValidateStruct ::
  "('v \<Rightarrow> validated \<Rightarrow> go_error option) \<Rightarrow> 'v \<Rightarrow> 'v option \<Rightarrow> validated \<Rightarrow> go_error option \<times> 'v option" where
  "ValidateStruct Struct fresh stored s =
     (let (v, stored') = validator_Get fresh stored in (Struct v s, stored'))"

text \<open>
  \<^verbatim>\<open>Validate\<close> of the auth and of the user feature: the same function, over the shared
  \<^verbatim>\<open>pkg/validator\<close>. \<open>vs\<close> is the check of the shared instance, with its error if a tag is violated.
\<close>

definition Validate :: "(validated \<Rightarrow> go_error option) \<Rightarrow> validated \<Rightarrow> go_error option" where
  "Validate vs s =
     (case vs s of
        Some err \<Rightarrow> Some (Wrap CodeInvalidInput ''validation failed'' err)
      | None \<Rightarrow> None)"

section \<open>Domain errors\<close>

definition ErrInvalidCredentials :: go_error where
  "ErrInvalidCredentials = New CodeUnauthorized ''invalid email or password''"

definition ErrTokenNotFound :: go_error where
  "ErrTokenNotFound = New CodeNotFound ''token not found''"

definition ErrTokenExpired :: go_error where
  "ErrTokenExpired = New CodeUnauthorized ''token has expired''"

definition ErrTokenRevoked :: go_error where
  "ErrTokenRevoked = New CodeUnauthorized ''token has been revoked''"

definition ErrNotFound :: go_error where
  "ErrNotFound = New CodeNotFound ''user not found''"

definition ErrAlreadyExists :: go_error where
  "ErrAlreadyExists = New CodeAlreadyExists ''user already exists''"

definition ErrForbidden :: go_error where
  "ErrForbidden = New CodeForbidden ''access denied''"

lemmas domain_error_defs = ErrInvalidCredentials_def ErrTokenNotFound_def ErrTokenExpired_def
  ErrTokenRevoked_def ErrNotFound_def ErrAlreadyExists_def ErrForbidden_def

lemma domain_errors_distinct [simp]:
  "ErrTokenNotFound \<noteq> ErrTokenExpired" "ErrTokenNotFound \<noteq> ErrTokenRevoked"
  "ErrTokenExpired \<noteq> ErrTokenRevoked" "ErrTokenExpired \<noteq> ErrTokenNotFound"
  "ErrTokenRevoked \<noteq> ErrTokenNotFound" "ErrTokenRevoked \<noteq> ErrTokenExpired"
  "ErrForbidden \<noteq> ErrNotFound" "ErrNotFound \<noteq> ErrForbidden"
  by (simp_all add: domain_error_defs New_def)

lemma ValidateStruct_shared:
  "snd (ValidateStruct Struct fresh stored s) = Some v \<Longrightarrow>
   ValidateStruct Struct fresh' (Some v) s' = (Struct v s', Some v)"
  by (simp add: ValidateStruct_def validator_Get_def)

lemma Validate_None [simp]: "Validate vs s = None \<longleftrightarrow> vs s = None"
  by (simp add: Validate_def split: option.splits)

end
