(* ===== verification/Gorm_DB.thy ===== *)
theory Gorm_DB
  imports Entities
begin

text \<open>
  The boundary to the database. GORM and PostgreSQL are not part of the repository: their
  calls are the fields of a record \<open>gorm\<close>, and the repositories take such a record. The
  locale \<open>gorm_db\<close> states what the repository relies on (GORM's documented results, the
  unique and foreign keys of \<^verbatim>\<open>migrations/*.up.sql\<close>, and the transaction contract), over an
  abstract view of the two tables. Any call may also fail with an error of the driver.
\<close>

section \<open>Tables\<close>

text \<open>
  \<^verbatim>\<open>users\<close> by primary key and \<^verbatim>\<open>refresh_tokens\<close> by the value of the unique column \<^verbatim>\<open>token\<close>.
\<close>

record tables =
  users :: "uint \<Rightarrow> user option"
  tokens :: "string \<Rightarrow> refresh_token option"

definition upd_user :: "user \<Rightarrow> tables \<Rightarrow> tables" where
  "upd_user u T = T\<lparr>users := (users T)(u_ID u \<mapsto> u)\<rparr>"

definition ins_token :: "refresh_token \<Rightarrow> tables \<Rightarrow> tables" where
  "ins_token t T = T\<lparr>tokens := (tokens T)(t_Token t \<mapsto> t)\<rparr>"

text \<open>\<^verbatim>\<open>UPDATE refresh_tokens SET revoked = true WHERE token = k\<close>, and \<^verbatim>\<open>WHERE user_id = i\<close>.\<close>

definition revoke_row :: "string \<Rightarrow> tables \<Rightarrow> tables" where
  "revoke_row k T =
     T\<lparr>tokens := (tokens T)(k := map_option (\<lambda>t. t\<lparr>t_Revoked := True\<rparr>) (tokens T k))\<rparr>"

definition revoke_rows_of :: "uint \<Rightarrow> tables \<Rightarrow> tables" where
  "revoke_rows_of i T =
     T\<lparr>tokens := (\<lambda>k. map_option (\<lambda>t. if t_UserID t = i then t\<lparr>t_Revoked := True\<rparr> else t)
                       (tokens T k))\<rparr>"

text \<open>\<^verbatim>\<open>DELETE FROM users WHERE id = i\<close>, with \<^verbatim>\<open>ON DELETE CASCADE\<close> on \<^verbatim>\<open>refresh_tokens.user_id\<close>.\<close>

definition del_user :: "uint \<Rightarrow> tables \<Rightarrow> tables" where
  "del_user i T =
     T\<lparr>users := (users T)(i := None),
       tokens := (\<lambda>k. case tokens T k of
                        None \<Rightarrow> None
                      | Some t \<Rightarrow> if t_UserID t = i then None else Some t)\<rparr>"

definition email_taken :: "tables \<Rightarrow> string \<Rightarrow> bool" where
  "email_taken T e \<longleftrightarrow> (\<exists>i u. users T i = Some u \<and> u_Email u = e)"

lemma tables_ops_simps [simp]:
  "users (upd_user u T) = (users T)(u_ID u \<mapsto> u)" "tokens (upd_user u T) = tokens T"
  "users (ins_token t T) = users T" "tokens (ins_token t T) = (tokens T)(t_Token t \<mapsto> t)"
  "users (revoke_row k T) = users T" "users (revoke_rows_of i T) = users T"
  "tokens (revoke_row k T) =
     (tokens T)(k := map_option (\<lambda>t. t\<lparr>t_Revoked := True\<rparr>) (tokens T k))"
  "tokens (revoke_rows_of i T) k =
     map_option (\<lambda>t. if t_UserID t = i then t\<lparr>t_Revoked := True\<rparr> else t) (tokens T k)"
  "users (del_user i T) = (users T)(i := None)"
  "tokens (del_user i T) k =
     (case tokens T k of None \<Rightarrow> None | Some t \<Rightarrow> if t_UserID t = i then None else Some t)"
  by (simp_all add: upd_user_def ins_token_def revoke_row_def revoke_rows_of_def del_user_def)

section \<open>The calls\<close>

text \<open>A \<^verbatim>\<open>*gorm.DB\<close> value: the pool, or an open transaction.\<close>

datatype db_handle = DefaultDB | TxDB nat

text \<open>
  \<open>'s\<close> is the state of the database, \<open>'l\<close> the captured variables of the function passed
  to \<^verbatim>\<open>Transaction\<close>. \<open>g_text\<close> is the \<^verbatim>\<open>Error\<close> method of the library's own values; a
  result \<open>nat\<close> is \<^verbatim>\<open>RowsAffected\<close>; \<^verbatim>\<open>Create\<close> and \<^verbatim>\<open>Save\<close> return the struct as they
  leave it.
\<close>

record ('s, 'l) gorm =
  g_text :: "go_error \<Rightarrow> string"
  g_First_user :: "db_handle \<Rightarrow> uint \<Rightarrow> 's \<Rightarrow> user result \<times> 's"
  g_First_email :: "db_handle \<Rightarrow> string \<Rightarrow> 's \<Rightarrow> user result \<times> 's"
  g_Create_user :: "db_handle \<Rightarrow> user \<Rightarrow> 's \<Rightarrow> user result \<times> 's"
  g_Save_user :: "db_handle \<Rightarrow> user \<Rightarrow> 's \<Rightarrow> (user \<times> nat) result \<times> 's"
  g_Delete_user :: "db_handle \<Rightarrow> uint \<Rightarrow> 's \<Rightarrow> nat result \<times> 's"
  g_First_token :: "db_handle \<Rightarrow> string \<Rightarrow> 's \<Rightarrow> refresh_token result \<times> 's"
  g_Create_token :: "db_handle \<Rightarrow> refresh_token \<Rightarrow> 's \<Rightarrow> refresh_token result \<times> 's"
  g_Update_token :: "db_handle \<Rightarrow> string \<Rightarrow> 's \<Rightarrow> nat result \<times> 's"
  g_Update_tokens_of :: "db_handle \<Rightarrow> uint \<Rightarrow> 's \<Rightarrow> nat result \<times> 's"
  g_Transaction :: "(nat \<Rightarrow> 's world \<times> 'l \<Rightarrow> go_error option \<times> 's world \<times> 'l) \<Rightarrow>
     's world \<times> 'l \<Rightarrow> go_error option \<times> 's world \<times> 'l"

section \<open>What is relied on\<close>

text \<open>
  An effect on the view of the handle used. A statement inside a transaction is not seen
  outside before the commit.
\<close>

definition db_effect ::
  "('s \<Rightarrow> db_handle \<Rightarrow> tables) \<Rightarrow> db_handle \<Rightarrow> 's \<Rightarrow> 's \<Rightarrow> (tables \<Rightarrow> tables) \<Rightarrow> bool" where
  "db_effect view h s s' eff \<longleftrightarrow>
     view s' h = eff (view s h) \<and> (h \<noteq> DefaultDB \<longrightarrow> view s' DefaultDB = view s DefaultDB)"

text \<open>
  \<^verbatim>\<open>db.Transaction(fn)\<close>: either the transaction cannot be started and \<open>fn\<close> does not run,
  or \<open>fn\<close> runs once on a handle that starts from the committed tables; its error rolls
  back, otherwise its view is committed or the commit fails and nothing changes.
\<close>

definition txn_begin_failed ::
  "('s \<Rightarrow> db_handle \<Rightarrow> tables) \<Rightarrow> 's world \<Rightarrow> go_error option \<Rightarrow> 's world \<Rightarrow> bool" where
  "txn_begin_failed view w e w' \<longleftrightarrow>
     e \<noteq> None \<and> (\<exists>d. w' = w\<lparr>w_db := d\<rparr> \<and> view d DefaultDB = view (w_db w) DefaultDB)"

definition txn_ended ::
  "('s \<Rightarrow> db_handle \<Rightarrow> tables) \<Rightarrow> nat \<Rightarrow> 's \<Rightarrow> go_error option \<Rightarrow> 's world \<Rightarrow>
   go_error option \<Rightarrow> 's world \<Rightarrow> bool" where
  "txn_ended view t d0 r w1 e w' \<longleftrightarrow>
     (\<exists>d. w' = w1\<lparr>w_db := d\<rparr> \<and>
       (view (w_db w1) DefaultDB = view d0 DefaultDB \<longrightarrow>
         (case r of
            Some err \<Rightarrow> e = Some err \<and> view d DefaultDB = view d0 DefaultDB
          | None \<Rightarrow> (e = None \<and> view d DefaultDB = view (w_db w1) (TxDB t)) \<or>
                    (e \<noteq> None \<and> view d DefaultDB = view d0 DefaultDB))))"

locale gorm_db =
  fixes g :: "('s, 'l) gorm"
    and view :: "'s \<Rightarrow> db_handle \<Rightarrow> tables"
  assumes First_user_view: "g_First_user g h i s = (ru, s') \<Longrightarrow> view s' = view s"
    and First_user_ok: "g_First_user g h i s = (Inr u, s') \<Longrightarrow>
          users (view s h) i = Some u \<and> u_ID u = i"
    and First_user_none: "g_First_user g h i s = (Inl e, s') \<Longrightarrow>
          errors_Is e (Sentinel GormRecordNotFound) \<Longrightarrow> users (view s h) i = None"
    and First_email_view: "g_First_email g h m s = (rm, s') \<Longrightarrow> view s' = view s"
    and First_email_ok: "g_First_email g h m s = (Inr u, s') \<Longrightarrow>
          users (view s h) (u_ID u) = Some u \<and> u_Email u = m"
    and First_email_none: "g_First_email g h m s = (Inl e, s') \<Longrightarrow>
          errors_Is e (Sentinel GormRecordNotFound) \<Longrightarrow> \<not> email_taken (view s h) m"
    and Create_user_ok: "g_Create_user g h u s = (Inr u', s') \<Longrightarrow>
          db_effect view h s s' (upd_user u') \<and> users (view s h) (u_ID u') = None \<and>
          \<not> email_taken (view s h) (u_Email u) \<and>
          u' = u\<lparr>u_ID := u_ID u', u_CreatedAt := u_CreatedAt u', u_UpdatedAt := u_UpdatedAt u'\<rparr>"
    and Create_user_err: "g_Create_user g h u s = (Inl e, s') \<Longrightarrow> db_effect view h s s' id"
    and Save_user_ok: "g_Save_user g h u s = (Inr (u', n), s') \<Longrightarrow> u_ID u \<noteq> 0 \<Longrightarrow>
          db_effect view h s s' (upd_user u') \<and> 0 < n \<and> u' = u\<lparr>u_UpdatedAt := u_UpdatedAt u'\<rparr>"
    and Save_user_err: "g_Save_user g h u s = (Inl e, s') \<Longrightarrow> db_effect view h s s' id"
    and Delete_user_ok: "g_Delete_user g h i s = (Inr n, s') \<Longrightarrow>
          db_effect view h s s' (del_user i) \<and> (n = 0 \<longleftrightarrow> users (view s h) i = None)"
    and Delete_user_err: "g_Delete_user g h i s = (Inl e, s') \<Longrightarrow> db_effect view h s s' id"
    and First_token_view: "g_First_token g h k s = (rt, s') \<Longrightarrow> view s' = view s"
    and First_token_ok: "g_First_token g h k s = (Inr t, s') \<Longrightarrow> tokens (view s h) k = Some t"
    and First_token_none: "g_First_token g h k s = (Inl e, s') \<Longrightarrow>
          errors_Is e (Sentinel GormRecordNotFound) \<Longrightarrow> tokens (view s h) k = None"
    and Create_token_ok: "g_Create_token g h t s = (Inr t', s') \<Longrightarrow>
          db_effect view h s s' (ins_token t') \<and> tokens (view s h) (t_Token t) = None \<and>
          users (view s h) (t_UserID t) \<noteq> None \<and>
          t' = t\<lparr>t_ID := t_ID t', t_CreatedAt := t_CreatedAt t'\<rparr>"
    and Create_token_err: "g_Create_token g h t s = (Inl e, s') \<Longrightarrow> db_effect view h s s' id"
    and Update_token_ok: "g_Update_token g h k s = (Inr n, s') \<Longrightarrow>
          db_effect view h s s' (revoke_row k) \<and> (n = 0 \<longleftrightarrow> tokens (view s h) k = None)"
    and Update_token_err: "g_Update_token g h k s = (Inl e, s') \<Longrightarrow> db_effect view h s s' id"
    and Update_tokens_of_ok: "g_Update_tokens_of g h i s = (Inr n, s') \<Longrightarrow>
          db_effect view h s s' (revoke_rows_of i)"
    and Update_tokens_of_err: "g_Update_tokens_of g h i s = (Inl e, s') \<Longrightarrow>
          db_effect view h s s' id"
    and Transaction_spec: "g_Transaction g f (w, l) = (oe, w', l') \<Longrightarrow>
          (txn_begin_failed view w oe w' \<and> l' = l) \<or>
          (\<exists>tx d0 r w1. view d0 (TxDB tx) = view (w_db w) DefaultDB \<and>
             view d0 DefaultDB = view (w_db w) DefaultDB \<and>
             f tx (w\<lparr>w_db := d0\<rparr>, l) = (r, w1, l') \<and> txn_ended view tx d0 r w1 oe w')"

text \<open>
  The same contract for a database that answers: the statements fail only for the
  reasons the schema gives.
\<close>

locale gorm_db_up = gorm_db +
  assumes First_user_up: "users (view s h) i = Some u \<Longrightarrow> \<exists>s'. g_First_user g h i s = (Inr u, s')"
    and First_email_up: "email_taken (view s h) m \<Longrightarrow> \<exists>u s'. g_First_email g h m s = (Inr u, s')"
    and First_token_up: "tokens (view s h) k = Some t \<Longrightarrow>
          \<exists>s'. g_First_token g h k s = (Inr t, s')"
    and Create_token_up: "tokens (view s h) (t_Token t) = None \<Longrightarrow>
          users (view s h) (t_UserID t) \<noteq> None \<Longrightarrow> \<exists>t' s'. g_Create_token g h t s = (Inr t', s')"
    and Update_token_up: "\<exists>n s'. g_Update_token g h k s = (Inr n, s')"
    and Update_tokens_of_up: "\<exists>n s'. g_Update_tokens_of g h i s = (Inr n, s')"
    and Delete_user_up: "\<exists>n s'. g_Delete_user g h i s = (Inr n, s')"
    and Transaction_up: "g_Transaction g f (w, l) = (oe, w', l') \<Longrightarrow>
          \<exists>tx d0 r w1. view d0 (TxDB tx) = view (w_db w) DefaultDB \<and>
             view d0 DefaultDB = view (w_db w) DefaultDB \<and>
             f tx (w\<lparr>w_db := d0\<rparr>, l) = (r, w1, l') \<and> oe = r"

end
