(* ===== verification/Pg_Reference.thy ===== *)
theory Pg_Reference
  imports Gorm_DB
begin

text \<open>
  An executable database with the schema of \<^verbatim>\<open>migrations/*.up.sql\<close>: rows in lists, the
  unique index on \<^verbatim>\<open>users.email\<close> and on \<^verbatim>\<open>refresh_tokens.token\<close>, the foreign key with its
  cascade, one open transaction at a time. It provides the contract \<open>gorm_db\<close>, so the
  hypotheses of the theorems can hold, and the witnesses run on it.
\<close>

section \<open>Rows\<close>

record rows =
  r_users :: "user list"
  r_tokens :: "refresh_token list"

definition row_user :: "rows \<Rightarrow> uint \<Rightarrow> user option" where
  "row_user R i = find (\<lambda>u. u_ID u = i) (r_users R)"

definition row_token :: "rows \<Rightarrow> string \<Rightarrow> refresh_token option" where
  "row_token R k = find (\<lambda>t. t_Token t = k) (r_tokens R)"

definition row_email :: "rows \<Rightarrow> string \<Rightarrow> user option" where
  "row_email R m = find (\<lambda>u. u_Email u = m \<and> row_user R (u_ID u) = Some u) (r_users R)"

definition rows_tables :: "rows \<Rightarrow> tables" where
  "rows_tables R = \<lparr>users = row_user R, tokens = row_token R\<rparr>"

definition rows_upd_user :: "user \<Rightarrow> rows \<Rightarrow> rows" where
  "rows_upd_user u R = R\<lparr>r_users := u # filter (\<lambda>v. u_ID v \<noteq> u_ID u) (r_users R)\<rparr>"

definition rows_ins_token :: "refresh_token \<Rightarrow> rows \<Rightarrow> rows" where
  "rows_ins_token t R = R\<lparr>r_tokens := t # r_tokens R\<rparr>"

definition rows_revoke :: "(refresh_token \<Rightarrow> bool) \<Rightarrow> rows \<Rightarrow> rows" where
  "rows_revoke P R =
     R\<lparr>r_tokens := map (\<lambda>t. if P t then t\<lparr>t_Revoked := True\<rparr> else t) (r_tokens R)\<rparr>"

definition rows_del_user :: "uint \<Rightarrow> rows \<Rightarrow> rows" where
  "rows_del_user i R =
     R\<lparr>r_users := filter (\<lambda>v. u_ID v \<noteq> i) (r_users R),
       r_tokens := filter (\<lambda>t. case row_token R (t_Token t) of
                                 Some v \<Rightarrow> t_UserID v \<noteq> i | None \<Rightarrow> True) (r_tokens R)\<rparr>"

lemma rows_tables_simps [simp]:
  "users (rows_tables R) = row_user R" "tokens (rows_tables R) = row_token R"
  by (simp_all add: rows_tables_def)

lemma find_filter_key:
  "find (\<lambda>x. key x = k) (filter (\<lambda>x. P (key x)) xs) =
     (if P k then find (\<lambda>x. key x = k) xs else None)"
  by (induction xs) auto

lemma find_map_key:
  "(\<And>x. key (f x) = key x) \<Longrightarrow>
   find (\<lambda>x. key x = k) (map f xs) = map_option f (find (\<lambda>x. key x = k) xs)"
  by (induction xs) auto

lemma row_user_Some: "row_user R i = Some u \<Longrightarrow> u \<in> set (r_users R) \<and> u_ID u = i"
  by (auto simp: row_user_def find_Some_iff)

lemma row_email_Some:
  "row_email R m = Some u \<Longrightarrow> u_Email u = m \<and> row_user R (u_ID u) = Some u"
  by (auto simp: row_email_def find_Some_iff)

lemma row_email_None: "row_email R m = None \<longleftrightarrow> \<not> email_taken (rows_tables R) m"
  by (auto simp: row_email_def email_taken_def rows_tables_def find_None_iff dest: row_user_Some)

lemma rows_tables_upd_user: "rows_tables (rows_upd_user u R) = upd_user u (rows_tables R)"
  by (auto simp: rows_tables_def rows_upd_user_def upd_user_def row_user_def row_token_def
      fun_eq_iff find_filter_key [where key = u_ID and P = "\<lambda>j. j \<noteq> u_ID u"])

lemma rows_tables_ins_token: "rows_tables (rows_ins_token t R) = ins_token t (rows_tables R)"
  by (auto simp: rows_tables_def rows_ins_token_def ins_token_def row_user_def row_token_def
      fun_eq_iff)

lemma row_token_Some: "row_token R k = Some t \<Longrightarrow> t_Token t = k"
  by (auto simp: row_token_def find_Some_iff)

lemma row_user_revoke [simp]: "row_user (rows_revoke P R) = row_user R"
  by (simp add: row_user_def rows_revoke_def fun_eq_iff)

lemma row_token_revoke [simp]:
  "row_token (rows_revoke P R) k =
     map_option (\<lambda>t. if P t then t\<lparr>t_Revoked := True\<rparr> else t) (row_token R k)"
  by (simp add: row_token_def rows_revoke_def find_map_key [where key = t_Token])

lemma rows_revoke_key:
  "rows_tables (rows_revoke (\<lambda>t. t_Token t = k) R) = revoke_row k (rows_tables R)"
  by (auto simp: revoke_row_def rows_tables_def fun_eq_iff map_option_case
      dest: row_token_Some split: option.splits)

lemma rows_revoke_owner:
  "rows_tables (rows_revoke (\<lambda>t. t_UserID t = i) R) = revoke_rows_of i (rows_tables R)"
  by (simp add: revoke_rows_of_def rows_tables_def fun_eq_iff)

lemma rows_tables_del_user: "rows_tables (rows_del_user i R) = del_user i (rows_tables R)"
proof -
  have "find (\<lambda>t. t_Token t = k) (filter (\<lambda>t. case row_token R (t_Token t) of
          Some v \<Rightarrow> t_UserID v \<noteq> i | None \<Rightarrow> True) (r_tokens R)) =
        (case row_token R k of None \<Rightarrow> None | Some t \<Rightarrow> if t_UserID t = i then None else Some t)" for k
    by (subst find_filter_key [where key = t_Token and
          P = "\<lambda>j. case row_token R j of Some v \<Rightarrow> t_UserID v \<noteq> i | None \<Rightarrow> True"])
       (auto simp: row_token_def split: option.splits)
  moreover have "find (\<lambda>v. u_ID v = j) (filter (\<lambda>v. u_ID v \<noteq> i) (r_users R)) =
        (if j = i then None else row_user R j)" for j
    by (auto simp: row_user_def find_filter_key [where key = u_ID and P = "\<lambda>j. j \<noteq> i"])
  ultimately show ?thesis
    by (auto simp: rows_tables_def rows_del_user_def del_user_def row_user_def row_token_def
        fun_eq_iff)
qed

section \<open>The database\<close>

record pg =
  pg_main :: rows
  pg_tx :: "rows option"
  pg_seq :: uint
  pg_now :: time

definition pg_rows :: "pg \<Rightarrow> db_handle \<Rightarrow> rows" where
  "pg_rows d h =
     (case h of DefaultDB \<Rightarrow> pg_main d
      | TxDB t \<Rightarrow> (case pg_tx d of Some R \<Rightarrow> R | None \<Rightarrow> pg_main d))"

definition pg_put :: "db_handle \<Rightarrow> rows \<Rightarrow> pg \<Rightarrow> pg" where
  "pg_put h R d = (case h of DefaultDB \<Rightarrow> d\<lparr>pg_main := R\<rparr> | TxDB t \<Rightarrow> d\<lparr>pg_tx := Some R\<rparr>)"

definition pg_view :: "pg \<Rightarrow> db_handle \<Rightarrow> tables" where
  "pg_view d h = rows_tables (pg_rows d h)"

definition pg_unique :: go_error where
  "pg_unique = Foreign ''ERROR: duplicate key value violates unique constraint (SQLSTATE 23505)''"

definition pg_foreign_key :: go_error where
  "pg_foreign_key = Foreign ''ERROR: insert violates foreign key constraint (SQLSTATE 23503)''"

definition pg_found :: "'a option \<Rightarrow> 'a result" where
  "pg_found x = (case x of Some y \<Rightarrow> Inr y | None \<Rightarrow> Inl (Sentinel GormRecordNotFound))"

definition pg_Create_user :: "db_handle \<Rightarrow> user \<Rightarrow> pg \<Rightarrow> user result \<times> pg" where
  "pg_Create_user h u d =
     (let R = pg_rows d h; u' = u\<lparr>u_ID := pg_seq d, u_CreatedAt := pg_now d, u_UpdatedAt := pg_now d\<rparr>
      in if row_user R (pg_seq d) \<noteq> None \<or> row_email R (u_Email u) \<noteq> None then (Inl pg_unique, d)
         else (Inr u', pg_put h (rows_upd_user u' R) (d\<lparr>pg_seq := pg_seq d + 1\<rparr>)))"

definition pg_Save_user :: "db_handle \<Rightarrow> user \<Rightarrow> pg \<Rightarrow> (user \<times> nat) result \<times> pg" where
  "pg_Save_user h u d =
     (let u' = u\<lparr>u_UpdatedAt := pg_now d\<rparr>
      in (Inr (u', 1), pg_put h (rows_upd_user u' (pg_rows d h)) d))"

definition pg_Delete_user :: "db_handle \<Rightarrow> uint \<Rightarrow> pg \<Rightarrow> nat result \<times> pg" where
  "pg_Delete_user h i d =
     (Inr (if row_user (pg_rows d h) i = None then 0 else 1),
      pg_put h (rows_del_user i (pg_rows d h)) d)"

definition pg_Create_token :: "db_handle \<Rightarrow> refresh_token \<Rightarrow> pg \<Rightarrow> refresh_token result \<times> pg" where
  "pg_Create_token h t d =
     (let R = pg_rows d h; t' = t\<lparr>t_ID := pg_seq d, t_CreatedAt := pg_now d\<rparr>
      in if row_token R (t_Token t) \<noteq> None then (Inl pg_unique, d)
         else if row_user R (t_UserID t) = None then (Inl pg_foreign_key, d)
         else (Inr t', pg_put h (rows_ins_token t' R) (d\<lparr>pg_seq := pg_seq d + 1\<rparr>)))"

definition pg_Update_token :: "db_handle \<Rightarrow> string \<Rightarrow> pg \<Rightarrow> nat result \<times> pg" where
  "pg_Update_token h k d =
     (let R = pg_rows d h
      in (Inr (if row_token R k = None then 0 else 1),
          pg_put h (rows_revoke (\<lambda>t. t_Token t = k) R) d))"

definition pg_Update_tokens_of :: "db_handle \<Rightarrow> uint \<Rightarrow> pg \<Rightarrow> nat result \<times> pg" where
  "pg_Update_tokens_of h i d =
     (let R = pg_rows d h
      in (Inr (length (filter (\<lambda>t. t_UserID t = i \<and> \<not> t_Revoked t) (r_tokens R))),
          pg_put h (rows_revoke (\<lambda>t. t_UserID t = i) R) d))"

definition pg_Transaction ::
  "(nat \<Rightarrow> pg world \<times> 'l \<Rightarrow> go_error option \<times> pg world \<times> 'l) \<Rightarrow>
   pg world \<times> 'l \<Rightarrow> go_error option \<times> pg world \<times> 'l" where
  "pg_Transaction f wl =
     (case wl of (w, l) \<Rightarrow>
        (case f 0 (w\<lparr>w_db := (w_db w)\<lparr>pg_tx := Some (pg_main (w_db w))\<rparr>\<rparr>, l) of
           (None, w1, l') \<Rightarrow>
             (None, w1\<lparr>w_db := (w_db w1)\<lparr>pg_main := pg_rows (w_db w1) (TxDB 0), pg_tx := None\<rparr>\<rparr>, l')
         | (Some e, w1, l') \<Rightarrow> (Some e, w1\<lparr>w_db := (w_db w1)\<lparr>pg_tx := None\<rparr>\<rparr>, l')))"

definition pg_gorm :: "(pg, 'l) gorm" where
  "pg_gorm =
     \<lparr>g_text = (\<lambda>_. []),
      g_First_user = (\<lambda>h i d. (pg_found (row_user (pg_rows d h) i), d)),
      g_First_email = (\<lambda>h m d. (pg_found (row_email (pg_rows d h) m), d)),
      g_Create_user = pg_Create_user,
      g_Save_user = pg_Save_user,
      g_Delete_user = pg_Delete_user,
      g_First_token = (\<lambda>h k d. (pg_found (row_token (pg_rows d h) k), d)),
      g_Create_token = pg_Create_token,
      g_Update_token = pg_Update_token,
      g_Update_tokens_of = pg_Update_tokens_of,
      g_Transaction = pg_Transaction\<rparr>"

section \<open>It provides the contract\<close>

lemma pg_view_put:
  "pg_view (pg_put h R d) h = rows_tables R"
  "h \<noteq> DefaultDB \<Longrightarrow> pg_view (pg_put h R d) DefaultDB = pg_view d DefaultDB"
  by (auto simp: pg_view_def pg_put_def pg_rows_def split: db_handle.splits)

lemma pg_effect:
  "rows_tables R' = eff (rows_tables (pg_rows d h)) \<Longrightarrow>
   db_effect pg_view h d (pg_put h R' (d\<lparr>pg_seq := n\<rparr>)) eff"
  "rows_tables R' = eff (rows_tables (pg_rows d h)) \<Longrightarrow>
   db_effect pg_view h d (pg_put h R' d) eff"
  "db_effect pg_view h d d id"
  by (auto simp: db_effect_def pg_view_put)
     (auto simp: pg_view_def pg_rows_def)

lemma pg_view_users [simp]: "users (pg_view d h) = row_user (pg_rows d h)"
  and pg_view_tokens [simp]: "tokens (pg_view d h) = row_token (pg_rows d h)"
  by (simp_all add: pg_view_def rows_tables_def)

lemma pg_found_simps [simp]:
  "pg_found x = Inr y \<longleftrightarrow> x = Some y"
  "pg_found x = Inl e \<longleftrightarrow> x = None \<and> e = Sentinel GormRecordNotFound"
  by (auto simp: pg_found_def split: option.splits)

lemmas pg_ops = pg_Create_user_def pg_Save_user_def pg_Delete_user_def pg_Create_token_def
  pg_Update_token_def pg_Update_tokens_of_def Let_def

lemma pg_Transaction_contract:
  assumes "pg_Transaction f (w, l) = (oe, w', l')"
  shows "\<exists>tx d0 r w1. pg_view d0 (TxDB tx) = pg_view (w_db w) DefaultDB \<and>
           pg_view d0 DefaultDB = pg_view (w_db w) DefaultDB \<and>
           f tx (w\<lparr>w_db := d0\<rparr>, l) = (r, w1, l') \<and> txn_ended pg_view tx d0 r w1 oe w' \<and> oe = r"
proof -
  define d0 where "d0 = (w_db w)\<lparr>pg_tx := Some (pg_main (w_db w))\<rparr>"
  obtain r w1 l1 where f: "f 0 (w\<lparr>w_db := d0\<rparr>, l) = (r, w1, l1)"
    by (cases "f 0 (w\<lparr>w_db := d0\<rparr>, l)") auto
  have l: "l1 = l'" and ended: "txn_ended pg_view 0 d0 r w1 oe w'" "oe = r"
    using assms f unfolding pg_Transaction_def d0_def txn_ended_def
    by (auto simp: pg_view_def pg_rows_def split: option.splits)
  have "pg_view d0 (TxDB 0) = pg_view (w_db w) DefaultDB" "pg_view d0 DefaultDB = pg_view (w_db w) DefaultDB"
    by (simp_all add: d0_def pg_view_def pg_rows_def)
  with f l ended show ?thesis by blast
qed

interpretation pg_db: gorm_db_up "pg_gorm :: (pg, 'l) gorm" pg_view
proof (unfold_locales, goal_cases)
  case (7 h u s u' s')
  then show ?case
    by (auto simp: pg_gorm_def pg_ops row_email_None pg_view_def rows_tables_upd_user
        intro!: pg_effect(1) split: if_splits)
next
  case (11 h i s n s')
  then show ?case
    by (auto simp: pg_gorm_def pg_ops rows_tables_del_user intro!: pg_effect(2) split: if_splits)
next
  case (16 h t s t' s')
  then show ?case
    by (auto simp: pg_gorm_def pg_ops rows_tables_ins_token intro!: pg_effect(1) split: if_splits)
next
  case (18 h k s n s')
  then show ?case
    by (auto simp: pg_gorm_def pg_ops rows_revoke_key intro!: pg_effect(2) split: if_splits)
next
  case (20 h i s n s')
  then show ?case by (auto simp: pg_gorm_def pg_ops rows_revoke_owner intro!: pg_effect(2))
next
  case (22 f w l oe w' l')
  then show ?case using pg_Transaction_contract [of f w l oe w' l'] by (auto simp: pg_gorm_def)
next
  case (30 f w l oe w' l')
  then show ?case using pg_Transaction_contract [of f w l oe w' l'] by (auto simp: pg_gorm_def)
next
  case (24 s h m)
  then show ?case
    using row_email_None [of "pg_rows s h" m]
    by (auto simp: pg_gorm_def pg_view_def)
qed (auto simp: pg_gorm_def pg_ops rows_tables_upd_user intro!: pg_effect
     dest: row_email_Some row_user_Some simp: row_email_None pg_view_def split: if_splits)

lemma pg_gorm_contract: "gorm_db pg_gorm pg_view" "gorm_db_up pg_gorm pg_view"
  by unfold_locales

end
