(* ===== verification/Go_Strings.thy ===== *)
theory Go_Strings
  imports Go_Prelude
begin

text \<open>
  What the program uses of \<^verbatim>\<open>strings\<close> and \<^verbatim>\<open>strconv\<close>, on byte sequences.
\<close>

section \<open>Decimal numbers (strconv)\<close>

definition dec_digit :: "nat \<Rightarrow> char" where
  "dec_digit d = char_of (48 + d)"

definition is_digit :: "char \<Rightarrow> bool" where
  "is_digit c = (48 \<le> (of_char c :: nat) \<and> (of_char c :: nat) \<le> 57)"

definition digit_of :: "char \<Rightarrow> nat" where
  "digit_of c = of_char c - 48"

text \<open>\<^verbatim>\<open>strconv.FormatUint(n, 10)\<close>.\<close>

fun FormatUint :: "nat \<Rightarrow> string" where
  "FormatUint n =
     (if n < 10 then [dec_digit n] else FormatUint (n div 10) @ [dec_digit (n mod 10)])"

declare FormatUint.simps [simp del]

text \<open>The verb \<^verbatim>\<open>%d\<close> and \<^verbatim>\<open>strconv.FormatInt\<close> in base ten.\<close>

definition FormatInt :: "int \<Rightarrow> string" where
  "FormatInt i = (if i < 0 then ''-'' @ FormatUint (nat (- i)) else FormatUint (nat i))"

definition dec_value :: "string \<Rightarrow> nat" where
  "dec_value s = foldl (\<lambda>v c. 10 * v + digit_of c) 0 s"

text \<open>\<^verbatim>\<open>strconv.ParseUint(s, 10, 64)\<close>; \<open>None\<close> for its syntax and range errors.\<close>

definition ParseUint :: "string \<Rightarrow> uint option" where
  "ParseUint s =
     (if s = [] \<or> \<not> list_all is_digit s \<or> 2 ^ 64 \<le> dec_value s then None
      else Some (of_nat (dec_value s)))"

lemma of_char_dec_digit: "d < 10 \<Longrightarrow> (of_char (dec_digit d) :: nat) = 48 + d"
  by (simp add: dec_digit_def)

lemma is_digit_dec_digit [simp]: "d < 10 \<Longrightarrow> is_digit (dec_digit d)"
  by (simp add: is_digit_def of_char_dec_digit)

lemma digit_of_dec_digit [simp]: "d < 10 \<Longrightarrow> digit_of (dec_digit d) = d"
  by (simp add: digit_of_def of_char_dec_digit)

lemma dec_value_snoc [simp]: "dec_value (s @ [c]) = 10 * dec_value s + digit_of c"
  by (simp add: dec_value_def)

lemma FormatUint_ne [simp]: "FormatUint n \<noteq> []"
  by (subst FormatUint.simps) simp

lemma FormatUint_digits [simp]: "list_all is_digit (FormatUint n)"
  by (induction n rule: FormatUint.induct) (subst FormatUint.simps, simp)

lemma dec_value_FormatUint [simp]: "dec_value (FormatUint n) = n"
proof (induction n rule: FormatUint.induct)
  case (1 n)
  show ?case
  proof (cases "n < 10")
    case True
    then show ?thesis using dec_value_snoc [of "[]" "dec_digit n"]
      by (subst FormatUint.simps) (simp add: dec_value_def)
  next
    case False
    with 1 show ?thesis by (subst FormatUint.simps) simp
  qed
qed

lemma ParseUint_FormatUint [simp]: "ParseUint (FormatUint (unat i)) = Some i"
  using unat_less_2p64 [of i] by (simp add: ParseUint_def)

section \<open>Searching and splitting (strings)\<close>

text \<open>\<^verbatim>\<open>strings.Contains\<close> and \<^verbatim>\<open>strings.HasPrefix\<close>.\<close>

fun Contains :: "string \<Rightarrow> string \<Rightarrow> bool" where
  "Contains s sub = (take (length sub) s = sub \<or> (case s of [] \<Rightarrow> False | _ # s' \<Rightarrow> Contains s' sub))"

declare Contains.simps [simp del]

lemma Contains_iff: "Contains s sub \<longleftrightarrow> (\<exists>a b. s = a @ sub @ b)"
proof
  show "Contains s sub \<Longrightarrow> \<exists>a b. s = a @ sub @ b"
  proof (induction s sub rule: Contains.induct)
    case (1 s sub)
    show ?case
    proof (cases "take (length sub) s = sub")
      case True
      then show ?thesis by (metis append_Nil append_take_drop_id)
    next
      case False
      with 1(2) obtain c s' where s: "s = c # s'" "Contains s' sub"
        by (subst (asm) Contains.simps) (auto split: list.splits)
      from 1(1) [OF s] obtain a b where "s' = a @ sub @ b" by blast
      with s(1) have "s = (c # a) @ sub @ b" by simp
      then show ?thesis by blast
    qed
  qed
next
  have *: "Contains (a @ sub @ b) sub" for a b
    by (induction a) (subst Contains.simps, auto simp: Contains.simps)+
  show "\<exists>a b. s = a @ sub @ b \<Longrightarrow> Contains s sub" using * by auto
qed

definition HasPrefix :: "string \<Rightarrow> string \<Rightarrow> bool" where
  "HasPrefix s p = (take (length p) s = p)"

lemma HasPrefix_append [simp]: "HasPrefix (p @ s) p"
  by (simp add: HasPrefix_def)

text \<open>\<^verbatim>\<open>strings.Split(s, [sep])\<close> and \<^verbatim>\<open>strings.SplitN(s, [sep], 2)\<close> for one byte \<open>sep\<close>.\<close>

fun Split :: "char \<Rightarrow> string \<Rightarrow> string list" where
  "Split sep [] = [[]]"
| "Split sep (c # s) =
     (if c = sep then [] # Split sep s
      else (case Split sep s of p # ps \<Rightarrow> (c # p) # ps | [] \<Rightarrow> [[c]]))"

definition SplitN2 :: "char \<Rightarrow> string \<Rightarrow> string list" where
  "SplitN2 sep s =
     (if sep \<in> set s
      then [takeWhile (\<lambda>c. c \<noteq> sep) s, tl (dropWhile (\<lambda>c. c \<noteq> sep) s)]
      else [s])"

lemma Split_ne [simp]: "Split sep s \<noteq> []"
  by (induction s) (auto split: list.splits)

lemma SplitN2_join: "sep \<notin> set a \<Longrightarrow> SplitN2 sep (a @ sep # b) = [a, b]"
  by (simp add: SplitN2_def takeWhile_append dropWhile_append)

text \<open>\<^verbatim>\<open>strings.Join\<close>.\<close>

fun Join :: "string \<Rightarrow> string list \<Rightarrow> string" where
  "Join sep [] = []"
| "Join sep [s] = s"
| "Join sep (s # ss) = s @ sep @ Join sep ss"

section \<open>Case\<close>

definition ascii :: "string \<Rightarrow> bool" where
  "ascii s = list_all (\<lambda>c. (of_char c :: nat) < 128) s"

definition lower_byte :: "char \<Rightarrow> char" where
  "lower_byte c = (if 65 \<le> (of_char c :: nat) \<and> (of_char c :: nat) \<le> 90
                   then char_of (of_char c + (32 :: nat)) else c)"

text \<open>
  \<^verbatim>\<open>strings.ToLower\<close>: byte by byte on ASCII strings; \<open>uni\<close> is the mapping through the
  Unicode tables on the others. \<^verbatim>\<open>strings.EqualFold\<close> against a constant whose letters have
  no non-ASCII case variants (no k, no s).
\<close>

definition ToLower :: "(string \<Rightarrow> string) \<Rightarrow> string \<Rightarrow> string" where
  "ToLower uni s = (if ascii s then map lower_byte s else uni s)"

definition EqualFold_ascii :: "string \<Rightarrow> string \<Rightarrow> bool" where
  "EqualFold_ascii s t = (map lower_byte s = map lower_byte t)"

section \<open>White space\<close>

text \<open>The UTF-8 encodings of the runes of \<^verbatim>\<open>unicode.IsSpace\<close>.\<close>

definition space_runes :: "string list" where
  "space_runes =
     map (map char_of)
       ([[9], [10], [11], [12], [13], [32], [194, 133], [194, 160], [225, 154, 128],
         [226, 128, 168], [226, 128, 169], [226, 128, 175], [226, 129, 159], [227, 128, 128]]
        @ map (\<lambda>b. [226, 128, 128 + b]) [0 ..< 11] :: nat list list)"

definition space_at :: "string list \<Rightarrow> string \<Rightarrow> string option" where
  "space_at runes s = find (\<lambda>r. HasPrefix s r) runes"

fun trim_left :: "string list \<Rightarrow> nat \<Rightarrow> string \<Rightarrow> string" where
  "trim_left runes 0 s = s"
| "trim_left runes (Suc n) s =
     (case space_at runes s of Some r \<Rightarrow> trim_left runes n (drop (length r) s) | None \<Rightarrow> s)"

text \<open>\<^verbatim>\<open>strings.TrimSpace\<close>; at most \<open>length s\<close> runes can be removed on either side.\<close>

definition TrimSpace :: "string \<Rightarrow> string" where
  "TrimSpace s =
     (let l = trim_left space_runes (length s) s
      in rev (trim_left (map rev space_runes) (length l) (rev l)))"

lemma TrimSpace_Nil [simp]: "TrimSpace [] = []"
  by (simp add: TrimSpace_def)

end
