(* ===== verification/Repositories.thy ===== *)
theory Repositories
  imports Pg_Reference Go_Strings
begin

text \<open>
  The persistence layer: \<^verbatim>\<open>tx_manager.go\<close>, the repositories of
  \<^verbatim>\<open>internal/auth/repository\<close> and \<^verbatim>\<open>internal/user/repository\<close> with their PostgreSQL
  implementations, and the contracts the use cases see. A Go interface value is a record
  of functions; a constructor builds the record from the GORM calls.
\<close>

section \<open>Transactions (infrastructure/database/postgres/tx_manager.go)\<close>

text \<open>
  \<^verbatim>\<open>GetDB\<close>: the transaction of the context, or the default handle (which the program
  never passes as nil: both repositories are built on the pool opened at start-up).
\<close>

definition GetDB :: "ctx \<Rightarrow> db_handle \<Rightarrow> db_handle" where
  "GetDB c defaultDB = (case ctx_tx c of Some tx \<Rightarrow> TxDB tx | None \<Rightarrow> defaultDB)"

definition TxFromContext :: "ctx \<Rightarrow> nat option" where
  "TxFromContext c = ctx_tx c"

type_synonym ('s, 'l) tx_body =
  "ctx \<Rightarrow> 's world \<times> 'l \<Rightarrow> go_error option \<times> 's world \<times> 'l"

type_synonym ('s, 'l) tx_runner =
  "ctx \<Rightarrow> ('s, 'l) tx_body \<Rightarrow> 's world \<times> 'l \<Rightarrow> go_error option \<times> 's world \<times> 'l"

definition RunInTransaction :: "('s, 'l) gorm \<Rightarrow> ('s, 'l) tx_runner" where
  "RunInTransaction g c fn wl =
     (if TxFromContext c \<noteq> None then fn c wl
      else g_Transaction g (\<lambda>tx. fn (c\<lparr>ctx_tx := Some tx\<rparr>)) wl)"

section \<open>The auth repository\<close>

record 's auth_repo =
  ar_FindTokenByValue :: "ctx \<Rightarrow> string \<Rightarrow> 's \<Rightarrow> refresh_token result \<times> 's"
  ar_CreateToken :: "ctx \<Rightarrow> refresh_token \<Rightarrow> 's \<Rightarrow> go_error option \<times> 's"
  ar_RevokeToken :: "ctx \<Rightarrow> string \<Rightarrow> 's \<Rightarrow> go_error option \<times> 's"
  ar_RevokeAllUserTokens :: "ctx \<Rightarrow> uint \<Rightarrow> 's \<Rightarrow> go_error option \<times> 's"

definition FindTokenByValue ::
  "('s, 'l) gorm \<Rightarrow> ctx \<Rightarrow> string \<Rightarrow> 's \<Rightarrow> refresh_token result \<times> 's" where
  "FindTokenByValue g c token s =
     (case g_First_token g (GetDB c DefaultDB) token s of
        (Inl err, s') \<Rightarrow>
          (if errors_Is err (Sentinel GormRecordNotFound) then (Inl ErrTokenNotFound, s')
           else (Inl (Wrap CodeInternal ''find token'' err), s'))
      | (Inr t, s') \<Rightarrow> (Inr t, s'))"

definition CreateToken ::
  "('s, 'l) gorm \<Rightarrow> ctx \<Rightarrow> refresh_token \<Rightarrow> 's \<Rightarrow> go_error option \<times> 's" where
  "CreateToken g c t s =
     (case g_Create_token g (GetDB c DefaultDB) t s of
        (Inl err, s') \<Rightarrow> (Some (Wrap CodeInternal ''create token'' err), s')
      | (Inr t', s') \<Rightarrow> (None, s'))"

definition RevokeToken ::
  "('s, 'l) gorm \<Rightarrow> ctx \<Rightarrow> string \<Rightarrow> 's \<Rightarrow> go_error option \<times> 's" where
  "RevokeToken g c token s =
     (case g_Update_token g (GetDB c DefaultDB) token s of
        (Inl err, s') \<Rightarrow> (Some (Wrap CodeInternal ''revoke token'' err), s')
      | (Inr n, s') \<Rightarrow> if n = 0 then (Some ErrTokenNotFound, s') else (None, s'))"

definition RevokeAllUserTokens ::
  "('s, 'l) gorm \<Rightarrow> ctx \<Rightarrow> uint \<Rightarrow> 's \<Rightarrow> go_error option \<times> 's" where
  "RevokeAllUserTokens g c userID s =
     (case g_Update_tokens_of g (GetDB c DefaultDB) userID s of
        (Inl err, s') \<Rightarrow> (Some (Wrap CodeInternal ''revoke all user tokens'' err), s')
      | (Inr n, s') \<Rightarrow> (None, s'))"

definition NewAuthRepository :: "('s, 'l) gorm \<Rightarrow> 's auth_repo" where
  "NewAuthRepository g =
     \<lparr>ar_FindTokenByValue = FindTokenByValue g, ar_CreateToken = CreateToken g,
      ar_RevokeToken = RevokeToken g, ar_RevokeAllUserTokens = RevokeAllUserTokens g\<rparr>"

lemmas auth_repo_defs = NewAuthRepository_def FindTokenByValue_def CreateToken_def
  RevokeToken_def RevokeAllUserTokens_def

section \<open>The user repository\<close>

text \<open>\<^verbatim>\<open>Create\<close> and \<^verbatim>\<open>Update\<close> write into the struct they are given; the model returns it.\<close>

record 's user_repo =
  ur_FindByID :: "ctx \<Rightarrow> uint \<Rightarrow> 's \<Rightarrow> user result \<times> 's"
  ur_FindByEmail :: "ctx \<Rightarrow> string \<Rightarrow> 's \<Rightarrow> user result \<times> 's"
  ur_Create :: "ctx \<Rightarrow> user \<Rightarrow> 's \<Rightarrow> user result \<times> 's"
  ur_Update :: "ctx \<Rightarrow> user \<Rightarrow> 's \<Rightarrow> user result \<times> 's"
  ur_Delete :: "ctx \<Rightarrow> uint \<Rightarrow> 's \<Rightarrow> go_error option \<times> 's"

definition isUniqueViolation :: "(go_error \<Rightarrow> string) \<Rightarrow> go_error option \<Rightarrow> bool" where
  "isUniqueViolation txt err =
     (case err of
        None \<Rightarrow> False
      | Some e \<Rightarrow> Contains (error_Error txt e) ''23505'' \<or>
          Contains (error_Error txt e) ''unique constraint'' \<or>
          Contains (error_Error txt e) ''duplicate key'')"

definition FindByID ::
  "('s, 'l) gorm \<Rightarrow> ctx \<Rightarrow> uint \<Rightarrow> 's \<Rightarrow> user result \<times> 's" where
  "FindByID g c i s =
     (case g_First_user g (GetDB c DefaultDB) i s of
        (Inl err, s') \<Rightarrow>
          (if errors_Is err (Sentinel GormRecordNotFound) then (Inl ErrNotFound, s')
           else (Inl (Wrap CodeInternal ''find user by id'' err), s'))
      | (Inr u, s') \<Rightarrow> (Inr u, s'))"

definition FindByEmail ::
  "('s, 'l) gorm \<Rightarrow> ctx \<Rightarrow> string \<Rightarrow> 's \<Rightarrow> user result \<times> 's" where
  "FindByEmail g c email s =
     (case g_First_email g (GetDB c DefaultDB) email s of
        (Inl err, s') \<Rightarrow>
          (if errors_Is err (Sentinel GormRecordNotFound) then (Inl ErrNotFound, s')
           else (Inl (Wrap CodeInternal ''find user by email'' err), s'))
      | (Inr u, s') \<Rightarrow> (Inr u, s'))"

definition Create :: "('s, 'l) gorm \<Rightarrow> ctx \<Rightarrow> user \<Rightarrow> 's \<Rightarrow> user result \<times> 's" where
  "Create g c u s =
     (case g_Create_user g (GetDB c DefaultDB) u s of
        (Inl err, s') \<Rightarrow>
          (if isUniqueViolation (g_text g) (Some err) then (Inl ErrAlreadyExists, s')
           else (Inl (Wrap CodeInternal ''create user'' err), s'))
      | (Inr u', s') \<Rightarrow> (Inr u', s'))"

definition Update :: "('s, 'l) gorm \<Rightarrow> ctx \<Rightarrow> user \<Rightarrow> 's \<Rightarrow> user result \<times> 's" where
  "Update g c u s =
     (case g_Save_user g (GetDB c DefaultDB) u s of
        (Inl err, s') \<Rightarrow> (Inl (Wrap CodeInternal ''update user'' err), s')
      | (Inr (u', n), s') \<Rightarrow> if n = 0 then (Inl ErrNotFound, s') else (Inr u', s'))"

definition Delete :: "('s, 'l) gorm \<Rightarrow> ctx \<Rightarrow> uint \<Rightarrow> 's \<Rightarrow> go_error option \<times> 's" where
  "Delete g c i s =
     (case g_Delete_user g (GetDB c DefaultDB) i s of
        (Inl err, s') \<Rightarrow> (Some (Wrap CodeInternal ''delete user'' err), s')
      | (Inr n, s') \<Rightarrow> if n = 0 then (Some ErrNotFound, s') else (None, s'))"

definition NewUserRepository :: "('s, 'l) gorm \<Rightarrow> 's user_repo" where
  "NewUserRepository g =
     \<lparr>ur_FindByID = FindByID g, ur_FindByEmail = FindByEmail g, ur_Create = Create g,
      ur_Update = Update g, ur_Delete = Delete g\<rparr>"

lemmas user_repo_defs = NewUserRepository_def FindByID_def FindByEmail_def Create_def
  Update_def Delete_def

text \<open>
  \<^verbatim>\<open>usecase.UserProvider\<close>, the port of the auth feature, and \<^verbatim>\<open>ProvideUserProvider\<close>, which
  hands the user repository through it.
\<close>

record 's user_provider =
  up_FindByID :: "ctx \<Rightarrow> uint \<Rightarrow> 's \<Rightarrow> user result \<times> 's"
  up_FindByEmail :: "ctx \<Rightarrow> string \<Rightarrow> 's \<Rightarrow> user result \<times> 's"

definition ProvideUserProvider :: "'s user_repo \<Rightarrow> 's user_provider" where
  "ProvideUserProvider repo =
     \<lparr>up_FindByID = ur_FindByID repo, up_FindByEmail = ur_FindByEmail repo\<rparr>"

end
