(* ===== verification/Repo_Contracts.thy ===== *)
theory Repo_Contracts
  imports Repositories
begin

text \<open>
  The contracts of \<^verbatim>\<open>auth/repository.Repository\<close>, \<^verbatim>\<open>usecase.UserProvider\<close>,
  \<^verbatim>\<open>user/repository.Repository\<close> and \<^verbatim>\<open>transaction.Manager\<close> as locales over the view of the
  tables, and the proof that the PostgreSQL implementations keep them on every database
  that keeps \<open>gorm_db\<close>. The use cases are proved against these contracts only.
\<close>

abbreviation handle :: "ctx \<Rightarrow> db_handle" where
  "handle c \<equiv> GetDB c DefaultDB"

lemma GetDB_tx [simp]: "ctx_tx c = Some tx \<Longrightarrow> GetDB c d = TxDB tx"
  and GetDB_none [simp]: "ctx_tx c = None \<Longrightarrow> GetDB c d = d"
  by (simp_all add: GetDB_def)

text \<open>The stored token differs from the inserted struct in the generated columns only.\<close>

definition same_token :: "refresh_token \<Rightarrow> refresh_token \<Rightarrow> bool" where
  "same_token t t' \<longleftrightarrow> t_UserID t' = t_UserID t \<and> t_Token t' = t_Token t \<and>
     t_Revoked t' = t_Revoked t \<and> t_ExpiresAt t' = t_ExpiresAt t"

section \<open>Token storage\<close>

locale auth_repository =
  fixes r :: "'s auth_repo"
    and view :: "'s \<Rightarrow> db_handle \<Rightarrow> tables"
  assumes Find_view: "ar_FindTokenByValue r c k s = (x, s') \<Longrightarrow> view s' = view s"
    and Find_ok: "ar_FindTokenByValue r c k s = (Inr t, s') \<Longrightarrow> tokens (view s (handle c)) k = Some t"
    and Find_none: "ar_FindTokenByValue r c k s = (Inl ErrTokenNotFound, s') \<Longrightarrow>
          tokens (view s (handle c)) k = None"
    and Create_ok: "ar_CreateToken r c t s = (None, s') \<Longrightarrow>
          tokens (view s (handle c)) (t_Token t) = None \<and>
          users (view s (handle c)) (t_UserID t) \<noteq> None \<and>
          (\<exists>t'. same_token t t' \<and> db_effect view (handle c) s s' (ins_token t'))"
    and Create_err: "ar_CreateToken r c t s = (Some e, s') \<Longrightarrow> db_effect view (handle c) s s' id"
    and Revoke_ok: "ar_RevokeToken r c k s = (None, s') \<Longrightarrow>
          tokens (view s (handle c)) k \<noteq> None \<and> db_effect view (handle c) s s' (revoke_row k)"
    and Revoke_err: "ar_RevokeToken r c k s = (Some e, s') \<Longrightarrow> db_effect view (handle c) s s' id"
    and RevokeAll_ok: "ar_RevokeAllUserTokens r c i s = (None, s') \<Longrightarrow>
          db_effect view (handle c) s s' (revoke_rows_of i)"
    and RevokeAll_err: "ar_RevokeAllUserTokens r c i s = (Some e, s') \<Longrightarrow>
          db_effect view (handle c) s s' id"

section \<open>User storage\<close>

locale user_lookup =
  fixes p :: "'s user_provider"
    and view :: "'s \<Rightarrow> db_handle \<Rightarrow> tables"
  assumes ByID_view: "up_FindByID p c i s = (x, s') \<Longrightarrow> view s' = view s"
    and ByID_ok: "up_FindByID p c i s = (Inr u, s') \<Longrightarrow>
          users (view s (handle c)) i = Some u \<and> u_ID u = i"
    and ByEmail_view: "up_FindByEmail p c m s = (x, s') \<Longrightarrow> view s' = view s"
    and ByEmail_ok: "up_FindByEmail p c m s = (Inr u, s') \<Longrightarrow>
          users (view s (handle c)) (u_ID u) = Some u \<and> u_Email u = m"
    and ByEmail_none: "up_FindByEmail p c m s = (Inl ErrNotFound, s') \<Longrightarrow>
          \<not> email_taken (view s (handle c)) m"

locale user_repository =
  user_lookup "ProvideUserProvider ur" view
  for ur :: "'s user_repo" and view :: "'s \<Rightarrow> db_handle \<Rightarrow> tables" +
  assumes Create_user: "ur_Create ur c u s = (Inr u', s') \<Longrightarrow>
          db_effect view (handle c) s s' (upd_user u') \<and>
          users (view s (handle c)) (u_ID u') = None \<and> \<not> email_taken (view s (handle c)) (u_Email u) \<and>
          u' = u\<lparr>u_ID := u_ID u', u_CreatedAt := u_CreatedAt u', u_UpdatedAt := u_UpdatedAt u'\<rparr>"
    and Create_user_failed: "ur_Create ur c u s = (Inl e, s') \<Longrightarrow> db_effect view (handle c) s s' id"
    and Update_user: "ur_Update ur c u s = (Inr u', s') \<Longrightarrow> u_ID u \<noteq> 0 \<Longrightarrow>
          db_effect view (handle c) s s' (upd_user u') \<and> u' = u\<lparr>u_UpdatedAt := u_UpdatedAt u'\<rparr>"
    and Update_user_failed: "ur_Update ur c u s = (Inl e, s') \<Longrightarrow> u_ID u \<noteq> 0 \<Longrightarrow>
          db_effect view (handle c) s s' id \<and> e \<noteq> ErrNotFound"
    and Delete_user: "ur_Delete ur c i s = (None, s') \<Longrightarrow>
          db_effect view (handle c) s s' (del_user i) \<and> users (view s (handle c)) i \<noteq> None"
    and Delete_user_failed: "ur_Delete ur c i s = (Some e, s') \<Longrightarrow>
          db_effect view (handle c) s s' id \<or>
          (e = ErrNotFound \<and> db_effect view (handle c) s s' (del_user i) \<and>
             users (view s (handle c)) i = None)"

section \<open>Transactions\<close>

text \<open>Outside a transaction, \<open>fn\<close> runs on a context that carries a fresh one.\<close>

locale tx_manager =
  fixes run :: "('s, 'l) tx_runner"
    and view :: "'s \<Rightarrow> db_handle \<Rightarrow> tables"
  assumes run_nested: "ctx_tx c = Some tx \<Longrightarrow> run c f wl = f c wl"
    and run_outer: "ctx_tx c = None \<Longrightarrow> run c f (w, l) = (oe, w', l') \<Longrightarrow>
          (txn_begin_failed view w oe w' \<and> l' = l) \<or>
          (\<exists>tx d0 x w1. view d0 (TxDB tx) = view (w_db w) DefaultDB \<and>
             view d0 DefaultDB = view (w_db w) DefaultDB \<and>
             f (c\<lparr>ctx_tx := Some tx\<rparr>) (w\<lparr>w_db := d0\<rparr>, l) = (x, w1, l') \<and>
             txn_ended view tx d0 x w1 oe w')"

section \<open>The PostgreSQL implementations keep the contracts\<close>

lemma db_effect_revoke_missing:
  "tokens (view s h) k = None \<Longrightarrow> db_effect view h s s' (revoke_row k) \<Longrightarrow> db_effect view h s s' id"
  by (auto simp: db_effect_def revoke_row_def fun_upd_idem)

lemma wrap_neq_domain [simp]:
  "Wrap c m e \<noteq> ErrTokenNotFound" "ErrTokenNotFound \<noteq> Wrap c m e"
  "Wrap c m e \<noteq> ErrNotFound" "ErrNotFound \<noteq> Wrap c m e"
  by (simp_all add: domain_error_defs Wrap_def New_def)

sublocale gorm_db \<subseteq> ar: auth_repository "NewAuthRepository g" view
proof (unfold_locales, goal_cases)
  case (4 c t s s')
  then obtain t' where c: "g_Create_token g (handle c) t s = (Inr t', s')"
    by (auto simp: auth_repo_defs split: sum.splits prod.splits)
  from Create_token_ok [OF c] show ?case
    by (auto simp: same_token_def intro!: exI [of _ t'] dest: arg_cong [where f = t_UserID]
        arg_cong [where f = t_Token] arg_cong [where f = t_Revoked] arg_cong [where f = t_ExpiresAt])
next
  case (7 c k s e s')
  then show ?case
    by (auto simp: auth_repo_defs split: sum.splits prod.splits if_splits
        dest!: Update_token_ok Update_token_err intro: db_effect_revoke_missing)
qed (auto simp: auth_repo_defs split: sum.splits prod.splits if_splits
     dest: First_token_view First_token_ok First_token_none Create_token_err Update_token_ok
       Update_tokens_of_ok Update_tokens_of_err)

sublocale gorm_db \<subseteq> up: user_repository "NewUserRepository g" view
proof (unfold_locales, goal_cases)
  case (9 c u s e s')
  then show ?case
    by (auto simp: user_repo_defs ProvideUserProvider_def split: sum.splits prod.splits if_splits
        dest!: Save_user_ok Save_user_err)
next
  case (11 c i s e s')
  then show ?case
    by (auto simp: user_repo_defs split: sum.splits prod.splits if_splits
        dest!: Delete_user_ok Delete_user_err)
qed (auto simp: user_repo_defs ProvideUserProvider_def split: sum.splits prod.splits if_splits
     dest: First_user_view First_user_ok First_email_view First_email_ok First_email_none
       Create_user_ok Create_user_err Save_user_ok Delete_user_ok)

sublocale gorm_db \<subseteq> tm: tx_manager "RunInTransaction g" view
proof (unfold_locales, goal_cases)
  case (1 c tx f wl)
  then show ?case by (simp add: RunInTransaction_def TxFromContext_def)
next
  case (2 c f w l oe w' l')
  then have "g_Transaction g (\<lambda>tx. f (c\<lparr>ctx_tx := Some tx\<rparr>)) (w, l) = (oe, w', l')"
    by (simp add: RunInTransaction_def TxFromContext_def)
  from Transaction_spec [OF this] show ?case .
qed

end
