(* ===== verification/Crypto_Jwt.thy ===== *)
theory Crypto_Jwt
  imports Go_Strings Entities
begin

text \<open>
  \<^verbatim>\<open>pkg/cryptoutil/hash.go\<close> and \<^verbatim>\<open>pkg/jwtutil/jwt.go\<close>. SHA-256, bcrypt and the JWT library
  are parameters; the locales \<open>bcrypt_lib\<close> and \<open>jwt_lib\<close> state what their documentation
  promises. The last section has an executable JWT library for the witnesses.
\<close>

section \<open>Hashing (pkg/cryptoutil/hash.go)\<close>

text \<open>
  \<open>bc_Generate password cost n\<close> is the \<open>n\<close>-th call of \<^verbatim>\<open>bcrypt.GenerateFromPassword\<close>, which
  draws a fresh salt each time; \<open>bc_Compare hash password\<close> is
  \<^verbatim>\<open>bcrypt.CompareHashAndPassword\<close>, \<open>None\<close> when they match.
\<close>

record crypto =
  cp_sha256 :: "bytes \<Rightarrow> bytes"
  bc_DefaultCost :: int
  bc_Generate :: "bytes \<Rightarrow> int \<Rightarrow> nat \<Rightarrow> bytes result"
  bc_Compare :: "bytes \<Rightarrow> bytes \<Rightarrow> go_error option"

definition bcryptCost :: "crypto \<Rightarrow> int" where
  "bcryptCost cp = bc_DefaultCost cp"

definition HashPassword :: "crypto \<Rightarrow> string \<Rightarrow> 's world \<Rightarrow> string result \<times> 's world" where
  "HashPassword cp password w =
     (let w' = w\<lparr>w_draws := Suc (w_draws w)\<rparr> in
      case bc_Generate cp password (bcryptCost cp) (w_draws w) of
        Inl err \<Rightarrow> (Inl err, w')
      | Inr hash \<Rightarrow> (Inr hash, w'))"

definition CheckPassword :: "crypto \<Rightarrow> string \<Rightarrow> string \<Rightarrow> go_error option" where
  "CheckPassword cp password hash = bc_Compare cp hash password"

text \<open>\<^verbatim>\<open>crypto/rand.Read\<close> of \<open>n\<close> bytes.\<close>

definition rand_Read :: "nat \<Rightarrow> 's world \<Rightarrow> bytes result \<times> 's world" where
  "rand_Read n w =
     ((case w_entropy w (w_draws w) n of Inl t \<Rightarrow> Inl (Foreign t) | Inr b \<Rightarrow> Inr b),
      w\<lparr>w_draws := Suc (w_draws w)\<rparr>)"

definition GenerateRandomHex :: "nat \<Rightarrow> 's world \<Rightarrow> string result \<times> 's world" where
  "GenerateRandomHex n w =
     (case rand_Read n w of
        (Inl err, w') \<Rightarrow> (Inl err, w')
      | (Inr b, w') \<Rightarrow> (Inr (hex_EncodeToString b), w'))"

definition HashSHA256 :: "crypto \<Rightarrow> string \<Rightarrow> string" where
  "HashSHA256 cp s = hex_EncodeToString (cp_sha256 cp s)"

lemma HashPassword_db [simp]: "w_db (snd (HashPassword cp p w)) = w_db w"
  by (simp add: HashPassword_def Let_def split: sum.splits)

lemma GenerateRandomHex_eq:
  "GenerateRandomHex n w = (x, w') \<longleftrightarrow>
     w' = w\<lparr>w_draws := Suc (w_draws w)\<rparr> \<and>
     (case w_entropy w (w_draws w) n of
        Inl t \<Rightarrow> x = Inl (Foreign t) | Inr b \<Rightarrow> x = Inr (hex_EncodeToString b))"
  by (auto simp: GenerateRandomHex_def rand_Read_def split: sum.splits)

lemma HashSHA256_inject:
  "HashSHA256 cp a = HashSHA256 cp b \<longleftrightarrow> cp_sha256 cp a = cp_sha256 cp b"
  by (simp add: HashSHA256_def hex_EncodeToString_inject)

text \<open>
  bcrypt accepts the password a hash was generated from, and refuses passwords of more
  than 72 bytes (\<^verbatim>\<open>ErrPasswordTooLong\<close>).
\<close>

locale bcrypt_lib =
  fixes cp :: crypto
  assumes Compare_Generate: "bc_Generate cp p k n = Inr h \<Longrightarrow> bc_Compare cp h p = None"
    and Generate_long: "72 < length p \<Longrightarrow> \<exists>t. bc_Generate cp p k n = Inl (Foreign t)"
begin

lemma CheckPassword_HashPassword:
  "HashPassword cp p w = (Inr h, w') \<Longrightarrow> CheckPassword cp p h = None"
  by (auto simp: HashPassword_def CheckPassword_def Let_def split: sum.splits
      intro: Compare_Generate)

lemma HashPassword_long:
  "72 < length p \<Longrightarrow> \<exists>t. fst (HashPassword cp p w) = Inl (Foreign t)"
  using Generate_long [of p "bcryptCost cp" "w_draws w"] by (auto simp: HashPassword_def Let_def)

end

section \<open>Tokens (pkg/jwtutil/jwt.go)\<close>

text \<open>
  \<^verbatim>\<open>Claims\<close>, with the registered claims the code reads or writes; dates are points in
  time. The header of a token as the key function sees it: whether the method is of the
  type \<^verbatim>\<open>*jwt.SigningMethodHMAC\<close>, and the printed \<^verbatim>\<open>alg\<close>.
\<close>

record Claims =
  cl_Subject :: string
  cl_IssuedAt :: "time option"
  cl_ExpiresAt :: "time option"
  cl_UserID :: uint
  cl_Role :: string

record jwt_token =
  jk_HMAC :: bool
  jk_alg :: string

type_synonym keyfunc = "jwt_token \<Rightarrow> bytes result"

text \<open>
  \<open>jwt_ParseWithClaims\<close> returns the claims and \<^verbatim>\<open>token.Valid\<close>; its last argument is the
  library's reading of the clock. \<open>jwt_Header\<close> is the header a token string decodes to,
  and \<open>jwt_text\<close> the \<^verbatim>\<open>Error\<close> method of the library's errors.
\<close>

record jwt =
  jwt_NewNumericDate :: "time \<Rightarrow> time"
  jwt_SignedString :: "string \<Rightarrow> Claims \<Rightarrow> bytes \<Rightarrow> string result"
  jwt_Header :: "string \<Rightarrow> jwt_token option"
  jwt_ParseWithClaims :: "string \<Rightarrow> keyfunc \<Rightarrow> time \<Rightarrow> (Claims \<times> bool) result"
  jwt_text :: "go_error \<Rightarrow> string"

definition SigningMethodHS256 :: string where "SigningMethodHS256 = ''HS256''"

definition GenerateToken ::
  "jwt \<Rightarrow> uint \<Rightarrow> string \<Rightarrow> bytes \<Rightarrow> duration \<Rightarrow> 's world \<Rightarrow> string result \<times> 's world" where
  "GenerateToken jw userID role secret ttl w =
     (case time_Now w of (now, w1) \<Rightarrow>
        (let subStr = FormatUint (unat userID);
             claims = \<lparr>cl_Subject = subStr,
                       cl_IssuedAt = Some (jwt_NewNumericDate jw now),
                       cl_ExpiresAt = Some (jwt_NewNumericDate jw (time_Add now ttl)),
                       cl_UserID = userID, cl_Role = role\<rparr>
         in case jwt_SignedString jw SigningMethodHS256 claims secret of
              Inl err \<Rightarrow> (Inl (Wrapped ''jwtutil: sign token: '' err []), w1)
            | Inr tok \<Rightarrow> (Inr tok, w1)))"

definition hmac_keyfunc :: "bytes \<Rightarrow> keyfunc" where
  "hmac_keyfunc secret t =
     (if \<not> jk_HMAC t then Inl (Foreign (''unexpected signing method: '' @ jk_alg t))
      else Inr secret)"

text \<open>The part of \<^verbatim>\<open>ValidateToken\<close> after a successful parse.\<close>

definition resolve_subject :: "Claims \<Rightarrow> Claims result" where
  "resolve_subject claims =
     (let claims' =
        (if cl_UserID claims = 0 \<and> cl_Subject claims \<noteq> []
         then (case ParseUint (cl_Subject claims) of
                 Some i \<Rightarrow> (if 0 < i then claims\<lparr>cl_UserID := i\<rparr> else claims)
               | None \<Rightarrow> claims)
         else claims)
      in if cl_UserID claims' = 0 then Inl (Sentinel ErrInvalidSubject) else Inr claims')"

definition ValidateToken ::
  "jwt \<Rightarrow> string \<Rightarrow> bytes \<Rightarrow> 's world \<Rightarrow> Claims result \<times> 's world" where
  "ValidateToken jw tokenStr secret w =
     (case time_Now w of (now, w1) \<Rightarrow>
        (case jwt_ParseWithClaims jw tokenStr (hmac_keyfunc secret) now of
           Inl err \<Rightarrow>
             (if errors_Is err (Sentinel JwtTokenExpired) then (Inl (Sentinel ErrExpiredToken), w1)
              else (Inl (Wrapped [] (Sentinel ErrInvalidToken)
                           ('': '' @ error_Error (jwt_text jw) err)), w1))
         | Inr (claims, valid) \<Rightarrow>
             (if \<not> valid then (Inl (Sentinel ErrInvalidToken), w1)
              else (resolve_subject claims, w1))))"

lemma GenerateToken_world:
  "GenerateToken jw i r k d w = (x, w') \<Longrightarrow> w' = w\<lparr>w_ticks := Suc (w_ticks w)\<rparr>"
  by (auto simp: GenerateToken_def time_Now_def Let_def split: sum.splits)

lemma GenerateToken_db_indep:
  "fst (GenerateToken jw i r k d (w\<lparr>w_db := s\<rparr>)) = fst (GenerateToken jw i r k d w)"
  "fst (GenerateToken jw i r k d (w\<lparr>w_ticks := n, w_db := s\<rparr>)) =
     fst (GenerateToken jw i r k d (w\<lparr>w_ticks := n\<rparr>))"
  "fst (GenerateToken jw i r k d (w\<lparr>w_db := s, w_ticks := n\<rparr>)) =
     fst (GenerateToken jw i r k d (w\<lparr>w_ticks := n\<rparr>))"
  by (auto simp: GenerateToken_def time_Now_def Let_def split: sum.splits)

lemma ValidateToken_world:
  "snd (ValidateToken jw s k w) = w\<lparr>w_ticks := Suc (w_ticks w)\<rparr>"
  by (simp add: ValidateToken_def time_Now_def split: sum.splits prod.splits)

lemma resolve_subject_pos: "resolve_subject c = Inr c' \<Longrightarrow> cl_UserID c' \<noteq> 0"
  by (auto simp: resolve_subject_def Let_def split: if_splits)

lemma resolve_subject_same: "cl_UserID c \<noteq> 0 \<Longrightarrow> resolve_subject c = Inr c"
  by (simp add: resolve_subject_def)

lemma resolve_subject_Subject:
  "cl_UserID c = 0 \<Longrightarrow> resolve_subject c =
     (case ParseUint (cl_Subject c) of
        Some i \<Rightarrow> if i = 0 then Inl (Sentinel ErrInvalidSubject) else Inr (c\<lparr>cl_UserID := i\<rparr>)
      | None \<Rightarrow> Inl (Sentinel ErrInvalidSubject))"
  by (auto simp: resolve_subject_def ParseUint_def word_gt_0 split: option.splits)

text \<open>
  The documented behaviour of the library: dates are cut to whole seconds; a token signed
  with HS256 parses back to its claims while it has not expired, and to \<^verbatim>\<open>ErrTokenExpired\<close>
  from then on, when the key function returns the signing key; a parse succeeds only if
  the key function accepted the header the string carries, before the expiry.
\<close>

definition HS256_header :: jwt_token where
  "HS256_header = \<lparr>jk_HMAC = True, jk_alg = SigningMethodHS256\<rparr>"

locale jwt_lib =
  fixes jw :: jwt
  assumes NumericDate: "jwt_NewNumericDate jw t \<le> t \<and> t < jwt_NewNumericDate jw t + second"
    and Parse_signed: "jwt_SignedString jw SigningMethodHS256 cl key = Inr s \<Longrightarrow>
          cl_ExpiresAt cl = Some e \<Longrightarrow> ascii (cl_Subject cl) \<Longrightarrow> ascii (cl_Role cl) \<Longrightarrow>
          kf HS256_header = Inr key \<Longrightarrow> now < e \<Longrightarrow>
          jwt_ParseWithClaims jw s kf now = Inr (cl, True)"
    and Parse_expired: "jwt_SignedString jw SigningMethodHS256 cl' key' = Inr s' \<Longrightarrow>
          cl_ExpiresAt cl' = Some e' \<Longrightarrow> kf' HS256_header = Inr key' \<Longrightarrow> e' \<le> now' \<Longrightarrow>
          \<exists>err. jwt_ParseWithClaims jw s' kf' now' = Inl err \<and>
                errors_Is err (Sentinel JwtTokenExpired)"
    and Parse_sound: "jwt_ParseWithClaims jw u kg m = Inr (c, v) \<Longrightarrow>
          (\<exists>hd k. jwt_Header jw u = Some hd \<and> kg hd = Inr k) \<and>
          (\<forall>x. cl_ExpiresAt c = Some x \<longrightarrow> m < x)"
begin

lemma Validate_Generate:
  assumes gen: "GenerateToken jw i r key ttl w0 = (Inr s, w1)"
    and i: "i \<noteq> 0" and r: "ascii r"
    and now: "now = w_clock w (w_ticks w)"
    and e: "e = jwt_NewNumericDate jw (time_Add (w_clock w0 (w_ticks w0)) ttl)"
  shows "fst (ValidateToken jw s key w) =
           (if now < e
            then Inr \<lparr>cl_Subject = FormatUint (unat i),
                      cl_IssuedAt = Some (jwt_NewNumericDate jw (w_clock w0 (w_ticks w0))),
                      cl_ExpiresAt = Some e, cl_UserID = i, cl_Role = r\<rparr>
            else Inl (Sentinel ErrExpiredToken))"
proof -
  define cl where "cl = \<lparr>cl_Subject = FormatUint (unat i),
      cl_IssuedAt = Some (jwt_NewNumericDate jw (w_clock w0 (w_ticks w0))),
      cl_ExpiresAt = Some e, cl_UserID = i, cl_Role = r\<rparr>"
  have sgn: "jwt_SignedString jw SigningMethodHS256 cl key = Inr s"
    using gen by (auto simp: GenerateToken_def time_Now_def cl_def e Let_def split: sum.splits)
  have kf: "hmac_keyfunc key HS256_header = Inr key"
    by (simp add: hmac_keyfunc_def HS256_header_def)
  have "list_all (\<lambda>c. (of_char c :: nat) < 128) (FormatUint (unat i))"
    by (rule list.pred_mono_strong [OF FormatUint_digits [of "unat i"]]) (simp add: is_digit_def)
  then have sub: "ascii (cl_Subject cl)" by (simp add: ascii_def cl_def)
  have res: "resolve_subject cl = Inr cl" by (simp add: resolve_subject_same cl_def i)
  show ?thesis
  proof (cases "now < e")
    case True
    then have "jwt_ParseWithClaims jw s (hmac_keyfunc key) now = Inr (cl, True)"
      using Parse_signed [OF sgn _ sub, where kf = "hmac_keyfunc key"] r kf by (simp add: cl_def)
    with True res show ?thesis by (simp add: ValidateToken_def time_Now_def now cl_def)
  next
    case False
    then obtain err where "jwt_ParseWithClaims jw s (hmac_keyfunc key) now = Inl err"
      "errors_Is err (Sentinel JwtTokenExpired)"
      using Parse_expired [OF sgn, where kf' = "hmac_keyfunc key" and e' = e and now' = now] kf
      by (auto simp: cl_def)
    with False show ?thesis by (simp add: ValidateToken_def time_Now_def now)
  qed
qed

lemma Validate_sound:
  assumes "ValidateToken jw s key w = (Inr c, w')"
  shows "cl_UserID c \<noteq> 0" and "\<exists>hd. jwt_Header jw s = Some hd \<and> jk_HMAC hd"
    and "\<forall>e. cl_ExpiresAt c = Some e \<longrightarrow> w_clock w (w_ticks w) < e"
proof -
  obtain c0 where p: "jwt_ParseWithClaims jw s (hmac_keyfunc key) (w_clock w (w_ticks w)) = Inr (c0, True)"
    and r: "resolve_subject c0 = Inr c"
    using assms by (auto simp: ValidateToken_def time_Now_def split: sum.splits prod.splits if_splits)
  from r show "cl_UserID c \<noteq> 0" by (rule resolve_subject_pos)
  from r have "cl_ExpiresAt c = cl_ExpiresAt c0"
    by (auto simp: resolve_subject_def Let_def split: if_splits option.splits)
  with Parse_sound [OF p] show "\<exists>hd. jwt_Header jw s = Some hd \<and> jk_HMAC hd"
    and "\<forall>e. cl_ExpiresAt c = Some e \<longrightarrow> w_clock w (w_ticks w) < e"
    by (auto simp: hmac_keyfunc_def split: if_splits)
qed

end

end
