(* ===== verification/Reference_Libs.thy ===== *)
theory Reference_Libs
  imports Crypto_Jwt
begin

text \<open>
  Executable stand-ins for the cryptographic libraries, used by the witnesses: they show
  that the documented behaviour stated in \<open>Crypto_Jwt\<close> is consistent and can be run. A token
  is the list of the algorithm, the key and the claims, each length-delimited; a password
  hash carries the password. Nothing of the program depends on them.
\<close>

section \<open>Delimited byte strings\<close>

fun enc_bytes :: "string \<Rightarrow> string" where
  "enc_bytes [] = [CHR 0x00]"
| "enc_bytes (c # s) = CHR 0x01 # c # enc_bytes s"

definition enc_list :: "string list \<Rightarrow> string" where
  "enc_list xs = concat (map enc_bytes xs)"

fun dec_list :: "string \<Rightarrow> string \<Rightarrow> string list option" where
  "dec_list acc [] = (if acc = [] then Some [] else None)"
| "dec_list acc (m # s) =
     (if m = CHR 0x00 then map_option ((#) acc) (dec_list [] s)
      else (case s of c # s' \<Rightarrow> dec_list (acc @ [c]) s' | [] \<Rightarrow> None))"

lemma dec_list_enc_bytes:
  "dec_list acc (enc_bytes x @ r) = map_option ((#) (acc @ x)) (dec_list [] r)"
  by (induction x arbitrary: acc) simp_all

lemma dec_list_enc_list [simp]: "dec_list [] (enc_list xs) = Some xs"
  by (induction xs) (simp_all add: enc_list_def dec_list_enc_bytes)

fun nat_bytes :: "nat \<Rightarrow> string" where
  "nat_bytes n = (if n = 0 then [] else char_of (n mod 256) # nat_bytes (n div 256))"

declare nat_bytes.simps [simp del]

definition bytes_nat :: "string \<Rightarrow> nat" where
  "bytes_nat s = foldr (\<lambda>c v. of_char c + 256 * v) s 0"

lemma bytes_nat_bytes [simp]: "bytes_nat (nat_bytes n) = n"
  by (induction n rule: nat_bytes.induct) (subst nat_bytes.simps, simp add: bytes_nat_def)

definition int_bytes :: "int \<Rightarrow> string" where
  "int_bytes i = (if i < 0 then CHR ''-'' else CHR ''+'') # nat_bytes (nat \<bar>i\<bar>)"

definition bytes_int :: "string \<Rightarrow> int" where
  "bytes_int s = (case s of c # r \<Rightarrow> (if c = CHR ''-'' then - int (bytes_nat r) else int (bytes_nat r))
                  | [] \<Rightarrow> 0)"

lemma bytes_int_bytes [simp]: "bytes_int (int_bytes i) = i"
  by (simp add: int_bytes_def bytes_int_def)

definition opt_bytes :: "int option \<Rightarrow> string" where
  "opt_bytes x = (case x of None \<Rightarrow> [] | Some i \<Rightarrow> int_bytes i)"

definition bytes_opt :: "string \<Rightarrow> int option" where
  "bytes_opt s = (if s = [] then None else Some (bytes_int s))"

lemma bytes_opt_bytes [simp]: "bytes_opt (opt_bytes x) = x"
  by (simp add: opt_bytes_def bytes_opt_def split: option.splits) (simp add: int_bytes_def)

section \<open>A password hash and a digest\<close>

definition plain_crypto :: crypto where
  "plain_crypto =
     \<lparr>cp_sha256 = (\<lambda>s. s), bc_DefaultCost = 10,
      bc_Generate = (\<lambda>p k n. if 72 < length p then Inl (Foreign ''password length exceeds 72 bytes'')
                             else Inr (''$plain$'' @ p)),
      bc_Compare = (\<lambda>h p. if h = ''$plain$'' @ p then None else Some (Foreign ''mismatch''))\<rparr>"

interpretation plain_bcrypt: bcrypt_lib plain_crypto
  by unfold_locales (auto simp: plain_crypto_def split: if_splits)

section \<open>Tokens\<close>

definition enc_claims :: "string \<Rightarrow> bytes \<Rightarrow> Claims \<Rightarrow> string" where
  "enc_claims alg key c =
     enc_list [alg, key, cl_Subject c, opt_bytes (cl_IssuedAt c), opt_bytes (cl_ExpiresAt c),
               nat_bytes (unat (cl_UserID c)), cl_Role c]"

definition dec_claims :: "string \<Rightarrow> (string \<times> bytes \<times> Claims) option" where
  "dec_claims s =
     (case dec_list [] s of
        Some [alg, key, sub, iat, ex, uid, role] \<Rightarrow>
          Some (alg, key, \<lparr>cl_Subject = sub, cl_IssuedAt = bytes_opt iat,
            cl_ExpiresAt = bytes_opt ex, cl_UserID = of_nat (bytes_nat uid), cl_Role = role\<rparr>)
      | _ \<Rightarrow> None)"

lemma dec_enc_claims [simp]: "dec_claims (enc_claims alg key c) = Some (alg, key, c)"
  by (simp add: dec_claims_def enc_claims_def)

definition plain_header :: "string \<Rightarrow> jwt_token option" where
  "plain_header s =
     (case dec_claims s of
        Some (alg, key, c) \<Rightarrow> Some \<lparr>jk_HMAC = (alg \<in> {''HS256'', ''HS384'', ''HS512''}), jk_alg = alg\<rparr>
      | None \<Rightarrow> None)"

definition plain_parse :: "string \<Rightarrow> keyfunc \<Rightarrow> time \<Rightarrow> (Claims \<times> bool) result" where
  "plain_parse s kf now =
     (case (dec_claims s, plain_header s) of
        (Some (alg, key, c), Some h) \<Rightarrow>
          (case kf h of
             Inl e \<Rightarrow> Inl (Wrapped ''token is unverifiable: '' e [])
           | Inr k \<Rightarrow>
               if k \<noteq> key then Inl (Foreign ''token signature is invalid'')
               else (case cl_ExpiresAt c of
                       Some e \<Rightarrow> if now < e then Inr (c, True)
                                 else Inl (Wrapped ''token has invalid claims: '' (Sentinel JwtTokenExpired) [])
                     | None \<Rightarrow> Inr (c, True)))
      | _ \<Rightarrow> Inl (Foreign ''token is malformed''))"

definition plain_jwt :: jwt where
  "plain_jwt =
     \<lparr>jwt_NewNumericDate = (\<lambda>t. t div second * second),
      jwt_SignedString = (\<lambda>alg c key. Inr (enc_claims alg key c)),
      jwt_Header = plain_header, jwt_ParseWithClaims = plain_parse, jwt_text = (\<lambda>_. [])\<rparr>"

lemma plain_header_HS256: "plain_header (enc_claims SigningMethodHS256 key c) = Some HS256_header"
  by (simp add: plain_header_def HS256_header_def SigningMethodHS256_def)

interpretation plain_jwt_lib: jwt_lib plain_jwt
proof (unfold_locales, goal_cases)
  case (1 t)
  have "t div second * second \<le> t \<and> t < t div second * second + second"
    unfolding second_def by presburger
  then show ?case by (simp add: plain_jwt_def)
next
  case (2 cl key s e kf now)
  then show ?case by (auto simp: plain_jwt_def plain_parse_def plain_header_HS256)
next
  case (3 cl key s e kf now)
  then show ?case by (auto simp: plain_jwt_def plain_parse_def plain_header_HS256)
next
  case (4 u kg m c v)
  then show ?case
    by (auto simp: plain_jwt_def plain_parse_def split: option.splits sum.splits if_splits)
qed

end
