(* ===== verification/User_Usecases.thy ===== *)
theory User_Usecases
  imports Repo_Contracts Reference_Libs
begin

text \<open>
  \<^verbatim>\<open>internal/user/usecase\<close>: create, find, update, delete. The repository is the interface
  record of \<open>Repositories\<close>; the lemmas are proved in the locale of its contract, which the
  PostgreSQL repository keeps.
\<close>

section \<open>The use cases\<close>

record 's CreateUsecase =
  cu_repo :: "'s user_repo"
  cu_validator :: "validated \<Rightarrow> go_error option"

record 's FindUsecase =
  fu_repo :: "'s user_repo"

record 's UpdateUsecase =
  uu_repo :: "'s user_repo"
  uu_validator :: "validated \<Rightarrow> go_error option"

record 's DeleteUsecase =
  du_repo :: "'s user_repo"

definition NewCreateUsecase ::
  "'s user_repo \<Rightarrow> (validated \<Rightarrow> go_error option) \<Rightarrow> 's CreateUsecase" where
  "NewCreateUsecase repo v = \<lparr>cu_repo = repo, cu_validator = v\<rparr>"

definition NewFindUsecase :: "'s user_repo \<Rightarrow> 's FindUsecase" where
  "NewFindUsecase repo = \<lparr>fu_repo = repo\<rparr>"

definition NewUpdateUsecase ::
  "'s user_repo \<Rightarrow> (validated \<Rightarrow> go_error option) \<Rightarrow> 's UpdateUsecase" where
  "NewUpdateUsecase repo v = \<lparr>uu_repo = repo, uu_validator = v\<rparr>"

definition NewDeleteUsecase :: "'s user_repo \<Rightarrow> 's DeleteUsecase" where
  "NewDeleteUsecase repo = \<lparr>du_repo = repo\<rparr>"

lemmas user_constructors = NewCreateUsecase_def NewFindUsecase_def NewUpdateUsecase_def
  NewDeleteUsecase_def

definition Create_Execute ::
  "crypto \<Rightarrow> 's CreateUsecase \<Rightarrow> ctx \<Rightarrow> CreateUserRequest \<Rightarrow> 's world \<Rightarrow> user result \<times> 's world" where
  "Create_Execute cp u c req w =
     (case Validate (cu_validator u) (V_CreateUser req) of
        Some err \<Rightarrow> (Inl err, w)
      | None \<Rightarrow>
          (case HashPassword cp (cr_Password req) w of
             (Inl err, w1) \<Rightarrow> (Inl err, w1)
           | (Inr hashedPassword, w1) \<Rightarrow>
               (let usr = \<lparr>u_ID = 0, u_Name = cr_Name req, u_Email = cr_Email req,
                            u_Password = hashedPassword, u_Role = RoleUser, u_Active = True,
                            u_CreatedAt = zero_time, u_UpdatedAt = zero_time\<rparr>
                in on_db (ur_Create (cu_repo u) c usr) w1)))"

definition Find_FindByID ::
  "'s FindUsecase \<Rightarrow> ctx \<Rightarrow> uint \<Rightarrow> 's world \<Rightarrow> user result \<times> 's world" where
  "Find_FindByID u c i w = on_db (ur_FindByID (fu_repo u) c i) w"

definition Find_FindByEmail ::
  "'s FindUsecase \<Rightarrow> ctx \<Rightarrow> string \<Rightarrow> 's world \<Rightarrow> user result \<times> 's world" where
  "Find_FindByEmail u c email w = on_db (ur_FindByEmail (fu_repo u) c email) w"

definition Update_Execute ::
  "'s UpdateUsecase \<Rightarrow> ctx \<Rightarrow> UpdateUserRequest \<Rightarrow> 's world \<Rightarrow> user result \<times> 's world" where
  "Update_Execute u c req w =
     (case Validate (uu_validator u) (V_UpdateUser req) of
        Some err \<Rightarrow> (Inl err, w)
      | None \<Rightarrow>
          (if ur_CallerID req = 0 \<or> ur_CallerID req \<noteq> ur_ID req then (Inl ErrForbidden, w)
           else (case on_db (ur_FindByID (uu_repo u) c (ur_ID req)) w of
                   (Inl err, w1) \<Rightarrow> (Inl err, w1)
                 | (Inr usr, w1) \<Rightarrow>
                     (let usr' = (if ur_Name req \<noteq> [] then usr\<lparr>u_Name := ur_Name req\<rparr> else usr)
                      in on_db (ur_Update (uu_repo u) c usr') w1))))"

definition Delete_Execute ::
  "'s DeleteUsecase \<Rightarrow> ctx \<Rightarrow> uint \<Rightarrow> uint \<Rightarrow> 's world \<Rightarrow> go_error option \<times> 's world" where
  "Delete_Execute u c i callerID w =
     (if callerID = 0 \<or> callerID \<noteq> i then (Some ErrForbidden, w)
      else on_db (ur_Delete (du_repo u) c i) w)"

lemmas user_usecase_defs = Create_Execute_def Find_FindByID_def Find_FindByEmail_def
  Update_Execute_def Delete_Execute_def

section \<open>Guards that do not reach the repository\<close>

lemma Update_forbidden:
  "uu_validator u (V_UpdateUser req) = None \<Longrightarrow>
   ur_CallerID req = 0 \<or> ur_CallerID req \<noteq> ur_ID req \<Longrightarrow>
   Update_Execute u c req w = (Inl ErrForbidden, w)"
  by (auto simp: Update_Execute_def Validate_def)

lemma Delete_forbidden:
  "callerID = 0 \<or> callerID \<noteq> i \<Longrightarrow> Delete_Execute u c i callerID w = (Some ErrForbidden, w)"
  by (auto simp: Delete_Execute_def)

section \<open>Effects on the tables\<close>

text \<open>The world of a use case differs from the one it started from in the database.\<close>

definition world_effect ::
  "('s \<Rightarrow> db_handle \<Rightarrow> tables) \<Rightarrow> ctx \<Rightarrow> 's world \<Rightarrow> 's world \<Rightarrow> (tables \<Rightarrow> tables) \<Rightarrow> bool" where
  "world_effect view c w w' eff \<longleftrightarrow> db_effect view (handle c) (w_db w) (w_db w') eff"

lemma db_effect_trans:
  "db_effect view h s s1 f \<Longrightarrow> db_effect view h s1 s2 f' \<Longrightarrow> db_effect view h s s2 (f' \<circ> f)"
  by (simp add: db_effect_def)

lemma db_effect_same: "view s' = view s \<Longrightarrow> db_effect view h s s' id"
  by (simp add: db_effect_def)

lemma world_effect_view:
  "world_effect view c w w' eff \<Longrightarrow> view (w_db w') (handle c) = eff (view (w_db w) (handle c))"
  by (simp add: world_effect_def db_effect_def)

context user_repository
begin

lemma Create_Execute_ok:
  assumes "Create_Execute cp (NewCreateUsecase ur v) c req w = (Inr usr, w')"
  shows "\<exists>h. fst (HashPassword cp (cr_Password req) w) = Inr h \<and>
             usr = \<lparr>u_ID = u_ID usr, u_Name = cr_Name req, u_Email = cr_Email req,
                    u_Password = h, u_Role = RoleUser, u_Active = True,
                    u_CreatedAt = u_CreatedAt usr, u_UpdatedAt = u_UpdatedAt usr\<rparr>"
    and "v (V_CreateUser req) = None"
    and "world_effect view c w w' (upd_user usr)"
    and "users (view (w_db w) (handle c)) (u_ID usr) = None"
    and "\<not> email_taken (view (w_db w) (handle c)) (cr_Email req)"
proof -
  from assms obtain h w1 d where v: "v (V_CreateUser req) = None"
    and h: "HashPassword cp (cr_Password req) w = (Inr h, w1)"
    and d: "ur_Create ur c \<lparr>u_ID = 0, u_Name = cr_Name req, u_Email = cr_Email req,
        u_Password = h, u_Role = RoleUser, u_Active = True,
        u_CreatedAt = zero_time, u_UpdatedAt = zero_time\<rparr> (w_db w1) = (Inr usr, d)"
    and w': "w' = w1\<lparr>w_db := d\<rparr>"
    by (auto simp: Create_Execute_def user_constructors on_db_eq Let_def split: option.splits sum.splits prod.splits)
  have w1: "w_db w1 = w_db w" using h HashPassword_db [of cp "cr_Password req" w] by simp
  note spec = Create_user [OF d]
  show "world_effect view c w w' (upd_user usr)"
    and "users (view (w_db w) (handle c)) (u_ID usr) = None"
    and "\<not> email_taken (view (w_db w) (handle c)) (cr_Email req)"
    using spec w' w1 by (simp_all add: world_effect_def)
  show "v (V_CreateUser req) = None" by (fact v)
  from spec have "usr = \<lparr>u_ID = u_ID usr, u_Name = cr_Name req, u_Email = cr_Email req,
      u_Password = h, u_Role = RoleUser, u_Active = True,
      u_CreatedAt = u_CreatedAt usr, u_UpdatedAt = u_UpdatedAt usr\<rparr>" by simp
  with h show "\<exists>h. fst (HashPassword cp (cr_Password req) w) = Inr h \<and>
      usr = \<lparr>u_ID = u_ID usr, u_Name = cr_Name req, u_Email = cr_Email req,
             u_Password = h, u_Role = RoleUser, u_Active = True,
             u_CreatedAt = u_CreatedAt usr, u_UpdatedAt = u_UpdatedAt usr\<rparr>" by auto
qed

lemma Create_Execute_err:
  assumes "Create_Execute cp (NewCreateUsecase ur v) c req w = (Inl e, w')"
  shows "world_effect view c w w' id"
proof -
  obtain x w1 where h: "HashPassword cp (cr_Password req) w = (x, w1)" by fastforce
  then have w1: "w_db w1 = w_db w" using HashPassword_db [of cp "cr_Password req" w] by simp
  from assms h w1 show ?thesis
    by (auto simp: Create_Execute_def user_constructors on_db_eq Let_def world_effect_def db_effect_def
        split: option.splits sum.splits dest!: Create_user_failed)
qed

lemma Update_Execute_ok:
  assumes "Update_Execute (NewUpdateUsecase ur v) c req w = (Inr usr, w')"
  shows "ur_CallerID req = ur_ID req" and "ur_ID req \<noteq> 0"
    and "\<exists>old. users (view (w_db w) (handle c)) (ur_ID req) = Some old \<and>
           usr = old\<lparr>u_Name := (if ur_Name req = [] then u_Name old else ur_Name req),
                     u_UpdatedAt := u_UpdatedAt usr\<rparr>"
    and "world_effect view c w w' (upd_user usr)" and "u_ID usr = ur_ID req"
proof -
  from assms show "ur_CallerID req = ur_ID req" and "ur_ID req \<noteq> 0"
    by (auto simp: Update_Execute_def user_constructors split: option.splits if_splits)
  from assms obtain old d d' where
      f: "ur_FindByID ur c (ur_ID req) (w_db w) = (Inr old, d)"
    and s: "ur_Update ur c (if ur_Name req \<noteq> [] then old\<lparr>u_Name := ur_Name req\<rparr> else old) d
              = (Inr usr, d')" and w': "w' = w\<lparr>w_db := d'\<rparr>"
    by (auto simp: Update_Execute_def user_constructors on_db_def Let_def
        split: option.splits sum.splits prod.splits if_splits)
  have p: "up_FindByID (ProvideUserProvider ur) c (ur_ID req) (w_db w) = (Inr old, d)"
    using f by (simp add: ProvideUserProvider_def)
  have old: "users (view (w_db w) (handle c)) (ur_ID req) = Some old" and id: "u_ID old = ur_ID req"
    using ByID_ok [OF p] by simp_all
  note same = ByID_view [OF p]
  have "u_ID (if ur_Name req \<noteq> [] then old\<lparr>u_Name := ur_Name req\<rparr> else old) \<noteq> 0"
    using \<open>ur_ID req \<noteq> 0\<close> id by simp
  note spec = Update_user [OF s this]
  from spec old show "\<exists>old. users (view (w_db w) (handle c)) (ur_ID req) = Some old \<and>
      usr = old\<lparr>u_Name := (if ur_Name req = [] then u_Name old else ur_Name req),
                u_UpdatedAt := u_UpdatedAt usr\<rparr>"
    by (intro exI [of _ old]) (auto split: if_splits)
  from spec w' same show "world_effect view c w w' (upd_user usr)"
    by (simp add: world_effect_def db_effect_def)
  have "u_ID usr = u_ID old" using spec by (auto dest!: arg_cong [where f = u_ID] split: if_splits)
  with id show "u_ID usr = ur_ID req" by simp
qed

lemma Update_Execute_err:
  assumes "Update_Execute (NewUpdateUsecase ur v) c req w = (Inl e, w')"
  shows "world_effect view c w w' id"
proof (cases "\<exists>old d. ur_FindByID ur c (ur_ID req) (w_db w) = (Inr old, d)")
  case True
  then obtain old d where f: "ur_FindByID ur c (ur_ID req) (w_db w) = (Inr old, d)" by blast
  then have p: "up_FindByID (ProvideUserProvider ur) c (ur_ID req) (w_db w) = (Inr old, d)"
    by (simp add: ProvideUserProvider_def)
  have "u_ID old = ur_ID req" using ByID_ok [OF p] by simp
  with assms f ByID_view [OF p] show ?thesis
    by (auto simp: Update_Execute_def user_constructors on_db_def Let_def world_effect_def db_effect_def
        split: option.splits sum.splits prod.splits if_splits dest!: Update_user_failed)
next
  case False
  then obtain x d where f: "ur_FindByID ur c (ur_ID req) (w_db w) = (Inl x, d)"
    by (metis (no_types, opaque_lifting) Inl_Inr_False obj_sumE surj_pair)
  then have "up_FindByID (ProvideUserProvider ur) c (ur_ID req) (w_db w) = (Inl x, d)"
    by (simp add: ProvideUserProvider_def)
  from assms f ByID_view [OF this] show ?thesis
    by (auto simp: Update_Execute_def user_constructors on_db_def world_effect_def db_effect_def
        split: option.splits if_splits)
qed

lemma Delete_Execute_ok:
  assumes "Delete_Execute (NewDeleteUsecase ur) c i callerID w = (None, w')"
  shows "callerID = i" and "i \<noteq> 0" and "users (view (w_db w) (handle c)) i \<noteq> None"
    and "world_effect view c w w' (del_user i)"
  using assms
  by (auto simp: Delete_Execute_def user_constructors on_db_eq world_effect_def split: if_splits dest!: Delete_user)

lemma Delete_Execute_err:
  assumes "Delete_Execute (NewDeleteUsecase ur) c i callerID w = (Some e, w')"
  shows "world_effect view c w w' id \<or>
         (e = ErrNotFound \<and> callerID = i \<and> users (view (w_db w) (handle c)) i = None \<and>
          world_effect view c w w' (del_user i))"
  using assms
  by (auto simp: Delete_Execute_def user_constructors on_db_eq world_effect_def db_effect_def
      split: if_splits dest!: Delete_user_failed)

end

end
