(* ===== verification/Auth_Usecases.thy ===== *)
theory Auth_Usecases
  imports User_Usecases
begin

text \<open>
  \<^verbatim>\<open>internal/auth/usecase\<close>: login, refresh-token rotation and logout. Each use case is a
  record of the interfaces it is built from, and its \<^verbatim>\<open>Execute\<close> a function on the world.
  The lemmas rest on the contracts of the token repository, the user provider and the
  transaction manager.
\<close>

section \<open>Construction\<close>

record TokenConfig =
  tc_SecretKey :: string
  tc_AccessTTL :: duration
  tc_RefreshTTL :: duration

record 's LoginUsecase =
  lu_authRepo :: "'s auth_repo"
  lu_userProvider :: "'s user_provider"
  lu_validator :: "validated \<Rightarrow> go_error option"
  lu_jwtSecret :: bytes
  lu_accessTTL :: duration
  lu_refreshTTL :: duration

definition NewLoginUsecase ::
  "'s auth_repo \<Rightarrow> 's user_provider \<Rightarrow> (validated \<Rightarrow> go_error option) \<Rightarrow> TokenConfig \<Rightarrow>
   's LoginUsecase" where
  "NewLoginUsecase authRepo userProvider v cfg =
     \<lparr>lu_authRepo = authRepo, lu_userProvider = userProvider, lu_validator = v,
      lu_jwtSecret = tc_SecretKey cfg, lu_accessTTL = tc_AccessTTL cfg,
      lu_refreshTTL = tc_RefreshTTL cfg\<rparr>"

text \<open>The variables that the closure of \<^verbatim>\<open>RefreshUsecase.Execute\<close> captures and assigns.\<close>

record refresh_vars =
  rv_tokenPair :: "TokenPair option"
  rv_isReplayAttack :: bool
  rv_replayUserID :: uint

record 's RefreshUsecase =
  ru_authRepo :: "'s auth_repo"
  ru_userProvider :: "'s user_provider"
  ru_validator :: "validated \<Rightarrow> go_error option"
  ru_txManager :: "('s, refresh_vars) tx_runner"
  ru_jwtSecret :: bytes
  ru_accessTTL :: duration
  ru_refreshTTL :: duration

definition NewRefreshUsecase ::
  "'s auth_repo \<Rightarrow> 's user_provider \<Rightarrow> (validated \<Rightarrow> go_error option) \<Rightarrow>
   ('s, refresh_vars) tx_runner \<Rightarrow> TokenConfig \<Rightarrow> 's RefreshUsecase" where
  "NewRefreshUsecase authRepo userProvider v txManager cfg =
     \<lparr>ru_authRepo = authRepo, ru_userProvider = userProvider, ru_validator = v,
      ru_txManager = txManager, ru_jwtSecret = tc_SecretKey cfg,
      ru_accessTTL = tc_AccessTTL cfg, ru_refreshTTL = tc_RefreshTTL cfg\<rparr>"

record 's LogoutUsecase =
  ou_authRepo :: "'s auth_repo"
  ou_validator :: "validated \<Rightarrow> go_error option"

definition NewLogoutUsecase ::
  "'s auth_repo \<Rightarrow> (validated \<Rightarrow> go_error option) \<Rightarrow> 's LogoutUsecase" where
  "NewLogoutUsecase authRepo v = \<lparr>ou_authRepo = authRepo, ou_validator = v\<rparr>"

lemmas auth_constructors = NewLoginUsecase_def NewRefreshUsecase_def NewLogoutUsecase_def

section \<open>The operations\<close>

definition Login_Execute ::
  "crypto \<Rightarrow> jwt \<Rightarrow> 's LoginUsecase \<Rightarrow> ctx \<Rightarrow> LoginRequest \<Rightarrow> 's world \<Rightarrow>
   TokenPair result \<times> 's world" where
  "Login_Execute cp jw u c req w =
     (case Validate (lu_validator u) (V_Login req) of
        Some err \<Rightarrow> (Inl err, w)
      | None \<Rightarrow>
     (case on_db (up_FindByEmail (lu_userProvider u) c (lr_Email req)) w of
        (Inl err, w1) \<Rightarrow> (Inl ErrInvalidCredentials, w1)
      | (Inr usr, w1) \<Rightarrow>
     (case CheckPassword cp (lr_Password req) (u_Password usr) of
        Some err \<Rightarrow> (Inl ErrInvalidCredentials, w1)
      | None \<Rightarrow>
     (case GenerateToken jw (u_ID usr) (u_Role usr) (lu_jwtSecret u) (lu_accessTTL u) w1 of
        (Inl err, w2) \<Rightarrow> (Inl err, w2)
      | (Inr accessToken, w2) \<Rightarrow>
     (case GenerateRandomHex 32 w2 of
        (Inl err, w3) \<Rightarrow> (Inl err, w3)
      | (Inr rawRefresh, w3) \<Rightarrow>
     (case time_Now w3 of (now, w4) \<Rightarrow>
        (let refreshToken =
               \<lparr>t_ID = 0, t_UserID = u_ID usr, t_Token = HashSHA256 cp rawRefresh,
                t_Revoked = False, t_ExpiresAt = time_Add now (lu_refreshTTL u),
                t_CreatedAt = zero_time\<rparr>
         in case on_db (ar_CreateToken (lu_authRepo u) c refreshToken) w4 of
              (Some err, w5) \<Rightarrow> (Inl err, w5)
            | (None, w5) \<Rightarrow>
                (Inr \<lparr>tp_AccessToken = accessToken, tp_RefreshToken = rawRefresh\<rparr>, w5))))))))"

text \<open>The function passed to \<^verbatim>\<open>RunInTransaction\<close>.\<close>

definition refresh_body ::
  "crypto \<Rightarrow> jwt \<Rightarrow> 's RefreshUsecase \<Rightarrow> string \<Rightarrow> ('s, refresh_vars) tx_body" where
  "refresh_body cp jw u tokenHash txCtx wl =
     (case wl of (w, l) \<Rightarrow>
     (case on_db (ar_FindTokenByValue (ru_authRepo u) txCtx tokenHash) w of
        (Inl err, w1) \<Rightarrow> (Some ErrTokenNotFound, w1, l)
      | (Inr stored, w1) \<Rightarrow>
     (if t_Revoked stored
      then (Some ErrTokenRevoked, w1,
            l\<lparr>rv_isReplayAttack := True, rv_replayUserID := t_UserID stored\<rparr>)
      else
     (case time_Now w1 of (now0, w2) \<Rightarrow>
     (if IsExpired stored now0 then (Some ErrTokenExpired, w2, l)
      else
     (case on_db (ar_RevokeToken (ru_authRepo u) txCtx tokenHash) w2 of
        (Some err, w3) \<Rightarrow> (Some err, w3, l)
      | (None, w3) \<Rightarrow>
     (case on_db (up_FindByID (ru_userProvider u) txCtx (t_UserID stored)) w3 of
        (Inl err, w4) \<Rightarrow> (Some err, w4, l)
      | (Inr usr, w4) \<Rightarrow>
     (case GenerateToken jw (u_ID usr) (u_Role usr) (ru_jwtSecret u) (ru_accessTTL u) w4 of
        (Inl err, w5) \<Rightarrow> (Some err, w5, l)
      | (Inr accessToken, w5) \<Rightarrow>
     (case GenerateRandomHex 32 w5 of
        (Inl err, w6) \<Rightarrow> (Some err, w6, l)
      | (Inr rawRefresh, w6) \<Rightarrow>
     (case time_Now w6 of (now, w7) \<Rightarrow>
        (let newToken =
               \<lparr>t_ID = 0, t_UserID = u_ID usr, t_Token = HashSHA256 cp rawRefresh,
                t_Revoked = False, t_ExpiresAt = time_Add now (ru_refreshTTL u),
                t_CreatedAt = zero_time\<rparr>
         in case on_db (ar_CreateToken (ru_authRepo u) txCtx newToken) w7 of
              (Some err, w8) \<Rightarrow> (Some err, w8, l)
            | (None, w8) \<Rightarrow>
                (None, w8, l\<lparr>rv_tokenPair :=
                  Some \<lparr>tp_AccessToken = accessToken, tp_RefreshToken = rawRefresh\<rparr>\<rparr>))))))))))))"

text \<open>The result is a pointer: \<open>Inr None\<close> would be \<^verbatim>\<open>nil, nil\<close>.\<close>

definition Refresh_Execute ::
  "crypto \<Rightarrow> jwt \<Rightarrow> 's RefreshUsecase \<Rightarrow> ctx \<Rightarrow> RefreshTokenRequest \<Rightarrow> 's world \<Rightarrow>
   TokenPair option result \<times> 's world" where
  "Refresh_Execute cp jw u c req w =
     (case Validate (ru_validator u) (V_Refresh req) of
        Some err \<Rightarrow> (Inl err, w)
      | None \<Rightarrow>
          (let tokenHash = HashSHA256 cp (rr_RefreshToken req) in
           case ru_txManager u c (refresh_body cp jw u tokenHash)
                  (w, \<lparr>rv_tokenPair = None, rv_isReplayAttack = False, rv_replayUserID = 0\<rparr>) of
             (err, w1, l) \<Rightarrow>
               (if rv_isReplayAttack l
                then (case on_db (ar_RevokeAllUserTokens (ru_authRepo u) c (rv_replayUserID l)) w1 of
                        (_, w2) \<Rightarrow> (Inl ErrTokenRevoked, w2))
                else (case err of
                        Some e \<Rightarrow> (Inl e, w1)
                      | None \<Rightarrow> (Inr (rv_tokenPair l), w1)))))"

definition Logout_Execute ::
  "crypto \<Rightarrow> 's LogoutUsecase \<Rightarrow> ctx \<Rightarrow> LogoutRequest \<Rightarrow> 's world \<Rightarrow>
   go_error option \<times> 's world" where
  "Logout_Execute cp u c req w =
     (case Validate (ou_validator u) (V_Logout req) of
        Some err \<Rightarrow> (Some err, w)
      | None \<Rightarrow> on_db (ar_RevokeToken (ou_authRepo u) c (HashSHA256 cp (or_RefreshToken req))) w)"

end
