(* ===== verification/Auth_Specs.thy ===== *)
theory Auth_Specs
  imports Auth_Usecases
begin

text \<open>
  What the auth use cases do to the tables: the postconditions of login, rotation, replay
  and logout, proved in the locale \<open>auth_store\<close>, which puts the three contracts the use
  cases rely on together. The PostgreSQL implementations provide it.
\<close>

definition token_for :: "crypto \<Rightarrow> user \<Rightarrow> string \<Rightarrow> time \<Rightarrow> refresh_token \<Rightarrow> bool" where
  "token_for cp usr raw ex t \<longleftrightarrow> t_UserID t = u_ID usr \<and> t_Token t = HashSHA256 cp raw \<and>
     \<not> t_Revoked t \<and> t_ExpiresAt t = ex"

text \<open>
  The closure of the refresh after the checks on the row it has read: what remains when
  the statements of two concurrent transactions interleave after both have read the row.
\<close>

definition refresh_rotate ::
  "crypto \<Rightarrow> jwt \<Rightarrow> 's RefreshUsecase \<Rightarrow> string \<Rightarrow> refresh_token \<Rightarrow> ('s, refresh_vars) tx_body" where
  "refresh_rotate cp jw u tokenHash stored txCtx wl =
     (case wl of (w2, l) \<Rightarrow>
     (case on_db (ar_RevokeToken (ru_authRepo u) txCtx tokenHash) w2 of
        (Some err, w3) \<Rightarrow> (Some err, w3, l)
      | (None, w3) \<Rightarrow>
     (case on_db (up_FindByID (ru_userProvider u) txCtx (t_UserID stored)) w3 of
        (Inl err, w4) \<Rightarrow> (Some err, w4, l)
      | (Inr usr, w4) \<Rightarrow>
     (case GenerateToken jw (u_ID usr) (u_Role usr) (ru_jwtSecret u) (ru_accessTTL u) w4 of
        (Inl err, w5) \<Rightarrow> (Some err, w5, l)
      | (Inr accessToken, w5) \<Rightarrow>
     (case GenerateRandomHex 32 w5 of
        (Inl err, w6) \<Rightarrow> (Some err, w6, l)
      | (Inr rawRefresh, w6) \<Rightarrow>
     (case time_Now w6 of (now, w7) \<Rightarrow>
        (let newToken =
               \<lparr>t_ID = 0, t_UserID = u_ID usr, t_Token = HashSHA256 cp rawRefresh,
                t_Revoked = False, t_ExpiresAt = time_Add now (ru_refreshTTL u),
                t_CreatedAt = zero_time\<rparr>
         in case on_db (ar_CreateToken (ru_authRepo u) txCtx newToken) w7 of
              (Some err, w8) \<Rightarrow> (Some err, w8, l)
            | (None, w8) \<Rightarrow>
                (None, w8, l\<lparr>rv_tokenPair :=
                  Some \<lparr>tp_AccessToken = accessToken, tp_RefreshToken = rawRefresh\<rparr>\<rparr>))))))))"

lemma refresh_body_rotate:
  assumes "on_db (ar_FindTokenByValue (ru_authRepo u) c h) w = (Inr stored, w1)"
    and "\<not> t_Revoked stored" and "time_Now w1 = (now, w2)" and "\<not> IsExpired stored now"
  shows "refresh_body cp jw u h c (w, l) = refresh_rotate cp jw u h stored c (w2, l)"
  using assms by (simp add: refresh_body_def refresh_rotate_def)

locale auth_store =
  auth_repository r view + user_lookup p view + tx_manager run view
  for r :: "'s auth_repo" and p :: "'s user_provider"
    and run :: "('s, refresh_vars) tx_runner" and view :: "'s \<Rightarrow> db_handle \<Rightarrow> tables"
begin

section \<open>Login\<close>

lemma Login_ok:
  assumes "Login_Execute cp jw (NewLoginUsecase r p v cfg) c req w = (Inr pair, w')"
  shows "\<exists>usr raw t. users (view (w_db w) (handle c)) (u_ID usr) = Some usr \<and>
           u_Email usr = lr_Email req \<and>
           CheckPassword cp (lr_Password req) (u_Password usr) = None \<and>
           fst (GenerateToken jw (u_ID usr) (u_Role usr) (tc_SecretKey cfg) (tc_AccessTTL cfg) w)
             = Inr (tp_AccessToken pair) \<and>
           w_entropy w (w_draws w) 32 = Inr raw \<and> tp_RefreshToken pair = hex_EncodeToString raw \<and>
           token_for cp usr (tp_RefreshToken pair)
             (time_Add (w_clock w (Suc (w_ticks w))) (tc_RefreshTTL cfg)) t \<and>
           tokens (view (w_db w) (handle c)) (t_Token t) = None \<and>
           world_effect view c w w' (ins_token t)"
proof -
  from assms obtain usr d w2 raw d' where
      e: "up_FindByEmail p c (lr_Email req) (w_db w) = (Inr usr, d)"
    and pw: "CheckPassword cp (lr_Password req) (u_Password usr) = None"
    and g: "GenerateToken jw (u_ID usr) (u_Role usr) (tc_SecretKey cfg) (tc_AccessTTL cfg)
              (w\<lparr>w_db := d\<rparr>) = (Inr (tp_AccessToken pair), w2)"
    and raw: "w_entropy w2 (w_draws w2) 32 = Inr raw" "tp_RefreshToken pair = hex_EncodeToString raw"
    and cr: "ar_CreateToken r c \<lparr>t_ID = 0, t_UserID = u_ID usr, t_Token = HashSHA256 cp (hex_EncodeToString raw),
        t_Revoked = False, t_ExpiresAt = time_Add (w_clock w2 (w_ticks w2)) (tc_RefreshTTL cfg),
        t_CreatedAt = zero_time\<rparr> (w_db w2) = (None, d')"
    and w': "w_db w' = d'"
    by (auto simp: Login_Execute_def auth_constructors on_db_def time_Now_def Let_def
        GenerateRandomHex_eq split: option.splits sum.splits prod.splits)
  from GenerateToken_world [OF g] have w2: "w2 = w\<lparr>w_db := d, w_ticks := Suc (w_ticks w)\<rparr>" by simp
  have g': "fst (GenerateToken jw (u_ID usr) (u_Role usr) (tc_SecretKey cfg) (tc_AccessTTL cfg) w)
      = Inr (tp_AccessToken pair)"
    using g by (auto simp: GenerateToken_def time_Now_def Let_def split: sum.splits)
  from Create_ok [OF cr] obtain t where none: "tokens (view d (handle c)) (HashSHA256 cp (hex_EncodeToString raw)) = None"
    and t: "token_for cp usr (tp_RefreshToken pair)
              (time_Add (w_clock w (Suc (w_ticks w))) (tc_RefreshTTL cfg)) t"
    and eff: "db_effect view (handle c) d d' (ins_token t)"
    by (auto simp: w2 same_token_def token_for_def raw)
  have "t_Token t = HashSHA256 cp (hex_EncodeToString raw)" using t raw by (simp add: token_for_def)
  with ByEmail_view [OF e] ByEmail_ok [OF e] pw g' raw t none eff w' w2 show ?thesis
    by (intro exI [of _ usr] exI [of _ raw] exI [of _ t]) (simp add: world_effect_def db_effect_def)
qed

lemma Login_err:
  assumes "Login_Execute cp jw (NewLoginUsecase r p v cfg) c req w = (Inl e, w')"
  shows "world_effect view c w w' id"
  using assms
  by (auto simp: Login_Execute_def auth_constructors on_db_def time_Now_def Let_def
      world_effect_def db_effect_def GenerateRandomHex_eq
      split: option.splits sum.splits prod.splits
      dest!: ByEmail_view Create_err GenerateToken_world)

lemma Login_refused:
  assumes "v (V_Login req) = None"
    and "\<And>usr. users (view (w_db w) (handle c)) (u_ID usr) = Some usr \<Longrightarrow>
           u_Email usr = lr_Email req \<Longrightarrow>
           CheckPassword cp (lr_Password req) (u_Password usr) \<noteq> None"
  shows "fst (Login_Execute cp jw (NewLoginUsecase r p v cfg) c req w) = Inl ErrInvalidCredentials"
proof -
  obtain x d where e: "up_FindByEmail p c (lr_Email req) (w_db w) = (x, d)" by fastforce
  have "CheckPassword cp (lr_Password req) (u_Password usr) \<noteq> None" if "x = Inr usr" for usr
    using ByEmail_ok [of c _ _ usr] e that assms(2) by blast
  with e assms(1) show ?thesis
    by (auto simp: Login_Execute_def auth_constructors on_db_def Validate_def
        split: option.splits sum.splits)
qed

section \<open>Rotation\<close>

text \<open>
  A run of the closure on the transaction \<open>tx\<close>, in the tables the transaction sees.
\<close>

lemma refresh_body_frame:
  assumes "refresh_body cp jw (NewRefreshUsecase r p v run cfg) h c (w, l) = (x, w', l')"
    and "ctx_tx c = Some tx"
  shows "view (w_db w') DefaultDB = view (w_db w) DefaultDB"
  using assms
  by (auto simp: refresh_body_def auth_constructors on_db_def time_Now_def Let_def
      GenerateRandomHex_eq db_effect_def
      split: option.splits sum.splits prod.splits if_splits
      dest!: Find_view ByID_view Revoke_ok Revoke_err Create_ok Create_err GenerateToken_world)

lemma refresh_body_replay:
  assumes "refresh_body cp jw (NewRefreshUsecase r p v run cfg) h c (w, l) = (x, w', l')"
    and "ctx_tx c = Some tx" and "\<not> rv_isReplayAttack l"
  shows "rv_isReplayAttack l' \<longleftrightarrow>
           (\<exists>old d. ar_FindTokenByValue r c h (w_db w) = (Inr old, d) \<and> t_Revoked old)"
    and "rv_isReplayAttack l' \<Longrightarrow> x = Some ErrTokenRevoked \<and>
           (\<exists>old. tokens (view (w_db w) (TxDB tx)) h = Some old \<and> t_Revoked old \<and>
                  rv_replayUserID l' = t_UserID old)"
  using assms
  by (auto simp: refresh_body_def auth_constructors on_db_def time_Now_def Let_def
      split: option.splits sum.splits prod.splits if_splits dest: Find_ok)

lemma refresh_body_ok:
  assumes run: "refresh_body cp jw (NewRefreshUsecase r p v run cfg) h c (w, l) = (None, w', l')"
    and tx: "ctx_tx c = Some tx"
  defines "T \<equiv> view (w_db w) (TxDB tx)"
  shows "\<exists>old usr pair raw t. tokens T h = Some old \<and> \<not> t_Revoked old \<and>
           \<not> IsExpired old (w_clock w (w_ticks w)) \<and>
           users T (t_UserID old) = Some usr \<and> u_ID usr = t_UserID old \<and>
           fst (GenerateToken jw (u_ID usr) (u_Role usr) (tc_SecretKey cfg) (tc_AccessTTL cfg)
                  (w\<lparr>w_ticks := Suc (w_ticks w)\<rparr>)) = Inr (tp_AccessToken pair) \<and>
           w_entropy w (w_draws w) 32 = Inr raw \<and> tp_RefreshToken pair = hex_EncodeToString raw \<and>
           token_for cp usr (tp_RefreshToken pair)
             (time_Add (w_clock w (Suc (Suc (w_ticks w)))) (tc_RefreshTTL cfg)) t \<and>
           t_Token t \<noteq> h \<and> tokens T (t_Token t) = None \<and>
           view (w_db w') (TxDB tx) = ins_token t (revoke_row h T) \<and>
           l' = l\<lparr>rv_tokenPair := Some pair\<rparr>"
proof -
  from run obtain old d d1 usr d2 w2 acc raw d3 where
      f: "ar_FindTokenByValue r c h (w_db w) = (Inr old, d)"
    and ok: "\<not> t_Revoked old" "\<not> IsExpired old (w_clock w (w_ticks w))"
    and rv: "ar_RevokeToken r c h d = (None, d1)"
    and u: "up_FindByID p c (t_UserID old) d1 = (Inr usr, d2)"
    and g: "GenerateToken jw (u_ID usr) (u_Role usr) (tc_SecretKey cfg) (tc_AccessTTL cfg)
              (w\<lparr>w_ticks := Suc (w_ticks w), w_db := d2\<rparr>) = (Inr acc, w2)"
    and raw: "w_entropy w2 (w_draws w2) 32 = Inr raw"
    and cr: "ar_CreateToken r c \<lparr>t_ID = 0, t_UserID = u_ID usr,
        t_Token = HashSHA256 cp (hex_EncodeToString raw), t_Revoked = False,
        t_ExpiresAt = time_Add (w_clock w2 (w_ticks w2)) (tc_RefreshTTL cfg),
        t_CreatedAt = zero_time\<rparr> (w_db w2) = (None, d3)"
    and w': "w_db w' = d3"
    and l': "l' = l\<lparr>rv_tokenPair := Some \<lparr>tp_AccessToken = acc,
                 tp_RefreshToken = hex_EncodeToString raw\<rparr>\<rparr>"
    by (auto simp: refresh_body_def auth_constructors on_db_def time_Now_def Let_def
        GenerateRandomHex_eq split: option.splits sum.splits prod.splits if_splits)
  define pair where "pair = \<lparr>tp_AccessToken = acc, tp_RefreshToken = hex_EncodeToString raw\<rparr>"
  from GenerateToken_world [OF g]
  have w2: "w2 = w\<lparr>w_ticks := Suc (Suc (w_ticks w)), w_db := d2\<rparr>" by simp
  have g': "fst (GenerateToken jw (u_ID usr) (u_Role usr) (tc_SecretKey cfg) (tc_AccessTTL cfg)
      (w\<lparr>w_ticks := Suc (w_ticks w)\<rparr>)) = Inr (tp_AccessToken pair)"
    using g by (auto simp: GenerateToken_def time_Now_def Let_def pair_def split: sum.splits)
  have old: "tokens T h = Some old" using Find_ok [OF f] tx by (simp add: T_def)
  have T1: "view d1 (TxDB tx) = revoke_row h T"
    using Revoke_ok [OF rv] Find_view [OF f] tx by (simp add: T_def db_effect_def)
  have usr: "users T (t_UserID old) = Some usr" "u_ID usr = t_UserID old"
    using ByID_ok [OF u] tx T1 by simp_all
  from Create_ok [OF cr] ByID_view [OF u] tx T1 obtain t where
      none: "tokens (revoke_row h T) (HashSHA256 cp (hex_EncodeToString raw)) = None"
    and t: "token_for cp usr (tp_RefreshToken pair)
              (time_Add (w_clock w (Suc (Suc (w_ticks w)))) (tc_RefreshTTL cfg)) t"
    and eff: "view d3 (TxDB tx) = ins_token t (revoke_row h T)"
    by (auto simp: w2 same_token_def token_for_def pair_def db_effect_def)
  have key: "t_Token t = HashSHA256 cp (hex_EncodeToString raw)"
    using t by (simp add: token_for_def pair_def)
  have ne: "t_Token t \<noteq> h" using none old key by auto
  with none key have "tokens T (t_Token t) = None" by simp
  with old ok usr g' raw t ne eff w' l' w2 show ?thesis
    by (intro exI [of _ old] exI [of _ usr] exI [of _ pair] exI [of _ raw] exI [of _ t])
       (simp add: pair_def)
qed

text \<open>Outside a transaction the closure runs on a fresh one, or not at all.\<close>

lemma Refresh_cases:
  assumes run: "Refresh_Execute cp jw (NewRefreshUsecase r p v run cfg) c req w = (x, w')"
    and tx: "ctx_tx c = None"
  obtains (invalid) e where "v (V_Refresh req) = Some e" "x = Inl (Wrap CodeInvalidInput ''validation failed'' e)" "w' = w"
  | (no_txn) e where "v (V_Refresh req) = None" "txn_begin_failed view w (Some e) w'" "x = Inl e"
  | (ran) tx d0 y w1 l oe w2 where "v (V_Refresh req) = None"
      "view d0 (TxDB tx) = view (w_db w) DefaultDB" "view d0 DefaultDB = view (w_db w) DefaultDB"
      "refresh_body cp jw (NewRefreshUsecase r p v run cfg) (HashSHA256 cp (rr_RefreshToken req))
         (c\<lparr>ctx_tx := Some tx\<rparr>) (w\<lparr>w_db := d0\<rparr>,
           \<lparr>rv_tokenPair = None, rv_isReplayAttack = False, rv_replayUserID = 0\<rparr>) = (y, w1, l)"
      "txn_ended view tx d0 y w1 oe w2"
      "if rv_isReplayAttack l
       then x = Inl ErrTokenRevoked \<and>
            (\<exists>z d. ar_RevokeAllUserTokens r c (rv_replayUserID l) (w_db w2) = (z, d) \<and> w' = w2\<lparr>w_db := d\<rparr>)
       else w' = w2 \<and> x = (case oe of Some e \<Rightarrow> Inl e | None \<Rightarrow> Inr (rv_tokenPair l))"
proof (cases "v (V_Refresh req)")
  case (Some e)
  with run show ?thesis
    by (intro invalid) (auto simp: Refresh_Execute_def auth_constructors Validate_def)
next
  case None
  define l0 where "l0 = \<lparr>rv_tokenPair = None, rv_isReplayAttack = False, rv_replayUserID = 0\<rparr>"
  obtain oe w2 l where t: "run c (refresh_body cp jw (NewRefreshUsecase r p v run cfg)
      (HashSHA256 cp (rr_RefreshToken req))) (w, l0) = (oe, w2, l)"
    by (metis prod_cases3)
  have body: "if rv_isReplayAttack l
       then x = Inl ErrTokenRevoked \<and>
            (\<exists>z d. ar_RevokeAllUserTokens r c (rv_replayUserID l) (w_db w2) = (z, d) \<and> w' = w2\<lparr>w_db := d\<rparr>)
       else w' = w2 \<and> x = (case oe of Some e \<Rightarrow> Inl e | None \<Rightarrow> Inr (rv_tokenPair l))"
    using run None t
    by (auto simp: Refresh_Execute_def auth_constructors Validate_def l0_def on_db_def Let_def
        split: prod.splits option.splits)
  from run_outer [OF tx t] show ?thesis
  proof (elim disjE conjE exE)
    assume "txn_begin_failed view w oe w2" "l = l0"
    moreover from this obtain e where "oe = Some e" by (auto simp: txn_begin_failed_def)
    ultimately show ?thesis using body None by (intro no_txn [of e]) (simp_all add: l0_def)
  next
    fix tx d0 y w1
    assume "view d0 (TxDB tx) = view (w_db w) DefaultDB" "view d0 DefaultDB = view (w_db w) DefaultDB"
      "refresh_body cp jw (NewRefreshUsecase r p v run cfg) (HashSHA256 cp (rr_RefreshToken req))
         (c\<lparr>ctx_tx := Some tx\<rparr>) (w\<lparr>w_db := d0\<rparr>, l0) = (y, w1, l)"
      "txn_ended view tx d0 y w1 oe w2"
    with body None show ?thesis by (intro ran) (auto simp: l0_def)
  qed
qed

lemma Refresh_ok:
  assumes run: "Refresh_Execute cp jw (NewRefreshUsecase r p v run cfg) c req w = (Inr q, w')"
    and tx: "ctx_tx c = None"
  defines "h \<equiv> HashSHA256 cp (rr_RefreshToken req)" and "T \<equiv> view (w_db w) DefaultDB"
  shows "\<exists>old usr pair raw t. q = Some pair \<and> tokens T h = Some old \<and> \<not> t_Revoked old \<and>
           \<not> IsExpired old (w_clock w (w_ticks w)) \<and>
           users T (t_UserID old) = Some usr \<and> u_ID usr = t_UserID old \<and>
           fst (GenerateToken jw (u_ID usr) (u_Role usr) (tc_SecretKey cfg) (tc_AccessTTL cfg)
                  (w\<lparr>w_ticks := Suc (w_ticks w)\<rparr>)) = Inr (tp_AccessToken pair) \<and>
           w_entropy w (w_draws w) 32 = Inr raw \<and> tp_RefreshToken pair = hex_EncodeToString raw \<and>
           token_for cp usr (tp_RefreshToken pair)
             (time_Add (w_clock w (Suc (Suc (w_ticks w)))) (tc_RefreshTTL cfg)) t \<and>
           t_Token t \<noteq> h \<and> tokens T (t_Token t) = None \<and>
           view (w_db w') DefaultDB = ins_token t (revoke_row h T)"
  using run tx
proof (cases rule: Refresh_cases)
  case (ran tx d0 y w1 l oe w2)
  from ran(6) have nr: "\<not> rv_isReplayAttack l" and oe: "oe = None" and q: "q = rv_tokenPair l"
    and w2: "w' = w2"
    by (auto split: if_splits option.splits)
  note body = ran(4) [folded h_def]
  have T0: "view d0 (TxDB tx) = T" using ran(2) by (simp add: T_def)
  have fr: "view (w_db w1) DefaultDB = view d0 DefaultDB"
    using refresh_body_frame [OF body, of tx] by simp
  with ran(5) oe have y: "y = None"
    and T': "view (w_db w2) DefaultDB = view (w_db w1) (TxDB tx)"
    by (auto simp: txn_ended_def split: option.splits)
  note ok = refresh_body_ok [OF body [unfolded y], of tx]
  from GenerateToken_db_indep ok T0 T' q w2 show ?thesis by (auto simp: GenerateToken_db_indep)
qed auto

lemma Refresh_err:
  assumes run: "Refresh_Execute cp jw (NewRefreshUsecase r p v run cfg) c req w = (Inl e, w')"
    and tx: "ctx_tx c = None"
  defines "h \<equiv> HashSHA256 cp (rr_RefreshToken req)" and "T \<equiv> view (w_db w) DefaultDB"
  shows "view (w_db w') DefaultDB = T \<or>
         (\<exists>old. e = ErrTokenRevoked \<and> tokens T h = Some old \<and> t_Revoked old \<and>
                view (w_db w') DefaultDB = revoke_rows_of (t_UserID old) T)"
  using run tx
proof (cases rule: Refresh_cases)
  case (ran tx d0 y w1 l oe w2)
  note body = ran(4) [folded h_def]
  have T0: "view d0 (TxDB tx) = T" "view d0 DefaultDB = T" using ran(2,3) by (simp_all add: T_def)
  have fr: "view (w_db w1) DefaultDB = view d0 DefaultDB"
    using refresh_body_frame [OF body, of tx] by simp
  show ?thesis
  proof (cases "rv_isReplayAttack l")
    case True
    from refresh_body_replay(2) [OF body, of tx] True T0 obtain old where
      y: "y = Some ErrTokenRevoked" and old: "tokens T h = Some old" "t_Revoked old"
        "rv_replayUserID l = t_UserID old" by auto
    from ran(5) fr y T0 have T2: "view (w_db w2) DefaultDB = T" by (auto simp: txn_ended_def)
    from ran(6) True obtain z d where e: "e = ErrTokenRevoked"
      and z: "ar_RevokeAllUserTokens r c (rv_replayUserID l) (w_db w2) = (z, d)" "w' = w2\<lparr>w_db := d\<rparr>"
      by auto
    have "view d DefaultDB = T \<or> view d DefaultDB = revoke_rows_of (t_UserID old) T"
      using z T2 old tx by (cases z) (auto dest!: RevokeAll_ok RevokeAll_err simp: db_effect_def)
    with z e old show ?thesis by auto
  next
    case False
    with ran(6) have "w' = w2" "oe = Some e" by (auto split: option.splits)
    with ran(5) fr T0 show ?thesis by (cases y) (auto simp: txn_ended_def)
  qed
qed (auto simp: txn_begin_failed_def T_def)

section \<open>Logout\<close>

lemma Logout_ok:
  assumes "Logout_Execute cp (NewLogoutUsecase r v) c req w = (None, w')"
  shows "v (V_Logout req) = None"
    and "tokens (view (w_db w) (handle c)) (HashSHA256 cp (or_RefreshToken req)) \<noteq> None"
    and "world_effect view c w w' (revoke_row (HashSHA256 cp (or_RefreshToken req)))"
proof -
  from assms obtain d where "v (V_Logout req) = None" "w' = w\<lparr>w_db := d\<rparr>"
    and d: "ar_RevokeToken r c (HashSHA256 cp (or_RefreshToken req)) (w_db w) = (None, d)"
    by (auto simp: Logout_Execute_def auth_constructors on_db_eq split: option.splits)
  with Revoke_ok [OF d] show "v (V_Logout req) = None"
    and "tokens (view (w_db w) (handle c)) (HashSHA256 cp (or_RefreshToken req)) \<noteq> None"
    and "world_effect view c w w' (revoke_row (HashSHA256 cp (or_RefreshToken req)))"
    by (simp_all add: world_effect_def)
qed

lemma Logout_err:
  assumes "Logout_Execute cp (NewLogoutUsecase r v) c req w = (Some e, w')"
  shows "world_effect view c w w' id"
  using assms
  by (auto simp: Logout_Execute_def auth_constructors on_db_eq world_effect_def db_effect_def
      split: option.splits dest!: Revoke_err)

end

section \<open>While the database answers\<close>

locale auth_store_up = auth_store r p run view
  for r :: "'s auth_repo" and p :: "'s user_provider"
    and run :: "('s, refresh_vars) tx_runner" and view :: "'s \<Rightarrow> db_handle \<Rightarrow> tables" +
  assumes Find_up: "tokens (view s (handle c)) k = Some t \<Longrightarrow>
          \<exists>s'. ar_FindTokenByValue r c k s = (Inr t, s')"
    and RevokeAll_up: "\<exists>s'. ar_RevokeAllUserTokens r c i s = (None, s')"
    and Revoke_up: "tokens (view s (handle c)) k \<noteq> None \<Longrightarrow> \<exists>s'. ar_RevokeToken r c k s = (None, s')"
    and Create_up: "tokens (view s (handle c)) (t_Token t) = None \<Longrightarrow>
          users (view s (handle c)) (t_UserID t) \<noteq> None \<Longrightarrow> \<exists>s'. ar_CreateToken r c t s = (None, s')"
    and ByID_up: "users (view s (handle c)) i = Some u \<Longrightarrow> \<exists>s'. up_FindByID p c i s = (Inr u, s')"
    and ByEmail_up: "email_taken (view s (handle c)) m \<Longrightarrow> \<exists>u s'. up_FindByEmail p c m s = (Inr u, s')"
    and run_up: "ctx_tx c = None \<Longrightarrow> run c f (w, l) = (oe, w', l') \<Longrightarrow>
          \<exists>tx d0 w1. view d0 (TxDB tx) = view (w_db w) DefaultDB \<and>
             f (c\<lparr>ctx_tx := Some tx\<rparr>) (w\<lparr>w_db := d0\<rparr>, l) = (oe, w1, l')"
begin

text \<open>
  With the database up, login fails for a registered email and its password only if the
  signing or the entropy source does.
\<close>

lemma Login_succeeds:
  assumes v: "v (V_Login req) = None"
    and usr: "users (view (w_db w) (handle c)) (u_ID usr) = Some usr" "u_Email usr = lr_Email req"
    and only: "\<And>u. users (view (w_db w) (handle c)) (u_ID u) = Some u \<Longrightarrow> u_Email u = lr_Email req \<Longrightarrow> u = usr"
    and pw: "CheckPassword cp (lr_Password req) (u_Password usr) = None"
    and sgn: "fst (GenerateToken jw (u_ID usr) (u_Role usr) (tc_SecretKey cfg) (tc_AccessTTL cfg) w) = Inr acc"
    and raw: "w_entropy w (w_draws w) 32 = Inr raw"
    and free: "tokens (view (w_db w) (handle c)) (HashSHA256 cp (hex_EncodeToString raw)) = None"
  shows "fst (Login_Execute cp jw (NewLoginUsecase r p v cfg) c req w) =
           Inr \<lparr>tp_AccessToken = acc, tp_RefreshToken = hex_EncodeToString raw\<rparr>"
proof -
  have "email_taken (view (w_db w) (handle c)) (lr_Email req)"
    using usr by (auto simp: email_taken_def)
  from ByEmail_up [OF this] obtain u d where e: "up_FindByEmail p c (lr_Email req) (w_db w) = (Inr u, d)"
    by blast
  have u: "u = usr" using only ByEmail_ok [OF e] by simp
  obtain w2 where g: "GenerateToken jw (u_ID usr) (u_Role usr) (tc_SecretKey cfg) (tc_AccessTTL cfg)
      (w\<lparr>w_db := d\<rparr>) = (Inr acc, w2)"
    using sgn by (metis GenerateToken_db_indep(1) prod.collapse)
  have w2: "w2 = w\<lparr>w_db := d, w_ticks := Suc (w_ticks w)\<rparr>" using GenerateToken_world [OF g] by simp
  have "\<exists>s'. ar_CreateToken r c t d = (None, s')"
    if "t_Token t = HashSHA256 cp (hex_EncodeToString raw)" "t_UserID t = u_ID usr" for t
    using Create_up [of d c t] that ByEmail_view [OF e] free usr by simp
  from this [of "\<lparr>t_ID = 0, t_UserID = u_ID usr, t_Token = HashSHA256 cp (hex_EncodeToString raw),
      t_Revoked = False, t_ExpiresAt = time_Add (w_clock w (Suc (w_ticks w))) (tc_RefreshTTL cfg),
      t_CreatedAt = zero_time\<rparr>"] obtain d' where
    "ar_CreateToken r c \<lparr>t_ID = 0, t_UserID = u_ID usr, t_Token = HashSHA256 cp (hex_EncodeToString raw),
      t_Revoked = False, t_ExpiresAt = time_Add (w_clock w (Suc (w_ticks w))) (tc_RefreshTTL cfg),
      t_CreatedAt = zero_time\<rparr> d = (None, d')" by auto
  with v e u pw g w2 raw show ?thesis
    by (simp add: Login_Execute_def auth_constructors Validate_def on_db_def time_Now_def
        GenerateRandomHex_def rand_Read_def)
qed

text \<open>
  The rotation does not look at the row again: whatever the row of \<open>h\<close> has become since it
  was read, in particular revoked by another transaction, the rotation succeeds.
\<close>

lemma rotate_ignores_row:
  assumes row: "tokens (view (w_db w) (handle c)) h \<noteq> None"
    and usr: "users (view (w_db w) (handle c)) (t_UserID stored) = Some usr" "u_ID usr = t_UserID stored"
    and sgn: "fst (GenerateToken jw (u_ID usr) (u_Role usr) (tc_SecretKey cfg) (tc_AccessTTL cfg) w) = Inr acc"
    and raw: "w_entropy w (w_draws w) 32 = Inr raw"
    and free: "tokens (view (w_db w) (handle c)) (HashSHA256 cp (hex_EncodeToString raw)) = None"
    and ne: "h \<noteq> HashSHA256 cp (hex_EncodeToString raw)"
  shows "\<exists>w' l'. refresh_rotate cp jw (NewRefreshUsecase r p v run cfg) h stored c (w, l) = (None, w', l') \<and>
             rv_tokenPair l' = Some \<lparr>tp_AccessToken = acc, tp_RefreshToken = hex_EncodeToString raw\<rparr>"
proof -
  from Revoke_up [OF row] obtain d1 where rv: "ar_RevokeToken r c h (w_db w) = (None, d1)" by blast
  have T1: "view d1 (handle c) = revoke_row h (view (w_db w) (handle c))"
    using Revoke_ok [OF rv] by (simp add: db_effect_def)
  obtain d2 where f: "up_FindByID p c (t_UserID stored) d1 = (Inr usr, d2)"
    using ByID_up [of d1 c "t_UserID stored" usr] T1 usr by auto
  obtain w2 where g: "GenerateToken jw (u_ID usr) (u_Role usr) (tc_SecretKey cfg) (tc_AccessTTL cfg)
      (w\<lparr>w_db := d2\<rparr>) = (Inr acc, w2)"
    using sgn by (metis GenerateToken_db_indep(1) prod.collapse)
  have w2: "w2 = w\<lparr>w_db := d2, w_ticks := Suc (w_ticks w)\<rparr>" using GenerateToken_world [OF g] by simp
  have "\<exists>s'. ar_CreateToken r c t d2 = (None, s')"
    if "t_Token t = HashSHA256 cp (hex_EncodeToString raw)" "t_UserID t = u_ID usr" for t
    using Create_up [of d2 c t] that ByID_view [OF f] T1 free usr ne by simp
  from this [of "\<lparr>t_ID = 0, t_UserID = u_ID usr, t_Token = HashSHA256 cp (hex_EncodeToString raw),
      t_Revoked = False, t_ExpiresAt = time_Add (w_clock w (Suc (w_ticks w))) (tc_RefreshTTL cfg),
      t_CreatedAt = zero_time\<rparr>"] obtain d' where
    "ar_CreateToken r c \<lparr>t_ID = 0, t_UserID = u_ID usr, t_Token = HashSHA256 cp (hex_EncodeToString raw),
      t_Revoked = False, t_ExpiresAt = time_Add (w_clock w (Suc (w_ticks w))) (tc_RefreshTTL cfg),
      t_CreatedAt = zero_time\<rparr> d2 = (None, d')" by auto
  with rv f g w2 raw show ?thesis
    by (simp add: refresh_rotate_def auth_constructors on_db_def time_Now_def
        GenerateRandomHex_def rand_Read_def)
qed

lemma Refresh_replay:
  fixes cp :: crypto and req :: RefreshTokenRequest and w :: "'s world"
  assumes tx: "ctx_tx c = None" and ok: "v (V_Refresh req) = None"
  defines "h \<equiv> HashSHA256 cp (rr_RefreshToken req)" and "T \<equiv> view (w_db w) DefaultDB"
  assumes old: "tokens T h = Some old" "t_Revoked old"
  shows "\<exists>w'. Refresh_Execute cp jw (NewRefreshUsecase r p v run cfg) c req w
                = (Inl ErrTokenRevoked, w') \<and>
              view (w_db w') DefaultDB = revoke_rows_of (t_UserID old) T"
proof -
  obtain x w' where run: "Refresh_Execute cp jw (NewRefreshUsecase r p v run cfg) c req w = (x, w')"
    by fastforce
  define l0 where "l0 = \<lparr>rv_tokenPair = None, rv_isReplayAttack = False, rv_replayUserID = 0\<rparr>"
  obtain oe w2 l where t: "run c (refresh_body cp jw (NewRefreshUsecase r p v run cfg) h) (w, l0)
      = (oe, w2, l)" by (metis prod_cases3)
  from run_up [OF tx t] obtain tx d0 w1 where d0: "view d0 (TxDB tx) = T"
    and body: "refresh_body cp jw (NewRefreshUsecase r p v run cfg) h (c\<lparr>ctx_tx := Some tx\<rparr>)
                 (w\<lparr>w_db := d0\<rparr>, l0) = (oe, w1, l)"
    by (auto simp: T_def)
  from Find_up [of d0 "c\<lparr>ctx_tx := Some tx\<rparr>" h old] d0 old
  obtain d where f: "ar_FindTokenByValue r (c\<lparr>ctx_tx := Some tx\<rparr>) h d0 = (Inr old, d)" by auto
  have l: "rv_isReplayAttack l" "rv_replayUserID l = t_UserID old" "oe = Some ErrTokenRevoked"
    using body f old by (auto simp: refresh_body_def auth_constructors on_db_def)
  from run_outer [OF tx t] have T2: "view (w_db w2) DefaultDB = T"
  proof (elim disjE conjE exE)
    fix tx' d1 y w3
    assume a: "view d1 (TxDB tx') = view (w_db w) DefaultDB" "view d1 DefaultDB = view (w_db w) DefaultDB"
      "refresh_body cp jw (NewRefreshUsecase r p v run cfg) h (c\<lparr>ctx_tx := Some tx'\<rparr>)
         (w\<lparr>w_db := d1\<rparr>, l0) = (y, w3, l)" "txn_ended view tx' d1 y w3 oe w2"
    from refresh_body_replay(2) [OF a(3), of tx'] l have "y = Some ErrTokenRevoked"
      by (simp add: l0_def)
    with a refresh_body_frame [OF a(3), of tx'] show ?thesis
      by (auto simp: txn_ended_def T_def)
  qed (auto simp: txn_begin_failed_def T_def)
  obtain d' where d': "ar_RevokeAllUserTokens r c (t_UserID old) (w_db w2) = (None, d')"
    using RevokeAll_up by blast
  with RevokeAll_ok [OF d'] T2 tx have "view d' DefaultDB = revoke_rows_of (t_UserID old) T"
    by (simp add: db_effect_def)
  moreover have "Refresh_Execute cp jw (NewRefreshUsecase r p v run cfg) c req w
      = (Inl ErrTokenRevoked, w2\<lparr>w_db := d'\<rparr>)"
    using t l d' ok
    by (simp add: Refresh_Execute_def auth_constructors Validate_def h_def l0_def on_db_def)
  ultimately show ?thesis by auto
qed

end

section \<open>The PostgreSQL implementations provide the contract\<close>

context gorm_db
begin

lemma contracts:
  "auth_repository (NewAuthRepository g) view"
  "user_repository (NewUserRepository g) view"
  "user_lookup (ProvideUserProvider (NewUserRepository g)) view"
  "tx_manager (RunInTransaction g) view"
  by unfold_locales

end

context gorm_db_up
begin

lemma calls_answer:
  "tokens (view s (handle c)) k = Some t \<Longrightarrow> \<exists>s'. ar_FindTokenByValue (NewAuthRepository g) c k s = (Inr t, s')"
  "\<exists>s'. ar_RevokeAllUserTokens (NewAuthRepository g) c i s = (None, s')"
  "tokens (view s (handle c)) k \<noteq> None \<Longrightarrow> \<exists>s'. ar_RevokeToken (NewAuthRepository g) c k s = (None, s')"
  "ctx_tx c = None \<Longrightarrow> RunInTransaction g c f (w, l) = (oe, w', l') \<Longrightarrow>
     \<exists>tx d0 w1. view d0 (TxDB tx) = view (w_db w) DefaultDB \<and>
       f (c\<lparr>ctx_tx := Some tx\<rparr>) (w\<lparr>w_db := d0\<rparr>, l) = (oe, w1, l')"
  "tokens (view s (handle c)) (t_Token nt) = None \<Longrightarrow> users (view s (handle c)) (t_UserID nt) \<noteq> None \<Longrightarrow>
     \<exists>s'. ar_CreateToken (NewAuthRepository g) c nt s = (None, s')"
  "users (view s (handle c)) i = Some u \<Longrightarrow>
     \<exists>s'. up_FindByID (ProvideUserProvider (NewUserRepository g)) c i s = (Inr u, s')"
  "email_taken (view s (handle c)) m \<Longrightarrow>
     \<exists>u s'. up_FindByEmail (ProvideUserProvider (NewUserRepository g)) c m s = (Inr u, s')"
proof -
  show "tokens (view s (handle c)) (t_Token nt) = None \<Longrightarrow> users (view s (handle c)) (t_UserID nt) \<noteq> None \<Longrightarrow>
      \<exists>s'. ar_CreateToken (NewAuthRepository g) c nt s = (None, s')"
    using Create_token_up [of s "handle c" nt] by (auto simp: auth_repo_defs)
  show "users (view s (handle c)) i = Some u \<Longrightarrow>
      \<exists>s'. up_FindByID (ProvideUserProvider (NewUserRepository g)) c i s = (Inr u, s')"
    using First_user_up [of s "handle c" i u] by (auto simp: user_repo_defs ProvideUserProvider_def)
  show "email_taken (view s (handle c)) m \<Longrightarrow>
      \<exists>u s'. up_FindByEmail (ProvideUserProvider (NewUserRepository g)) c m s = (Inr u, s')"
    using First_email_up [of s "handle c" m] by (auto simp: user_repo_defs ProvideUserProvider_def)
  show "tokens (view s (handle c)) k = Some t \<Longrightarrow>
      \<exists>s'. ar_FindTokenByValue (NewAuthRepository g) c k s = (Inr t, s')"
    using First_token_up [of s "handle c" k t] by (auto simp: auth_repo_defs)
  show "\<exists>s'. ar_RevokeAllUserTokens (NewAuthRepository g) c i s = (None, s')"
    using Update_tokens_of_up [of "handle c" i s] by (auto simp: auth_repo_defs)
  show "tokens (view s (handle c)) k \<noteq> None \<Longrightarrow>
      \<exists>s'. ar_RevokeToken (NewAuthRepository g) c k s = (None, s')"
    using Update_token_up [of "handle c" k s] Update_token_ok [of "handle c" k s]
    by (fastforce simp: auth_repo_defs split: sum.splits prod.splits)
  show "ctx_tx c = None \<Longrightarrow> RunInTransaction g c f (w, l) = (oe, w', l') \<Longrightarrow>
      \<exists>tx d0 w1. view d0 (TxDB tx) = view (w_db w) DefaultDB \<and>
        f (c\<lparr>ctx_tx := Some tx\<rparr>) (w\<lparr>w_db := d0\<rparr>, l) = (oe, w1, l')"
    by (auto simp: RunInTransaction_def TxFromContext_def dest!: Transaction_up)
qed

end

lemma auth_store_gorm:
  "gorm_db g view \<Longrightarrow> auth_store (NewAuthRepository g)
     (ProvideUserProvider (NewUserRepository g)) (RunInTransaction g) view"
  by (intro auth_store.intro gorm_db.contracts)

lemma auth_store_up_gorm:
  "gorm_db_up g view \<Longrightarrow> auth_store_up (NewAuthRepository g)
     (ProvideUserProvider (NewUserRepository g)) (RunInTransaction g) view"
  by (intro auth_store_up.intro auth_store_gorm gorm_db_up.axioms(1) auth_store_up_axioms.intro)
     (assumption | erule (1) gorm_db_up.calls_answer(1) | erule gorm_db_up.calls_answer(2) |
      erule (1) gorm_db_up.calls_answer(3) | erule (2) gorm_db_up.calls_answer(4) |
      erule (2) gorm_db_up.calls_answer(5) | erule (1) gorm_db_up.calls_answer(6) |
      erule (1) gorm_db_up.calls_answer(7))+

text \<open>The reference database, at the captured variables of the rotation.\<close>

abbreviation pg_refresh :: "(pg, refresh_vars) gorm" where
  "pg_refresh \<equiv> pg_gorm"

interpretation pg_auth: auth_store_up "NewAuthRepository pg_refresh"
    "ProvideUserProvider (NewUserRepository pg_refresh)" "RunInTransaction pg_refresh" pg_view
  by (rule auth_store_up_gorm [OF pg_gorm_contract(2)])

end
