(* ===== verification/Middleware.thy ===== *)
theory Middleware
  imports Crypto_Jwt
begin

text \<open>
  The gRPC server interceptors of \<^verbatim>\<open>infrastructure/middleware\<close>, each a function that
  wraps a handler. A handler returns a response and an error like the Go function, or
  panics; the interceptors are composed in \<open>Server\<close> in the order of \<^verbatim>\<open>bootstrap/grpc.go\<close>.
\<close>

section \<open>Handlers\<close>

text \<open>
  \<open>Reply resp err\<close> is the pair the Go function returns, a nil response being \<open>None\<close>.
  \<open>'m\<close> is the type of messages, requests and responses (Go's \<^verbatim>\<open>any\<close>).
\<close>

datatype 'm reply = Reply "'m option" "go_error option" | Panic string

type_synonym ('m, 's) handler = "ctx \<Rightarrow> 'm \<Rightarrow> 's world \<Rightarrow> 'm reply \<times> 's world"

text \<open>An interceptor, with \<^verbatim>\<open>info.FullMethod\<close> as its first argument.\<close>

type_synonym ('m, 's) interceptor = "string \<Rightarrow> ('m, 's) handler \<Rightarrow> ('m, 's) handler"

section \<open>Recovery (recovery_interceptor.go)\<close>

text \<open>\<open>stack\<close> is \<^verbatim>\<open>debug.Stack()\<close>.\<close>

definition RecoveryInterceptor :: "string \<Rightarrow> ('m, 's) interceptor" where
  "RecoveryInterceptor stack fullMethod handler c req w =
     (case handler c req w of
        (Panic r, w1) \<Rightarrow>
          (Reply None (Some (StatusErr Internal ''internal server error'')),
           log_write \<lparr>le_level = ErrorLevel,
                      le_fields = [(''method'', LStr fullMethod), (''panic'', LStr r),
                                   (''stack'', LStr stack)],
                      le_msg = ''panic recovered''\<rparr> w1)
      | (Reply resp err, w1) \<Rightarrow> (Reply resp err, w1))"

section \<open>Errors (error_interceptor.go)\<close>

fun toGRPCCode :: "Code \<Rightarrow> grpc_code" where
  "toGRPCCode CodeNotFound = NotFound"
| "toGRPCCode CodeAlreadyExists = AlreadyExists"
| "toGRPCCode CodeInvalidInput = InvalidArgument"
| "toGRPCCode CodeUnauthorized = Unauthenticated"
| "toGRPCCode CodeForbidden = PermissionDenied"
| "toGRPCCode CodeConflict = AlreadyExists"
| "toGRPCCode CodePrecondition = FailedPrecondition"
| "toGRPCCode CodeInternal = Internal"

text \<open>\<open>now\<close> is the moment at which the interceptor reads \<^verbatim>\<open>ctx.Err()\<close>.\<close>

definition map_error :: "from_error \<Rightarrow> (go_error \<Rightarrow> string) \<Rightarrow> ctx \<Rightarrow> time \<Rightarrow> go_error \<Rightarrow> go_error" where
  "map_error fe txt c now err =
     (case errors_As_AppError err of
        Some (code, message, wrapped) \<Rightarrow>
          (let grpcCode = toGRPCCode code;
               msg = (if code \<noteq> CodeInternal \<and> wrapped \<noteq> None
                      then error_Error txt (AppError code message wrapped) else message)
           in StatusErr grpcCode msg)
      | None \<Rightarrow>
          (if errors_Is err ContextDeadline \<or> ctx_Err c now = Some ContextDeadline
           then StatusErr DeadlineExceeded ''deadline exceeded''
           else if errors_Is err (Sentinel ContextCanceled) \<or>
                   ctx_Err c now = Some (Sentinel ContextCanceled)
           then StatusErr Cancelled ''request canceled''
           else if snd (fe (Some err)) then err
           else StatusErr Internal ''internal server error''))"

definition ErrorInterceptor ::
  "from_error \<Rightarrow> (go_error \<Rightarrow> string) \<Rightarrow> ('m, 's) interceptor" where
  "ErrorInterceptor fe txt fullMethod handler c req w =
     (case handler c req w of
        (Panic r, w1) \<Rightarrow> (Panic r, w1)
      | (Reply resp None, w1) \<Rightarrow> (Reply resp None, w1)
      | (Reply resp (Some err), w1) \<Rightarrow>
          (case time_Now w1 of (now, w2) \<Rightarrow> (Reply None (Some (map_error fe txt c now err)), w2)))"

section \<open>Authentication (auth_interceptor.go)\<close>

definition publicMethods :: "string list" where
  "publicMethods =
     [''/auth.v1.AuthService/Login'', ''/auth.v1.AuthService/Refresh'',
      ''/auth.v1.AuthService/Logout'', ''/user.v1.UserService/CreateUser'',
      ''/health.v1.HealthService/Check'', ''/health.v1.HealthService/Ready'']"

definition md_Get :: "(string \<Rightarrow> string list) \<Rightarrow> string \<Rightarrow> string list" where
  "md_Get md k = md k"

definition UserIDFromContext :: "ctx \<Rightarrow> uint \<times> bool" where
  "UserIDFromContext c = GetUserID c"

definition RoleFromContext :: "ctx \<Rightarrow> string \<times> bool" where
  "RoleFromContext c = GetRole c"

definition extractBearerToken :: "ctx \<Rightarrow> string result" where
  "extractBearerToken c =
     (case ctx_md c of
        None \<Rightarrow> Inl (StatusErr Unauthenticated ''missing metadata'')
      | Some md \<Rightarrow>
          (case md_Get md ''authorization'' of
             [] \<Rightarrow> Inl (StatusErr Unauthenticated ''missing authorization header'')
           | v # vs \<Rightarrow>
               (case SplitN2 CHR '' '' v of
                  [scheme, tok] \<Rightarrow>
                    (if \<not> EqualFold_ascii scheme ''bearer''
                     then Inl (StatusErr Unauthenticated ''invalid authorization header format'')
                     else Inr tok)
                | _ \<Rightarrow> Inl (StatusErr Unauthenticated ''invalid authorization header format''))))"

definition AuthInterceptor ::
  "jwt \<Rightarrow> (go_error \<Rightarrow> string) \<Rightarrow> bytes \<Rightarrow> ('m, 's) interceptor" where
  "AuthInterceptor jw txt secretKey fullMethod handler c req w =
     (if fullMethod \<in> set publicMethods then handler c req w
      else
        (case extractBearerToken c of
           Inl err \<Rightarrow> (Reply None (Some (StatusErr Unauthenticated (error_Error txt err))), w)
         | Inr token \<Rightarrow>
             (case ValidateToken jw token secretKey w of
                (Inl err, w1) \<Rightarrow>
                  (if errors_Is err (Sentinel ErrInvalidSubject)
                   then (Reply None (Some (StatusErr Unauthenticated ''invalid token subject'')), w1)
                   else (Reply None (Some (StatusErr Unauthenticated ''invalid or expired token'')), w1))
              | (Inr claims, w1) \<Rightarrow>
                  (let c1 = WithUserID c (cl_UserID claims);
                       c2 = (if cl_Role claims \<noteq> [] then WithRole c1 (cl_Role claims) else c1)
                   in handler c2 req w1))))"

section \<open>Timeout (timeout_interceptor.go)\<close>

text \<open>The normalisation of the arguments done once, at construction.\<close>

definition effective_default :: "duration \<Rightarrow> duration" where
  "effective_default d = (if sint d \<le> 0 then of_int (15 * second) else d)"

definition effective_timeout ::
  "duration \<Rightarrow> (string \<Rightarrow> duration option) \<Rightarrow> string \<Rightarrow> duration" where
  "effective_timeout d overrides fullMethod =
     (case overrides fullMethod of
        Some custom \<Rightarrow> if 0 < sint custom then custom else effective_default d
      | None \<Rightarrow> effective_default d)"

definition timeout_error :: "ctx \<Rightarrow> time \<Rightarrow> go_error option \<Rightarrow> go_error option" where
  "timeout_error tc now err =
     (case err of
        Some e \<Rightarrow>
          (if errors_Is e ContextDeadline \<or> ctx_Err tc now = Some ContextDeadline
           then Some (StatusErr DeadlineExceeded ''deadline exceeded'')
           else if errors_Is e (Sentinel ContextCanceled) \<or>
                   ctx_Err tc now = Some (Sentinel ContextCanceled)
           then Some (StatusErr Cancelled ''request canceled'')
           else Some e)
      | None \<Rightarrow>
          (if ctx_Err tc now = Some ContextDeadline
           then Some (StatusErr DeadlineExceeded ''deadline exceeded'')
           else if ctx_Err tc now = Some (Sentinel ContextCanceled)
           then Some (StatusErr Cancelled ''request canceled'')
           else None))"

text \<open>
  \<^verbatim>\<open>time.Until\<close> saturates at the bounds of a \<^verbatim>\<open>time.Duration\<close>; the comparisons below read
  the exact difference, which is the same for them.
\<close>

definition TimeoutInterceptor ::
  "duration \<Rightarrow> (string \<Rightarrow> duration option) \<Rightarrow> ('m, 's) interceptor" where
  "TimeoutInterceptor defaultTimeout overrides fullMethod handler c req w =
     (let timeout = effective_timeout defaultTimeout overrides fullMethod;
          (respect, w1) =
            (case ctx_deadline c of
               Some clientDeadline \<Rightarrow>
                 (case time_Now w of (now, w') \<Rightarrow>
                    (let remaining = clientDeadline - now
                     in (0 < remaining \<and> remaining \<le> sint timeout, w')))
             | None \<Rightarrow> (False, w))
      in if respect then handler c req w1
         else
           (case time_Now w1 of (now, w2) \<Rightarrow>
              (let timeoutCtx = WithTimeout c now timeout
               in case handler timeoutCtx req w2 of
                    (Panic r, w3) \<Rightarrow> (Panic r, w3)
                  | (Reply resp err, w3) \<Rightarrow>
                      (case time_Now w3 of (now', w4) \<Rightarrow>
                         (case timeout_error timeoutCtx now' err of
                            Some e \<Rightarrow> (Reply None (Some e), w4)
                          | None \<Rightarrow> (Reply resp None, w4))))))"

section \<open>Logging (logging_interceptor.go)\<close>

text \<open>
  What the interceptor takes from libraries: \<^verbatim>\<open>status.FromError\<close>, \<^verbatim>\<open>code.String()\<close>, the
  marshalling of a message to JSON bytes (\<^verbatim>\<open>protojson\<close>, or \<^verbatim>\<open>encoding/json\<close> for a value that
  is no protobuf message), \<^verbatim>\<open>json.Unmarshal\<close>, and the Unicode tables of \<^verbatim>\<open>strings.ToLower\<close>.
\<close>

record 'm log_libs =
  ll_FromError :: from_error
  ll_CodeString :: "grpc_code \<Rightarrow> string"
  ll_Marshal :: "'m \<Rightarrow> bytes result"
  ll_Unmarshal :: "bytes \<Rightarrow> json result"
  ll_lower :: "string \<Rightarrow> string"

definition parseFullMethod :: "string \<Rightarrow> string \<times> string" where
  "parseFullMethod fullMethod =
     (let trimmed = (case fullMethod of c # s \<Rightarrow> if c = CHR ''/'' then s else fullMethod | [] \<Rightarrow> [])
      in case Split CHR ''/'' trimmed of
           [a, b] \<Rightarrow> (a, b)
         | _ \<Rightarrow> (fullMethod, fullMethod))"

definition sensitiveKeys :: "string list" where
  "sensitiveKeys =
     [''password'', ''old_password'', ''new_password'', ''token'', ''refresh_token'',
      ''access_token'', ''secret'', ''secret_key'', ''authorization'', ''credit_card'', ''cvv'',
      ''card_number'']"

definition isSensitiveKey :: "string \<Rightarrow> bool" where
  "isSensitiveKey key =
     (key \<in> set sensitiveKeys \<or> list_ex (\<lambda>s. Contains key s) sensitiveKeys)"

fun maskSensitive :: "(string \<Rightarrow> string) \<Rightarrow> json \<Rightarrow> json" where
  "maskSensitive low (JObj kvs) =
     JObj (map (\<lambda>(k, item). (k, if isSensitiveKey (ToLower low k) then JStr ''[REDACTED]''
                                 else maskSensitive low item)) kvs)"
| "maskSensitive low (JArr items) = JArr (map (maskSensitive low) items)"
| "maskSensitive low v = v"

definition sanitizePayload :: "'m log_libs \<Rightarrow> 'm option \<Rightarrow> json option" where
  "sanitizePayload L req =
     (case req of
        None \<Rightarrow> None
      | Some m \<Rightarrow>
          (case ll_Marshal L m of
             Inl err \<Rightarrow> Some (JStr ''[unserializable payload]'')
           | Inr rawBytes \<Rightarrow>
               (case ll_Unmarshal L rawBytes of
                  Inl err \<Rightarrow> Some (JStr ''[invalid json payload]'')
                | Inr parsed \<Rightarrow> Some (maskSensitive (ll_lower L) parsed))))"

text \<open>The context handed on: transport metadata, and the request ID when there is one.\<close>

definition first_value :: "ctx \<Rightarrow> string \<Rightarrow> string option" where
  "first_value c k =
     (case ctx_md c of
        None \<Rightarrow> None
      | Some md \<Rightarrow> (case md_Get md k of v # vs \<Rightarrow> Some v | [] \<Rightarrow> None))"

definition enrich_context :: "string \<Rightarrow> ctx \<Rightarrow> ctx" where
  "enrich_context fullMethod c =
     (let (serviceName, methodName) = parseFullMethod fullMethod;
          clientIP = (case ctx_peer c of Some a \<Rightarrow> a | None \<Rightarrow> []);
          requestID = (case first_value c ''x-request-id'' of Some v \<Rightarrow> v | None \<Rightarrow> []);
          userAgent = (case first_value c ''user-agent'' of
                         Some v \<Rightarrow> v
                       | None \<Rightarrow> (case first_value c ''grpcgateway-user-agent'' of
                                    Some v \<Rightarrow> v | None \<Rightarrow> []));
          c1 = WithRPCMetadata c
                 \<lparr>rpc_System = ''grpc'', rpc_Service = serviceName, rpc_Method = methodName,
                  rpc_ClientIP = clientIP, rpc_UserAgent = userAgent\<rparr>
      in if requestID \<noteq> [] then WithRequestID c1 requestID else c1)"

fun grpc_num :: "grpc_code \<Rightarrow> int" where
  "grpc_num OK = 0" | "grpc_num Cancelled = 1" | "grpc_num Unknown = 2"
| "grpc_num InvalidArgument = 3" | "grpc_num DeadlineExceeded = 4" | "grpc_num NotFound = 5"
| "grpc_num AlreadyExists = 6" | "grpc_num PermissionDenied = 7"
| "grpc_num ResourceExhausted = 8" | "grpc_num FailedPrecondition = 9" | "grpc_num Aborted = 10"
| "grpc_num OutOfRange = 11" | "grpc_num Unimplemented = 12" | "grpc_num Internal = 13"
| "grpc_num Unavailable = 14" | "grpc_num DataLoss = 15" | "grpc_num Unauthenticated = 16"

definition log_level_of :: "grpc_code \<Rightarrow> log_level \<times> string" where
  "log_level_of code =
     (if code = OK then (InfoLevel, ''gRPC request completed'')
      else if code \<in> {InvalidArgument, NotFound, AlreadyExists, PermissionDenied,
                       Unauthenticated, FailedPrecondition}
      then (WarnLevel, ''gRPC client error'')
      else (ErrorLevel, ''gRPC server error''))"

text \<open>\<^verbatim>\<open>Duration.Microseconds\<close> cuts towards zero.\<close>

definition Microseconds :: "int \<Rightarrow> int" where
  "Microseconds d = (if 0 \<le> d then d div 1000 else - (- d div 1000))"

definition request_log_entry ::
  "'m log_libs \<Rightarrow> 'm \<Rightarrow> 'm option \<Rightarrow> go_error option \<Rightarrow> int \<Rightarrow> log_entry" where
  "request_log_entry L req resp err duration =
     (let ((code, message), _) = ll_FromError L err;
          (level, text) = log_level_of code
      in \<lparr>le_level = level,
          le_fields =
            [(''rpc.grpc.status_code'', LInt (grpc_num code)),
             (''status'', LStr (ll_CodeString L code)),
             (''duration_ms'', LMicros (Microseconds duration))] @
            (case sanitizePayload L (Some req) of
               Some j \<Rightarrow> [(''request'', LJson j), (''rpc.request.payload'', LJson j)]
             | None \<Rightarrow> []) @
            (if code \<noteq> OK
             then (case sanitizePayload L resp of Some j \<Rightarrow> [(''response'', LJson j)] | None \<Rightarrow> [])
             else []) @
            (if err \<noteq> None then [(''error.message'', LStr message)] else []),
          le_msg = text\<rparr>)"

definition LoggingInterceptor :: "'m log_libs \<Rightarrow> ('m, 's) interceptor" where
  "LoggingInterceptor L fullMethod handler c req w =
     (case time_Now w of (start, w1) \<Rightarrow>
        (case handler (enrich_context fullMethod c) req w1 of
           (Panic r, w2) \<Rightarrow> (Panic r, w2)
         | (Reply resp err, w2) \<Rightarrow>
             (case time_Now w2 of (now, w3) \<Rightarrow>
                (Reply resp err, log_write (request_log_entry L req resp err (now - start)) w3))))"

end
