(* ===== verification/Handlers.thy ===== *)
theory Handlers
  imports Auth_Specs Middleware
begin

text \<open>
  The gRPC handlers of \<^verbatim>\<open>internal/auth/handler\<close>, \<^verbatim>\<open>internal/user/handler\<close> and
  \<^verbatim>\<open>internal/health/handler\<close>, and the readiness check of \<^verbatim>\<open>internal/health/checker\<close>. The
  messages are the generated protobuf types, with the fields the handlers read or write;
  \<^verbatim>\<open>timestamppb.New\<close> is a parameter.
\<close>

section \<open>Messages\<close>

record pb_timestamp =
  ts_Seconds :: int
  ts_Nanos :: int

record pb_user =
  pu_Id :: uint
  pu_Name :: string
  pu_Email :: string
  pu_Role :: string
  pu_Active :: bool
  pu_CreatedAt :: pb_timestamp
  pu_UpdatedAt :: pb_timestamp

datatype serving_status = STATUS_UNSPECIFIED | STATUS_SERVING | STATUS_NOT_SERVING

datatype message =
    PbLoginRequest (lq_email: string) (lq_password: string)
  | PbLoginResponse string string
  | PbRefreshRequest string
  | PbRefreshResponse string string
  | PbLogoutRequest string
  | PbLogoutResponse
  | PbGetUserRequest uint
  | PbGetUserResponse pb_user
  | PbCreateUserRequest string string string
  | PbCreateUserResponse pb_user
  | PbUpdateUserRequest uint string
  | PbUpdateUserResponse pb_user
  | PbDeleteUserRequest uint
  | PbDeleteUserResponse
  | PbHealthCheckRequest
  | PbHealthCheckResponse serving_status string

section \<open>Auth (internal/auth/handler/handler.go)\<close>

record 's AuthHandler =
  ah_loginUsecase :: "'s LoginUsecase"
  ah_refreshUsecase :: "'s RefreshUsecase"
  ah_logoutUsecase :: "'s LogoutUsecase"

definition NewAuthHandler ::
  "'s LoginUsecase \<Rightarrow> 's RefreshUsecase \<Rightarrow> 's LogoutUsecase \<Rightarrow> 's AuthHandler" where
  [simp]: "NewAuthHandler login refresh logout =
     \<lparr>ah_loginUsecase = login, ah_refreshUsecase = refresh, ah_logoutUsecase = logout\<rparr>"

definition Login ::
  "crypto \<Rightarrow> jwt \<Rightarrow> 's AuthHandler \<Rightarrow> ctx \<Rightarrow> string \<Rightarrow> string \<Rightarrow> 's world \<Rightarrow>
   message reply \<times> 's world" where
  "Login cp jw h c email password w =
     (case Login_Execute cp jw (ah_loginUsecase h) c \<lparr>lr_Email = email, lr_Password = password\<rparr> w of
        (Inl err, w') \<Rightarrow> (Reply None (Some err), w')
      | (Inr pair, w') \<Rightarrow>
          (Reply (Some (PbLoginResponse (tp_AccessToken pair) (tp_RefreshToken pair))) None, w'))"

text \<open>\<^verbatim>\<open>pair.AccessToken\<close> on a nil pair would panic.\<close>

definition Refresh ::
  "crypto \<Rightarrow> jwt \<Rightarrow> 's AuthHandler \<Rightarrow> ctx \<Rightarrow> string \<Rightarrow> 's world \<Rightarrow> message reply \<times> 's world" where
  "Refresh cp jw h c refreshToken w =
     (case Refresh_Execute cp jw (ah_refreshUsecase h) c \<lparr>rr_RefreshToken = refreshToken\<rparr> w of
        (Inl err, w') \<Rightarrow> (Reply None (Some err), w')
      | (Inr None, w') \<Rightarrow> (Panic ''invalid memory address or nil pointer dereference'', w')
      | (Inr (Some pair), w') \<Rightarrow>
          (Reply (Some (PbRefreshResponse (tp_AccessToken pair) (tp_RefreshToken pair))) None, w'))"

definition Logout ::
  "crypto \<Rightarrow> 's AuthHandler \<Rightarrow> ctx \<Rightarrow> string \<Rightarrow> 's world \<Rightarrow> message reply \<times> 's world" where
  "Logout cp h c refreshToken w =
     (case Logout_Execute cp (ah_logoutUsecase h) c \<lparr>or_RefreshToken = refreshToken\<rparr> w of
        (Some err, w') \<Rightarrow> (Reply None (Some err), w')
      | (None, w') \<Rightarrow> (Reply (Some PbLogoutResponse) None, w'))"

section \<open>Users (internal/user/handler/handler.go)\<close>

record 's UserHandler =
  uh_createUsecase :: "'s CreateUsecase"
  uh_findUsecase :: "'s FindUsecase"
  uh_updateUsecase :: "'s UpdateUsecase"
  uh_deleteUsecase :: "'s DeleteUsecase"

definition NewUserHandler ::
  "'s CreateUsecase \<Rightarrow> 's FindUsecase \<Rightarrow> 's UpdateUsecase \<Rightarrow> 's DeleteUsecase \<Rightarrow> 's UserHandler" where
  [simp]: "NewUserHandler create finder update delete =
     \<lparr>uh_createUsecase = create, uh_findUsecase = finder, uh_updateUsecase = update,
      uh_deleteUsecase = delete\<rparr>"

definition toProto :: "(time \<Rightarrow> pb_timestamp) \<Rightarrow> UserResponse \<Rightarrow> pb_user" where
  "toProto ts r =
     \<lparr>pu_Id = us_ID r, pu_Name = us_Name r, pu_Email = us_Email r, pu_Role = us_Role r,
      pu_Active = us_Active r, pu_CreatedAt = ts (us_CreatedAt r), pu_UpdatedAt = ts (us_UpdatedAt r)\<rparr>"

definition GetUser ::
  "(time \<Rightarrow> pb_timestamp) \<Rightarrow> 's UserHandler \<Rightarrow> ctx \<Rightarrow> uint \<Rightarrow> 's world \<Rightarrow>
   message reply \<times> 's world" where
  "GetUser ts h c i w =
     (case Find_FindByID (uh_findUsecase h) c i w of
        (Inl err, w') \<Rightarrow> (Reply None (Some err), w')
      | (Inr usr, w') \<Rightarrow>
          (Reply (Some (PbGetUserResponse (toProto ts (ToUserResponse usr)))) None, w'))"

definition CreateUser ::
  "crypto \<Rightarrow> (time \<Rightarrow> pb_timestamp) \<Rightarrow> 's UserHandler \<Rightarrow> ctx \<Rightarrow> string \<Rightarrow> string \<Rightarrow> string \<Rightarrow>
   's world \<Rightarrow> message reply \<times> 's world" where
  "CreateUser cp ts h c name email password w =
     (case Create_Execute cp (uh_createUsecase h) c
             \<lparr>cr_Name = name, cr_Email = email, cr_Password = password\<rparr> w of
        (Inl err, w') \<Rightarrow> (Reply None (Some err), w')
      | (Inr usr, w') \<Rightarrow>
          (Reply (Some (PbCreateUserResponse (toProto ts (ToUserResponse usr)))) None, w'))"

definition UpdateUser ::
  "(time \<Rightarrow> pb_timestamp) \<Rightarrow> 's UserHandler \<Rightarrow> ctx \<Rightarrow> uint \<Rightarrow> string \<Rightarrow> 's world \<Rightarrow>
   message reply \<times> 's world" where
  "UpdateUser ts h c i name w =
     (let callerID = fst (GetUserID c) in
      case Update_Execute (uh_updateUsecase h) c
             \<lparr>ur_ID = i, ur_CallerID = callerID, ur_Name = name\<rparr> w of
        (Inl err, w') \<Rightarrow> (Reply None (Some err), w')
      | (Inr usr, w') \<Rightarrow>
          (Reply (Some (PbUpdateUserResponse (toProto ts (ToUserResponse usr)))) None, w'))"

definition DeleteUser ::
  "'s UserHandler \<Rightarrow> ctx \<Rightarrow> uint \<Rightarrow> 's world \<Rightarrow> message reply \<times> 's world" where
  "DeleteUser h c i w =
     (let callerID = fst (GetUserID c) in
      case Delete_Execute (uh_deleteUsecase h) c i callerID w of
        (Some err, w') \<Rightarrow> (Reply None (Some err), w')
      | (None, w') \<Rightarrow> (Reply (Some PbDeleteUserResponse) None, w'))"

section \<open>Health (internal/health)\<close>

text \<open>
  \<^verbatim>\<open>checker.Pinger\<close> is a function, a nil interface \<open>None\<close>. \<^verbatim>\<open>DBPinger\<close> holds a \<^verbatim>\<open>*gorm.DB\<close>
  that may be nil; \<^verbatim>\<open>db.DB()\<close> returns the pool's \<^verbatim>\<open>PingContext\<close> or an error.
\<close>

type_synonym 's Pinger = "ctx \<Rightarrow> 's world \<Rightarrow> go_error option \<times> 's world"

record 's DBPinger =
  dp_db :: "'s Pinger result option"

definition NewDBPinger :: "'s Pinger result option \<Rightarrow> 's DBPinger" where
  [simp]: "NewDBPinger db = \<lparr>dp_db = db\<rparr>"

definition Ping :: "'s DBPinger \<Rightarrow> 's Pinger" where
  "Ping p c w =
     (case dp_db p of
        None \<Rightarrow> (None, w)
      | Some (Inl err) \<Rightarrow> (Some err, w)
      | Some (Inr pingContext) \<Rightarrow> pingContext c w)"

definition Check :: "'s world \<Rightarrow> message reply \<times> 's world" where
  "Check w = (Reply (Some (PbHealthCheckResponse STATUS_SERVING ''ok'')) None, w)"

definition Ready :: "'s Pinger option \<Rightarrow> ctx \<Rightarrow> 's world \<Rightarrow> message reply \<times> 's world" where
  "Ready pinger c w =
     (case pinger of
        Some ping \<Rightarrow>
          (case ping c w of
             (Some err, w') \<Rightarrow>
               (Reply (Some (PbHealthCheckResponse STATUS_NOT_SERVING ''dependency unavailable''))
                      (Some (StatusErr Unavailable ''dependency unavailable'')), w')
           | (None, w') \<Rightarrow> (Reply (Some (PbHealthCheckResponse STATUS_SERVING ''ok'')) None, w'))
      | None \<Rightarrow> (Reply (Some (PbHealthCheckResponse STATUS_SERVING ''ok'')) None, w))"

lemmas handler_defs = Login_def Refresh_def Logout_def GetUser_def CreateUser_def UpdateUser_def
  DeleteUser_def Check_def Ready_def

end
