(* ===== verification/Server.thy ===== *)
theory Server
  imports Handlers
begin

text \<open>
  The assembled gRPC server: \<^verbatim>\<open>bootstrap/grpc.go\<close>, \<^verbatim>\<open>bootstrap/services.go\<close> and what Wire
  builds from \<^verbatim>\<open>internal/*/provider.go\<close>. \<open>serve\<close> is one unary call: the chain of
  interceptors around the registered handler. The generated stubs and the gRPC library
  are represented by the dispatch on the full method name.
\<close>

section \<open>Assembly\<close>

text \<open>
  The libraries, and the part of \<^verbatim>\<open>config.Config\<close> the server reads. \<open>lb_gorm\<close> is the
  database, \<open>lb_validate\<close> the struct validator, \<open>lb_Ping\<close> what \<^verbatim>\<open>db.DB()\<close> gives.
\<close>

record 's server_libs =
  lb_gorm :: "('s, refresh_vars) gorm"
  lb_validate :: "validated \<Rightarrow> go_error option"
  lb_crypto :: crypto
  lb_jwt :: jwt
  lb_timestamp :: "time \<Rightarrow> pb_timestamp"
  lb_text :: "go_error \<Rightarrow> string"
  lb_log :: "message log_libs"
  lb_stack :: string
  lb_Ping :: "'s Pinger result"

record 's services =
  sv_auth :: "'s AuthHandler"
  sv_user :: "'s UserHandler"
  sv_pinger :: "'s Pinger option"

text \<open>What the provider sets of the features and \<^verbatim>\<open>bootstrap/wire.go\<close> put together.\<close>

definition InitServices :: "'s server_libs \<Rightarrow> TokenConfig \<Rightarrow> 's services" where
  "InitServices L cfg =
     (let userRepo = NewUserRepository (lb_gorm L);
          authRepo = NewAuthRepository (lb_gorm L);
          userProvider = ProvideUserProvider userRepo;
          txManager = RunInTransaction (lb_gorm L)
      in \<lparr>sv_auth =
            NewAuthHandler (NewLoginUsecase authRepo userProvider (lb_validate L) cfg)
              (NewRefreshUsecase authRepo userProvider (lb_validate L) txManager cfg)
              (NewLogoutUsecase authRepo (lb_validate L)),
          sv_user =
            NewUserHandler (NewCreateUsecase userRepo (lb_validate L)) (NewFindUsecase userRepo)
              (NewUpdateUsecase userRepo (lb_validate L)) (NewDeleteUsecase userRepo),
          sv_pinger = Some (Ping (NewDBPinger (Some (lb_Ping L))))\<rparr>)"

section \<open>Dispatch\<close>

text \<open>
  The registered methods. A method the server does not know is answered by the gRPC
  library without running a handler.
\<close>

definition dispatch :: "'s server_libs \<Rightarrow> 's services \<Rightarrow> string \<Rightarrow> (message, 's) handler" where
  "dispatch L sv fullMethod c req w =
     (case req of
        PbLoginRequest email password \<Rightarrow>
          if fullMethod = ''/auth.v1.AuthService/Login''
          then Login (lb_crypto L) (lb_jwt L) (sv_auth sv) c email password w
          else (Reply None (Some (StatusErr Unimplemented [])), w)
      | PbRefreshRequest token \<Rightarrow>
          if fullMethod = ''/auth.v1.AuthService/Refresh''
          then Refresh (lb_crypto L) (lb_jwt L) (sv_auth sv) c token w
          else (Reply None (Some (StatusErr Unimplemented [])), w)
      | PbLogoutRequest token \<Rightarrow>
          if fullMethod = ''/auth.v1.AuthService/Logout''
          then Logout (lb_crypto L) (sv_auth sv) c token w
          else (Reply None (Some (StatusErr Unimplemented [])), w)
      | PbGetUserRequest i \<Rightarrow>
          if fullMethod = ''/user.v1.UserService/GetUser''
          then GetUser (lb_timestamp L) (sv_user sv) c i w
          else (Reply None (Some (StatusErr Unimplemented [])), w)
      | PbCreateUserRequest name email password \<Rightarrow>
          if fullMethod = ''/user.v1.UserService/CreateUser''
          then CreateUser (lb_crypto L) (lb_timestamp L) (sv_user sv) c name email password w
          else (Reply None (Some (StatusErr Unimplemented [])), w)
      | PbUpdateUserRequest i name \<Rightarrow>
          if fullMethod = ''/user.v1.UserService/UpdateUser''
          then UpdateUser (lb_timestamp L) (sv_user sv) c i name w
          else (Reply None (Some (StatusErr Unimplemented [])), w)
      | PbDeleteUserRequest i \<Rightarrow>
          if fullMethod = ''/user.v1.UserService/DeleteUser''
          then DeleteUser (sv_user sv) c i w
          else (Reply None (Some (StatusErr Unimplemented [])), w)
      | PbHealthCheckRequest \<Rightarrow>
          if fullMethod = ''/health.v1.HealthService/Check'' then Check w
          else if fullMethod = ''/health.v1.HealthService/Ready'' then Ready (sv_pinger sv) c w
          else (Reply None (Some (StatusErr Unimplemented [])), w)
      | _ \<Rightarrow> (Reply None (Some (StatusErr Unimplemented [])), w))"

text \<open>
  \<^verbatim>\<open>grpc.ChainUnaryInterceptor\<close>: the first interceptor is the outermost. The server passes
  no per-method timeouts.
\<close>

definition chain :: "('m, 's) interceptor list \<Rightarrow> ('m, 's) interceptor" where
  "chain ics fullMethod handler = foldr (\<lambda>ic h. ic fullMethod h) ics handler"

definition server_interceptors ::
  "'s server_libs \<Rightarrow> bytes \<Rightarrow> duration \<Rightarrow> (message, 's) interceptor list" where
  "server_interceptors L secret defaultTimeout =
     [RecoveryInterceptor (lb_stack L), LoggingInterceptor (lb_log L),
      TimeoutInterceptor defaultTimeout (\<lambda>_. None),
      AuthInterceptor (lb_jwt L) (lb_text L) secret,
      ErrorInterceptor (ll_FromError (lb_log L)) (lb_text L)]"

definition serve ::
  "'s server_libs \<Rightarrow> TokenConfig \<Rightarrow> duration \<Rightarrow> string \<Rightarrow> ctx \<Rightarrow> message \<Rightarrow> 's world \<Rightarrow>
   message reply \<times> 's world" where
  "serve L cfg defaultTimeout fullMethod c req w =
     chain (server_interceptors L (tc_SecretKey cfg) defaultTimeout) fullMethod
       (dispatch L (InitServices L cfg) fullMethod) c req w"

end
