(* ===== verification/Server_Specs.thy ===== *)
theory Server_Specs
  imports Server
begin

text \<open>
  What the interceptor chain guarantees whatever the handler does: it always replies, its
  errors are gRPC statuses, a protected handler runs only behind a valid token, and the
  database is touched by the handler alone.
\<close>

section \<open>Single interceptors\<close>

lemma Recovery_replies: "\<exists>resp err w'. RecoveryInterceptor stack m h c req w = (Reply resp err, w')"
  by (auto simp: RecoveryInterceptor_def split: prod.splits reply.splits)

lemma Recovery_db:
  "RecoveryInterceptor stack m h c req w = (r, w') \<Longrightarrow>
   \<exists>r0 w1. h c req w = (r0, w1) \<and> w_db w' = w_db w1 \<and>
     (\<forall>resp. r = Reply resp None \<longrightarrow> r0 = r) \<and>
     (\<forall>resp e. r0 = Reply resp e \<longrightarrow> r = r0 \<and> w' = w1)"
  by (auto simp: RecoveryInterceptor_def split: prod.splits reply.splits)

lemma enrich_context_fields [simp]:
  "ctx_md (enrich_context m c) = ctx_md c" "ctx_tx (enrich_context m c) = ctx_tx c"
  "ctx_user_id (enrich_context m c) = ctx_user_id c"
  "ctx_deadline (enrich_context m c) = ctx_deadline c"
  "ctx_cancel (enrich_context m c) = ctx_cancel c"
  by (simp_all add: enrich_context_def contextutil_defs Let_def split: prod.split)

lemma Logging_db:
  assumes "LoggingInterceptor L m h c req w = (r, w')"
  shows "\<exists>w0 w1. h (enrich_context m c) req w0 = (r, w1) \<and> w_db w0 = w_db w \<and> w_db w' = w_db w1 \<and>
     w_log w0 = w_log w \<and> w_clock w0 = w_clock w \<and> w_ticks w < w_ticks w0 \<and>
     (\<forall>resp err. r = Reply resp err \<longrightarrow>
        (\<exists>d. w_log w' = request_log_entry L req resp err d # w_log w1))"
proof -
  define w0 where "w0 = w\<lparr>w_ticks := Suc (w_ticks w)\<rparr>"
  obtain r0 w1 where h: "h (enrich_context m c) req w0 = (r0, w1)" by fastforce
  have "r0 = r" "w_db w' = w_db w1" "\<forall>resp err. r = Reply resp err \<longrightarrow>
      (\<exists>d. w_log w' = request_log_entry L req resp err d # w_log w1)"
    using assms h
    by (auto simp: LoggingInterceptor_def time_Now_def log_write_def w0_def split: reply.splits)
  with h show ?thesis by (intro exI [of _ w0] exI [of _ w1]) (simp add: w0_def)
qed

text \<open>The handler runs once, on the caller's context or on one with a deadline added.\<close>

lemma Timeout_path:
  assumes "TimeoutInterceptor d ov m h c req w = (r, w')"
  shows "\<exists>c' w0 r0 w1. h c' req w0 = (r0, w1) \<and> w_db w0 = w_db w \<and> w_log w0 = w_log w \<and>
     w_clock w0 = w_clock w \<and> w_ticks w \<le> w_ticks w0 \<and>
     w_db w' = w_db w1 \<and> w_log w' = w_log w1 \<and>
     (c' = c \<or> (\<exists>now. c' = WithTimeout c now (effective_timeout d ov m))) \<and>
     (r = r0 \<or> (\<exists>resp err now. r0 = Reply resp err \<and>
        r = (case timeout_error c' now err of Some e \<Rightarrow> Reply None (Some e) | None \<Rightarrow> Reply resp None)))"
proof -
  define tm where "tm = effective_timeout d ov m"
  obtain respect w1 where g: "(case ctx_deadline c of
      Some dl \<Rightarrow> (case time_Now w of (now, w') \<Rightarrow>
          (let remaining = dl - now in (0 < remaining \<and> remaining \<le> sint tm, w')))
    | None \<Rightarrow> (False, w)) = (respect, w1)" by fastforce
  have w1: "w_db w1 = w_db w" "w_log w1 = w_log w" "w_clock w1 = w_clock w" "w_ticks w \<le> w_ticks w1"
    using g by (auto simp: time_Now_def Let_def split: option.splits)
  show ?thesis
  proof (cases respect)
    case True
    with assms g [unfolded tm_def] have "h c req w1 = (r, w')"
      by (simp add: TimeoutInterceptor_def)
    with w1 show ?thesis by blast
  next
    case False
    define w2 where "w2 = w1\<lparr>w_ticks := Suc (w_ticks w1)\<rparr>"
    define tc where "tc = WithTimeout c (w_clock w1 (w_ticks w1)) tm"
    obtain r0 w3 where h: "h tc req w2 = (r0, w3)" by fastforce
    from assms g [unfolded tm_def] False h have e: "(r, w') = (case (r0, w3) of
        (Panic r, w3) \<Rightarrow> (Panic r, w3)
      | (Reply resp err, w3) \<Rightarrow>
          (case time_Now w3 of (now', w4) \<Rightarrow>
             (case timeout_error tc now' err of
                Some e \<Rightarrow> (Reply None (Some e), w4) | None \<Rightarrow> (Reply resp None, w4))))"
      unfolding w2_def tc_def tm_def by (simp add: TimeoutInterceptor_def time_Now_def)
    have "w_db w' = w_db w3 \<and> w_log w' = w_log w3 \<and> (r = r0 \<or> (\<exists>resp err now. r0 = Reply resp err \<and>
        r = (case timeout_error tc now err of Some e \<Rightarrow> Reply None (Some e) | None \<Rightarrow> Reply resp None)))"
      using e by (cases r0) (auto simp: time_Now_def split: option.splits)
    with h w1 show ?thesis
      by (intro exI [of _ tc] exI [of _ w2] exI [of _ r0] exI [of _ w3])
         (auto simp: w2_def tc_def tm_def)
  qed
qed

lemma timeout_error_cases:
  "timeout_error c now err = Some e \<Longrightarrow>
   err = Some e \<or> e = StatusErr DeadlineExceeded ''deadline exceeded'' \<or>
   e = StatusErr Cancelled ''request canceled''"
  "timeout_error c now err = None \<Longrightarrow> err = None"
  by (auto simp: timeout_error_def split: option.splits if_splits)

lemma WithTimeout_fields [simp]:
  "ctx_user_id (WithTimeout c now d) = ctx_user_id c"
  by (simp add: WithTimeout_def)

lemma Timeout_db:
  assumes "TimeoutInterceptor d ov m h c req w = (r, w')"
  obtains c' w0 r0 w1 where "h c' req w0 = (r0, w1)" "w_db w0 = w_db w" "w_log w0 = w_log w"
     "w_clock w0 = w_clock w" "w_ticks w \<le> w_ticks w0"
     "w_db w' = w_db w1" "w_log w' = w_log w1"
     "ctx_md c' = ctx_md c" "ctx_tx c' = ctx_tx c" "ctx_user_id c' = ctx_user_id c"
     "\<And>resp. r = Reply resp None \<Longrightarrow> r0 = r"
     "\<And>resp e. r = Reply resp (Some e) \<Longrightarrow> r0 = r \<or>
        resp = None \<and> ((\<exists>resp0. r0 = Reply resp0 (Some e)) \<or>
          e = StatusErr DeadlineExceeded ''deadline exceeded'' \<or>
          e = StatusErr Cancelled ''request canceled'')"
     "\<And>p. r = Panic p \<longleftrightarrow> r0 = Panic p"
proof -
  from Timeout_path [OF assms] obtain c' w0 r0 w1 where
      h: "h c' req w0 = (r0, w1)" "w_db w0 = w_db w" "w_log w0 = w_log w"
         "w_clock w0 = w_clock w" "w_ticks w \<le> w_ticks w0"
         "w_db w' = w_db w1" "w_log w' = w_log w1"
    and c': "c' = c \<or> (\<exists>now. c' = WithTimeout c now (effective_timeout d ov m))"
    and r: "r = r0 \<or> (\<exists>resp err now. r0 = Reply resp err \<and>
        r = (case timeout_error c' now err of Some e \<Rightarrow> Reply None (Some e) | None \<Rightarrow> Reply resp None))"
    by blast
  show thesis
  proof (rule that [OF h])
    show "ctx_md c' = ctx_md c" "ctx_tx c' = ctx_tx c" "ctx_user_id c' = ctx_user_id c"
      using c' by auto
    show "r = Reply resp None \<Longrightarrow> r0 = r" for resp
      using r by (auto split: option.splits dest: timeout_error_cases)
    show "r = Reply resp (Some e) \<Longrightarrow> r0 = r \<or>
        resp = None \<and> ((\<exists>resp0. r0 = Reply resp0 (Some e)) \<or>
          e = StatusErr DeadlineExceeded ''deadline exceeded'' \<or>
          e = StatusErr Cancelled ''request canceled'')" for resp e
      using r by (auto split: option.splits dest: timeout_error_cases)
    show "r = Panic p \<longleftrightarrow> r0 = Panic p" for p
      using r by (auto split: option.splits)
  qed
qed

text \<open>The bearer token of the request, if it is valid, and the claims it carries.\<close>

definition bearer_claims :: "jwt \<Rightarrow> bytes \<Rightarrow> ctx \<Rightarrow> 's world \<Rightarrow> Claims option" where
  "bearer_claims jw secret c w =
     (case extractBearerToken c of
        Inl e \<Rightarrow> None
      | Inr tok \<Rightarrow> (case fst (ValidateToken jw tok secret w) of Inl e \<Rightarrow> None | Inr cl \<Rightarrow> Some cl))"

definition authenticated_ctx :: "ctx \<Rightarrow> Claims \<Rightarrow> ctx" where
  "authenticated_ctx c cl =
     (let c1 = WithUserID c (cl_UserID cl)
      in if cl_Role cl \<noteq> [] then WithRole c1 (cl_Role cl) else c1)"

lemma authenticated_ctx_fields [simp]:
  "ctx_user_id (authenticated_ctx c cl) = Some (cl_UserID cl)"
  "ctx_tx (authenticated_ctx c cl) = ctx_tx c"
  by (simp_all add: authenticated_ctx_def contextutil_defs Let_def)

lemma AuthInterceptor_accepts:
  "bearer_claims jw secret c w = Some cl \<Longrightarrow> m \<notin> set publicMethods \<Longrightarrow>
   AuthInterceptor jw txt secret m h c req w =
     h (authenticated_ctx c cl) req (w\<lparr>w_ticks := Suc (w_ticks w)\<rparr>)"
proof -
  assume a: "bearer_claims jw secret c w = Some cl" "m \<notin> set publicMethods"
  then obtain tok w' where "extractBearerToken c = Inr tok" "ValidateToken jw tok secret w = (Inr cl, w')"
    by (auto simp: bearer_claims_def split: sum.splits) (metis prod.collapse)
  moreover from this have "w' = w\<lparr>w_ticks := Suc (w_ticks w)\<rparr>"
    using ValidateToken_world [of jw tok secret w] by simp
  ultimately show ?thesis
    using a by (simp add: AuthInterceptor_def authenticated_ctx_def Let_def)
qed

lemma AuthInterceptor_public:
  "m \<in> set publicMethods \<Longrightarrow> AuthInterceptor jw txt secret m h c req w = h c req w"
  by (simp add: AuthInterceptor_def)

lemma AuthInterceptor_rejects:
  "bearer_claims jw secret c w = None \<Longrightarrow> m \<notin> set publicMethods \<Longrightarrow>
   \<exists>msg w'. AuthInterceptor jw txt secret m h c req w =
              (Reply None (Some (StatusErr Unauthenticated msg)), w') \<and>
            w_db w' = w_db w \<and> w_log w' = w_log w"
proof -
  assume a: "bearer_claims jw secret c w = None" "m \<notin> set publicMethods"
  show ?thesis
  proof (cases "extractBearerToken c")
    case (Inl e)
    with a show ?thesis by (simp add: AuthInterceptor_def)
  next
    case (Inr tok)
    obtain x w' where v: "ValidateToken jw tok secret w = (x, w')" by fastforce
    then have "w' = w\<lparr>w_ticks := Suc (w_ticks w)\<rparr>"
      using ValidateToken_world [of jw tok secret w] by simp
    with a Inr v show ?thesis by (auto simp: AuthInterceptor_def bearer_claims_def split: sum.splits)
  qed
qed

section \<open>The errors that leave the server\<close>

lemma map_error_status:
  assumes "status_FromError_spec fe"
  shows "(\<exists>code msg. map_error fe txt c now e = StatusErr code msg) \<or>
         (map_error fe txt c now e = e \<and> snd (fe (Some e)) \<and> \<not> foreign_chain e \<and>
          errors_As_AppError e = None)"
  using assms
  by (auto simp: map_error_def Let_def status_FromError_spec_def split: option.splits)

lemma map_error_internal:
  "errors_As_AppError e = Some (CodeInternal, m, x) \<Longrightarrow>
   map_error fe txt c now e = StatusErr Internal m"
  by (simp add: map_error_def)

lemma map_error_unknown:
  assumes "status_FromError_spec fe" "foreign_chain e"
  shows "map_error fe txt c now e \<in>
    {StatusErr Internal ''internal server error'', StatusErr DeadlineExceeded ''deadline exceeded'',
     StatusErr Cancelled ''request canceled''}"
  using assms by (auto simp: map_error_def foreign_chain_not_app status_FromError_spec_def)

lemma ErrorInterceptor_db:
  "ErrorInterceptor fe txt m h c req w = (r, w') \<Longrightarrow>
   \<exists>r0 w1. h c req w = (r0, w1) \<and> w_db w' = w_db w1 \<and> w_log w' = w_log w1 \<and>
     (\<forall>resp. r = Reply resp None \<longleftrightarrow> r0 = Reply resp None) \<and>
     (\<forall>resp e. r = Reply resp (Some e) \<longrightarrow> resp = None \<and>
        (\<exists>resp0 e0 now. r0 = Reply resp0 (Some e0) \<and> e = map_error fe txt c now e0)) \<and>
     (\<forall>p. r = Panic p \<longleftrightarrow> r0 = Panic p)"
  by (auto simp: ErrorInterceptor_def time_Now_def split: prod.splits reply.splits option.splits)

section \<open>The chain\<close>

text \<open>
  One call: either it is turned away before the handler, with \<^verbatim>\<open>Unauthenticated\<close> (or a
  deadline that passed meanwhile) and nothing touched, or the handler runs once, on the
  context of the caller.
\<close>

definition caller_ctx :: "string \<Rightarrow> ctx \<Rightarrow> Claims option \<Rightarrow> ctx \<Rightarrow> bool" where
  "caller_ctx m c cl c' \<longleftrightarrow> ctx_tx c' = ctx_tx c \<and>
     ctx_user_id c' = (if m \<in> set publicMethods then ctx_user_id c else map_option cl_UserID cl)"

lemma serve_cases:
  fixes L :: "'s server_libs" and w :: "'s world"
  assumes run: "serve L cfg d m c req w = (r, w')"
  obtains (rejected) e and w0 :: "'s world" where "m \<notin> set publicMethods"
      "w_clock w0 = w_clock w" "w_ticks w < w_ticks w0" "bearer_claims (lb_jwt L) (tc_SecretKey cfg) c w0 = None"
      "r = Reply None (Some e)" "w_db w' = w_db w"
      "(\<exists>msg. e = StatusErr Unauthenticated msg) \<or> e = StatusErr DeadlineExceeded ''deadline exceeded'' \<or>
       e = StatusErr Cancelled ''request canceled''"
  | (handled) c' cl w0 and wa :: "'s world" and r0 w1 where
      "dispatch L (InitServices L cfg) m c' req w0 = (r0, w1)" "w_db w0 = w_db w" "w_db w' = w_db w1"
      "caller_ctx m c cl c'" "w_clock wa = w_clock w" "w_ticks w < w_ticks wa"
      "m \<notin> set publicMethods \<Longrightarrow> cl \<noteq> None \<and>
         bearer_claims (lb_jwt L) (tc_SecretKey cfg) c wa = cl"
      "\<And>resp. r = Reply resp None \<Longrightarrow> r0 = Reply resp None"
      "\<And>resp e. r = Reply resp (Some e) \<Longrightarrow> resp = None \<and>
         ((\<exists>p. r0 = Panic p \<and> e = StatusErr Internal ''internal server error'') \<or>
          (\<exists>resp0 e0 cc now. r0 = Reply resp0 (Some e0) \<and>
             e = map_error (ll_FromError (lb_log L)) (lb_text L) cc now e0) \<or>
          e = StatusErr DeadlineExceeded ''deadline exceeded'' \<or>
          e = StatusErr Cancelled ''request canceled'')"
proof -
  define hE where "hE = ErrorInterceptor (ll_FromError (lb_log L)) (lb_text L) m
      (dispatch L (InitServices L cfg) m)"
  define hA where "hA = AuthInterceptor (lb_jwt L) (lb_text L) (tc_SecretKey cfg) m hE"
  define hT where "hT = TimeoutInterceptor d (\<lambda>_. None) m hA"
  define hL where "hL = LoggingInterceptor (lb_log L) m hT"
  from run have R: "RecoveryInterceptor (lb_stack L) m hL c req w = (r, w')"
    by (simp add: serve_def chain_def server_interceptors_def hE_def hA_def hT_def hL_def)
  from Recovery_db [OF R] obtain rL wL where L: "hL c req w = (rL, wL)" "w_db w' = w_db wL"
    and rL: "\<And>resp. r = Reply resp None \<Longrightarrow> rL = r" by blast
  have rL': "r = (case rL of Panic p \<Rightarrow> Reply None (Some (StatusErr Internal ''internal server error''))
                | Reply resp e \<Rightarrow> Reply resp e)"
    using L(1) R by (auto simp: RecoveryInterceptor_def split: reply.splits)
  from Logging_db [OF L(1) [unfolded hL_def]] obtain wa wb where
      T: "hT (enrich_context m c) req wa = (rL, wb)" "w_db wa = w_db w" "w_db wL = w_db wb"
    and T': "w_clock wa = w_clock w" "w_ticks w < w_ticks wa" by blast
  obtain ct wc rA wd where
      A: "hA ct req wc = (rA, wd)" "w_db wc = w_db wa" "w_db wb = w_db wd"
    and A': "w_clock wc = w_clock wa" "w_ticks wa \<le> w_ticks wc"
    and ct: "ctx_md ct = ctx_md c" "ctx_tx ct = ctx_tx c" "ctx_user_id ct = ctx_user_id c"
    and rA: "\<And>resp. rL = Reply resp None \<Longrightarrow> rA = rL"
      "\<And>resp e. rL = Reply resp (Some e) \<Longrightarrow> rA = rL \<or>
         resp = None \<and> ((\<exists>resp0. rA = Reply resp0 (Some e)) \<or>
         e = StatusErr DeadlineExceeded ''deadline exceeded'' \<or> e = StatusErr Cancelled ''request canceled'')"
      "\<And>p. rL = Panic p \<longleftrightarrow> rA = Panic p"
    by (rule Timeout_db [OF T(1) [unfolded hT_def], unfolded enrich_context_fields]) (rule that)
  have bc: "bearer_claims (lb_jwt L) (tc_SecretKey cfg) ct wc =
      bearer_claims (lb_jwt L) (tc_SecretKey cfg) c wc"
    by (simp add: bearer_claims_def extractBearerToken_def ct)
  show thesis
  proof (cases "m \<notin> set publicMethods \<and> bearer_claims (lb_jwt L) (tc_SecretKey cfg) ct wc = None")
    case True
    then have "bearer_claims (lb_jwt L) (tc_SecretKey cfg) ct wc = None" "m \<notin> set publicMethods" by auto
    from AuthInterceptor_rejects [OF this, of "lb_text L" hE req] A(1) obtain msg where
        rj: "rA = Reply None (Some (StatusErr Unauthenticated msg))" "w_db wd = w_db wc"
      by (auto simp: hA_def)
    then obtain e where rLe: "rL = Reply None (Some e)" and e: "(\<exists>msg. e = StatusErr Unauthenticated msg) \<or>
        e = StatusErr DeadlineExceeded ''deadline exceeded'' \<or> e = StatusErr Cancelled ''request canceled''"
      using rA by (cases rL rule: reply.exhaust) (metis option.exhaust reply.distinct(1) reply.inject(1) option.inject)+
    show thesis
      by (rule rejected [of wc e]) (use True bc rLe rL' e rj A T L A' T' in auto)
  next
    case False
    obtain c' w0 cl where E: "hE c' req w0 = (rA, wd)" "w_db w0 = w_db wc" "caller_ctx m c cl c'"
      "m \<notin> set publicMethods \<Longrightarrow> cl \<noteq> None \<and> bearer_claims (lb_jwt L) (tc_SecretKey cfg) ct wc = cl"
    proof (cases "m \<in> set publicMethods")
      case True
      with A(1) ct that [of ct wc None] show ?thesis
        by (simp add: hA_def AuthInterceptor_public caller_ctx_def)
    next
      case F: False
      with False obtain cl where "bearer_claims (lb_jwt L) (tc_SecretKey cfg) ct wc = Some cl" by auto
      with F A(1) ct that [of "authenticated_ctx ct cl" _ "Some cl"] show ?thesis
        by (simp add: hA_def AuthInterceptor_accepts caller_ctx_def)
    qed
    from ErrorInterceptor_db [OF E(1) [unfolded hE_def]] obtain r0 w1 where
        D: "dispatch L (InitServices L cfg) m c' req w0 = (r0, w1)" "w_db wd = w_db w1"
      and r0: "\<And>resp. rA = Reply resp None \<longleftrightarrow> r0 = Reply resp None"
        "\<And>resp e. rA = Reply resp (Some e) \<Longrightarrow> resp = None \<and> (\<exists>resp0 e0 now.
           r0 = Reply resp0 (Some e0) \<and> e = map_error (ll_FromError (lb_log L)) (lb_text L) c' now e0)"
        "\<And>p. rA = Panic p \<longleftrightarrow> r0 = Panic p" by blast
    show thesis
    proof (rule handled [OF D(1), of cl wc])
      show "w_db w0 = w_db w" "w_db w' = w_db w1" using E A T L D by simp_all
      show "caller_ctx m c cl c'" by (fact E(3))
      show "w_clock wc = w_clock w" "w_ticks w < w_ticks wc" using A' T' by simp_all
      show "cl \<noteq> None \<and> bearer_claims (lb_jwt L) (tc_SecretKey cfg) c wc = cl"
        if "m \<notin> set publicMethods" using E(4) that bc by auto
      show "r0 = Reply resp None" if "r = Reply resp None" for resp
        using that rL rA r0 by auto
      fix resp e assume r: "r = Reply resp (Some e)"
      show "resp = None \<and> ((\<exists>p. r0 = Panic p \<and> e = StatusErr Internal ''internal server error'') \<or>
          (\<exists>resp0 e0 cc now. r0 = Reply resp0 (Some e0) \<and>
             e = map_error (ll_FromError (lb_log L)) (lb_text L) cc now e0) \<or>
          e = StatusErr DeadlineExceeded ''deadline exceeded'' \<or>
          e = StatusErr Cancelled ''request canceled'')"
      proof (cases rL)
        case (Panic p)
        then have "r0 = Panic p" using rA(3) r0(3) by blast
        with Panic r rL' show ?thesis by simp
      next
        case (Reply resp' err')
        with r rL' have rLe: "rL = Reply resp (Some e)" by simp
        have mapped: "x = None \<and> (\<exists>resp0 e0 cc now. r0 = Reply resp0 (Some e0) \<and>
            e = map_error (ll_FromError (lb_log L)) (lb_text L) cc now e0)"
          if "rA = Reply x (Some e)" for x using r0(2) [OF that] by blast
        from rA(2) [OF rLe] show ?thesis
        proof (elim disjE conjE exE)
          assume "rA = rL"
          with rLe mapped [of resp] show ?thesis by simp
        next
          fix resp0 assume "resp = None" "rA = Reply resp0 (Some e)"
          with mapped [of resp0] show ?thesis by simp
        qed simp_all
      qed
    qed
  qed
qed

end
