(* ===== verification/Server_Refinement.thy ===== *)
theory Server_Refinement
  imports Server_Specs
begin

text \<open>
  The abstract specification of the service: a step relation on the two tables that says
  what each request may do to them and on whose behalf, and the proof that every call of
  the assembled server is a step of it. The invariants of accounts and sessions are then
  proved on the specification by rule induction.
\<close>

section \<open>The specification\<close>

text \<open>
  \<open>db_step cp u req ok T T'\<close>: the request \<open>req\<close>, made by the authenticated user \<open>u\<close> (if any)
  and answered with success iff \<open>ok\<close>, takes the tables from \<open>T\<close> to \<open>T'\<close>. A refresh that is
  granted has rotated its token; a call may fail after its effect (a deadline that passed
  meanwhile), so every effect is allowed with \<open>ok = False\<close>.
\<close>

inductive db_step ::
  "crypto \<Rightarrow> uint option \<Rightarrow> message \<Rightarrow> bool \<Rightarrow> tables \<Rightarrow> tables \<Rightarrow> bool" for cp where
  idle: "\<not> ok \<Longrightarrow> db_step cp u req ok T T"
| query: "req = PbGetUserRequest i \<or> req = PbHealthCheckRequest \<Longrightarrow> db_step cp u req ok T T"
| login: "users T (t_UserID t) = Some usr \<Longrightarrow> u_Email usr = email \<Longrightarrow>
     CheckPassword cp password (u_Password usr) = None \<Longrightarrow>
     tokens T (t_Token t) = None \<Longrightarrow> \<not> t_Revoked t \<Longrightarrow>
     db_step cp u (PbLoginRequest email password) ok T (ins_token t T)"
| rotate: "h = HashSHA256 cp token \<Longrightarrow> tokens T h = Some old \<Longrightarrow> \<not> t_Revoked old \<Longrightarrow>
     t_UserID t = t_UserID old \<Longrightarrow> users T (t_UserID old) \<noteq> None \<Longrightarrow>
     tokens T (t_Token t) = None \<Longrightarrow> \<not> t_Revoked t \<Longrightarrow>
     db_step cp u (PbRefreshRequest token) ok T (ins_token t (revoke_row h T))"
| replay: "tokens T (HashSHA256 cp token) = Some old \<Longrightarrow> t_Revoked old \<Longrightarrow>
     db_step cp u (PbRefreshRequest token) False T (revoke_rows_of (t_UserID old) T)"
| logout: "h = HashSHA256 cp token \<Longrightarrow> tokens T h \<noteq> None \<Longrightarrow>
     db_step cp u (PbLogoutRequest token) ok T (revoke_row h T)"
| create: "users T (u_ID usr) = None \<Longrightarrow> \<not> email_taken T (u_Email usr) \<Longrightarrow>
     u_Name usr = name \<Longrightarrow> u_Email usr = email \<Longrightarrow> u_Role usr = RoleUser \<Longrightarrow>
     db_step cp u (PbCreateUserRequest name email password) ok T (upd_user usr T)"
| update: "u = Some i \<Longrightarrow> i \<noteq> 0 \<Longrightarrow> users T i = Some old \<Longrightarrow>
     usr = old\<lparr>u_Name := (if name = [] then u_Name old else name), u_UpdatedAt := now\<rparr> \<Longrightarrow>
     u_ID usr = i \<Longrightarrow> db_step cp u (PbUpdateUserRequest i name) ok T (upd_user usr T)"
| delete: "u = Some i \<Longrightarrow> i \<noteq> 0 \<Longrightarrow> db_step cp u (PbDeleteUserRequest i) ok T (del_user i T)"

inductive_cases db_step_refreshE: "db_step cp u (PbRefreshRequest token) ok T T'"
inductive_cases db_step_loginE: "db_step cp u (PbLoginRequest email password) ok T T'"

section \<open>The handlers implement it\<close>

definition succeeded :: "'m reply \<Rightarrow> bool" where
  "succeeded r = (case r of Reply resp None \<Rightarrow> True | _ \<Rightarrow> False)"

lemma succeeded_simps [simp]:
  "succeeded (Reply resp e) \<longleftrightarrow> e = None" "\<not> succeeded (Panic p)"
  by (simp_all add: succeeded_def split: option.splits)

text \<open>The ping of the health check does not write.\<close>

definition read_only_ping :: "('s \<Rightarrow> db_handle \<Rightarrow> tables) \<Rightarrow> 's Pinger result \<Rightarrow> bool" where
  "read_only_ping view p \<longleftrightarrow>
     (case p of Inl e \<Rightarrow> True | Inr f \<Rightarrow> \<forall>c w. view (w_db (snd (f c w))) = view (w_db w))"

lemma effect_default:
  "ctx_tx c = None \<Longrightarrow> world_effect view c w w' eff \<Longrightarrow>
   view (w_db w') DefaultDB = eff (view (w_db w) DefaultDB)"
  by (simp add: world_effect_def db_effect_def)

lemma GetUserID_fst: "fst (GetUserID c) = (case ctx_user_id c of Some i \<Rightarrow> i | None \<Rightarrow> 0)"
  by (simp add: GetUserID_def split: option.splits)

lemma dispatch_Login:
  assumes g: "gorm_db (lb_gorm L) view" and tx: "ctx_tx c = None"
    and run: "Login (lb_crypto L) (lb_jwt L) (sv_auth (InitServices L cfg)) c email password w = (r, w')"
  shows "db_step (lb_crypto L) u (PbLoginRequest email password) (succeeded r)
           (view (w_db w) DefaultDB) (view (w_db w') DefaultDB)"
proof -
  note store = auth_store_gorm [OF g]
  obtain x where x: "Login_Execute (lb_crypto L) (lb_jwt L) (NewLoginUsecase (NewAuthRepository (lb_gorm L))
      (ProvideUserProvider (NewUserRepository (lb_gorm L))) (lb_validate L) cfg) c
      \<lparr>lr_Email = email, lr_Password = password\<rparr> w = (x, w')"
    and r: "succeeded r \<longleftrightarrow> (\<exists>p. x = Inr p)"
    using run by (auto simp: Login_def InitServices_def Let_def split: sum.splits prod.splits)
  show ?thesis
  proof (cases x)
    case (Inl e)
    with auth_store.Login_err [OF store x [unfolded Inl]] r show ?thesis
      by (auto dest!: effect_default [OF tx] intro: db_step.idle)
  next
    case (Inr pair)
    from auth_store.Login_ok [OF store x [unfolded Inr]] tx show ?thesis
      by (auto dest!: effect_default [OF tx] intro!: db_step.login simp: token_for_def)
  qed
qed

lemma dispatch_Refresh:
  assumes g: "gorm_db (lb_gorm L) view" and tx: "ctx_tx c = None"
    and run: "Refresh (lb_crypto L) (lb_jwt L) (sv_auth (InitServices L cfg)) c token w = (r, w')"
  shows "db_step (lb_crypto L) u (PbRefreshRequest token) (succeeded r)
           (view (w_db w) DefaultDB) (view (w_db w') DefaultDB)"
    and "\<exists>resp e. r = Reply resp e"
proof -
  note store = auth_store_gorm [OF g]
  obtain x where x: "Refresh_Execute (lb_crypto L) (lb_jwt L) (NewRefreshUsecase (NewAuthRepository (lb_gorm L))
      (ProvideUserProvider (NewUserRepository (lb_gorm L))) (lb_validate L)
      (RunInTransaction (lb_gorm L)) cfg) c \<lparr>rr_RefreshToken = token\<rparr> w = (x, w')"
    and r: "succeeded r \<longleftrightarrow> (\<exists>p. x = Inr (Some p))" "(\<exists>resp e. r = Reply resp e) \<longleftrightarrow> x \<noteq> Inr None"
    using run by (auto simp: Refresh_def InitServices_def Let_def split: sum.splits prod.splits option.splits)
  show "db_step (lb_crypto L) u (PbRefreshRequest token) (succeeded r)
           (view (w_db w) DefaultDB) (view (w_db w') DefaultDB)"
  proof (cases x)
    case (Inl e)
    with auth_store.Refresh_err [OF store x [unfolded Inl] tx] r show ?thesis
      by (auto intro: db_step.idle db_step.replay)
  next
    case (Inr q)
    from auth_store.Refresh_ok [OF store x [unfolded Inr] tx] show ?thesis
      by (auto intro!: db_step.rotate simp: token_for_def)
  qed
  show "\<exists>resp e. r = Reply resp e"
    unfolding r(2) using auth_store.Refresh_ok [OF store _ tx] x by blast
qed

lemma dispatch_Logout:
  assumes g: "gorm_db (lb_gorm L) view" and tx: "ctx_tx c = None"
    and run: "Logout (lb_crypto L) (sv_auth (InitServices L cfg)) c token w = (r, w')"
  shows "db_step (lb_crypto L) u (PbLogoutRequest token) (succeeded r)
           (view (w_db w) DefaultDB) (view (w_db w') DefaultDB)"
proof -
  note store = auth_store_gorm [OF g]
  obtain x where x: "Logout_Execute (lb_crypto L) (NewLogoutUsecase (NewAuthRepository (lb_gorm L))
      (lb_validate L)) c \<lparr>or_RefreshToken = token\<rparr> w = (x, w')"
    and r: "succeeded r \<longleftrightarrow> x = None"
    using run by (auto simp: Logout_def InitServices_def Let_def split: prod.splits option.splits)
  show ?thesis
  proof (cases x)
    case None
    from auth_store.Logout_ok [OF store x [unfolded None]] tx show ?thesis
      by (auto dest!: effect_default [OF tx] intro!: db_step.logout)
  next
    case (Some e)
    with auth_store.Logout_err [OF store x [unfolded Some]] r show ?thesis
      by (auto dest!: effect_default [OF tx] intro: db_step.idle)
  qed
qed

lemma dispatch_CreateUser:
  assumes g: "gorm_db (lb_gorm L) view" and tx: "ctx_tx c = None"
    and run: "CreateUser (lb_crypto L) ts (sv_user (InitServices L cfg)) c name email password w = (r, w')"
  shows "db_step (lb_crypto L) u (PbCreateUserRequest name email password) (succeeded r)
           (view (w_db w) DefaultDB) (view (w_db w') DefaultDB)"
proof -
  note repo = gorm_db.contracts(2) [OF g]
  obtain x where x: "Create_Execute (lb_crypto L) (NewCreateUsecase (NewUserRepository (lb_gorm L))
      (lb_validate L)) c \<lparr>cr_Name = name, cr_Email = email, cr_Password = password\<rparr> w = (x, w')"
    and r: "succeeded r \<longleftrightarrow> (\<exists>p. x = Inr p)"
    using run by (auto simp: CreateUser_def InitServices_def Let_def split: sum.splits prod.splits)
  show ?thesis
  proof (cases x)
    case (Inl e)
    with user_repository.Create_Execute_err [OF repo x [unfolded Inl]] r show ?thesis
      by (auto dest!: effect_default [OF tx] intro: db_step.idle)
  next
    case (Inr usr)
    note spec = user_repository.Create_Execute_ok [OF repo x [unfolded Inr]]
    from spec(1) have "u_Name usr = name" "u_Email usr = email" "u_Role usr = RoleUser"
      by (auto dest: arg_cong [where f = u_Name] arg_cong [where f = u_Email] arg_cong [where f = u_Role])
    with spec(3-5) tx show ?thesis
      by (auto dest!: effect_default [OF tx] intro!: db_step.create)
  qed
qed

lemma dispatch_UpdateUser:
  assumes g: "gorm_db (lb_gorm L) view" and tx: "ctx_tx c = None"
    and run: "UpdateUser ts (sv_user (InitServices L cfg)) c i name w = (r, w')"
  shows "db_step (lb_crypto L) (ctx_user_id c) (PbUpdateUserRequest i name) (succeeded r)
           (view (w_db w) DefaultDB) (view (w_db w') DefaultDB)"
proof -
  note repo = gorm_db.contracts(2) [OF g]
  obtain x where x: "Update_Execute (NewUpdateUsecase (NewUserRepository (lb_gorm L))
      (lb_validate L)) c \<lparr>ur_ID = i, ur_CallerID = fst (GetUserID c), ur_Name = name\<rparr> w = (x, w')"
    and r: "succeeded r \<longleftrightarrow> (\<exists>p. x = Inr p)"
    using run by (auto simp: UpdateUser_def InitServices_def Let_def split: sum.splits prod.splits)
  show ?thesis
  proof (cases x)
    case (Inl e)
    with user_repository.Update_Execute_err [OF repo x [unfolded Inl]] r show ?thesis
      by (auto dest!: effect_default [OF tx] intro: db_step.idle)
  next
    case (Inr usr)
    note spec = user_repository.Update_Execute_ok [OF repo x [unfolded Inr]]
    from spec(1,2) have u: "ctx_user_id c = Some i" "i \<noteq> 0"
      by (auto simp: GetUserID_fst split: option.splits)
    from spec(3) obtain old where old: "users (view (w_db w) DefaultDB) i = Some old"
      "usr = old\<lparr>u_Name := (if name = [] then u_Name old else name), u_UpdatedAt := u_UpdatedAt usr\<rparr>"
      using tx by (auto cong: if_cong)
    have "u_ID usr = i" using spec(5) by simp
    with u old effect_default [OF tx spec(4)] show ?thesis
      by (metis db_step.update)
  qed
qed

lemma dispatch_DeleteUser:
  assumes g: "gorm_db (lb_gorm L) view" and tx: "ctx_tx c = None"
    and run: "DeleteUser (sv_user (InitServices L cfg)) c i w = (r, w')"
  shows "db_step (lb_crypto L) (ctx_user_id c) (PbDeleteUserRequest i) (succeeded r)
           (view (w_db w) DefaultDB) (view (w_db w') DefaultDB)"
proof -
  note repo = gorm_db.contracts(2) [OF g]
  obtain x where x: "Delete_Execute (NewDeleteUsecase (NewUserRepository (lb_gorm L))) c i
      (fst (GetUserID c)) w = (x, w')" and r: "succeeded r \<longleftrightarrow> x = None"
    using run by (auto simp: DeleteUser_def InitServices_def Let_def split: prod.splits option.splits)
  have caller: "ctx_user_id c = Some i" "i \<noteq> 0" if "w' \<noteq> w"
    using x that by (auto simp: Delete_Execute_def GetUserID_fst split: if_splits option.splits)
  show ?thesis
  proof (cases x)
    case None
    note spec = user_repository.Delete_Execute_ok [OF repo x [unfolded None]]
    then have "ctx_user_id c = Some i" by (auto simp: GetUserID_fst split: option.splits)
    with spec effect_default [OF tx spec(4)] show ?thesis by (auto intro: db_step.delete)
  next
    case (Some e)
    from user_repository.Delete_Execute_err [OF repo x [unfolded Some]]
    show ?thesis
    proof
      assume "world_effect view c w w' id"
      then show ?thesis using Some r by (auto dest!: effect_default [OF tx] intro: db_step.idle)
    next
      assume a: "e = ErrNotFound \<and> fst (GetUserID c) = i \<and>
          users (view (w_db w) (handle c)) i = None \<and> world_effect view c w w' (del_user i)"
      then show ?thesis
        using effect_default [OF tx, of view w w' "del_user i"] Some r caller
        by (cases "w' = w") (auto intro: db_step.delete db_step.idle)
    qed
  qed
qed

lemma dispatch_queries:
  assumes g: "gorm_db (lb_gorm L) view" and tx: "ctx_tx c = None" and ping: "read_only_ping view (lb_Ping L)"
  shows "GetUser ts (sv_user (InitServices L cfg)) c i w = (r, w') \<Longrightarrow>
           view (w_db w') DefaultDB = view (w_db w) DefaultDB"
    and "Ready (sv_pinger (InitServices L cfg)) c w = (r, w') \<Longrightarrow>
           view (w_db w') DefaultDB = view (w_db w) DefaultDB"
proof -
  have v: "up_FindByID (ProvideUserProvider (NewUserRepository (lb_gorm L))) c i s = (x, s') \<Longrightarrow>
      view s' = view s" for x s s'
    using user_lookup.ByID_view [OF gorm_db.contracts(3) [OF g]] .
  show "GetUser ts (sv_user (InitServices L cfg)) c i w = (r, w') \<Longrightarrow>
      view (w_db w') DefaultDB = view (w_db w) DefaultDB"
    by (auto simp: GetUser_def InitServices_def Let_def Find_FindByID_def user_constructors on_db_def
        ProvideUserProvider_def split: prod.splits sum.splits dest!: v [unfolded ProvideUserProvider_def, simplified])
  show "Ready (sv_pinger (InitServices L cfg)) c w = (r, w') \<Longrightarrow>
      view (w_db w') DefaultDB = view (w_db w) DefaultDB"
    using ping
    by (auto simp: Ready_def InitServices_def Let_def Ping_def read_only_ping_def
        split: prod.splits sum.splits option.splits dest: spec) (metis snd_conv)+
qed

lemma dispatch_step:
  assumes g: "gorm_db (lb_gorm L) view" and tx: "ctx_tx c = None" and ping: "read_only_ping view (lb_Ping L)"
    and run: "dispatch L (InitServices L cfg) m c req w = (r, w')"
  shows "db_step (lb_crypto L) (ctx_user_id c) req (succeeded r)
           (view (w_db w) DefaultDB) (view (w_db w') DefaultDB)"
proof (cases req)
  case (PbGetUserRequest i)
  with run dispatch_queries(1) [OF g tx ping, of _ _ i w] show ?thesis
    by (auto simp: dispatch_def intro: db_step.idle db_step.query split: if_splits)
next
  case PbHealthCheckRequest
  with run dispatch_queries(2) [OF g tx ping] show ?thesis
    by (auto simp: dispatch_def Check_def intro: db_step.query db_step.idle split: if_splits)
qed (use run dispatch_Login [OF g tx] dispatch_Refresh(1) [OF g tx] dispatch_Logout [OF g tx]
      dispatch_CreateUser [OF g tx] dispatch_UpdateUser [OF g tx] dispatch_DeleteUser [OF g tx]
     in \<open>auto simp: dispatch_def intro: db_step.idle split: if_splits\<close>)

section \<open>The server implements it\<close>

lemma db_step_weaken: "db_step cp u req ok T T' \<Longrightarrow> db_step cp u req False T T'"
  by (induction rule: db_step.induct) (auto intro: db_step.intros)

text \<open>A context as the transport delivers it: no user and no transaction yet.\<close>

definition incoming :: "ctx \<Rightarrow> bool" where
  "incoming c \<longleftrightarrow> ctx_user_id c = None \<and> ctx_tx c = None"

lemma serve_step:
  fixes w :: "'s world"
  assumes g: "gorm_db (lb_gorm L) view" and c: "incoming c" and ping: "read_only_ping view (lb_Ping L)"
    and run: "serve L cfg d m c req w = (r, w')"
  shows "\<exists>u. db_step (lb_crypto L) u req (succeeded r) (view (w_db w) DefaultDB) (view (w_db w') DefaultDB) \<and>
           (\<forall>i. u = Some i \<longrightarrow> (\<exists>cl wa :: 's world. w_clock wa = w_clock w \<and> w_ticks w < w_ticks wa \<and>
              bearer_claims (lb_jwt L) (tc_SecretKey cfg) c wa = Some cl \<and> cl_UserID cl = i))"
  using run
proof (cases rule: serve_cases)
  case (rejected e w0)
  then show ?thesis by (auto intro: db_step.idle)
next
  case (handled c' cl w0 wa r0 w1)
  have tx: "ctx_tx c' = None" using handled(4) c by (simp add: caller_ctx_def incoming_def)
  from dispatch_step [OF g tx ping handled(1)] handled(2,3)
  have step: "db_step (lb_crypto L) (ctx_user_id c') req (succeeded r0)
      (view (w_db w) DefaultDB) (view (w_db w') DefaultDB)" by simp
  have "succeeded r \<longrightarrow> succeeded r0"
    using handled(8) by (cases r) (auto simp: succeeded_def split: option.splits)
  with step have "db_step (lb_crypto L) (ctx_user_id c') req (succeeded r)
      (view (w_db w) DefaultDB) (view (w_db w') DefaultDB)"
    by (cases "succeeded r") (auto intro: db_step_weaken)
  moreover have "\<exists>cl wa :: 's world. w_clock wa = w_clock w \<and> w_ticks w < w_ticks wa \<and>
      bearer_claims (lb_jwt L) (tc_SecretKey cfg) c wa = Some cl \<and> cl_UserID cl = i"
    if u: "ctx_user_id c' = Some i" for i
  proof -
    from u handled(4) c have "m \<notin> set publicMethods" "map_option cl_UserID cl = Some i"
      by (auto simp: caller_ctx_def incoming_def split: if_splits)
    with handled(5-7) show ?thesis by (intro exI [of _ "the cl"] exI [of _ wa]) auto
  qed
  ultimately show ?thesis by blast
qed

lemma serve_no_panic:
  assumes "serve L cfg d m c req w = (r, w')"
  shows "\<exists>resp e. r = Reply resp e"
proof -
  define h where "h = chain (tl (server_interceptors L (tc_SecretKey cfg) d)) m
      (dispatch L (InitServices L cfg) m)"
  have "serve L cfg d m c req w = RecoveryInterceptor (lb_stack L) m h c req w"
    by (simp add: serve_def chain_def server_interceptors_def h_def)
  moreover obtain resp e w1 where "RecoveryInterceptor (lb_stack L) m h c req w = (Reply resp e, w1)"
    using Recovery_replies [of "lb_stack L" m h c req w] by auto
  ultimately show ?thesis using assms by simp
qed

section \<open>Histories\<close>

text \<open>
  A sequence of calls, each with its method, incoming context and request, on the same
  database; between two calls the clock and the entropy go on. \<open>granted\<close> is the list of
  the requests answered with success.
\<close>

type_synonym call = "string \<times> ctx \<times> message"

fun serve_all ::
  "'s server_libs \<Rightarrow> TokenConfig \<Rightarrow> duration \<Rightarrow> call list \<Rightarrow> 's world \<Rightarrow> message list \<times> 's world" where
  "serve_all L cfg d [] w = ([], w)"
| "serve_all L cfg d ((m, c, req) # calls) w =
     (case serve L cfg d m c req w of
        (r, w1) \<Rightarrow>
          (case serve_all L cfg d calls w1 of
             (granted, w2) \<Rightarrow> ((if succeeded r then [req] else []) @ granted, w2)))"

inductive db_steps ::
  "crypto \<Rightarrow> (message \<times> bool) list \<Rightarrow> tables \<Rightarrow> tables \<Rightarrow> bool" for cp where
  none: "db_steps cp [] T T"
| some: "db_step cp u req ok T T1 \<Longrightarrow> db_steps cp hist T1 T2 \<Longrightarrow>
     db_steps cp ((req, ok) # hist) T T2"

inductive_cases db_steps_ConsE: "db_steps cp (x # hist) T T'"

lemma serve_all_steps:
  assumes "gorm_db (lb_gorm L) view" "read_only_ping view (lb_Ping L)"
    and "list_all (\<lambda>(m, c, req). incoming c) calls"
    and "serve_all L cfg d calls w = (granted, w')"
  shows "\<exists>hist. map fst hist = map (\<lambda>(m, c, req). req) calls \<and>
           granted = map fst (filter snd hist) \<and>
           db_steps (lb_crypto L) hist (view (w_db w) DefaultDB) (view (w_db w') DefaultDB)"
  using assms(3,4)
proof (induction calls arbitrary: w granted)
  case Nil
  then show ?case by (auto intro: db_steps.none)
next
  case (Cons call calls)
  obtain m c req where call: "call = (m, c, req)" by (cases call) auto
  obtain r w1 where s: "serve L cfg d m c req w = (r, w1)" by fastforce
  obtain gr w2 where rest: "serve_all L cfg d calls w1 = (gr, w2)" by fastforce
  from Cons.prems call s rest have gr: "granted = (if succeeded r then [req] else []) @ gr" "w2 = w'"
    by auto
  from Cons.IH [OF _ rest [unfolded gr(2)]] Cons.prems obtain hist where
      h: "map fst hist = map (\<lambda>(m, c, req). req) calls" "gr = map fst (filter snd hist)"
    "db_steps (lb_crypto L) hist (view (w_db w1) DefaultDB) (view (w_db w') DefaultDB)" by auto
  from serve_step [OF assms(1) _ assms(2) s] Cons.prems call obtain u where
    "db_step (lb_crypto L) u req (succeeded r) (view (w_db w) DefaultDB) (view (w_db w1) DefaultDB)"
    by auto
  from db_steps.some [OF this h(3)] h gr call show ?case
    by (intro exI [of _ "(req, succeeded r) # hist"]) auto
qed

section \<open>Invariants of the specification\<close>

definition deletes :: "message \<Rightarrow> bool" where
  "deletes req \<longleftrightarrow> (\<exists>i. req = PbDeleteUserRequest i)"

text \<open>Without deletions a revoked token stays, and stays revoked.\<close>

lemma db_step_revoked:
  assumes "db_step cp u req ok T T'" "\<not> deletes req" "tokens T k = Some t" "t_Revoked t"
  shows "\<exists>t'. tokens T' k = Some t' \<and> t_Revoked t' \<and> t_UserID t' = t_UserID t"
  using assms by (induction rule: db_step.induct) (auto simp: deletes_def)

lemma db_step_refused:
  assumes "db_step cp u (PbRefreshRequest token) ok T T'"
    and "tokens T (HashSHA256 cp token) = Some t" "t_Revoked t"
  shows "\<not> ok"
  using assms by (auto elim: db_step_refreshE)

lemma db_step_spent:
  assumes "db_step cp u (PbRefreshRequest token) True T T'"
  shows "\<exists>t. tokens T' (HashSHA256 cp token) = Some t \<and> t_Revoked t"
  using assms by (auto elim!: db_step_refreshE)

lemma db_steps_revoked_refused:
  assumes "db_steps cp hist T T'" "list_all (\<lambda>(req, ok). \<not> deletes req) hist"
    and "tokens T (HashSHA256 cp token) = Some t" "t_Revoked t"
  shows "(PbRefreshRequest token, True) \<notin> set hist"
  using assms
proof (induction arbitrary: t rule: db_steps.induct)
  case (some u req ok T T1 hist T2)
  from db_step_revoked [OF some.hyps(1)] some.prems obtain t' where
    "tokens T1 (HashSHA256 cp token) = Some t'" "t_Revoked t'" by auto
  with some db_step_refused [of cp u token ok T T1 t] show ?case by auto
qed simp

lemma db_steps_single_use:
  assumes "db_steps cp hist T T'" "list_all (\<lambda>(req, ok). \<not> deletes req) hist"
  shows "count_list (map fst (filter snd hist)) (PbRefreshRequest token) \<le> 1"
  using assms
proof (induction rule: db_steps.induct)
  case (some u req ok T T1 hist T2)
  show ?case
  proof (cases "ok \<and> req = PbRefreshRequest token")
    case True
    with some.hyps(1) have "db_step cp u (PbRefreshRequest token) True T T1" by simp
    from db_step_spent [OF this] obtain t where
      "tokens T1 (HashSHA256 cp token) = Some t" "t_Revoked t" by blast
    with some db_steps_revoked_refused [OF some.hyps(2), of token t]
    have "(PbRefreshRequest token, True) \<notin> set hist" by auto
    then have "PbRefreshRequest token \<notin> set (map fst (filter snd hist))" by auto
    then show ?thesis using True by (simp add: count_list_0_iff)
  next
    case False
    with some show ?thesis by auto
  qed
qed simp

text \<open>Only its owner's request changes or removes the row of an account.\<close>

lemma db_step_users:
  assumes "db_step cp u req ok T T'" "users T i = Some usr" "users T' i \<noteq> Some usr"
  shows "u = Some i \<and> (deletes req \<and> users T' i = None \<or>
           (\<exists>n now. req = PbUpdateUserRequest i n \<and>
              users T' i = Some (usr\<lparr>u_Name := (if n = [] then u_Name usr else n), u_UpdatedAt := now\<rparr>)))"
  using assms by (induction rule: db_step.induct) (auto simp: deletes_def split: if_splits)

text \<open>Tokens refer to existing accounts (the foreign key), and account keys to their rows.\<close>

definition db_ok :: "tables \<Rightarrow> bool" where
  "db_ok T \<longleftrightarrow> (\<forall>i u. users T i = Some u \<longrightarrow> u_ID u = i) \<and>
     (\<forall>k t. tokens T k = Some t \<longrightarrow> t_Token t = k \<and> users T (t_UserID t) \<noteq> None)"

lemma db_step_ok:
  assumes "db_step cp u req ok T T'" "db_ok T"
  shows "db_ok T'"
  using assms by (induction rule: db_step.induct) (auto simp: db_ok_def split: option.splits if_splits)

end
