(* ===== verification/Demo.thy ===== *)
theory Demo
  imports Server_Refinement "HOL-Library.Code_Target_Numeral"
begin

text \<open>
  A small concrete deployment for the witnesses: the reference database with two accounts
  and two sessions, a running clock, a fixed entropy source, the stand-in libraries, and
  the computed outcomes of a few runs on it.
\<close>

definition demo_user :: user where
  "demo_user = \<lparr>u_ID = 7, u_Name = ''ann'', u_Email = ''ann@x.io'', u_Password = ''$plain$secret12'',
     u_Role = RoleUser, u_Active = True, u_CreatedAt = 0, u_UpdatedAt = 0\<rparr>"

definition demo_token :: "string \<Rightarrow> bool \<Rightarrow> refresh_token" where
  "demo_token raw revoked = \<lparr>t_ID = 1, t_UserID = 7, t_Token = HashSHA256 plain_crypto raw,
     t_Revoked = revoked, t_ExpiresAt = 5000 * second, t_CreatedAt = 0\<rparr>"

definition demo_pg :: pg where
  "demo_pg = \<lparr>pg_main = \<lparr>r_users = [demo_user],
       r_tokens = [demo_token ''live'' False, demo_token ''used'' True]\<rparr>,
     pg_tx = None, pg_seq = 100, pg_now = 9\<rparr>"

definition demo_world :: "pg \<Rightarrow> pg world" where
  "demo_world d = \<lparr>w_db = d, w_clock = (\<lambda>n. (1000 + int n) * second), w_ticks = 0,
     w_entropy = (\<lambda>k n. Inr (replicate n (char_of (65 + k)))), w_draws = 0, w_log = []\<rparr>"

definition demo_cfg :: TokenConfig where
  "demo_cfg = \<lparr>tc_SecretKey = ''key'', tc_AccessTTL = 900000000000, tc_RefreshTTL = 3600000000000\<rparr>"

definition accept_all :: "validated \<Rightarrow> go_error option" where
  "accept_all s = None"

definition demo_login :: "pg LoginUsecase" where
  "demo_login = NewLoginUsecase (NewAuthRepository pg_refresh)
     (ProvideUserProvider (NewUserRepository pg_refresh)) accept_all demo_cfg"

definition demo_refresh :: "pg RefreshUsecase" where
  "demo_refresh = NewRefreshUsecase (NewAuthRepository pg_refresh)
     (ProvideUserProvider (NewUserRepository pg_refresh)) accept_all (RunInTransaction pg_refresh) demo_cfg"

text \<open>JSON for the log: the fields of a request as a list of alternating keys and values.\<close>

fun demo_marshal :: "message \<Rightarrow> bytes result" where
  "demo_marshal (PbLoginRequest e p) = Inr (enc_list [''email'', e, ''password'', p])"
| "demo_marshal (PbUpdateUserRequest i n) = Inr (enc_list [''name'', n])"
| "demo_marshal _ = Inr (enc_list [])"

fun demo_pairs :: "string list \<Rightarrow> (string \<times> json) list" where
  "demo_pairs (k # v # xs) = (k, JStr v) # demo_pairs xs"
| "demo_pairs _ = []"

definition demo_unmarshal :: "bytes \<Rightarrow> json result" where
  "demo_unmarshal b = (case dec_list [] b of Some xs \<Rightarrow> Inr (JObj (demo_pairs xs))
                       | None \<Rightarrow> Inl (Foreign ''invalid''))"

definition demo_libs :: "pg server_libs" where
  "demo_libs = \<lparr>lb_gorm = pg_refresh, lb_validate = accept_all, lb_crypto = plain_crypto,
     lb_jwt = plain_jwt, lb_timestamp = (\<lambda>t. \<lparr>ts_Seconds = t div second, ts_Nanos = t mod second\<rparr>),
     lb_text = (\<lambda>_. []),
     lb_log = \<lparr>ll_FromError = plain_FromError, ll_CodeString = (\<lambda>_. []), ll_Marshal = demo_marshal,
       ll_Unmarshal = demo_unmarshal, ll_lower = (\<lambda>s. s)\<rparr>,
     lb_stack = [], lb_Ping = Inr (\<lambda>c w. (None, w))\<rparr>"

text \<open>A call that carries the access token of the demo user.\<close>

definition demo_access :: string where
  "demo_access = enc_claims ''HS256'' ''key'' \<lparr>cl_Subject = ''7'', cl_IssuedAt = Some 0,
     cl_ExpiresAt = Some (2000 * second), cl_UserID = 7, cl_Role = ''user''\<rparr>"

definition demo_ctx :: ctx where
  "demo_ctx = Background\<lparr>ctx_md := Some (\<lambda>k. if k = ''authorization'' then [''Bearer '' @ demo_access] else [])\<rparr>"

lemma demo_chars: "char_of (65 :: nat) = CHR ''A''" "char_of (66 :: nat) = CHR ''B''"
  by code_simp+

lemma demo_contract: "gorm_db (lb_gorm demo_libs) pg_view" "gorm_db_up (lb_gorm demo_libs) pg_view"
  by (simp_all add: demo_libs_def pg_gorm_contract)

lemma demo_ping: "read_only_ping view (lb_Ping demo_libs)"
  by (simp add: demo_libs_def read_only_ping_def)

lemma demo_incoming: "incoming Background" "incoming demo_ctx"
  by (simp_all add: incoming_def demo_ctx_def Background_def)

end
