(* ===== verification/Session_Races.thy ===== *)
theory Session_Races
  imports Demo
begin

text \<open>
  Refreshes that run side by side. A refresh touches the database at two moments: its
  transaction reads the row of the token, which at read committed takes no lock and sees
  what is committed by then; and it writes, from \<^verbatim>\<open>RevokeToken\<close> on, where the lock on the row
  keeps other writers of it away until the commit, so that its writes are one step on the
  tables committed before. Between the two anything may happen: other refreshes of the same
  token, or any call of the server. The step relation \<open>race_step\<close> has these moments as its
  steps; every history of \<open>serve\<close> is a history of it.
\<close>

section \<open>The two moments of a refresh\<close>

text \<open>Where a refresh stands: not started, holding the row it read, or answered.\<close>

datatype refresh_pc =
    Unread
  | Found refresh_token
  | Replayed uint
  | Over "TokenPair option result"

text \<open>The closure up to the checks on the row it reads.\<close>

definition refresh_check ::
  "'s RefreshUsecase \<Rightarrow> string \<Rightarrow> ctx \<Rightarrow> 's world \<Rightarrow> refresh_pc \<times> 's world" where
  "refresh_check u tokenHash txCtx w =
     (case on_db (ar_FindTokenByValue (ru_authRepo u) txCtx tokenHash) w of
        (Inl err, w1) \<Rightarrow> (Over (Inl ErrTokenNotFound), w1)
      | (Inr stored, w1) \<Rightarrow>
     (if t_Revoked stored then (Replayed (t_UserID stored), w1)
      else
     (case time_Now w1 of (now, w2) \<Rightarrow>
     (if IsExpired stored now then (Over (Inl ErrTokenExpired), w2) else (Found stored, w2)))))"

text \<open>What is left of \<^verbatim>\<open>Execute\<close> after the checks: the rotation, or the answer to a replay.\<close>

definition refresh_finish ::
  "crypto \<Rightarrow> jwt \<Rightarrow> 's RefreshUsecase \<Rightarrow> string \<Rightarrow> ctx \<Rightarrow> refresh_pc \<Rightarrow> 's world \<Rightarrow>
   TokenPair option result \<times> 's world" where
  "refresh_finish cp jw u tokenHash c pc w =
     (case pc of
        Found stored \<Rightarrow>
          (case ru_txManager u c (refresh_rotate cp jw u tokenHash stored)
                  (w, \<lparr>rv_tokenPair = None, rv_isReplayAttack = False, rv_replayUserID = 0\<rparr>) of
             (Some e, w1, l) \<Rightarrow> (Inl e, w1)
           | (None, w1, l) \<Rightarrow> (Inr (rv_tokenPair l), w1))
      | Replayed i \<Rightarrow>
          (case on_db (ar_RevokeAllUserTokens (ru_authRepo u) c i) w of
             (_, w1) \<Rightarrow> (Inl ErrTokenRevoked, w1))
      | Over res \<Rightarrow> (res, w)
      | Unread \<Rightarrow> (Inr None, w))"

text \<open>The closure is the one after the other.\<close>

lemma refresh_body_moments:
  "refresh_body cp jw u h c (w, l) =
     (case refresh_check u h c w of
        (Found stored, w1) \<Rightarrow> refresh_rotate cp jw u h stored c (w1, l)
      | (Replayed i, w1) \<Rightarrow> (Some ErrTokenRevoked, w1, l\<lparr>rv_isReplayAttack := True, rv_replayUserID := i\<rparr>)
      | (Over (Inl e), w1) \<Rightarrow> (Some e, w1, l)
      | (_, w1) \<Rightarrow> (None, w1, l))"
  by (simp add: refresh_body_def refresh_check_def refresh_rotate_def split: prod.splits sum.splits)

text \<open>Their effects on the tables.\<close>

context auth_store
begin

lemma refresh_check_effect:
  assumes "refresh_check (NewRefreshUsecase r p v run cfg) h c w = (pc, w')"
  shows "view (w_db w') = view (w_db w)"
    and "pc \<noteq> Unread" "pc \<noteq> Over (Inr q)"
    and "pc = Found t \<Longrightarrow> tokens (view (w_db w) (handle c)) h = Some t \<and> \<not> t_Revoked t"
    and "pc = Replayed i \<Longrightarrow> \<exists>t. tokens (view (w_db w) (handle c)) h = Some t \<and> t_Revoked t \<and> t_UserID t = i"
  using assms
  by (auto simp: refresh_check_def auth_constructors on_db_eq time_Now_eq
      split: prod.splits sum.splits if_splits dest: Find_view Find_ok)

lemma refresh_rotate_frame:
  assumes "refresh_rotate cp jw (NewRefreshUsecase r p v run cfg) h stored c (w, l) = (x, w', l')"
    and "ctx_tx c = Some tx"
  shows "view (w_db w') DefaultDB = view (w_db w) DefaultDB"
  using assms
  by (auto simp: refresh_rotate_def auth_constructors on_db_def time_Now_def Let_def
      GenerateRandomHex_eq db_effect_def
      split: option.splits sum.splits prod.splits if_splits
      dest!: ByID_view Revoke_ok Revoke_err Create_ok Create_err GenerateToken_world)

lemma refresh_rotate_ok:
  assumes run: "refresh_rotate cp jw (NewRefreshUsecase r p v run cfg) h stored c (w, l) = (None, w', l')"
    and tx: "ctx_tx c = Some tx"
  defines "T \<equiv> view (w_db w) (TxDB tx)"
  shows "\<exists>t. tokens T h \<noteq> None \<and> users T (t_UserID stored) \<noteq> None \<and> t_UserID t = t_UserID stored \<and>
           \<not> t_Revoked t \<and> t_Token t \<noteq> h \<and> tokens T (t_Token t) = None \<and>
           view (w_db w') (TxDB tx) = ins_token t (revoke_row h T) \<and> rv_tokenPair l' \<noteq> None"
proof -
  from run obtain d1 usr d2 acc w2 raw d3 where
      rv: "ar_RevokeToken r c h (w_db w) = (None, d1)"
    and u: "up_FindByID p c (t_UserID stored) d1 = (Inr usr, d2)"
    and g: "GenerateToken jw (u_ID usr) (u_Role usr) (tc_SecretKey cfg) (tc_AccessTTL cfg)
              (w\<lparr>w_db := d2\<rparr>) = (Inr acc, w2)"
    and cr: "ar_CreateToken r c \<lparr>t_ID = 0, t_UserID = u_ID usr,
        t_Token = HashSHA256 cp (hex_EncodeToString raw), t_Revoked = False,
        t_ExpiresAt = time_Add (w_clock w2 (w_ticks w2)) (tc_RefreshTTL cfg),
        t_CreatedAt = zero_time\<rparr> (w_db w2) = (None, d3)"
    and w': "w_db w' = d3" "rv_tokenPair l' \<noteq> None"
    by (auto simp: refresh_rotate_def auth_constructors on_db_def time_Now_def Let_def
        GenerateRandomHex_eq split: option.splits sum.splits prod.splits)
  have w2: "w_db w2 = d2" using GenerateToken_world [OF g] by simp
  have T1: "tokens T h \<noteq> None" "view d1 (TxDB tx) = revoke_row h T"
    using Revoke_ok [OF rv] tx by (simp_all add: T_def db_effect_def)
  have usr: "users T (t_UserID stored) = Some usr" "u_ID usr = t_UserID stored"
    using ByID_ok [OF u] tx T1 by simp_all
  from Create_ok [OF cr] ByID_view [OF u] tx T1 w2 obtain t where
      free: "tokens (revoke_row h T) (HashSHA256 cp (hex_EncodeToString raw)) = None"
    and t: "t_Token t = HashSHA256 cp (hex_EncodeToString raw)" "t_UserID t = u_ID usr" "\<not> t_Revoked t"
    and eff: "view d3 (TxDB tx) = ins_token t (revoke_row h T)"
    by (auto simp: same_token_def db_effect_def)
  have "t_Token t \<noteq> h" using free t(1) T1(1) by auto
  with free t T1 usr eff w' show ?thesis by (intro exI [of _ t]) auto
qed

lemma refresh_finish_effect:
  assumes run: "refresh_finish cp jw (NewRefreshUsecase r p v run cfg) h c pc w = (res, w')"
    and tx: "ctx_tx c = None"
  defines "T \<equiv> view (w_db w) DefaultDB" and "T' \<equiv> view (w_db w') DefaultDB"
  shows "pc = Found stored \<Longrightarrow>
           (case res of
              Inl e \<Rightarrow> T' = T
            | Inr q \<Rightarrow> q \<noteq> None \<and> tokens T h \<noteq> None \<and> (\<exists>t. users T (t_UserID stored) \<noteq> None \<and>
                t_UserID t = t_UserID stored \<and> \<not> t_Revoked t \<and> t_Token t \<noteq> h \<and>
                tokens T (t_Token t) = None \<and> T' = ins_token t (revoke_row h T)))"
    and "pc = Replayed i \<Longrightarrow> res = Inl ErrTokenRevoked \<and> (T' = T \<or> T' = revoke_rows_of i T)"
proof -
  show "pc = Replayed i \<Longrightarrow> res = Inl ErrTokenRevoked \<and> (T' = T \<or> T' = revoke_rows_of i T)"
    using run tx
    by (auto simp: refresh_finish_def auth_constructors on_db_eq db_effect_def T_def T'_def
        split: prod.splits option.splits dest!: RevokeAll_ok RevokeAll_err)
       (metis (no_types, lifting) RevokeAll_err RevokeAll_ok GetDB_none db_effect_def id_apply not_None_eq)
next
  assume pc: "pc = Found stored"
  define l0 where "l0 = \<lparr>rv_tokenPair = None, rv_isReplayAttack = False, rv_replayUserID = 0\<rparr>"
  obtain oe w1 l where t: "run c (refresh_rotate cp jw (NewRefreshUsecase r p v run cfg) h stored) (w, l0)
      = (oe, w1, l)" by (metis prod_cases3)
  have res: "w' = w1" "res = (case oe of Some e \<Rightarrow> Inl e | None \<Rightarrow> Inr (rv_tokenPair l))"
    using run pc t
    by (auto simp: refresh_finish_def auth_constructors l0_def split: prod.splits option.splits)
  from run_outer [OF tx t]
  show "case res of
              Inl e \<Rightarrow> T' = T
            | Inr q \<Rightarrow> q \<noteq> None \<and> tokens T h \<noteq> None \<and> (\<exists>t. users T (t_UserID stored) \<noteq> None \<and>
                t_UserID t = t_UserID stored \<and> \<not> t_Revoked t \<and> t_Token t \<noteq> h \<and>
                tokens T (t_Token t) = None \<and> T' = ins_token t (revoke_row h T))"
  proof (elim disjE conjE exE)
    assume "txn_begin_failed view w oe w1"
    with res show ?thesis by (auto simp: txn_begin_failed_def T_def T'_def)
  next
    fix tx d0 x w2
    assume d0: "view d0 (TxDB tx) = view (w_db w) DefaultDB" "view d0 DefaultDB = view (w_db w) DefaultDB"
      and body: "refresh_rotate cp jw (NewRefreshUsecase r p v run cfg) h stored
         (c\<lparr>ctx_tx := Some tx\<rparr>) (w\<lparr>w_db := d0\<rparr>, l0) = (x, w2, l)"
      and ended: "txn_ended view tx d0 x w2 oe w1"
    have fr: "view (w_db w2) DefaultDB = view d0 DefaultDB"
      using refresh_rotate_frame [OF body, of tx] by simp
    show ?thesis
    proof (cases oe)
      case None
      with ended fr have x: "x = None" and T': "T' = view (w_db w2) (TxDB tx)"
        by (auto simp: txn_ended_def T'_def res split: option.splits)
      from refresh_rotate_ok [OF body [unfolded x], of tx] T' None res d0 show ?thesis
        by (auto simp: T_def)
    next
      case (Some e)
      with ended fr d0 res show ?thesis
        by (cases x) (auto simp: txn_ended_def T_def T'_def)
    qed
  qed
qed

end

section \<open>Histories of refreshes and calls\<close>

text \<open>
  The refresh \<open>p\<close> presents the token \<open>tok p\<close>. A step is a whole call of the server, a refresh
  that ends before it reads (its request is invalid or its transaction cannot be opened), its
  reading, or its end; an end says whether a pair of tokens was granted.
\<close>

datatype race_event = Call message bool | Reads nat | Ends nat bool

abbreviation refresh_usecase :: "'s server_libs \<Rightarrow> TokenConfig \<Rightarrow> 's RefreshUsecase" where
  "refresh_usecase L cfg \<equiv> NewRefreshUsecase (NewAuthRepository (lb_gorm L))
     (ProvideUserProvider (NewUserRepository (lb_gorm L))) (lb_validate L) (RunInTransaction (lb_gorm L)) cfg"

fun pair_granted :: "TokenPair option result \<Rightarrow> bool" where
  "pair_granted (Inr (Some pair)) = True"
| "pair_granted _ = False"

fun in_flight :: "refresh_pc \<Rightarrow> bool" where
  "in_flight (Found t) = True"
| "in_flight (Replayed i) = True"
| "in_flight _ = False"

inductive race_step ::
  "'s server_libs \<Rightarrow> TokenConfig \<Rightarrow> duration \<Rightarrow> (nat \<Rightarrow> string) \<Rightarrow> 's world \<times> (nat \<Rightarrow> refresh_pc) \<Rightarrow>
   race_event \<Rightarrow> 's world \<times> (nat \<Rightarrow> refresh_pc) \<Rightarrow> bool" for L cfg d tok where
  call: "incoming c \<Longrightarrow> serve L cfg d m c req w = (r, w') \<Longrightarrow>
     race_step L cfg d tok (w, pc) (Call req (succeeded r)) (w', pc)"
| refused: "pc p = Unread \<Longrightarrow> race_step L cfg d tok (w, pc) (Ends p False) (w, pc(p := Over (Inl e)))"
| reads: "pc p = Unread \<Longrightarrow> ctx_tx c = None \<Longrightarrow>
     refresh_check (refresh_usecase L cfg) (HashSHA256 (lb_crypto L) (tok p)) c w = (q, w') \<Longrightarrow>
     race_step L cfg d tok (w, pc) (Reads p) (w', pc(p := q))"
| ends: "in_flight (pc p) \<Longrightarrow> ctx_tx c = None \<Longrightarrow>
     refresh_finish (lb_crypto L) (lb_jwt L) (refresh_usecase L cfg) (HashSHA256 (lb_crypto L) (tok p)) c (pc p) w
       = (res, w') \<Longrightarrow>
     race_step L cfg d tok (w, pc) (Ends p (pair_granted res)) (w', pc(p := Over res))"

inductive_cases race_callE: "race_step L cfg d tok s (Call req ok) s'"
inductive_cases race_readsE: "race_step L cfg d tok s (Reads p) s'"
inductive_cases race_endsE: "race_step L cfg d tok s (Ends p ok) s'"

inductive race_run ::
  "'s server_libs \<Rightarrow> TokenConfig \<Rightarrow> duration \<Rightarrow> (nat \<Rightarrow> string) \<Rightarrow> 's world \<times> (nat \<Rightarrow> refresh_pc) \<Rightarrow>
   race_event list \<Rightarrow> 's world \<times> (nat \<Rightarrow> refresh_pc) \<Rightarrow> bool" for L cfg d tok where
  stop: "race_run L cfg d tok s [] s"
| go: "race_step L cfg d tok s e s1 \<Longrightarrow> race_run L cfg d tok s1 es s2 \<Longrightarrow>
     race_run L cfg d tok s (e # es) s2"

inductive_cases race_run_ConsE: "race_run L cfg d tok s (e # es) s'"
inductive_simps race_run_Nil [simp]: "race_run L cfg d tok s [] s'"

lemma race_run_append:
  "race_run L cfg d tok s (es1 @ es2) s2 \<longleftrightarrow>
     (\<exists>s1. race_run L cfg d tok s es1 s1 \<and> race_run L cfg d tok s1 es2 s2)"
proof (induction es1 arbitrary: s)
  case (Cons e es1)
  then show ?case by (fastforce elim: race_run_ConsE intro: race_run.go)
qed simp

text \<open>The answers that grant a new pair for the token.\<close>

fun grants :: "(nat \<Rightarrow> string) \<Rightarrow> string \<Rightarrow> race_event \<Rightarrow> bool" where
  "grants tok token (Call req ok) \<longleftrightarrow> ok \<and> req = PbRefreshRequest token"
| "grants tok token (Reads p) \<longleftrightarrow> False"
| "grants tok token (Ends p ok) \<longleftrightarrow> ok \<and> tok p = token"

fun keeps_accounts :: "race_event \<Rightarrow> bool" where
  "keeps_accounts (Call req ok) \<longleftrightarrow> \<not> deletes req"
| "keeps_accounts _ \<longleftrightarrow> True"

definition spent :: "crypto \<Rightarrow> string \<Rightarrow> tables \<Rightarrow> bool" where
  "spent cp token T \<longleftrightarrow> (\<exists>t. tokens T (HashSHA256 cp token) = Some t \<and> t_Revoked t)"

section \<open>What a step does\<close>

lemma race_ends_effect:
  assumes "gorm_db (lb_gorm L) view" "race_step L cfg d tok (w, pc) (Ends p ok) (w', pc')"
  defines "T \<equiv> view (w_db w) DefaultDB" and "T' \<equiv> view (w_db w') DefaultDB"
    and "h \<equiv> HashSHA256 (lb_crypto L) (tok p)"
  shows "if ok
         then (\<exists>stored t. pc p = Found stored \<and> tokens T h \<noteq> None \<and> \<not> t_Revoked t \<and> t_Token t \<noteq> h \<and>
                 tokens T (t_Token t) = None \<and> T' = ins_token t (revoke_row h T))
         else T' = T \<or> (\<exists>i. T' = revoke_rows_of i T)"
    and "\<exists>res. pc' = pc(p := Over res)"
proof -
  note fin_effect = auth_store.refresh_finish_effect [OF auth_store_gorm [OF assms(1)]]
  show "\<exists>res. pc' = pc(p := Over res)" using assms(2) by (auto elim: race_endsE)
  show "if ok
         then (\<exists>stored t. pc p = Found stored \<and> tokens T h \<noteq> None \<and> \<not> t_Revoked t \<and> t_Token t \<noteq> h \<and>
                 tokens T (t_Token t) = None \<and> T' = ins_token t (revoke_row h T))
         else T' = T \<or> (\<exists>i. T' = revoke_rows_of i T)"
  proof -
    from assms(2) consider "\<not> ok" "w' = w"
      | (fin) c res where "in_flight (pc p)" "ctx_tx c = None" "ok = pair_granted res"
          "refresh_finish (lb_crypto L) (lb_jwt L) (refresh_usecase L cfg) h c (pc p) w = (res, w')"
      by (auto simp: h_def elim: race_endsE)
    then show ?thesis
    proof cases
      case (fin c res)
      show ?thesis
      proof (cases "pc p")
        case (Found stored)
        with fin_effect(1) [OF fin(4,2), of stored] fin(3) show ?thesis
          by (cases res) (auto simp: T_def T'_def)
      next
        case (Replayed i)
        with fin_effect(2) [OF fin(4,2), of i] fin(3) show ?thesis by (auto simp: T_def T'_def)
      qed (use fin(1) in auto)
    qed (simp add: T_def T'_def)
  qed
qed

lemma race_reads_effect:
  assumes "gorm_db (lb_gorm L) view" "race_step L cfg d tok (w, pc) (Reads p) (w', pc')"
  shows "view (w_db w') = view (w_db w)"
    and "\<exists>q. pc' = pc(p := q) \<and> (\<forall>t. q = Found t \<longrightarrow>
           (\<exists>r. tokens (view (w_db w) DefaultDB) (HashSHA256 (lb_crypto L) (tok p)) = Some r \<and> \<not> t_Revoked r))"
  using assms(2) auth_store.refresh_check_effect [OF auth_store_gorm [OF assms(1)]]
  by (auto elim!: race_readsE) (metis GetDB_none)+

lemma race_call_effect:
  assumes "gorm_db (lb_gorm L) view" "read_only_ping view (lb_Ping L)"
    and "race_step L cfg d tok (w, pc) (Call req ok) (w', pc')"
  shows "pc' = pc" and "\<exists>u. db_step (lb_crypto L) u req ok (view (w_db w) DefaultDB) (view (w_db w') DefaultDB)"
proof -
  from assms(3) obtain c m r where "pc' = pc" "incoming c" "serve L cfg d m c req w = (r, w')" "ok = succeeded r"
    by (auto elim: race_callE)
  with serve_step [OF assms(1) _ assms(2)]
  show "pc' = pc" and "\<exists>u. db_step (lb_crypto L) u req ok (view (w_db w) DefaultDB) (view (w_db w') DefaultDB)"
    by blast+
qed

lemma spent_row:
  "spent cp token T \<longleftrightarrow> (case tokens T (HashSHA256 cp token) of None \<Rightarrow> False | Some t \<Rightarrow> t_Revoked t)"
  by (simp add: spent_def split: option.splits)

lemma spent_simps [simp]:
  "spent cp token T \<Longrightarrow> spent cp token (revoke_row h T)"
  "spent cp token T \<Longrightarrow> spent cp token (revoke_rows_of i T)"
  "spent cp token T \<Longrightarrow> tokens T (t_Token t) = None \<Longrightarrow> spent cp token (ins_token t T)"
  "tokens T (HashSHA256 cp token) \<noteq> None \<Longrightarrow> spent cp token (revoke_row (HashSHA256 cp token) T)"
  by (auto simp: spent_row split: option.splits)

lemma spent_ins: "spent cp token T \<Longrightarrow> t_Token t \<noteq> HashSHA256 cp token \<Longrightarrow> spent cp token (ins_token t T)"
  by (auto simp: spent_def)

text \<open>A spent token stays spent, and a grant spends it.\<close>

lemma race_spent:
  assumes "gorm_db (lb_gorm L) view" "read_only_ping view (lb_Ping L)"
    and "race_step L cfg d tok (w, pc) e (w', pc')" "keeps_accounts e"
  shows "spent (lb_crypto L) token (view (w_db w) DefaultDB) \<Longrightarrow> spent (lb_crypto L) token (view (w_db w') DefaultDB)"
    and "grants tok token e \<Longrightarrow> spent (lb_crypto L) token (view (w_db w') DefaultDB)"
proof -
  have "(spent (lb_crypto L) token (view (w_db w) DefaultDB) \<longrightarrow> spent (lb_crypto L) token (view (w_db w') DefaultDB)) \<and>
      (grants tok token e \<longrightarrow> spent (lb_crypto L) token (view (w_db w') DefaultDB))"
  proof (cases e)
    case (Call req ok)
    with race_call_effect(2) [OF assms(1,2)] assms(3) obtain u where
      st: "db_step (lb_crypto L) u req ok (view (w_db w) DefaultDB) (view (w_db w') DefaultDB)" by blast
    have "spent (lb_crypto L) token (view (w_db w') DefaultDB)"
      if "spent (lb_crypto L) token (view (w_db w) DefaultDB)"
      using that Call assms(4) db_step_revoked [OF st] by (fastforce simp: spent_def)
    moreover have "spent (lb_crypto L) token (view (w_db w') DefaultDB)" if "grants tok token e"
      using that Call st by (auto simp: spent_def intro: db_step_spent)
    ultimately show ?thesis by blast
  next
    case (Reads p)
    with race_reads_effect(1) [OF assms(1)] assms(3) show ?thesis by auto
  next
    case (Ends p ok)
    from race_ends_effect(1) [OF assms(1) assms(3) [unfolded Ends]] Ends show ?thesis
      by (auto split: if_splits intro!: spent_ins)
  qed
  then show "spent (lb_crypto L) token (view (w_db w) DefaultDB) \<Longrightarrow> spent (lb_crypto L) token (view (w_db w') DefaultDB)"
    and "grants tok token e \<Longrightarrow> spent (lb_crypto L) token (view (w_db w') DefaultDB)" by blast+
qed

text \<open>A spent token is found by no later reading, and granted only to a refresh that holds its row.\<close>

lemma race_found:
  assumes "gorm_db (lb_gorm L) view" "read_only_ping view (lb_Ping L)"
    and "race_step L cfg d tok (w, pc) e (w', pc')" "pc' p = Found t"
  shows "pc p = Found t \<or> e = Reads p \<and> \<not> spent (lb_crypto L) (tok p) (view (w_db w) DefaultDB)"
proof (cases e)
  case (Call req ok)
  from race_call_effect(1) [OF assms(1,2) assms(3) [unfolded Call]] assms(4) show ?thesis by simp
next
  case (Reads q)
  from race_reads_effect(2) [OF assms(1) assms(3) [unfolded Reads]] assms(4) Reads show ?thesis
    by (auto simp: spent_def split: if_splits)
next
  case (Ends q ok)
  from race_ends_effect(2) [OF assms(1) assms(3) [unfolded Ends]] assms(4) show ?thesis
    by (auto split: if_splits)
qed

lemma race_granting:
  assumes "gorm_db (lb_gorm L) view" "read_only_ping view (lb_Ping L)"
    and "race_step L cfg d tok (w, pc) e (w', pc')" "grants tok token e"
    and "spent (lb_crypto L) token (view (w_db w) DefaultDB)"
  shows "\<exists>p t. e = Ends p True \<and> tok p = token \<and> pc p = Found t"
proof (cases e)
  case (Call req ok)
  with race_call_effect(2) [OF assms(1,2) assms(3) [unfolded Call]] assms(4,5) show ?thesis
    by (auto simp: spent_def dest: db_step_refused)
next
  case (Ends p ok)
  from race_ends_effect(1) [OF assms(1) assms(3) [unfolded Ends]] assms(4) Ends show ?thesis by auto
qed (use assms(4) in simp)

lemma race_run_found:
  assumes "gorm_db (lb_gorm L) view" "read_only_ping view (lb_Ping L)"
    and "race_run L cfg d tok s es s'" "snd s' p = Found t"
  shows "snd s p = Found t \<or> Reads p \<in> set es"
  using assms(3,4)
proof (induction rule: race_run.induct)
  case (go s e s1 es s2)
  then show ?case using race_found [OF assms(1,2), of cfg d tok "fst s" "snd s" e "fst s1" "snd s1" p t]
    by auto
qed simp

lemma race_run_spent:
  assumes "gorm_db (lb_gorm L) view" "read_only_ping view (lb_Ping L)"
    and "race_run L cfg d tok s es s'" "list_all keeps_accounts es"
    and "spent (lb_crypto L) token (view (w_db (fst s)) DefaultDB)" "e \<in> set es" "grants tok token e"
  shows "\<exists>p t. e = Ends p True \<and> tok p = token \<and> snd s p = Found t"
  using assms(3-6)
proof (induction rule: race_run.induct)
  case (go s e1 s1 es s2)
  have step: "race_step L cfg d tok (fst s, snd s) e1 (fst s1, snd s1)" using go.hyps(1) by simp
  show ?case
  proof (cases "e = e1")
    case True
    with race_granting [OF assms(1,2) step _ go.prems(2)] assms(7) show ?thesis by simp
  next
    case False
    with go race_spent(1) [OF assms(1,2) step] obtain p t where
      p: "e = Ends p True" "tok p = token" "snd s1 p = Found t" by auto
    with race_found [OF assms(1,2) step p(3)] go.prems(2) show ?thesis by auto
  qed
qed simp

section \<open>Schedules\<close>

text \<open>A schedule names who moves next; playing it computes the history, if every move is possible.\<close>

datatype race_move = DoCall string ctx message | DoRead nat | DoEnd nat

fun race_do ::
  "'s server_libs \<Rightarrow> TokenConfig \<Rightarrow> duration \<Rightarrow> (nat \<Rightarrow> string) \<Rightarrow> race_move \<Rightarrow>
   's world \<times> (nat \<Rightarrow> refresh_pc) \<Rightarrow> (race_event \<times> 's world \<times> (nat \<Rightarrow> refresh_pc)) option" where
  "race_do L cfg d tok (DoCall m c req) (w, pc) =
     (if incoming c then
        (case serve L cfg d m c req w of (r, w') \<Rightarrow> Some (Call req (succeeded r), w', pc))
      else None)"
| "race_do L cfg d tok (DoRead p) (w, pc) =
     (case pc p of
        Unread \<Rightarrow>
          (case refresh_check (refresh_usecase L cfg) (HashSHA256 (lb_crypto L) (tok p)) Background w of
             (q, w') \<Rightarrow> Some (Reads p, w', pc(p := q)))
      | _ \<Rightarrow> None)"
| "race_do L cfg d tok (DoEnd p) (w, pc) =
     (if in_flight (pc p) then
        (case refresh_finish (lb_crypto L) (lb_jwt L) (refresh_usecase L cfg)
                (HashSHA256 (lb_crypto L) (tok p)) Background (pc p) w of
           (res, w') \<Rightarrow> Some (Ends p (pair_granted res), w', pc(p := Over res)))
      else None)"

fun race_play ::
  "'s server_libs \<Rightarrow> TokenConfig \<Rightarrow> duration \<Rightarrow> (nat \<Rightarrow> string) \<Rightarrow> race_move list \<Rightarrow>
   's world \<times> (nat \<Rightarrow> refresh_pc) \<Rightarrow> (race_event list \<times> 's world \<times> (nat \<Rightarrow> refresh_pc)) option" where
  "race_play L cfg d tok [] s = Some ([], s)"
| "race_play L cfg d tok (m # ms) s =
     (case race_do L cfg d tok m s of
        None \<Rightarrow> None
      | Some (e, s1) \<Rightarrow>
          (case race_play L cfg d tok ms s1 of None \<Rightarrow> None | Some (es, s2) \<Rightarrow> Some (e # es, s2)))"

lemma race_do_step: "race_do L cfg d tok m s = Some (e, s') \<Longrightarrow> race_step L cfg d tok s e s'"
proof (induction L cfg d tok m s rule: race_do.induct)
  case (1 L cfg d tok m c req w pc)
  then show ?case by (auto split: if_splits prod.splits intro: race_step.call)
next
  case (2 L cfg d tok p w pc)
  then show ?case
    by (auto split: refresh_pc.splits prod.splits intro!: race_step.reads [where c = Background]
        simp: Background_def)
next
  case (3 L cfg d tok p w pc)
  then show ?case
    by (auto split: if_splits prod.splits intro!: race_step.ends [where c = Background]
        simp: Background_def)
qed

lemma race_play_run: "race_play L cfg d tok ms s = Some (es, s') \<Longrightarrow> race_run L cfg d tok s es s'"
  by (induction ms arbitrary: s es) (auto split: option.splits prod.splits intro: race_run.go race_do_step)

section \<open>What the code does not prevent\<close>

text \<open>
  The reference deployment: \<open>live\<close> is an unrevoked and \<open>used\<close> a revoked token of the same
  account. Two refreshes that both read the live token before either writes are both granted.
\<close>

abbreviation demo_race :: "(nat \<Rightarrow> string) \<Rightarrow> race_move list \<Rightarrow> (race_event list \<times> pg world \<times> (nat \<Rightarrow> refresh_pc)) option" where
  "demo_race tok ms \<equiv> race_play demo_libs demo_cfg 5000000000 tok ms (demo_world demo_pg, \<lambda>_. Unread)"

lemma two_grants_of_one_token:
  "map_option fst (demo_race (\<lambda>_. ''live'') [DoRead 0, DoRead 1, DoEnd 0, DoEnd 1])
     = Some [Reads 0, Reads 1, Ends 0 True, Ends 1 True]"
  by code_simp

text \<open>
  A replay is detected and every token of the account revoked, while a rotation that has read
  its row before goes through: its new token stays alive.
\<close>

lemma rotation_survives_revocation:
  "map_option (\<lambda>(es, w, pc). (es, filter (\<lambda>t. \<not> t_Revoked t) (r_tokens (pg_main (w_db w))) = []))
     (demo_race (\<lambda>_. ''live'')
        [DoRead 0, DoCall ''/auth.v1.AuthService/Refresh'' Background (PbRefreshRequest ''used''), DoEnd 0])
     = Some ([Reads 0, Call (PbRefreshRequest ''used'') False, Ends 0 True], False)"
  by code_simp

end
