(* ===== verification/Account_Properties.thy ===== *)
theory Account_Properties
  imports Session_Races
begin

text \<open>
  The properties of accounts and sessions: what login, rotation, replay and logout do to
  the tables, the histories of the assembled server, and what the code does not prevent.
  Each is followed by a run on the reference deployment that satisfies its hypotheses.
\<close>

section \<open>The server implements its specification\<close>

text \<open>
  C1: Every call of the assembled server (interceptors, handler, use case, repository) on an
  incoming context is a step of the abstract specification \<open>db_step\<close>, made by the user of a
  bearer token that was validated after the call arrived, or by nobody.
\<close>
theorem server_refines_spec:
  fixes w :: "'s world"
  assumes "gorm_db (lb_gorm L) view" and "incoming c" and "read_only_ping view (lb_Ping L)"
    and "serve L cfg d m c req w = (r, w')"
  shows "\<exists>u. db_step (lb_crypto L) u req (succeeded r)
               (view (w_db w) DefaultDB) (view (w_db w') DefaultDB) \<and>
             (\<forall>i. u = Some i \<longrightarrow> (\<exists>cl wa :: 's world. w_clock wa = w_clock w \<and> w_ticks w < w_ticks wa \<and>
                bearer_claims (lb_jwt L) (tc_SecretKey cfg) c wa = Some cl \<and> cl_UserID cl = i))"
  by (rule serve_step [OF assms])

theorem server_refines_spec_witness:
  "\<exists>r w'. serve demo_libs demo_cfg 5000000000 ''/user.v1.UserService/UpdateUser'' demo_ctx
            (PbUpdateUserRequest 7 ''bob'') (demo_world demo_pg) = (r, w') \<and> succeeded r \<and>
     (\<exists>u. db_step plain_crypto u (PbUpdateUserRequest 7 ''bob'') True
            (pg_view demo_pg DefaultDB) (pg_view (w_db w') DefaultDB))"
proof -
  obtain r w' where s: "serve demo_libs demo_cfg 5000000000 ''/user.v1.UserService/UpdateUser'' demo_ctx
      (PbUpdateUserRequest 7 ''bob'') (demo_world demo_pg) = (r, w')" by fastforce
  have "succeeded (fst (serve demo_libs demo_cfg 5000000000 ''/user.v1.UserService/UpdateUser'' demo_ctx
      (PbUpdateUserRequest 7 ''bob'') (demo_world demo_pg)))" by code_simp
  with s have ok: "succeeded r" by simp
  have e: "lb_crypto demo_libs = plain_crypto" "w_db (demo_world demo_pg) = demo_pg"
    by (simp_all add: demo_libs_def demo_world_def)
  from server_refines_spec [OF demo_contract(1) demo_incoming(2) demo_ping s] ok
  show ?thesis using s unfolding e by auto
qed

text \<open>
  C2: A refresh token is granted at most once: in any sequence of calls that deletes no
  account, at most one refresh request with a given token is answered with success.
\<close>
theorem refresh_token_single_use:
  assumes "gorm_db (lb_gorm L) view" and "read_only_ping view (lb_Ping L)"
    and "list_all (\<lambda>(m, c, req). incoming c \<and> \<not> deletes req) calls"
  shows "count_list (fst (serve_all L cfg d calls w)) (PbRefreshRequest token) \<le> 1"
proof -
  obtain granted w' where s: "serve_all L cfg d calls w = (granted, w')" by fastforce
  have "list_all (\<lambda>(m, c, req). incoming c) calls" using assms(3) by (auto simp: list_all_iff)
  from serve_all_steps [OF assms(1,2) this s] obtain hist where
    h: "map fst hist = map (\<lambda>(m, c, req). req) calls" "granted = map fst (filter snd hist)"
       "db_steps (lb_crypto L) hist (view (w_db w) DefaultDB) (view (w_db w') DefaultDB)" by blast
  have "list_all (\<lambda>req. \<not> deletes req) (map fst hist)"
    using assms(3) unfolding h(1) by (auto simp: list_all_iff)
  then have "list_all (\<lambda>(req, ok). \<not> deletes req) hist" by (auto simp: list_all_iff)
  from db_steps_single_use [OF h(3) this, of token] h(2) s show ?thesis by simp
qed

theorem refresh_token_single_use_witness:
  "fst (serve_all demo_libs demo_cfg 5000000000
     [(''/auth.v1.AuthService/Refresh'', Background, PbRefreshRequest ''live''),
      (''/auth.v1.AuthService/Refresh'', Background, PbRefreshRequest ''live'')] (demo_world demo_pg))
     = [PbRefreshRequest ''live''] \<and>
   count_list (fst (serve_all demo_libs demo_cfg 5000000000
     [(''/auth.v1.AuthService/Refresh'', Background, PbRefreshRequest ''live''),
      (''/auth.v1.AuthService/Refresh'', Background, PbRefreshRequest ''live'')] (demo_world demo_pg)))
     (PbRefreshRequest ''live'') \<le> 1"
proof
  show "fst (serve_all demo_libs demo_cfg 5000000000
     [(''/auth.v1.AuthService/Refresh'', Background, PbRefreshRequest ''live''),
      (''/auth.v1.AuthService/Refresh'', Background, PbRefreshRequest ''live'')] (demo_world demo_pg))
     = [PbRefreshRequest ''live'']" by code_simp
qed (rule refresh_token_single_use [OF demo_contract(1) demo_ping],
     simp add: demo_incoming deletes_def)

text \<open>
  C3: No call changes or removes the row of an account unless it carries a valid bearer
  token of that account; then it is that account's own update, which touches the name and
  the update time only, or its own deletion.
\<close>
theorem account_changes_by_owner:
  fixes w :: "'s world"
  assumes "gorm_db (lb_gorm L) view" and "incoming c" and "read_only_ping view (lb_Ping L)"
    and "serve L cfg d m c req w = (r, w')"
    and "users (view (w_db w) DefaultDB) i = Some usr"
    and "users (view (w_db w') DefaultDB) i \<noteq> Some usr"
  shows "(\<exists>cl wa :: 's world. w_clock wa = w_clock w \<and>
            bearer_claims (lb_jwt L) (tc_SecretKey cfg) c wa = Some cl \<and> cl_UserID cl = i) \<and>
         (deletes req \<and> users (view (w_db w') DefaultDB) i = None \<or>
          (\<exists>n now. req = PbUpdateUserRequest i n \<and> users (view (w_db w') DefaultDB) i =
             Some (usr\<lparr>u_Name := (if n = [] then u_Name usr else n), u_UpdatedAt := now\<rparr>)))"
proof -
  from serve_step [OF assms(1-4)] obtain u where
    s: "db_step (lb_crypto L) u req (succeeded r) (view (w_db w) DefaultDB) (view (w_db w') DefaultDB)"
    and u: "\<forall>i. u = Some i \<longrightarrow> (\<exists>cl wa :: 's world. w_clock wa = w_clock w \<and> w_ticks w < w_ticks wa \<and>
                bearer_claims (lb_jwt L) (tc_SecretKey cfg) c wa = Some cl \<and> cl_UserID cl = i)" by blast
  from db_step_users [OF s assms(5,6)] u show ?thesis by blast
qed

theorem account_changes_by_owner_witness:
  "\<exists>r w'. serve demo_libs demo_cfg 5000000000 ''/user.v1.UserService/DeleteUser'' demo_ctx
            (PbDeleteUserRequest 7) (demo_world demo_pg) = (r, w') \<and>
     (\<exists>cl wa :: pg world. w_clock wa = w_clock (demo_world demo_pg) \<and>
        bearer_claims plain_jwt ''key'' demo_ctx wa = Some cl \<and> cl_UserID cl = 7)"
proof -
  obtain r w' where s: "serve demo_libs demo_cfg 5000000000 ''/user.v1.UserService/DeleteUser'' demo_ctx
      (PbDeleteUserRequest 7) (demo_world demo_pg) = (r, w')" by fastforce
  have "row_user (pg_main (w_db (snd (serve demo_libs demo_cfg 5000000000
      ''/user.v1.UserService/DeleteUser'' demo_ctx (PbDeleteUserRequest 7) (demo_world demo_pg))))) 7 = None"
    by code_simp
  with s have gone: "users (pg_view (w_db w') DefaultDB) 7 \<noteq> Some demo_user"
    by (simp add: pg_rows_def)
  have there: "users (pg_view (w_db (demo_world demo_pg)) DefaultDB) 7 = Some demo_user"
    by (simp add: pg_rows_def demo_world_def demo_pg_def row_user_def demo_user_def)
  have e: "lb_jwt demo_libs = plain_jwt" "tc_SecretKey demo_cfg = ''key''"
    by (simp_all add: demo_libs_def demo_cfg_def)
  from account_changes_by_owner [OF demo_contract(1) demo_incoming(2) demo_ping s there gone]
  show ?thesis using s unfolding e by blast
qed

section \<open>Login\<close>

text \<open>
  C7: A successful login: the account of that email accepted the password, the access token
  is signed for it, and exactly one fresh, unrevoked refresh token was added, stored by its
  hash only, expiring the configured time after the clock reading made for it.
\<close>
theorem login_issues_session:
  fixes g :: "('s, refresh_vars) gorm"
  assumes "gorm_db g view"
    and "Login_Execute cp jw (NewLoginUsecase (NewAuthRepository g)
           (ProvideUserProvider (NewUserRepository g)) v cfg) c req w = (Inr pair, w')"
  shows "\<exists>usr raw t. users (view (w_db w) (GetDB c DefaultDB)) (u_ID usr) = Some usr \<and>
           u_Email usr = lr_Email req \<and>
           CheckPassword cp (lr_Password req) (u_Password usr) = None \<and>
           fst (GenerateToken jw (u_ID usr) (u_Role usr) (tc_SecretKey cfg) (tc_AccessTTL cfg) w)
             = Inr (tp_AccessToken pair) \<and>
           w_entropy w (w_draws w) 32 = Inr raw \<and> tp_RefreshToken pair = hex_EncodeToString raw \<and>
           token_for cp usr (tp_RefreshToken pair)
             (time_Add (w_clock w (Suc (w_ticks w))) (tc_RefreshTTL cfg)) t \<and>
           tokens (view (w_db w) (GetDB c DefaultDB)) (t_Token t) = None \<and>
           world_effect view c w w' (ins_token t)"
  by (rule auth_store.Login_ok [OF auth_store_gorm [OF assms(1)] assms(2)])

theorem login_issues_session_witness:
  "\<exists>pair w' t. Login_Execute plain_crypto plain_jwt demo_login Background
       \<lparr>lr_Email = ''ann@x.io'', lr_Password = ''secret12''\<rparr> (demo_world demo_pg) = (Inr pair, w') \<and>
     row_token (pg_main demo_pg) (t_Token t) = None \<and>
     pg_view (w_db w') DefaultDB = ins_token t (pg_view demo_pg DefaultDB)"
proof -
  let ?run = "Login_Execute plain_crypto plain_jwt demo_login Background
       \<lparr>lr_Email = ''ann@x.io'', lr_Password = ''secret12''\<rparr> (demo_world demo_pg)"
  have "\<not> isl (fst ?run)" by code_simp
  then obtain pair w' where r: "?run = (Inr pair, w')"
    by (cases ?run) (auto simp: isl_def split: sum.splits, metis sum.exhaust)
  from login_issues_session [OF pg_gorm_contract(1) r [unfolded demo_login_def]]
  show ?thesis using r
    by (auto simp: world_effect_def db_effect_def demo_world_def pg_rows_def)
qed

text \<open>
  C8: An unknown email and a wrong password get the same answer, and leave the tables as
  they were: the error alone does not tell whether the email is registered.
\<close>
theorem login_refused_uniformly:
  fixes g :: "('s, refresh_vars) gorm"
  assumes "gorm_db g view" and "v (V_Login req) = None"
    and "\<And>usr. users (view (w_db w) (GetDB c DefaultDB)) (u_ID usr) = Some usr \<Longrightarrow>
           u_Email usr = lr_Email req \<Longrightarrow>
           CheckPassword cp (lr_Password req) (u_Password usr) \<noteq> None"
    and "Login_Execute cp jw (NewLoginUsecase (NewAuthRepository g)
           (ProvideUserProvider (NewUserRepository g)) v cfg) c req w = (x, w')"
  shows "x = Inl ErrInvalidCredentials \<and>
         view (w_db w') (GetDB c DefaultDB) = view (w_db w) (GetDB c DefaultDB)"
proof
  note store = auth_store_gorm [OF assms(1)]
  show x: "x = Inl ErrInvalidCredentials"
    using auth_store.Login_refused [where v = v and req = req and jw = jw and cfg = cfg and w = w and c = c,
        OF store assms(2,3)] assms(4) by simp
  from auth_store.Login_err [OF store assms(4) [unfolded x]]
  show "view (w_db w') (GetDB c DefaultDB) = view (w_db w) (GetDB c DefaultDB)"
    by (auto dest: world_effect_view)
qed

theorem login_refused_uniformly_witness:
  "fst (Login_Execute plain_crypto plain_jwt demo_login Background
      \<lparr>lr_Email = ''ann@x.io'', lr_Password = ''wrong''\<rparr> (demo_world demo_pg))
     = Inl ErrInvalidCredentials"
proof -
  obtain x w' where r: "Login_Execute plain_crypto plain_jwt demo_login Background
      \<lparr>lr_Email = ''ann@x.io'', lr_Password = ''wrong''\<rparr> (demo_world demo_pg) = (x, w')" by fastforce
  have pw: "CheckPassword plain_crypto ''wrong'' (u_Password usr) \<noteq> None"
    if "users (pg_view (w_db (demo_world demo_pg)) (GetDB Background DefaultDB)) (u_ID usr) = Some usr" for usr
    using that
    by (auto simp: pg_rows_def demo_world_def demo_pg_def row_user_def demo_user_def Background_def
        CheckPassword_def plain_crypto_def split: if_splits)
  have v: "accept_all (V_Login \<lparr>lr_Email = ''ann@x.io'', lr_Password = ''wrong''\<rparr>) = None"
    by (simp add: accept_all_def)
  have "x = Inl ErrInvalidCredentials \<and>
      pg_view (w_db w') (GetDB Background DefaultDB) = pg_view (w_db (demo_world demo_pg)) (GetDB Background DefaultDB)"
    by (rule login_refused_uniformly [where v = accept_all, OF pg_gorm_contract(1) v _ r [unfolded demo_login_def]])
       (use pw in auto)
  with r show ?thesis by simp
qed

section \<open>Rotation and replay\<close>

text \<open>
  C9: A successful refresh, outside a transaction: the presented token was stored, unrevoked
  and unexpired, its account exists; afterwards that token is revoked, exactly one fresh
  token of the same account was added, and the pair returned is never nil.
\<close>
theorem refresh_rotates:
  fixes w :: "'s world"
  assumes "gorm_db g view" and "ctx_tx c = None"
    and "Refresh_Execute cp jw (NewRefreshUsecase (NewAuthRepository g)
           (ProvideUserProvider (NewUserRepository g)) v (RunInTransaction g) cfg) c req w = (Inr q, w')"
    and "h = HashSHA256 cp (rr_RefreshToken req)" and "T = view (w_db w) DefaultDB"
  shows "\<exists>old usr pair raw t. q = Some pair \<and> tokens T h = Some old \<and> \<not> t_Revoked old \<and>
           \<not> IsExpired old (w_clock w (w_ticks w)) \<and>
           users T (t_UserID old) = Some usr \<and> u_ID usr = t_UserID old \<and>
           fst (GenerateToken jw (u_ID usr) (u_Role usr) (tc_SecretKey cfg) (tc_AccessTTL cfg)
                  (w\<lparr>w_ticks := Suc (w_ticks w)\<rparr>)) = Inr (tp_AccessToken pair) \<and>
           w_entropy w (w_draws w) 32 = Inr raw \<and> tp_RefreshToken pair = hex_EncodeToString raw \<and>
           token_for cp usr (tp_RefreshToken pair)
             (time_Add (w_clock w (Suc (Suc (w_ticks w)))) (tc_RefreshTTL cfg)) t \<and>
           t_Token t \<noteq> h \<and> tokens T (t_Token t) = None \<and>
           view (w_db w') DefaultDB = ins_token t (revoke_row h T)"
  unfolding assms(4,5) by (rule auth_store.Refresh_ok [OF auth_store_gorm [OF assms(1)] assms(3,2)])

theorem refresh_rotates_witness:
  "\<exists>q w' t. Refresh_Execute plain_crypto plain_jwt demo_refresh Background
       \<lparr>rr_RefreshToken = ''live''\<rparr> (demo_world demo_pg) = (Inr q, w') \<and> q \<noteq> None \<and>
     pg_view (w_db w') DefaultDB =
       ins_token t (revoke_row (HashSHA256 plain_crypto ''live'') (pg_view demo_pg DefaultDB))"
proof -
  let ?run = "Refresh_Execute plain_crypto plain_jwt demo_refresh Background
       \<lparr>rr_RefreshToken = ''live''\<rparr> (demo_world demo_pg)"
  have "\<not> isl (fst ?run)" by code_simp
  then obtain q w' where r: "?run = (Inr q, w')"
    by (cases ?run) (auto simp: isl_def split: sum.splits, metis sum.exhaust)
  have tx: "ctx_tx Background = None" by simp
  from refresh_rotates [OF pg_gorm_contract(1) tx r [unfolded demo_refresh_def] refl refl]
  show ?thesis using r by (auto simp: demo_world_def)
qed

text \<open>
  C10: A refused refresh changes nothing, or it met a revoked token and revoked every token of
  that account: no failure leaves a rotation half done.
\<close>
theorem refresh_failure_atomic:
  fixes w :: "'s world"
  assumes "gorm_db g view" and "ctx_tx c = None"
    and "Refresh_Execute cp jw (NewRefreshUsecase (NewAuthRepository g)
           (ProvideUserProvider (NewUserRepository g)) v (RunInTransaction g) cfg) c req w = (Inl e, w')"
    and "h = HashSHA256 cp (rr_RefreshToken req)" and "T = view (w_db w) DefaultDB"
  shows "view (w_db w') DefaultDB = T \<or>
         (\<exists>old. e = ErrTokenRevoked \<and> tokens T h = Some old \<and> t_Revoked old \<and>
                view (w_db w') DefaultDB = revoke_rows_of (t_UserID old) T)"
  unfolding assms(4,5) by (rule auth_store.Refresh_err [OF auth_store_gorm [OF assms(1)] assms(3,2)])

theorem refresh_failure_atomic_witness:
  "\<exists>e w'. Refresh_Execute plain_crypto plain_jwt demo_refresh Background
       \<lparr>rr_RefreshToken = ''none''\<rparr> (demo_world demo_pg) = (Inl e, w') \<and>
     pg_view (w_db w') DefaultDB = pg_view demo_pg DefaultDB"
proof -
  let ?run = "Refresh_Execute plain_crypto plain_jwt demo_refresh Background
       \<lparr>rr_RefreshToken = ''none''\<rparr> (demo_world demo_pg)"
  have "isl (fst ?run)" by code_simp
  then obtain e w' where r: "?run = (Inl e, w')"
    by (cases ?run) (auto simp: isl_def split: sum.splits)
  have tx: "ctx_tx Background = None" by simp
  have none: "row_token (pg_main demo_pg) (HashSHA256 plain_crypto ''none'') = None" by code_simp
  from refresh_failure_atomic [OF pg_gorm_contract(1) tx r [unfolded demo_refresh_def] refl refl]
  show ?thesis using r none by (auto simp: demo_world_def pg_rows_def)
qed

text \<open>
  C11: While the database answers, presenting a revoked token is answered with
  \<open>ErrTokenRevoked\<close> and revokes every token of the account it belongs to.
\<close>
theorem refresh_replay_revokes_family:
  fixes w :: "'s world"
  assumes "gorm_db_up g view" and "ctx_tx c = None" and "v (V_Refresh req) = None"
    and "tokens (view (w_db w) DefaultDB) (HashSHA256 cp (rr_RefreshToken req)) = Some old"
    and "t_Revoked old"
  shows "\<exists>w'. Refresh_Execute cp jw (NewRefreshUsecase (NewAuthRepository g)
           (ProvideUserProvider (NewUserRepository g)) v (RunInTransaction g) cfg) c req w
           = (Inl ErrTokenRevoked, w') \<and>
         view (w_db w') DefaultDB = revoke_rows_of (t_UserID old) (view (w_db w) DefaultDB)"
  using auth_store_up.Refresh_replay [where v = v and req = req and cp = cp and w = w and old = old,
      OF auth_store_up_gorm [OF assms(1)] assms(2,3)] assms(4,5) by blast

theorem refresh_replay_revokes_family_witness:
  "\<exists>w'. Refresh_Execute plain_crypto plain_jwt demo_refresh Background
       \<lparr>rr_RefreshToken = ''used''\<rparr> (demo_world demo_pg) = (Inl ErrTokenRevoked, w') \<and>
     (\<exists>t. row_token (pg_main (w_db w')) (HashSHA256 plain_crypto ''live'') = Some t \<and> t_Revoked t)"
proof -
  let ?req = "\<lparr>rr_RefreshToken = ''used''\<rparr>"
  have tx: "ctx_tx Background = None" by simp
  have v: "accept_all (V_Refresh ?req) = None" by (simp add: accept_all_def)
  have "row_token (pg_main demo_pg) (HashSHA256 plain_crypto ''used'') = Some (demo_token ''used'' True)"
    by code_simp
  then have old: "tokens (pg_view (w_db (demo_world demo_pg)) DefaultDB)
      (HashSHA256 plain_crypto (rr_RefreshToken ?req)) = Some (demo_token ''used'' True)"
    by (simp add: demo_world_def pg_rows_def)
  have rv: "t_Revoked (demo_token ''used'' True)" by (simp add: demo_token_def)
  from refresh_replay_revokes_family [where g = pg_refresh and view = pg_view and c = Background
      and v = accept_all and req = ?req and cp = plain_crypto and w = "demo_world demo_pg"
      and old = "demo_token ''used'' True" and jw = plain_jwt and cfg = demo_cfg,
      OF pg_gorm_contract(2) tx v old rv] obtain w' where
    r: "Refresh_Execute plain_crypto plain_jwt demo_refresh Background ?req (demo_world demo_pg)
          = (Inl ErrTokenRevoked, w')"
    and T: "pg_view (w_db w') DefaultDB = revoke_rows_of 7 (pg_view demo_pg DefaultDB)"
    by (auto simp: demo_refresh_def demo_world_def demo_token_def)
  have "row_token (pg_main demo_pg) (HashSHA256 plain_crypto ''live'') = Some (demo_token ''live'' False)"
    by code_simp
  with arg_cong [OF T, of "\<lambda>T. tokens T (HashSHA256 plain_crypto ''live'')"] r show ?thesis
    by (auto simp: pg_rows_def demo_token_def)
qed

section \<open>Logout\<close>

text \<open>
  A successful logout revokes the row of the presented token, which existed, and no other
  row; a failed one changes nothing.
\<close>
theorem logout_revokes_exactly:
  fixes g :: "('s, refresh_vars) gorm"
  assumes "gorm_db g view"
    and "Logout_Execute cp (NewLogoutUsecase (NewAuthRepository g) v) c req w = (x, w')"
    and "h = HashSHA256 cp (or_RefreshToken req)"
  shows "case x of
           None \<Rightarrow> tokens (view (w_db w) (GetDB c DefaultDB)) h \<noteq> None \<and>
                   world_effect view c w w' (revoke_row h)
         | Some e \<Rightarrow> world_effect view c w w' id"
proof -
  note store = auth_store_gorm [OF assms(1)]
  show ?thesis
    using assms(2) auth_store.Logout_ok [OF store, of cp v c req w w']
      auth_store.Logout_err [OF store, of cp v c req w _ w']
    by (cases x) (simp_all add: assms(3))
qed

theorem logout_revokes_exactly_witness:
  "\<exists>w'. Logout_Execute plain_crypto (NewLogoutUsecase (NewAuthRepository pg_refresh) accept_all)
       Background \<lparr>or_RefreshToken = ''live''\<rparr> (demo_world demo_pg) = (None, w') \<and>
     pg_view (w_db w') DefaultDB =
       revoke_row (HashSHA256 plain_crypto ''live'') (pg_view demo_pg DefaultDB)"
proof -
  let ?run = "Logout_Execute plain_crypto (NewLogoutUsecase (NewAuthRepository pg_refresh) accept_all)
       Background \<lparr>or_RefreshToken = ''live''\<rparr> (demo_world demo_pg)"
  have "fst ?run = None" by code_simp
  then obtain w' where r: "?run = (None, w')" by (cases ?run) simp
  from logout_revokes_exactly [OF pg_gorm_contract(1) r refl] r
  show ?thesis by (auto simp: world_effect_def db_effect_def demo_world_def)
qed

section \<open>Refreshes side by side\<close>

text \<open>
  C12: Among any number of refreshes and calls that interleave, a token that has been granted
  once is granted again only to a refresh that had read its row before the first grant: no
  call of the server and no refresh that reads later gets a second pair (as long as no account
  is deleted).
\<close>
theorem second_grant_in_flight:
  assumes "gorm_db (lb_gorm L) view" and "read_only_ping view (lb_Ping L)"
    and "race_run L cfg d tok (w, \<lambda>_. Unread) (before @ first # after) s"
    and "grants tok token first" and "later \<in> set after" and "grants tok token later"
    and "list_all keeps_accounts after"
  shows "\<exists>p. later = Ends p True \<and> tok p = token \<and> Reads p \<in> set before"
proof -
  from assms(3) obtain s1 s2 where run: "race_run L cfg d tok (w, \<lambda>_. Unread) before s1"
      "race_step L cfg d tok (fst s1, snd s1) first (fst s2, snd s2)" "race_run L cfg d tok s2 after s"
    by (auto simp: race_run_append elim!: race_run_ConsE)
  have "keeps_accounts first" using assms(4) by (cases first) (auto simp: deletes_def)
  note spent = race_spent(2) [OF assms(1,2) run(2) this assms(4)]
  from race_run_spent [OF assms(1,2) run(3) assms(7) spent assms(5,6)] obtain p t where
    p: "later = Ends p True" "tok p = token" "snd s2 p = Found t" by blast
  from race_found [OF assms(1,2) run(2) p(3)] assms(4) have "snd s1 p = Found t" by auto
  from race_run_found [OF assms(1,2) run(1) this] p show ?thesis by auto
qed

theorem second_grant_in_flight_witness:
  "\<exists>s. race_run demo_libs demo_cfg 5000000000 (\<lambda>_. ''live'') (demo_world demo_pg, \<lambda>_. Unread)
         ([Reads 0, Reads 1] @ Ends 0 True # [Ends 1 True]) s \<and> Reads 1 \<in> set [Reads 0, Reads 1]"
proof -
  obtain s where "demo_race (\<lambda>_. ''live'') [DoRead 0, DoRead 1, DoEnd 0, DoEnd 1]
      = Some ([Reads 0, Reads 1, Ends 0 True, Ends 1 True], s)"
    using two_grants_of_one_token by auto
  from race_play_run [OF this] have run: "race_run demo_libs demo_cfg 5000000000 (\<lambda>_. ''live'')
      (demo_world demo_pg, \<lambda>_. Unread) ([Reads 0, Reads 1] @ Ends 0 True # [Ends 1 True]) s" by simp
  from second_grant_in_flight [OF demo_contract(1) demo_ping run, of "''live''" "Ends 1 True"] run
  show ?thesis by (intro exI [of _ s]) simp
qed

section \<open>Registration\<close>

text \<open>
  C13: Whoever has just registered can log in: after a successful creation, the same email
  and password are accepted (while the database answers, the key signs, the entropy source
  works and yields a token that is not in use).
\<close>
theorem registered_user_can_login:
  fixes g :: "('s, refresh_vars) gorm"
  assumes "gorm_db_up g view" and "bcrypt_lib cp"
    and "Create_Execute cp (NewCreateUsecase (NewUserRepository g) v) c creq w = (Inr usr, w1)"
    and "req = \<lparr>lr_Email = cr_Email creq, lr_Password = cr_Password creq\<rparr>" and "v (V_Login req) = None"
    and "fst (GenerateToken jw (u_ID usr) (u_Role usr) (tc_SecretKey cfg) (tc_AccessTTL cfg) w1) = Inr acc"
    and "w_entropy w1 (w_draws w1) 32 = Inr raw"
    and "tokens (view (w_db w1) (GetDB c DefaultDB)) (HashSHA256 cp (hex_EncodeToString raw)) = None"
  shows "fst (Login_Execute cp jw (NewLoginUsecase (NewAuthRepository g)
           (ProvideUserProvider (NewUserRepository g)) v cfg) c req w1)
         = Inr \<lparr>tp_AccessToken = acc, tp_RefreshToken = hex_EncodeToString raw\<rparr>"
proof -
  have g: "gorm_db g view" using assms(1) by (rule gorm_db_up.axioms(1))
  note created = user_repository.Create_Execute_ok [OF gorm_db.contracts(2) [OF g] assms(3)]
  obtain h where h: "fst (HashPassword cp (cr_Password creq) w) = Inr h" "u_Password usr = h"
    "u_Email usr = cr_Email creq"
    using created(1) by (metis user.select_convs(3,4))
  have pw: "CheckPassword cp (lr_Password req) (u_Password usr) = None"
    using bcrypt_lib.CheckPassword_HashPassword [OF assms(2), of "cr_Password creq" w h] h assms(4)
    by (cases "HashPassword cp (cr_Password creq) w") simp
  have T: "users (view (w_db w1) (handle c)) = (users (view (w_db w) (handle c)))(u_ID usr \<mapsto> usr)"
    using world_effect_view [OF created(3)] by simp
  show ?thesis
  proof (rule auth_store_up.Login_succeeds [where v = v, OF auth_store_up_gorm [OF assms(1)] assms(5) _ _ _ pw assms(6-8)])
    show "users (view (w_db w1) (handle c)) (u_ID usr) = Some usr" by (simp add: T)
    show "u_Email usr = lr_Email req" using h assms(4) by simp
    show "u = usr" if "users (view (w_db w1) (handle c)) (u_ID u) = Some u" "u_Email u = lr_Email req" for u
      using that created(5) assms(4) by (auto simp: T email_taken_def split: if_splits)
  qed
qed

theorem registered_user_can_login_witness:
  "\<exists>usr w1 acc. Create_Execute plain_crypto (NewCreateUsecase (NewUserRepository pg_refresh) accept_all)
       Background \<lparr>cr_Name = ''bob'', cr_Email = ''bob@x.io'', cr_Password = ''secret99''\<rparr> (demo_world demo_pg)
       = (Inr usr, w1) \<and>
     fst (Login_Execute plain_crypto plain_jwt demo_login Background
       \<lparr>lr_Email = ''bob@x.io'', lr_Password = ''secret99''\<rparr> w1)
       = Inr \<lparr>tp_AccessToken = acc, tp_RefreshToken = hex_EncodeToString (replicate 32 CHR ''B'')\<rparr>"
proof -
  let ?creq = "\<lparr>cr_Name = ''bob'', cr_Email = ''bob@x.io'', cr_Password = ''secret99''\<rparr>"
  let ?create = "Create_Execute plain_crypto (NewCreateUsecase (NewUserRepository pg_refresh) accept_all)
       Background ?creq (demo_world demo_pg)"
  let ?req = "\<lparr>lr_Email = cr_Email ?creq, lr_Password = cr_Password ?creq\<rparr>"
  have ok: "\<not> isl (fst ?create)" "w_draws (snd ?create) = 1"
    "row_token (pg_main (w_db (snd ?create)))
       (HashSHA256 plain_crypto (hex_EncodeToString (replicate 32 CHR ''B''))) = None"
    by code_simp+
  obtain usr w1 where r: "?create = (Inr usr, w1)"
    using ok(1) by (cases ?create) (auto simp: isl_def split: sum.splits, metis sum.exhaust)
  have en: "w_entropy w1 = w_entropy (demo_world demo_pg)"
    using arg_cong [OF r, of "\<lambda>x. w_entropy (snd x)"]
    by (simp add: Create_Execute_def Validate_def HashPassword_def on_db_def Let_def
        split: option.splits sum.splits prod.splits)
  obtain acc where a: "fst (GenerateToken plain_jwt (u_ID usr) (u_Role usr) (tc_SecretKey demo_cfg)
      (tc_AccessTTL demo_cfg) w1) = Inr acc"
    by (simp add: GenerateToken_def plain_jwt_def time_Now_def Let_def)
  have v: "accept_all (V_Login ?req) = None" by (simp add: accept_all_def)
  have raw: "w_entropy w1 (w_draws w1) 32 = Inr (replicate 32 CHR ''B'')"
    using ok(2) r en by (simp add: demo_world_def demo_chars)
  have free: "tokens (pg_view (w_db w1) (GetDB Background DefaultDB))
      (HashSHA256 plain_crypto (hex_EncodeToString (replicate 32 CHR ''B''))) = None"
    using ok(3) r by (simp add: pg_rows_def)
  have "bcrypt_lib plain_crypto" by unfold_locales
  from registered_user_can_login [where v = accept_all, OF pg_gorm_contract(2) this r refl v a raw free]
  show ?thesis using r unfolding demo_login_def by auto
qed

section \<open>What the code does not prevent\<close>

text \<open>
  Two concurrent refreshes of one token can both succeed: a refresh that has read the
  row unrevoked goes through with its rotation although another transaction has revoked the
  row and committed meanwhile, because \<^verbatim>\<open>RevokeToken\<close> succeeds on a revoked row.
\<close>
theorem concurrent_refresh_undetected:
  fixes g :: "('s, refresh_vars) gorm" and w :: "'s world"
  assumes "gorm_db_up g view"
    and "tokens (view (w_db w) (GetDB c DefaultDB)) h = Some row" and "t_Revoked row"
    and "users (view (w_db w) (GetDB c DefaultDB)) (t_UserID stored) = Some usr"
    and "u_ID usr = t_UserID stored"
    and "fst (GenerateToken jw (u_ID usr) (u_Role usr) (tc_SecretKey cfg) (tc_AccessTTL cfg) w) = Inr acc"
    and "w_entropy w (w_draws w) 32 = Inr raw"
    and "tokens (view (w_db w) (GetDB c DefaultDB)) (HashSHA256 cp (hex_EncodeToString raw)) = None"
  shows "\<exists>w' l'. refresh_rotate cp jw (NewRefreshUsecase (NewAuthRepository g)
           (ProvideUserProvider (NewUserRepository g)) v (RunInTransaction g) cfg) h stored c (w, l)
           = (None, w', l') \<and>
         rv_tokenPair l' = Some \<lparr>tp_AccessToken = acc, tp_RefreshToken = hex_EncodeToString raw\<rparr>"
proof -
  have row: "tokens (view (w_db w) (handle c)) h \<noteq> None" using assms(2) by simp
  have ne: "h \<noteq> HashSHA256 cp (hex_EncodeToString raw)" using assms(2,8) by auto
  show ?thesis
    by (rule auth_store_up.rotate_ignores_row [OF auth_store_up_gorm [OF assms(1)] row assms(4-8) ne])
qed

theorem concurrent_refresh_undetected_witness:
  "\<exists>w' l'. refresh_rotate plain_crypto plain_jwt demo_refresh (HashSHA256 plain_crypto ''used'')
       (demo_token ''used'' False) Background
       (demo_world demo_pg, \<lparr>rv_tokenPair = None, rv_isReplayAttack = False, rv_replayUserID = 0\<rparr>)
       = (None, w', l') \<and> rv_tokenPair l' \<noteq> None"
proof -
  let ?w = "demo_world demo_pg"
  have row: "tokens (pg_view (w_db ?w) (GetDB Background DefaultDB)) (HashSHA256 plain_crypto ''used'')
      = Some (demo_token ''used'' True)" "t_Revoked (demo_token ''used'' True)"
    by (simp_all add: demo_world_def pg_rows_def) code_simp+
  have usr: "users (pg_view (w_db ?w) (GetDB Background DefaultDB)) (t_UserID (demo_token ''used'' False))
      = Some demo_user" "u_ID demo_user = t_UserID (demo_token ''used'' False)"
    by (simp_all add: demo_world_def pg_rows_def demo_pg_def row_user_def demo_token_def demo_user_def)
  obtain acc where a: "fst (GenerateToken plain_jwt (u_ID demo_user) (u_Role demo_user)
      (tc_SecretKey demo_cfg) (tc_AccessTTL demo_cfg) ?w) = Inr acc"
    by (simp add: GenerateToken_def plain_jwt_def time_Now_def Let_def)
  have raw: "w_entropy ?w (w_draws ?w) 32 = Inr (replicate 32 CHR ''A'')"
    by (simp add: demo_world_def demo_chars)
  have free: "tokens (pg_view (w_db ?w) (GetDB Background DefaultDB))
      (HashSHA256 plain_crypto (hex_EncodeToString (replicate 32 CHR ''A''))) = None"
    by (simp add: demo_world_def pg_rows_def) code_simp
  from concurrent_refresh_undetected [OF pg_gorm_contract(2) row usr a raw free,
      where v = accept_all and l = "\<lparr>rv_tokenPair = None, rv_isReplayAttack = False, rv_replayUserID = 0\<rparr>"]
  show ?thesis unfolding demo_refresh_def by auto
qed

text \<open>
  The repository's update of an account that no longer exists (deleted since it was
  read) is never answered with \<open>ErrNotFound\<close>: \<^verbatim>\<open>Save\<close> inserts the row again.
\<close>
theorem update_recreates_account:
  fixes g :: "('s, refresh_vars) gorm"
  assumes "gorm_db g view" and "u_ID u \<noteq> 0"
    and "users (view s (GetDB c DefaultDB)) (u_ID u) = None"
    and "Update g c u s = (x, s')"
  shows "case x of
           Inl e \<Rightarrow> e \<noteq> ErrNotFound \<and> db_effect view (GetDB c DefaultDB) s s' id
         | Inr u' \<Rightarrow> users (view s' (GetDB c DefaultDB)) (u_ID u) = Some u' \<and>
                     u' = u\<lparr>u_UpdatedAt := u_UpdatedAt u'\<rparr>"
proof -
  note repo = gorm_db.contracts(2) [OF assms(1)]
  have up: "ur_Update (NewUserRepository g) c u s = (x, s')"
    using assms(4) by (simp add: NewUserRepository_def)
  show ?thesis
  proof (cases x)
    case (Inl e)
    with user_repository.Update_user_failed [OF repo up [unfolded Inl] assms(2)] show ?thesis by simp
  next
    case (Inr u')
    from user_repository.Update_user [OF repo up [unfolded Inr] assms(2)]
    have "view s' (GetDB c DefaultDB) = upd_user u' (view s (GetDB c DefaultDB))"
      and u': "u' = u\<lparr>u_UpdatedAt := u_UpdatedAt u'\<rparr>" by (simp_all add: db_effect_def)
    moreover have "u_ID u' = u_ID u" using arg_cong [OF u', of u_ID] by simp
    ultimately show ?thesis using Inr by simp
  qed
qed

theorem update_recreates_account_witness:
  "\<exists>u' s'. Update pg_refresh Background (demo_user\<lparr>u_ID := 8\<rparr>) demo_pg = (Inr u', s') \<and>
     row_user (pg_main demo_pg) 8 = None \<and> row_user (pg_main s') 8 = Some u'"
proof -
  let ?run = "Update pg_refresh Background (demo_user\<lparr>u_ID := 8\<rparr>) demo_pg"
  have "\<not> isl (fst ?run)" by code_simp
  then obtain u' s' where r: "?run = (Inr u', s')"
    by (cases ?run) (auto simp: isl_def split: sum.splits, metis sum.exhaust)
  have id: "u_ID (demo_user\<lparr>u_ID := 8\<rparr>) \<noteq> 0" by simp
  have none: "users (pg_view demo_pg (GetDB Background DefaultDB)) (u_ID (demo_user\<lparr>u_ID := 8\<rparr>)) = None"
    by (simp add: pg_rows_def demo_pg_def row_user_def demo_user_def)
  from update_recreates_account [OF pg_gorm_contract(1) id none r] r none
  show ?thesis by (simp add: pg_rows_def)
qed

end
