(* ===== verification/Interceptor_Properties.thy ===== *)
theory Interceptor_Properties
  imports Demo
begin

text \<open>
  The properties of the interceptor chain: authentication, error mapping, timeouts and what
  reaches the log, with runs on the reference deployment.
\<close>

section \<open>Masking\<close>

text \<open>
  \<open>at_path j ks v\<close>: the value \<open>v\<close> occurs in \<open>j\<close> below the object keys \<open>ks\<close> (array indices are
  not recorded).
\<close>

inductive at_path :: "json \<Rightarrow> string list \<Rightarrow> json \<Rightarrow> bool" where
  here: "at_path j [] j"
| field: "(k, item) \<in> set kvs \<Longrightarrow> at_path item ks v \<Longrightarrow> at_path (JObj kvs) (k # ks) v"
| element: "item \<in> set items \<Longrightarrow> at_path item ks v \<Longrightarrow> at_path (JArr items) ks v"

inductive_cases at_path_JObjE: "at_path (JObj kvs) ks v"
inductive_cases at_path_JArrE: "at_path (JArr items) ks v"
inductive_cases at_path_JStrE: "at_path (JStr s) ks v"

definition sensitive_path :: "(string \<Rightarrow> string) \<Rightarrow> string list \<Rightarrow> bool" where
  "sensitive_path low ks = list_ex (\<lambda>k. isSensitiveKey (ToLower low k)) ks"

definition is_leaf :: "json \<Rightarrow> bool" where
  "is_leaf j \<longleftrightarrow> (\<forall>kvs. j \<noteq> JObj kvs) \<and> (\<forall>items. j \<noteq> JArr items)"

lemma mask_leaf: "is_leaf j \<Longrightarrow> maskSensitive low j = j"
  by (cases j) (auto simp: is_leaf_def)

lemma at_path_JStr [simp]: "at_path (JStr s) ks v \<longleftrightarrow> ks = [] \<and> v = JStr s"
  by (auto elim: at_path_JStrE intro: here)

lemma mask_redacts:
  assumes "at_path (maskSensitive low j) ks v" "sensitive_path low ks"
  shows "v = JStr ''[REDACTED]''"
  using assms
proof (induction "maskSensitive low j" ks v arbitrary: j rule: at_path.induct)
  case (field k item kvs ks v)
  then obtain kvs' where j: "j = JObj kvs'" and kvs: "kvs = map (\<lambda>(k, item). (k,
      if isSensitiveKey (ToLower low k) then JStr ''[REDACTED]'' else maskSensitive low item)) kvs'"
    by (cases j) auto
  with field.hyps(1) obtain item' where
    item: "item = (if isSensitiveKey (ToLower low k) then JStr ''[REDACTED]'' else maskSensitive low item')"
    by auto
  show ?case
  proof (cases "isSensitiveKey (ToLower low k)")
    case True
    with item field.hyps(2) show ?thesis by simp
  next
    case False
    with item field.hyps(3) [of item'] field.prems show ?thesis by (simp add: sensitive_path_def)
  qed
next
  case (element item items ks v)
  then obtain items' where "items = map (maskSensitive low) items'"
    by (cases j) auto
  with element show ?case by auto
qed (simp add: sensitive_path_def)

lemma mask_keeps:
  assumes "at_path j ks v" "\<not> sensitive_path low ks"
  shows "at_path (maskSensitive low j) ks (maskSensitive low v)"
  using assms
proof (induction rule: at_path.induct)
  case (field k item kvs ks v)
  then have "\<not> isSensitiveKey (ToLower low k)" by (simp add: sensitive_path_def)
  with field.hyps(1) have "(k, maskSensitive low item) \<in> set (map (\<lambda>(k, item). (k,
      if isSensitiveKey (ToLower low k) then JStr ''[REDACTED]'' else maskSensitive low item)) kvs)"
    by (auto intro!: image_eqI [where x = "(k, item)"])
  moreover have "at_path (maskSensitive low item) ks (maskSensitive low v)"
    using field by (simp add: sensitive_path_def)
  ultimately show ?case unfolding maskSensitive.simps by (rule at_path.field)
next
  case (element item items ks v)
  then have "maskSensitive low item \<in> set (map (maskSensitive low) items)" by simp
  then show ?case unfolding maskSensitive.simps
    by (rule at_path.element) (use element in simp)
qed (auto intro: at_path.here)

text \<open>
  C14: In what the logging interceptor keeps of a payload, every value below a key that
  contains a sensitive word is \<open>[REDACTED]\<close>; every other leaf is kept as it was.
\<close>
theorem log_payload_masked:
  assumes "ll_Marshal L m = Inr raw" and "ll_Unmarshal L raw = Inr j"
  shows "\<exists>j'. sanitizePayload L (Some m) = Some j' \<and>
         (\<forall>ks v. sensitive_path (ll_lower L) ks \<and> at_path j' ks v \<longrightarrow> v = JStr ''[REDACTED]'') \<and>
         (\<forall>ks v. \<not> sensitive_path (ll_lower L) ks \<and> is_leaf v \<and> at_path j ks v \<longrightarrow> at_path j' ks v)"
  using assms mask_redacts [of "ll_lower L" j] mask_keeps [of j _ _ "ll_lower L"]
  by (auto simp: sanitizePayload_def) (metis mask_leaf)

theorem log_payload_masked_witness:
  "\<exists>j'. sanitizePayload (lb_log demo_libs) (Some (PbLoginRequest ''ann@x.io'' ''secret12'')) = Some j' \<and>
     \<not> at_path j' [''password''] (JStr ''secret12'')"
proof -
  have m: "ll_Marshal (lb_log demo_libs) (PbLoginRequest ''ann@x.io'' ''secret12'')
      = Inr (enc_list [''email'', ''ann@x.io'', ''password'', ''secret12''])"
    by (simp add: demo_libs_def)
  have u: "ll_Unmarshal (lb_log demo_libs) (enc_list [''email'', ''ann@x.io'', ''password'', ''secret12''])
      = Inr (JObj [(''email'', JStr ''ann@x.io''), (''password'', JStr ''secret12'')])"
    by (simp add: demo_libs_def demo_unmarshal_def)
  have "sensitive_path (ll_lower (lb_log demo_libs)) [''password'']" by code_simp
  moreover have "JStr ''secret12'' \<noteq> JStr ''[REDACTED]''" by simp
  ultimately show ?thesis using log_payload_masked [OF m u] by blast
qed

text \<open>
  Two of the sensitive words are never matched in a payload of protobuf messages, whose
  JSON keys are lower camel case: \<^verbatim>\<open>creditCard\<close> and \<^verbatim>\<open>cardNumber\<close> are logged in the clear.
\<close>
theorem camel_case_keys_missed:
  "filter (\<lambda>k. \<not> isSensitiveKey (ToLower low k))
     [''password'', ''oldPassword'', ''newPassword'', ''token'', ''refreshToken'', ''accessToken'',
      ''secret'', ''secretKey'', ''authorization'', ''creditCard'', ''cvv'', ''cardNumber'']
   = [''creditCard'', ''cardNumber'']"
proof -
  have a: "ToLower low k = map lower_byte k" if "ascii k" for k
    using that by (simp add: ToLower_def)
  have "filter (\<lambda>k. \<not> isSensitiveKey (ToLower low k)) ks = filter (\<lambda>k. \<not> isSensitiveKey (map lower_byte k)) ks"
    if "list_all ascii ks" for ks
    using that by (induction ks) (simp_all add: a)
  from this [of "[''password'', ''oldPassword'', ''newPassword'', ''token'', ''refreshToken'', ''accessToken'',
      ''secret'', ''secretKey'', ''authorization'', ''creditCard'', ''cvv'', ''cardNumber'']"]
  show ?thesis by (rule trans) (code_simp, code_simp)
qed

section \<open>Logging\<close>

text \<open>
  The logging interceptor is transparent (same response, same error) and writes exactly
  one record for every call that returns: at Info level when the status is OK, Warn for the
  client's errors, Error otherwise.
\<close>
theorem logs_every_call:
  assumes "LoggingInterceptor L m h c req w = (Reply resp err, w')"
  shows "\<exists>w0 w1 e. h (enrich_context m c) req w0 = (Reply resp err, w1) \<and> w_db w0 = w_db w \<and>
           w_log w0 = w_log w \<and> w_log w' = e # w_log w1 \<and> w_db w' = w_db w1 \<and>
           le_level e = (case fst (fst (ll_FromError L err)) of
               OK \<Rightarrow> InfoLevel
             | InvalidArgument \<Rightarrow> WarnLevel | NotFound \<Rightarrow> WarnLevel | AlreadyExists \<Rightarrow> WarnLevel
             | PermissionDenied \<Rightarrow> WarnLevel | Unauthenticated \<Rightarrow> WarnLevel
             | FailedPrecondition \<Rightarrow> WarnLevel
             | _ \<Rightarrow> ErrorLevel)"
proof -
  from Logging_db [OF assms] obtain w0 w1 d where
    "h (enrich_context m c) req w0 = (Reply resp err, w1)" "w_db w0 = w_db w" "w_db w' = w_db w1"
    "w_log w0 = w_log w" "w_log w' = request_log_entry L req resp err d # w_log w1" by blast
  moreover have "le_level (request_log_entry L req resp err d) = fst (log_level_of (fst (fst (ll_FromError L err))))"
    by (simp add: request_log_entry_def Let_def split: prod.split)
  ultimately show ?thesis
    by (intro exI [of _ w0] exI [of _ w1] exI [of _ "request_log_entry L req resp err d"])
       (simp add: log_level_of_def split: grpc_code.split)
qed

theorem logs_every_call_witness:
  "\<exists>w' e. LoggingInterceptor (lb_log demo_libs) ''/a.B/C'' (\<lambda>c q w. (Reply None (Some (StatusErr NotFound [])), w))
       Background PbHealthCheckRequest (demo_world demo_pg) = (Reply None (Some (StatusErr NotFound [])), w') \<and>
     w_log w' = [e] \<and> le_level e = WarnLevel"
proof -
  let ?h = "\<lambda>c q (w :: pg world). (Reply None (Some (StatusErr NotFound [])) :: message reply, w)"
  obtain r w' where x: "LoggingInterceptor (lb_log demo_libs) ''/a.B/C'' ?h
       Background PbHealthCheckRequest (demo_world demo_pg) = (r, w')" by fastforce
  then have r: "r = Reply None (Some (StatusErr NotFound []))"
    by (auto simp: LoggingInterceptor_def time_Now_def)
  have fe: "ll_FromError (lb_log demo_libs) (Some (StatusErr NotFound [])) = ((NotFound, []), True)"
    by (simp add: demo_libs_def)
  have lg: "w_log (demo_world demo_pg) = []" by (simp add: demo_world_def)
  from logs_every_call [OF x [unfolded r]] x r show ?thesis by (auto simp: fe lg)
qed

section \<open>Authentication\<close>

text \<open>
  C15: A token issued by \<open>GenerateToken\<close> and presented as a bearer token, with the scheme in
  any case, admits its user and role to a protected method until it expires, and is
  refused from then on.
\<close>
theorem issued_token_admits:
  assumes "jwt_lib jw" and "GenerateToken jw i r key ttl w0 = (Inr s, w1)"
    and "i \<noteq> 0" and "ascii r" and "r \<noteq> []"
    and "ctx_md c = Some md" and "md ''authorization'' = (scheme @ '' '' @ s) # vs"
    and "map lower_byte scheme = ''bearer''"
    and "m \<notin> set publicMethods"
  shows "AuthInterceptor jw txt key m h c req w =
           (let w' = w\<lparr>w_ticks := Suc (w_ticks w)\<rparr> in
            if w_clock w (w_ticks w) < jwt_NewNumericDate jw (time_Add (w_clock w0 (w_ticks w0)) ttl)
            then h (WithRole (WithUserID c i) r) req w'
            else (Reply None (Some (StatusErr Unauthenticated ''invalid or expired token'')), w'))"
proof -
  have sp: "CHR '' '' \<notin> set scheme"
  proof
    assume "CHR '' '' \<in> set scheme"
    then have "lower_byte CHR '' '' \<in> set (map lower_byte scheme)" by simp
    then show False unfolding assms(8) by (simp add: lower_byte_def)
  qed
  have "map lower_byte ''bearer'' = ''bearer''" by code_simp
  with sp assms(6-8) have tok: "extractBearerToken c = Inr s"
    by (simp add: extractBearerToken_def md_Get_def SplitN2_join EqualFold_ascii_def)
  note v = jwt_lib.Validate_Generate [OF assms(1-4) refl refl, of w]
  obtain x w2 where x: "ValidateToken jw s key w = (x, w2)" by fastforce
  have w2: "w2 = w\<lparr>w_ticks := Suc (w_ticks w)\<rparr>"
    using ValidateToken_world [of jw s key w] x by simp
  show ?thesis
    using v x w2 tok assms(5,9) by (auto simp: AuthInterceptor_def Let_def)
qed

theorem issued_token_admits_witness:
  "\<exists>s w1. GenerateToken plain_jwt 7 ''user'' ''key'' 900000000000 (demo_world demo_pg) = (Inr s, w1) \<and>
     AuthInterceptor plain_jwt (\<lambda>_. []) ''key'' ''/user.v1.UserService/GetUser''
       (\<lambda>c q w. (Reply None None, w)) (Background\<lparr>ctx_md := Some (\<lambda>_. [''BEARER '' @ s])\<rparr>)
       PbHealthCheckRequest (demo_world demo_pg)
     = (Reply None None, (demo_world demo_pg)\<lparr>w_ticks := 1\<rparr>)"
proof -
  obtain s w1 where g: "GenerateToken plain_jwt 7 ''user'' ''key'' 900000000000 (demo_world demo_pg) = (Inr s, w1)"
    by (simp add: GenerateToken_def plain_jwt_def time_Now_def Let_def)
  have l: "jwt_lib plain_jwt" by unfold_locales
  have side: "(7 :: uint) \<noteq> 0" "ascii ''user''" "''user'' \<noteq> []" by (simp, code_simp, simp)
  have md: "ctx_md (Background\<lparr>ctx_md := Some (\<lambda>_. [''BEARER '' @ s])\<rparr>) = Some (\<lambda>_. [''BEARER'' @ '' '' @ s])"
    by simp
  have b: "map lower_byte ''BEARER'' = ''bearer''" by code_simp
  have np: "''/user.v1.UserService/GetUser'' \<notin> set publicMethods" by code_simp
  have t: "w_clock (demo_world demo_pg) (w_ticks (demo_world demo_pg)) <
      jwt_NewNumericDate plain_jwt (time_Add (w_clock (demo_world demo_pg) (w_ticks (demo_world demo_pg))) 900000000000)"
    by code_simp
  show ?thesis
    using g t issued_token_admits [OF l g side md refl b np, of "\<lambda>_. []" "\<lambda>c q w. (Reply None None, w)"
        PbHealthCheckRequest "demo_world demo_pg"]
    by (auto simp: Let_def demo_world_def)
qed

text \<open>
  C16: A call of a protected method that carries no token valid at any later moment is
  answered with an error and touches nothing: neither handler nor database is reached.
\<close>
theorem protected_needs_token:
  fixes w :: "'s world"
  assumes "serve L cfg d m c req w = (r, w')" and "m \<notin> set publicMethods"
    and "\<And>wa :: 's world. w_clock wa = w_clock w \<Longrightarrow> w_ticks w < w_ticks wa \<Longrightarrow>
           bearer_claims (lb_jwt L) (tc_SecretKey cfg) c wa = None"
  shows "w_db w' = w_db w \<and>
         (\<exists>e. r = Reply None (Some e) \<and>
            ((\<exists>msg. e = StatusErr Unauthenticated msg) \<or>
             e = StatusErr DeadlineExceeded ''deadline exceeded'' \<or>
             e = StatusErr Cancelled ''request canceled''))"
  using assms(1)
proof (cases rule: serve_cases)
  case (handled c' cl w0 wa r0 w1)
  with assms(2,3) show ?thesis by auto
qed auto

theorem protected_needs_token_witness:
  "\<exists>r w'. serve demo_libs demo_cfg 5000000000 ''/user.v1.UserService/DeleteUser'' Background
            (PbDeleteUserRequest 7) (demo_world demo_pg) = (r, w') \<and> w_db w' = demo_pg"
proof -
  obtain r w' where s: "serve demo_libs demo_cfg 5000000000 ''/user.v1.UserService/DeleteUser'' Background
      (PbDeleteUserRequest 7) (demo_world demo_pg) = (r, w')" by fastforce
  have np: "''/user.v1.UserService/DeleteUser'' \<notin> set publicMethods" by code_simp
  have "bearer_claims (lb_jwt demo_libs) (tc_SecretKey demo_cfg) Background wa = None" for wa :: "pg world"
    by (simp add: bearer_claims_def extractBearerToken_def)
  from protected_needs_token [OF s np this] s show ?thesis by (auto simp: demo_world_def)
qed

section \<open>Errors\<close>

text \<open>
  C17: The server always replies, even when a handler panics; an error it returns carries no
  response and is a gRPC status, or an error of a library that \<^verbatim>\<open>status.FromError\<close> accepts.
\<close>
theorem server_always_replies:
  fixes L :: "'s server_libs"
  assumes "status_FromError_spec (ll_FromError (lb_log L))"
    and "serve L cfg d m c req w = (r, w')"
  shows "\<exists>resp err. r = Reply resp err \<and>
           (\<forall>e. err = Some e \<longrightarrow> resp = None \<and>
              ((\<exists>code msg. e = StatusErr code msg) \<or> snd (ll_FromError (lb_log L) (Some e))))"
proof -
  obtain resp err where r: "r = Reply resp err" using serve_no_panic [OF assms(2)] by blast
  from assms(2) have "resp = None \<and> ((\<exists>code msg. e = StatusErr code msg) \<or>
      snd (ll_FromError (lb_log L) (Some e)))" if e: "err = Some e" for e
  proof (cases rule: serve_cases)
    case (rejected e' w0)
    with r e show ?thesis by auto
  next
    case (handled c' cl w0 wa r0 w1)
    have "(\<exists>code msg. map_error (ll_FromError (lb_log L)) (lb_text L) cc now e0 = StatusErr code msg) \<or>
        snd (ll_FromError (lb_log L) (Some (map_error (ll_FromError (lb_log L)) (lb_text L) cc now e0)))"
      for cc now e0
      using map_error_status [OF assms(1), of "lb_text L" cc now e0] by auto
    note mapped = this
    have "r = Reply resp (Some e)" using r e by simp
    from handled(9) [OF this] show ?thesis
    proof (elim conjE disjE exE)
      fix resp0 e0 cc now
      assume "resp = None" "e = map_error (ll_FromError (lb_log L)) (lb_text L) cc now e0"
      with mapped [of cc now e0] show ?thesis by simp
    qed simp_all
  qed
  with r show ?thesis by blast
qed

theorem server_always_replies_witness:
  "\<exists>resp err. fst (serve demo_libs demo_cfg 5000000000 ''/user.v1.UserService/GetUser'' demo_ctx
      (PbGetUserRequest 99) (demo_world demo_pg)) = Reply resp (Some err) \<and> resp = None"
proof -
  obtain r w' where s: "serve demo_libs demo_cfg 5000000000 ''/user.v1.UserService/GetUser'' demo_ctx
      (PbGetUserRequest 99) (demo_world demo_pg) = (r, w')" by fastforce
  have "\<not> succeeded (fst (serve demo_libs demo_cfg 5000000000 ''/user.v1.UserService/GetUser'' demo_ctx
      (PbGetUserRequest 99) (demo_world demo_pg)))" by code_simp
  with s have ns: "\<not> succeeded r" by simp
  have "status_FromError_spec (ll_FromError (lb_log demo_libs))"
    by (simp add: demo_libs_def plain_FromError_spec)
  from server_always_replies [OF this s] ns s show ?thesis by auto
qed



text \<open>
  The error texts of the bearer check are doubly wrapped: the message of the status that
  leaves the interceptor is the printed form of another status error.
\<close>
theorem bearer_error_double_wrapped:
  "extractBearerToken c = Inl err \<Longrightarrow> m \<notin> set publicMethods \<Longrightarrow>
   \<exists>msg. err = StatusErr Unauthenticated msg \<and>
     fst (AuthInterceptor jw txt key m h c req w) =
       Reply None (Some (StatusErr Unauthenticated (txt (StatusErr Unauthenticated msg))))"
  by (auto simp: extractBearerToken_def AuthInterceptor_def split: option.splits list.splits if_splits)

theorem bearer_error_double_wrapped_witness:
  "\<exists>msg. fst (AuthInterceptor plain_jwt (\<lambda>e. ''rpc error'') ''key'' ''/a'' (\<lambda>c q w. (Reply None None, w))
       Background PbHealthCheckRequest (demo_world demo_pg))
     = Reply None (Some (StatusErr Unauthenticated msg)) \<and> msg = ''rpc error''"
proof -
  have e: "extractBearerToken Background = Inl (StatusErr Unauthenticated ''missing metadata'')"
    by (simp add: extractBearerToken_def)
  have "''/a'' \<notin> set publicMethods" by code_simp
  from bearer_error_double_wrapped [OF e this] show ?thesis by auto
qed

section \<open>Timeouts\<close>

text \<open>What the timeout interceptor makes of the handler's reply.\<close>

lemma timeout_reply:
  assumes "(r, w') = (case (r0, w3) of
        (Panic r, w3) \<Rightarrow> (Panic r, w3)
      | (Reply resp err, w3) \<Rightarrow>
          (case time_Now w3 of (now', w4) \<Rightarrow>
             (case timeout_error c' now' err of
                Some e \<Rightarrow> (Reply None (Some e), w4) | None \<Rightarrow> (Reply resp None, w4))))"
  shows "w_db w' = w_db w3 \<and> (case r0 of Panic p \<Rightarrow> r = Panic p
       | Reply resp err \<Rightarrow> r = Reply resp err \<or> (\<exists>now. r = (case timeout_error c' now err of
            Some e \<Rightarrow> Reply None (Some e) | None \<Rightarrow> Reply resp None)))"
  using assms by (cases r0) (auto simp: time_Now_def split: option.splits)

text \<open>
  C19: Every handler runs under a deadline: at most the effective timeout, which is positive,
  after a clock reading of the interceptor, and no later than the client's own deadline. Its
  answer is passed on, or replaced by a deadline or cancellation error.
\<close>
theorem handler_has_deadline:
  assumes "TimeoutInterceptor d ov m h c req w = (r, w')"
  shows "\<exists>c' w0 dl n. ctx_deadline c' = Some dl \<and> w_db w0 = w_db w \<and>
           n \<in> {w_ticks w, Suc (w_ticks w)} \<and> dl \<le> w_clock w n + sint (effective_timeout d ov m) \<and>
           0 < sint (effective_timeout d ov m) \<and>
           (case ctx_deadline c of Some cd \<Rightarrow> dl \<le> cd | None \<Rightarrow> True) \<and>
           w_db w' = w_db (snd (h c' req w0)) \<and>
           (case fst (h c' req w0) of
              Panic p \<Rightarrow> r = Panic p
            | Reply resp err \<Rightarrow> r = Reply resp err \<or>
                (\<exists>now. r = (case timeout_error c' now err of
                              Some e \<Rightarrow> Reply None (Some e) | None \<Rightarrow> Reply resp None)))"
proof -
  let ?t = "effective_timeout d ov m"
  have pos: "0 < sint ?t"
    by (auto simp: effective_timeout_def effective_default_def second_def split: option.splits)
  show ?thesis
  proof (cases "\<exists>cd. ctx_deadline c = Some cd \<and> 0 < cd - w_clock w (w_ticks w) \<and> cd - w_clock w (w_ticks w) \<le> sint ?t")
    case True
    then obtain cd where cd: "ctx_deadline c = Some cd" "0 < cd - w_clock w (w_ticks w)"
      "cd - w_clock w (w_ticks w) \<le> sint ?t" by blast
    define w0 where "w0 = w\<lparr>w_ticks := Suc (w_ticks w)\<rparr>"
    from assms cd have "h c req w0 = (r, w')"
      by (simp add: TimeoutInterceptor_def time_Now_def Let_def w0_def)
    with cd pos show ?thesis
      by (intro exI [of _ c] exI [of _ w0] exI [of _ cd] exI [of _ "w_ticks w"])
         (simp add: w0_def split: reply.splits)
  next
    case False
    define w1 where "w1 = (if ctx_deadline c = None then w else w\<lparr>w_ticks := Suc (w_ticks w)\<rparr>)"
    define c' where "c' = WithTimeout c (w_clock w1 (w_ticks w1)) ?t"
    define w0 where "w0 = w1\<lparr>w_ticks := Suc (w_ticks w1)\<rparr>"
    obtain dl where dl: "ctx_deadline c' = Some dl" "dl \<le> time_Add (w_clock w1 (w_ticks w1)) ?t"
      using WithTimeout_deadline_le c'_def by blast
    obtain r0 w3 where h: "h c' req w0 = (r0, w3)" by fastforce
    have "(r, w') = (case (r0, w3) of
        (Panic r, w3) \<Rightarrow> (Panic r, w3)
      | (Reply resp err, w3) \<Rightarrow>
          (case time_Now w3 of (now', w4) \<Rightarrow>
             (case timeout_error c' now' err of
                Some e \<Rightarrow> (Reply None (Some e), w4) | None \<Rightarrow> (Reply resp None, w4))))"
      unfolding h [symmetric] assms [symmetric] c'_def w0_def w1_def using False
      by (auto simp: TimeoutInterceptor_def time_Now_def Let_def split: option.splits
          cong: prod.case_cong reply.case_cong)
    note reply = timeout_reply [OF this]
    have "case ctx_deadline c of Some cd \<Rightarrow> dl \<le> cd | None \<Rightarrow> True"
      using dl(1) by (auto simp: c'_def WithTimeout_def time_defs split: if_splits option.splits)
    then show ?thesis using pos dl h reply
      by (intro exI [of _ c'] exI [of _ w0] exI [of _ dl] exI [of _ "w_ticks w1"])
         (auto simp: w0_def w1_def time_Add_def)
  qed
qed

theorem handler_has_deadline_witness:
  "\<exists>r w'. TimeoutInterceptor 5000000000 (\<lambda>_. None) ''/a'' (\<lambda>c q w. (Reply None None, w))
       (Background\<lparr>ctx_deadline := Some (1001 * second)\<rparr>) PbHealthCheckRequest (demo_world demo_pg) = (r, w') \<and>
     0 < sint (effective_timeout 5000000000 (\<lambda>_. None) ''/a'') \<and> w_db w' = demo_pg"
proof -
  obtain r w' where x: "TimeoutInterceptor 5000000000 (\<lambda>_. None) ''/a''
       (\<lambda>c q w. (Reply None None :: message reply, w :: pg world))
       (Background\<lparr>ctx_deadline := Some (1001 * second)\<rparr>) PbHealthCheckRequest (demo_world demo_pg) = (r, w')"
    by fastforce
  from handler_has_deadline [OF x] x show ?thesis by (auto simp: demo_world_def)
qed

end
