(* ===== verification/Idempotency.thy ===== *)
theory Idempotency
  imports Go_Strings Go_Context
begin

text \<open>
  \<^verbatim>\<open>pkg/idempotency\<close>: the record kept for a key, the storage interface with its in-memory
  and Redis implementations, and the executor. The state of the storage is the database
  component of the world; its operations may read the clock.
\<close>

section \<open>Records and storage (idempotency.go)\<close>

definition StatusInProgress :: string where "StatusInProgress = ''IN_PROGRESS''"
definition StatusCompleted :: string where "StatusCompleted = ''COMPLETED''"

lemma status_distinct [simp]: "StatusInProgress \<noteq> StatusCompleted" "StatusCompleted \<noteq> StatusInProgress"
  by (simp_all add: StatusInProgress_def StatusCompleted_def)

record Record =
  rc_Status :: string
  rc_Response :: bytes
  rc_CreatedAt :: time

record 's Storage =
  st_Lock :: "ctx \<Rightarrow> string \<Rightarrow> duration \<Rightarrow> 's world \<Rightarrow> bool result \<times> 's world"
  st_Set :: "ctx \<Rightarrow> string \<Rightarrow> Record \<Rightarrow> duration \<Rightarrow> 's world \<Rightarrow> go_error option \<times> 's world"
  st_Get :: "ctx \<Rightarrow> string \<Rightarrow> 's world \<Rightarrow> Record option result \<times> 's world"
  st_Delete :: "ctx \<Rightarrow> string \<Rightarrow> 's world \<Rightarrow> go_error option \<times> 's world"

definition header_key :: "(string \<Rightarrow> string list) \<Rightarrow> string \<Rightarrow> string" where
  "header_key md headerName = (case md headerName of v # vs \<Rightarrow> TrimSpace v | [] \<Rightarrow> [])"

definition FromContext :: "ctx \<Rightarrow> string" where
  "FromContext c =
     (case ctx_md c of
        None \<Rightarrow> []
      | Some md \<Rightarrow>
          (if header_key md ''idempotency-key'' \<noteq> [] then header_key md ''idempotency-key''
           else header_key md ''x-idempotency-key''))"

section \<open>In memory (memory.go)\<close>

record memoryItem =
  mi_record :: Record
  mi_expiresAt :: time

type_synonym memory = "string \<Rightarrow> memoryItem option"

definition Memory_Lock :: "ctx \<Rightarrow> string \<Rightarrow> duration \<Rightarrow> memory world \<Rightarrow> bool result \<times> memory world" where
  "Memory_Lock c key ttl w =
     (case time_Now w of (now, w1) \<Rightarrow>
        (let fresh = (w_db w1)(key \<mapsto>
               \<lparr>mi_record = \<lparr>rc_Status = StatusInProgress, rc_Response = [], rc_CreatedAt = now\<rparr>,
                mi_expiresAt = time_Add now ttl\<rparr>)
         in case w_db w1 key of
              Some item \<Rightarrow>
                (if time_Before now (mi_expiresAt item) then (Inr False, w1)
                 else (Inr True, w1\<lparr>w_db := fresh\<rparr>))
            | None \<Rightarrow> (Inr True, w1\<lparr>w_db := fresh\<rparr>)))"

definition Memory_Set ::
  "ctx \<Rightarrow> string \<Rightarrow> Record \<Rightarrow> duration \<Rightarrow> memory world \<Rightarrow> go_error option \<times> memory world" where
  "Memory_Set c key r ttl w =
     (case time_Now w of (now, w1) \<Rightarrow>
        (None, w1\<lparr>w_db := (w_db w1)(key \<mapsto> \<lparr>mi_record = r, mi_expiresAt = time_Add now ttl\<rparr>)\<rparr>))"

definition Memory_Get :: "ctx \<Rightarrow> string \<Rightarrow> memory world \<Rightarrow> Record option result \<times> memory world" where
  "Memory_Get c key w =
     (case w_db w key of
        None \<Rightarrow> (Inr None, w)
      | Some item \<Rightarrow>
          (case time_Now w of (now, w1) \<Rightarrow>
             (if time_After now (mi_expiresAt item) then (Inr None, w1)
              else (Inr (Some (mi_record item)), w1))))"

definition Memory_Delete :: "ctx \<Rightarrow> string \<Rightarrow> memory world \<Rightarrow> go_error option \<times> memory world" where
  "Memory_Delete c key w = (None, w\<lparr>w_db := (w_db w)(key := None)\<rparr>)"

definition NewMemoryStorage :: "memory Storage" where
  "NewMemoryStorage =
     \<lparr>st_Lock = Memory_Lock, st_Set = Memory_Set, st_Get = Memory_Get, st_Delete = Memory_Delete\<rparr>"

section \<open>In Redis (redis.go)\<close>

text \<open>
  The client's commands, and the JSON form of a record, are parameters. A missing key is
  the error \<open>RedisNil\<close>.
\<close>

record 's redis =
  rd_SetNX :: "ctx \<Rightarrow> string \<Rightarrow> bytes \<Rightarrow> duration \<Rightarrow> 's world \<Rightarrow> bool result \<times> 's world"
  rd_Set :: "ctx \<Rightarrow> string \<Rightarrow> bytes \<Rightarrow> duration \<Rightarrow> 's world \<Rightarrow> go_error option \<times> 's world"
  rd_Get :: "ctx \<Rightarrow> string \<Rightarrow> 's world \<Rightarrow> bytes result \<times> 's world"
  rd_Del :: "ctx \<Rightarrow> string \<Rightarrow> 's world \<Rightarrow> go_error option \<times> 's world"
  rd_Marshal :: "Record \<Rightarrow> bytes result"
  rd_Unmarshal :: "bytes \<Rightarrow> Record result"

definition redis_prefix :: "string list \<Rightarrow> string" where
  "redis_prefix prefix =
     (case prefix of p # ps \<Rightarrow> if p \<noteq> [] then p else ''idempotency:'' | [] \<Rightarrow> ''idempotency:'')"

definition formatKey :: "string \<Rightarrow> string \<Rightarrow> string" where
  "formatKey prefix key = prefix @ key"

definition Redis_Lock ::
  "'s redis \<Rightarrow> string \<Rightarrow> ctx \<Rightarrow> string \<Rightarrow> duration \<Rightarrow> 's world \<Rightarrow> bool result \<times> 's world" where
  "Redis_Lock rd prefix c key ttl w =
     (case time_Now w of (now, w1) \<Rightarrow>
        (case rd_Marshal rd \<lparr>rc_Status = StatusInProgress, rc_Response = [], rc_CreatedAt = now\<rparr> of
           Inl err \<Rightarrow> (Inl (Wrapped ''idempotency: marshal lock record: '' err []), w1)
         | Inr data \<Rightarrow> rd_SetNX rd c (formatKey prefix key) data ttl w1))"

definition Redis_Set ::
  "'s redis \<Rightarrow> string \<Rightarrow> ctx \<Rightarrow> string \<Rightarrow> Record \<Rightarrow> duration \<Rightarrow> 's world \<Rightarrow>
   go_error option \<times> 's world" where
  "Redis_Set rd prefix c key r ttl w =
     (case rd_Marshal rd r of
        Inl err \<Rightarrow> (Some (Wrapped ''idempotency: marshal record: '' err []), w)
      | Inr data \<Rightarrow> rd_Set rd c (formatKey prefix key) data ttl w)"

definition Redis_Get ::
  "'s redis \<Rightarrow> string \<Rightarrow> ctx \<Rightarrow> string \<Rightarrow> 's world \<Rightarrow> Record option result \<times> 's world" where
  "Redis_Get rd prefix c key w =
     (case rd_Get rd c (formatKey prefix key) w of
        (Inl err, w1) \<Rightarrow>
          (if errors_Is err (Sentinel RedisNil) then (Inr None, w1)
           else (Inl (Wrapped ''idempotency: redis get: '' err []), w1))
      | (Inr val, w1) \<Rightarrow>
          (case rd_Unmarshal rd val of
             Inl err \<Rightarrow> (Inl (Wrapped ''idempotency: unmarshal record: '' err []), w1)
           | Inr r \<Rightarrow> (Inr (Some r), w1)))"

definition Redis_Delete ::
  "'s redis \<Rightarrow> string \<Rightarrow> ctx \<Rightarrow> string \<Rightarrow> 's world \<Rightarrow> go_error option \<times> 's world" where
  "Redis_Delete rd prefix c key w = rd_Del rd c (formatKey prefix key) w"

definition NewRedisStorage :: "'s redis \<Rightarrow> string list \<Rightarrow> 's Storage" where
  "NewRedisStorage rd prefix =
     \<lparr>st_Lock = Redis_Lock rd (redis_prefix prefix), st_Set = Redis_Set rd (redis_prefix prefix),
      st_Get = Redis_Get rd (redis_prefix prefix), st_Delete = Redis_Delete rd (redis_prefix prefix)\<rparr>"

section \<open>The executor (executor.go)\<close>

record executorConfig =
  ec_lockTTL :: duration
  ec_completeTTL :: duration

type_synonym Option = "executorConfig \<Rightarrow> executorConfig"

definition WithLockTTL :: "duration \<Rightarrow> Option" where
  "WithLockTTL ttl c = (if 0 < sint ttl then c\<lparr>ec_lockTTL := ttl\<rparr> else c)"

definition WithCompleteTTL :: "duration \<Rightarrow> Option" where
  "WithCompleteTTL ttl c = (if 0 < sint ttl then c\<lparr>ec_completeTTL := ttl\<rparr> else c)"

text \<open>
  \<open>ex_zero\<close> is the zero value of the type parameter, \<open>ex_Marshal\<close> and \<open>ex_Unmarshal\<close> its
  JSON form (package \<^verbatim>\<open>encoding/json\<close>).
\<close>

record ('s, 'a) Executor =
  ex_storage :: "'s Storage"
  ex_cfg :: executorConfig
  ex_zero :: 'a
  ex_Marshal :: "'a \<Rightarrow> bytes result"
  ex_Unmarshal :: "bytes \<Rightarrow> 'a result"

definition NewExecutor ::
  "'s Storage \<Rightarrow> Option list \<Rightarrow> 'a \<Rightarrow> ('a \<Rightarrow> bytes result) \<Rightarrow> (bytes \<Rightarrow> 'a result) \<Rightarrow>
   ('s, 'a) Executor" where
  "NewExecutor storage opts zero marshal unmarshal =
     \<lparr>ex_storage = storage,
      ex_cfg = fold (\<lambda>opt cfg. opt cfg) opts
        \<lparr>ec_lockTTL = of_int (120 * second), ec_completeTTL = of_int (24 * 3600 * second)\<rparr>,
      ex_zero = zero, ex_Marshal = marshal, ex_Unmarshal = unmarshal\<rparr>"

text \<open>What a stored record means for a new call: an answer, or \<open>None\<close> to go on.\<close>

definition replay_record :: "('s, 'a) Executor \<Rightarrow> Record option \<Rightarrow> 'a outcome option" where
  "replay_record e r =
     (case r of
        None \<Rightarrow> None
      | Some rec \<Rightarrow>
          (if rc_Status rec = StatusCompleted then
             (if rc_Response rec \<noteq> [] then
                (case ex_Unmarshal e (rc_Response rec) of
                   Inl err \<Rightarrow> Some (Returns (ex_zero e)
                     (Some (Wrapped ''idempotency: unmarshal cached response: '' err [])))
                 | Inr v \<Rightarrow> Some (Returns v None))
              else Some (Returns (ex_zero e) None))
           else if rc_Status rec = StatusInProgress
           then Some (Returns (ex_zero e) (Some (Sentinel ErrConcurrentRequest)))
           else None))"

text \<open>After the lock: run the business function, then cache its value or release the key.\<close>

definition run_locked ::
  "('s, 'a) Executor \<Rightarrow> ctx \<Rightarrow> string \<Rightarrow> (ctx \<Rightarrow> 's world \<Rightarrow> 'a outcome \<times> 's world) \<Rightarrow>
   's world \<Rightarrow> 'a outcome \<times> 's world" where
  "run_locked e c key fn w =
     (case fn c w of
        (Panics p, w1) \<Rightarrow> (Panics p, w1)
      | (Returns val (Some err), w1) \<Rightarrow>
          (case st_Delete (ex_storage e) c key w1 of
             (_, w2) \<Rightarrow> (Returns (ex_zero e) (Some err), w2))
      | (Returns val None, w1) \<Rightarrow>
          (case ex_Marshal e val of
             Inl err \<Rightarrow>
               (Returns (ex_zero e) (Some (Wrapped ''idempotency: marshal response: '' err [])), w1)
           | Inr respBytes \<Rightarrow>
               (case time_Now w1 of (now, w2) \<Rightarrow>
                  (case st_Set (ex_storage e) c key
                          \<lparr>rc_Status = StatusCompleted, rc_Response = respBytes, rc_CreatedAt = now\<rparr>
                          (ec_completeTTL (ex_cfg e)) w2 of
                     (Some err, w3) \<Rightarrow>
                       (Returns val (Some (Wrapped ''idempotency: save completed record: '' err [])), w3)
                   | (None, w3) \<Rightarrow> (Returns val None, w3)))))"

definition Execute ::
  "('s, 'a) Executor \<Rightarrow> ctx \<Rightarrow> string \<Rightarrow> (ctx \<Rightarrow> 's world \<Rightarrow> 'a outcome \<times> 's world) \<Rightarrow>
   's world \<Rightarrow> 'a outcome \<times> 's world" where
  "Execute e c key fn w =
     (if key = [] then fn c w
      else
        (case st_Get (ex_storage e) c key w of
           (Inl err, w1) \<Rightarrow>
             (Returns (ex_zero e) (Some (Wrapped ''idempotency: check record: '' err [])), w1)
         | (Inr r, w1) \<Rightarrow>
             (case replay_record e r of
                Some res \<Rightarrow> (res, w1)
              | None \<Rightarrow>
                  (case st_Lock (ex_storage e) c key (ec_lockTTL (ex_cfg e)) w1 of
                     (Inl err, w2) \<Rightarrow>
                       (Returns (ex_zero e) (Some (Wrapped ''idempotency: acquire lock: '' err [])), w2)
                   | (Inr False, w2) \<Rightarrow>
                       (Returns (ex_zero e) (Some (Sentinel ErrConcurrentRequest)), w2)
                   | (Inr True, w2) \<Rightarrow> run_locked e c key fn w2))))"

end
