(* ===== verification/Idempotency_Specs.thy ===== *)
theory Idempotency_Specs
  imports Idempotency Reference_Libs
begin

text \<open>
  The storage contract of \<open>Idempotency\<close> as a locale, kept by the in-memory storage and by
  the Redis storage on any Redis server; what the executor guarantees over it; and the
  interleavings of concurrent calls with one key as a step relation.
\<close>

section \<open>The storage contract\<close>

text \<open>
  \<open>entry s k\<close> is the record kept for a key with the moment it expires. An operation reads
  the clock at some tick between its start and its end. A lease is a positive number of
  whole milliseconds (Redis keeps no finer times).
\<close>

definition later :: "'s world \<Rightarrow> 's world \<Rightarrow> bool" where
  "later w w' \<longleftrightarrow> w_clock w' = w_clock w \<and> w_ticks w \<le> w_ticks w'"

definition lease :: "duration \<Rightarrow> bool" where
  "lease ttl \<longleftrightarrow> 0 < sint ttl \<and> sint ttl mod millisecond = 0"

lemma later_refl [simp]: "later w w"
  and later_trans: "later w w' \<Longrightarrow> later w' w'' \<Longrightarrow> later w w''"
  by (auto simp: later_def)

locale idem_storage =
  fixes st :: "'s Storage"
    and entry :: "'s \<Rightarrow> string \<Rightarrow> (Record \<times> time) option"
  assumes Get_later: "st_Get st c k w = (x, w') \<Longrightarrow> later w w' \<and> entry (w_db w') = entry (w_db w)"
    and Get_found: "st_Get st c k w = (Inr (Some r), w') \<Longrightarrow>
          \<exists>n e. w_ticks w \<le> n \<and> entry (w_db w) k = Some (r, e) \<and> w_clock w n \<le> e"
    and Get_missing: "st_Get st c k w = (Inr None, w') \<Longrightarrow> entry (w_db w) k = Some (r', e) \<Longrightarrow>
          \<exists>n\<ge>w_ticks w. e < w_clock w n"
    and Lock_acquired: "st_Lock st c k ttl w = (Inr True, w') \<Longrightarrow> lease ttl \<Longrightarrow>
          later w w' \<and> (\<exists>n rec. w_ticks w \<le> n \<and> rc_Status rec = StatusInProgress \<and>
            (\<forall>r e. entry (w_db w) k = Some (r, e) \<longrightarrow> e \<le> w_clock w n) \<and>
            entry (w_db w') = (entry (w_db w))(k \<mapsto> (rec, w_clock w n + sint ttl)))"
    and Lock_refused: "st_Lock st c k ttl w = (Inr False, w') \<Longrightarrow>
          later w w' \<and> entry (w_db w') = entry (w_db w)"
    and Set_done: "st_Set st c k rec ttl w = (None, w') \<Longrightarrow> lease ttl \<Longrightarrow>
          later w w' \<and> (\<exists>n. w_ticks w \<le> n \<and>
            entry (w_db w') = (entry (w_db w))(k \<mapsto> (rec, w_clock w n + sint ttl)))"
    and Delete_done: "st_Delete st c k w = (None, w') \<Longrightarrow>
          later w w' \<and> entry (w_db w') = (entry (w_db w))(k := None)"

section \<open>What the executor guarantees\<close>

text \<open>A business function that leaves the record of its own key alone.\<close>

definition leaves_key ::
  "('s \<Rightarrow> string \<Rightarrow> (Record \<times> time) option) \<Rightarrow> string \<Rightarrow>
   (ctx \<Rightarrow> 's world \<Rightarrow> 'a outcome \<times> 's world) \<Rightarrow> bool" where
  "leaves_key entry k fn \<longleftrightarrow> (\<forall>c w. later w (snd (fn c w)) \<and>
     entry (w_db (snd (fn c w))) k = entry (w_db w) k)"

definition check_failed :: "('s, 'a) Executor \<Rightarrow> 'a outcome \<Rightarrow> bool" where
  "check_failed e out \<longleftrightarrow>
     (\<exists>err. out = Returns (ex_zero e) (Some (Wrapped ''idempotency: check record: '' err [])))"

context idem_storage
begin

text \<open>A live record decides the answer: the business function does not run.\<close>

lemma Execute_recorded:
  assumes st: "ex_storage e = st" and key: "key \<noteq> []"
    and entry: "entry (w_db w) key = Some (r, ex)" and live: "\<And>n. w_clock w n \<le> ex"
    and ans: "replay_record e (Some r) = Some out"
  obtains out' w' where "\<And>fn. Execute e c key fn w = (out', w')" "out' = out \<or> check_failed e out'"
    "later w w'" "entry (w_db w') = entry (w_db w)"
proof -
  obtain x w' where g: "st_Get st c key w = (x, w')" by fastforce
  note l = Get_later [OF g]
  show thesis
  proof (cases x)
    case (Inl err)
    with g st key l show ?thesis
      by (intro that [of "Returns (ex_zero e) (Some (Wrapped ''idempotency: check record: '' err []))" w'])
         (auto simp: Execute_def check_failed_def)
  next
    case (Inr q)
    have "q = Some r"
    proof (cases q)
      case None
      from Get_missing [OF g [unfolded Inr None] entry] live show ?thesis
        by (metis linorder_not_less)
    next
      case (Some r')
      from Get_found [OF g [unfolded Inr Some]] entry show ?thesis using Some by auto
    qed
    with g st key l ans Inr show ?thesis
      by (intro that [of out w']) (auto simp: Execute_def)
  qed
qed

text \<open>A first call that succeeds has locked the key, run the function and cached its value.\<close>

lemma Execute_fresh_success:
  assumes st: "ex_storage e = st" and key: "key \<noteq> []"
    and ttl: "lease (ec_lockTTL (ex_cfg e))" "lease (ec_completeTTL (ex_cfg e))"
    and fresh: "entry (w_db w) key = None" and fn: "leaves_key entry key fn"
    and run: "Execute e c key fn w = (Returns val None, w')"
  shows "\<exists>bs n t. ex_Marshal e val = Inr bs \<and> w_ticks w \<le> n \<and> later w w' \<and>
           entry (w_db w') key = Some (\<lparr>rc_Status = StatusCompleted, rc_Response = bs, rc_CreatedAt = t\<rparr>,
             w_clock w n + sint (ec_completeTTL (ex_cfg e)))"
proof -
  obtain x w1 where g: "st_Get st c key w = (x, w1)" by fastforce
  note l1 = Get_later [OF g]
  have x: "x = Inr None"
  proof (cases x)
    case (Inl err)
    with run g st key show ?thesis by (simp add: Execute_def)
  next
    case (Inr q)
    with Get_found [of c key w _ w1] g fresh show ?thesis by (cases q) auto
  qed
  obtain y w2 where lk: "st_Lock st c key (ec_lockTTL (ex_cfg e)) w1 = (y, w2)" by fastforce
  have y: "y = Inr True" and rl: "run_locked e c key fn w2 = (Returns val None, w')"
    using run g st key x lk by (auto simp: Execute_def replay_record_def split: sum.splits bool.splits)
  from Lock_acquired [OF lk [unfolded y] ttl(1)] have l2: "later w1 w2" by blast
  obtain out w3 where f: "fn c w2 = (out, w3)" by fastforce
  have l3: "later w2 w3" using fn f unfolding leaves_key_def by (metis snd_conv)
  from rl f st obtain bs w4 where o: "out = Returns val None" and bs: "ex_Marshal e val = Inr bs"
    and s: "st_Set st c key \<lparr>rc_Status = StatusCompleted, rc_Response = bs,
        rc_CreatedAt = w_clock w3 (w_ticks w3)\<rparr> (ec_completeTTL (ex_cfg e))
        (w3\<lparr>w_ticks := Suc (w_ticks w3)\<rparr>) = (None, w')"
    by (auto simp: run_locked_def time_Now_def split: outcome.splits option.splits sum.splits prod.splits)
  from Set_done [OF s ttl(2)] obtain n where n: "w_ticks (w3\<lparr>w_ticks := Suc (w_ticks w3)\<rparr>) \<le> n"
    "later (w3\<lparr>w_ticks := Suc (w_ticks w3)\<rparr>) w'"
    "entry (w_db w') key = Some (\<lparr>rc_Status = StatusCompleted, rc_Response = bs,
       rc_CreatedAt = w_clock w3 (w_ticks w3)\<rparr>, w_clock w3 n + sint (ec_completeTTL (ex_cfg e)))"
    by auto
  with bs l1 l2 l3 show ?thesis
    by (intro exI [of _ bs] exI [of _ n]) (auto simp: later_def)
qed

lemma Execute_cached:
  assumes st: "ex_storage e = st" and key: "key \<noteq> []"
    and ttl: "lease (ec_lockTTL (ex_cfg e))" "lease (ec_completeTTL (ex_cfg e))"
    and clk: "mono (w_clock w)"
    and fresh: "entry (w_db w) key = None" and fn: "leaves_key entry key fn"
    and run: "Execute e c key fn w = (Returns val None, w1)"
    and codec: "\<And>bs. ex_Marshal e val = Inr bs \<Longrightarrow> bs \<noteq> [] \<and> ex_Unmarshal e bs = Inr val"
    and w2: "entry (w_db w2) key = entry (w_db w1) key"
    and time: "\<And>n. w_clock w2 n \<le> w_clock w (w_ticks w) + sint (ec_completeTTL (ex_cfg e))"
  shows "\<exists>out w3. (\<forall>fn'. Execute e c' key fn' w2 = (out, w3)) \<and>
           (out = Returns val None \<or> check_failed e out)"
proof -
  from Execute_fresh_success [OF st key ttl fresh fn run] obtain bs n t where
    bs: "ex_Marshal e val = Inr bs" and n: "w_ticks w \<le> n"
    and en: "entry (w_db w1) key = Some (\<lparr>rc_Status = StatusCompleted, rc_Response = bs, rc_CreatedAt = t\<rparr>,
             w_clock w n + sint (ec_completeTTL (ex_cfg e)))" by blast
  have live: "w_clock w2 m \<le> w_clock w n + sint (ec_completeTTL (ex_cfg e))" for m
    using time [of m] monoD [OF clk n] by simp
  have ans: "replay_record e (Some \<lparr>rc_Status = StatusCompleted, rc_Response = bs, rc_CreatedAt = t\<rparr>)
      = Some (Returns val None)"
    using codec [OF bs] by (simp add: replay_record_def)
  from Execute_recorded [OF st key w2 [unfolded en] live ans, of c'] obtain out' w' where
    "\<And>fn. Execute e c' key fn w2 = (out', w')" "out' = Returns val None \<or> check_failed e out'" by blast
  then show ?thesis by blast
qed

text \<open>While the lock is held, another call is refused without running its function.\<close>

lemma Execute_in_progress:
  assumes st: "ex_storage e = st" and key: "key \<noteq> []"
    and held: "entry (w_db w) key = Some (r, ex)" "rc_Status r = StatusInProgress"
    and live: "\<And>n. w_clock w n \<le> ex"
  shows "\<exists>out w'. (\<forall>fn. Execute e c key fn w = (out, w')) \<and> entry (w_db w') = entry (w_db w) \<and>
           (out = Returns (ex_zero e) (Some (Sentinel ErrConcurrentRequest)) \<or> check_failed e out)"
proof -
  have "replay_record e (Some r) = Some (Returns (ex_zero e) (Some (Sentinel ErrConcurrentRequest)))"
    using held by (simp add: replay_record_def)
  from Execute_recorded [OF st key held(1) live this, of c] obtain out' w' where
    "\<And>fn. Execute e c key fn w = (out', w')"
    "out' = Returns (ex_zero e) (Some (Sentinel ErrConcurrentRequest)) \<or> check_failed e out'"
    "entry (w_db w') = entry (w_db w)" by blast
  then show ?thesis by blast
qed

text \<open>A failed function releases the key, if the storage answers.\<close>

lemma run_locked_failure:
  assumes st: "ex_storage e = st" and f: "fn c w = (Returns v (Some err), w1)"
    and d: "st_Delete st c key w1 = (None, w2)"
  shows "run_locked e c key fn w = (Returns (ex_zero e) (Some err), w2)"
    and "entry (w_db w2) = (entry (w_db w1))(key := None)"
  using assms Delete_done [OF d] by (simp_all add: run_locked_def)

end

text \<open>
  A storage that says when a key is free: a deleted key is, and the lock of a free key is not
  refused (it may fail with an error).
\<close>

locale idem_locking = idem_storage st entry
  for st :: "'s Storage" and entry :: "'s \<Rightarrow> string \<Rightarrow> (Record \<times> time) option" +
  fixes free :: "'s \<Rightarrow> string \<Rightarrow> bool"
  assumes free_entry: "free s k \<Longrightarrow> entry s k = None"
    and Get_free: "st_Get st c k w = (x, w') \<Longrightarrow> free (w_db w) k \<Longrightarrow> free (w_db w') k"
    and Lock_free: "st_Lock st c k ttl w = (y, w') \<Longrightarrow> free (w_db w) k \<Longrightarrow> y \<noteq> Inr False"
    and Delete_frees: "st_Delete st c k w = (None, w') \<Longrightarrow> free (w_db w') k"

definition lock_failed :: "('s, 'a) Executor \<Rightarrow> 'a outcome \<Rightarrow> bool" where
  "lock_failed e out \<longleftrightarrow>
     (\<exists>err. out = Returns (ex_zero e) (Some (Wrapped ''idempotency: acquire lock: '' err [])))"

text \<open>A call takes the lock at \<open>w'\<close> and runs whatever function it is given there.\<close>

definition locks_and_runs ::
  "('s, 'a) Executor \<Rightarrow> ('s \<Rightarrow> string \<Rightarrow> (Record \<times> time) option) \<Rightarrow> ctx \<Rightarrow> string \<Rightarrow>
   's world \<Rightarrow> 's world \<Rightarrow> bool" where
  "locks_and_runs e entry c key w w' \<longleftrightarrow>
     (\<forall>fn. Execute e c key fn w = run_locked e c key fn w') \<and>
     (\<exists>r t. entry (w_db w') key = Some (r, t) \<and> rc_Status r = StatusInProgress)"

definition storage_failed :: "('s, 'a) Executor \<Rightarrow> ctx \<Rightarrow> string \<Rightarrow> 's world \<Rightarrow> bool" where
  "storage_failed e c key w \<longleftrightarrow>
     (\<exists>out w'. (\<forall>fn. Execute e c key fn w = (out, w')) \<and> (check_failed e out \<or> lock_failed e out))"

context idem_locking
begin

text \<open>A call with a free key is never refused.\<close>

lemma Execute_free:
  assumes st: "ex_storage e = st" and key: "key \<noteq> []" and ttl: "lease (ec_lockTTL (ex_cfg e))"
    and free: "free (w_db w) key"
  shows "(\<exists>w'. locks_and_runs e entry c key w w') \<or> storage_failed e c key w"
proof -
  obtain x w1 where g: "st_Get st c key w = (x, w1)" by fastforce
  show ?thesis
  proof (cases x)
    case (Inl err)
    with g st key have "storage_failed e c key w"
      by (auto simp: storage_failed_def Execute_def check_failed_def)
    then show ?thesis ..
  next
    case (Inr q)
    have q: "q = None" using Get_found [of c key w _ w1] g Inr free_entry [OF free] by (cases q) auto
    obtain y w2 where lk: "st_Lock st c key (ec_lockTTL (ex_cfg e)) w1 = (y, w2)" by fastforce
    have y: "y \<noteq> Inr False" using Lock_free [OF lk] Get_free [OF g free] by simp
    show ?thesis
    proof (cases y)
      case (Inl err)
      with g st key Inr q lk have "storage_failed e c key w"
        by (auto simp: storage_failed_def Execute_def replay_record_def lock_failed_def)
      then show ?thesis ..
    next
      case (Inr b)
      with y have b: "y = Inr True" by (cases b) auto
      from Lock_acquired [OF lk [unfolded b] ttl]
      have "\<exists>r t. entry (w_db w2) key = Some (r, t) \<and> rc_Status r = StatusInProgress" by auto
      then have "locks_and_runs e entry c key w w2"
        using g st key \<open>x = Inr q\<close> q lk b by (simp add: locks_and_runs_def Execute_def replay_record_def)
      then show ?thesis by blast
    qed
  qed
qed

text \<open>A call whose function fails frees the key again, if the storage answers.\<close>

lemma Execute_failure:
  assumes st: "ex_storage e = st" and key: "key \<noteq> []" and ttl: "lease (ec_lockTTL (ex_cfg e))"
    and free: "free (w_db w) key" and fails: "\<And>w. \<exists>v. fst (fn c w) = Returns v (Some err)"
    and del: "\<And>w1. fst (st_Delete st c key w1) = None"
    and run: "Execute e c key fn w = (out, w')"
  shows "out = Returns (ex_zero e) (Some err) \<and> free (w_db w') key \<or> check_failed e out \<or> lock_failed e out"
  using Execute_free [OF st key ttl free, of c]
proof (elim disjE exE)
  fix w1 assume "locks_and_runs e entry c key w w1"
  then have rl: "run_locked e c key fn w1 = (out, w')" using run by (simp add: locks_and_runs_def)
  obtain v w2 where f: "fn c w1 = (Returns v (Some err), w2)" using fails [of w1] by (metis fst_conv surj_pair)
  obtain w3 where d: "st_Delete st c key w2 = (None, w3)" using del [of w2] by (metis fst_conv surj_pair)
  show ?thesis using run_locked_failure(1) [where fn = fn, OF st f d] rl Delete_frees [OF d] by simp
next
  assume "storage_failed e c key w"
  then show ?thesis using run by (auto simp: storage_failed_def)
qed

end

section \<open>The in-memory storage keeps the contract\<close>

definition memory_entry :: "memory \<Rightarrow> string \<Rightarrow> (Record \<times> time) option" where
  "memory_entry m k = map_option (\<lambda>i. (mi_record i, mi_expiresAt i)) (m k)"

lemma memory_entry_upd [simp]:
  "memory_entry (m(k \<mapsto> i)) = (memory_entry m)(k \<mapsto> (mi_record i, mi_expiresAt i))"
  "memory_entry (m(k := None)) = (memory_entry m)(k := None)"
  by (auto simp: memory_entry_def fun_eq_iff)

lemmas memory_defs = NewMemoryStorage_def Memory_Lock_def Memory_Set_def Memory_Get_def
  Memory_Delete_def time_Now_def later_def time_defs

interpretation mem: idem_storage NewMemoryStorage memory_entry
proof (unfold_locales, goal_cases)
  case (1 c k w x w')
  then show ?case by (auto simp: memory_defs split: option.splits if_splits)
next
  case (2 c k w r w')
  then show ?case
    by (auto simp: memory_defs memory_entry_def split: option.splits if_splits intro!: exI [of _ "w_ticks w"])
next
  case (3 c k w w' r' e)
  then show ?case
    by (auto simp: memory_defs memory_entry_def split: option.splits if_splits intro!: exI [of _ "w_ticks w"])
next
  case (4 c k ttl w w')
  then show ?case
    by (auto simp: memory_defs Let_def split: option.splits if_splits
        intro!: exI [of _ "w_ticks w"] exI [of _ "\<lparr>rc_Status = StatusInProgress, rc_Response = [],
          rc_CreatedAt = w_clock w (w_ticks w)\<rparr>"])
       (auto simp: memory_entry_def)
next
  case (5 c k ttl w w')
  then show ?case
    by (auto simp: memory_defs Let_def memory_entry_def split: option.splits if_splits)
next
  case (6 c k rec ttl w w')
  then show ?case by (auto simp: memory_defs intro!: exI [of _ "w_ticks w"])
next
  case (7 c k w w')
  then show ?case by (auto simp: memory_defs)
qed

interpretation mem_locking: idem_locking NewMemoryStorage memory_entry "\<lambda>m k. m k = None"
proof (unfold_locales, goal_cases)
  case (1 s k)
  then show ?case by (simp add: memory_entry_def)
next
  case (2 c k w x w')
  then show ?case by (auto simp: memory_defs split: option.splits if_splits)
next
  case (3 c k ttl w x w')
  then show ?case by (auto simp: memory_defs Let_def)
next
  case (4 c k w w')
  then show ?case by (auto simp: memory_defs)
qed

section \<open>The Redis storage keeps it on every Redis server\<close>

text \<open>
  What is relied on of Redis and of the JSON form of a record: \<open>rv\<close> is the value and the
  expiry of a key; the server reads the clock when it executes a command.
\<close>

locale redis_server =
  fixes rd :: "'s redis"
    and rv :: "'s \<Rightarrow> string \<Rightarrow> (bytes \<times> time) option"
  assumes rGet_later: "rd_Get rd c k w = (x, w') \<Longrightarrow> later w w' \<and> rv (w_db w') = rv (w_db w)"
    and rGet_found: "rd_Get rd c k w = (Inr b, w') \<Longrightarrow>
          \<exists>n e. w_ticks w \<le> n \<and> rv (w_db w) k = Some (b, e) \<and> w_clock w n \<le> e"
    and rGet_nil: "rd_Get rd c k w = (Inl err, w') \<Longrightarrow> errors_Is err (Sentinel RedisNil) \<Longrightarrow>
          rv (w_db w) k = Some (b', e) \<Longrightarrow> \<exists>n\<ge>w_ticks w. e < w_clock w n"
    and rSetNX_done: "rd_SetNX rd c k data ttl w = (Inr True, w') \<Longrightarrow> lease ttl \<Longrightarrow>
          later w w' \<and> (\<exists>n\<ge>w_ticks w. (\<forall>b e. rv (w_db w) k = Some (b, e) \<longrightarrow> e < w_clock w n) \<and>
            rv (w_db w') = (rv (w_db w))(k \<mapsto> (data, w_clock w n + sint ttl)))"
    and rSetNX_refused: "rd_SetNX rd c k data ttl w = (Inr False, w') \<Longrightarrow>
          later w w' \<and> rv (w_db w') = rv (w_db w)"
    and rSet_done: "rd_Set rd c k data ttl w = (None, w') \<Longrightarrow> lease ttl \<Longrightarrow>
          later w w' \<and> (\<exists>n\<ge>w_ticks w.
            rv (w_db w') = (rv (w_db w))(k \<mapsto> (data, w_clock w n + sint ttl)))"
    and rDel_done: "rd_Del rd c k w = (None, w') \<Longrightarrow>
          later w w' \<and> rv (w_db w') = (rv (w_db w))(k := None)"
    and record_json: "rd_Marshal rd r = Inr data \<Longrightarrow> rd_Unmarshal rd data = Inr r"

definition redis_entry ::
  "'s redis \<Rightarrow> ('s \<Rightarrow> string \<Rightarrow> (bytes \<times> time) option) \<Rightarrow> string \<Rightarrow> 's \<Rightarrow> string \<Rightarrow>
   (Record \<times> time) option" where
  "redis_entry rd rv prefix s k =
     (case rv s (formatKey prefix k) of
        None \<Rightarrow> None
      | Some (b, e) \<Rightarrow> (case rd_Unmarshal rd b of Inl err \<Rightarrow> None | Inr r \<Rightarrow> Some (r, e)))"

lemma formatKey_inject [simp]: "formatKey p a = formatKey p b \<longleftrightarrow> a = b"
  by (simp add: formatKey_def)

lemma redis_entry_upd:
  "rv s' = (rv s)(formatKey p k \<mapsto> (data, e)) \<Longrightarrow> rd_Unmarshal rd data = Inr r \<Longrightarrow>
     redis_entry rd rv p s' = (redis_entry rd rv p s)(k \<mapsto> (r, e))"
  "rv s' = (rv s)(formatKey p k := None) \<Longrightarrow>
     redis_entry rd rv p s' = (redis_entry rd rv p s)(k := None)"
  by (auto simp: redis_entry_def fun_eq_iff)

lemma redis_entry_same: "rv s' = rv s \<Longrightarrow> redis_entry rd rv p s' = redis_entry rd rv p s"
  by (simp add: redis_entry_def fun_eq_iff)

lemma redis_entry_Some:
  "redis_entry rd rv p s k = Some (r, e) \<longleftrightarrow>
     (\<exists>b. rv s (formatKey p k) = Some (b, e) \<and> rd_Unmarshal rd b = Inr r)"
  by (auto simp: redis_entry_def split: option.splits sum.splits)

context redis_server
begin

lemma redis_storage: "idem_storage (NewRedisStorage rd prefix) (redis_entry rd rv (redis_prefix prefix))"
proof (unfold_locales, goal_cases)
  case (1 c k w x w')
  then show ?case
    by (auto simp: NewRedisStorage_def Redis_Get_def split: prod.splits sum.splits if_splits
        dest!: rGet_later intro: redis_entry_same)
next
  case (2 c k w r w')
  then show ?case
    by (auto simp: NewRedisStorage_def Redis_Get_def redis_entry_Some split: prod.splits sum.splits if_splits
        dest!: rGet_found)
next
  case (3 c k w w' r' e)
  then obtain err w1 where "rd_Get rd c (formatKey (redis_prefix prefix) k) w = (Inl err, w1)"
    "errors_Is err (Sentinel RedisNil)"
    by (auto simp: NewRedisStorage_def Redis_Get_def split: prod.splits sum.splits if_splits)
  with 3(2) rGet_nil show ?case by (auto simp: redis_entry_Some)
next
  case (4 c k ttl w w')
  define rec where "rec = \<lparr>rc_Status = StatusInProgress, rc_Response = [],
      rc_CreatedAt = w_clock w (w_ticks w)\<rparr>"
  define w1 where "w1 = w\<lparr>w_ticks := Suc (w_ticks w)\<rparr>"
  from 4(1) obtain data where data: "rd_Marshal rd rec = Inr data"
    and s: "rd_SetNX rd c (formatKey (redis_prefix prefix) k) data ttl w1 = (Inr True, w')"
    by (auto simp: NewRedisStorage_def Redis_Lock_def time_Now_def rec_def w1_def split: sum.splits)
  from rSetNX_done [OF s 4(2)] obtain n where l: "later w1 w'" and n: "w_ticks w1 \<le> n"
    and old: "\<forall>b e. rv (w_db w1) (formatKey (redis_prefix prefix) k) = Some (b, e) \<longrightarrow> e < w_clock w1 n"
    and new: "rv (w_db w') = (rv (w_db w1))(formatKey (redis_prefix prefix) k \<mapsto> (data, w_clock w1 n + sint ttl))"
    by blast
  have "redis_entry rd rv (redis_prefix prefix) (w_db w') =
      (redis_entry rd rv (redis_prefix prefix) (w_db w1))(k \<mapsto> (rec, w_clock w1 n + sint ttl))"
    by (rule redis_entry_upd(1) [OF new record_json [OF data]])
  moreover have "\<forall>r e. redis_entry rd rv (redis_prefix prefix) (w_db w) k = Some (r, e) \<longrightarrow> e \<le> w_clock w n"
    using old by (auto simp: redis_entry_Some w1_def)
  moreover have "rc_Status rec = StatusInProgress" by (simp add: rec_def)
  ultimately show ?case using l n
    by (auto simp: later_def w1_def intro!: exI [of _ n] exI [of _ rec])
next
  case (5 c k ttl w w')
  then obtain data where
    "rd_SetNX rd c (formatKey (redis_prefix prefix) k) data ttl (w\<lparr>w_ticks := Suc (w_ticks w)\<rparr>) = (Inr False, w')"
    by (auto simp: NewRedisStorage_def Redis_Lock_def time_Now_def split: sum.splits)
  from rSetNX_refused [OF this] show ?case
    by (auto simp: later_def intro: redis_entry_same)
next
  case (6 c k rec ttl w w')
  then obtain data where data: "rd_Marshal rd rec = Inr data"
    and s: "rd_Set rd c (formatKey (redis_prefix prefix) k) data ttl w = (None, w')"
    by (auto simp: NewRedisStorage_def Redis_Set_def split: sum.splits)
  from rSet_done [OF s 6(2)] redis_entry_upd(1) [OF _ record_json [OF data]] show ?case by blast
next
  case (7 c k w w')
  then show ?case
    by (auto simp: NewRedisStorage_def Redis_Delete_def dest!: rDel_done intro: redis_entry_upd(2))
qed

end

text \<open>And \<^verbatim>\<open>SETNX\<close> sets a key that does not exist.\<close>

locale redis_server_nx = redis_server rd rv
  for rd :: "'s redis" and rv :: "'s \<Rightarrow> string \<Rightarrow> (bytes \<times> time) option" +
  assumes rSetNX_free: "rd_SetNX rd c k data ttl w = (x, w') \<Longrightarrow> rv (w_db w) k = None \<Longrightarrow> x \<noteq> Inr False"

context redis_server_nx
begin

lemma redis_locking:
  "idem_locking (NewRedisStorage rd prefix) (redis_entry rd rv (redis_prefix prefix))
     (\<lambda>s k. rv s (formatKey (redis_prefix prefix) k) = None)"
proof (rule idem_locking.intro [OF redis_storage], unfold_locales, goal_cases)
  case (1 s k)
  then show ?case by (simp add: redis_entry_def)
next
  case (2 c k w x w')
  then show ?case
    by (auto simp: NewRedisStorage_def Redis_Get_def split: prod.splits sum.splits if_splits dest!: rGet_later)
next
  case (3 c k ttl w x w')
  then show ?case
    by (auto simp: NewRedisStorage_def Redis_Lock_def time_Now_def split: sum.splits dest!: rSetNX_free)
next
  case (4 c k w w')
  then show ?case by (auto simp: NewRedisStorage_def Redis_Delete_def dest!: rDel_done)
qed

end

text \<open>An executable Redis server: a map of values with their expiry.\<close>

type_synonym redis_map = "string \<Rightarrow> (bytes \<times> time) option"

definition ref_SetNX ::
  "ctx \<Rightarrow> string \<Rightarrow> bytes \<Rightarrow> duration \<Rightarrow> redis_map world \<Rightarrow> bool result \<times> redis_map world" where
  "ref_SetNX c k data ttl w =
     (case time_Now w of (now, w1) \<Rightarrow>
        (case w_db w1 k of
           Some (b, e) \<Rightarrow>
             if now \<le> e then (Inr False, w1)
             else (Inr True, w1\<lparr>w_db := (w_db w1)(k \<mapsto> (data, time_Add now ttl))\<rparr>)
         | None \<Rightarrow> (Inr True, w1\<lparr>w_db := (w_db w1)(k \<mapsto> (data, time_Add now ttl))\<rparr>)))"

definition ref_redis :: "redis_map redis" where
  "ref_redis =
     \<lparr>rd_SetNX = ref_SetNX,
      rd_Set = (\<lambda>c k data ttl w. case time_Now w of (now, w1) \<Rightarrow>
        (None, w1\<lparr>w_db := (w_db w1)(k \<mapsto> (data, time_Add now ttl))\<rparr>)),
      rd_Get = (\<lambda>c k w. case time_Now w of (now, w1) \<Rightarrow>
        (case w_db w1 k of
           Some (b, e) \<Rightarrow> if now \<le> e then (Inr b, w1) else (Inl (Sentinel RedisNil), w1)
         | None \<Rightarrow> (Inl (Sentinel RedisNil), w1))),
      rd_Del = (\<lambda>c k w. (None, w\<lparr>w_db := (w_db w)(k := None)\<rparr>)),
      rd_Marshal = (\<lambda>r. Inr (enc_list [rc_Status r, rc_Response r, int_bytes (rc_CreatedAt r)])),
      rd_Unmarshal = (\<lambda>b. case dec_list [] b of
          Some [s, p, t] \<Rightarrow> Inr \<lparr>rc_Status = s, rc_Response = p, rc_CreatedAt = bytes_int t\<rparr>
        | _ \<Rightarrow> Inl (Foreign ''invalid character''))\<rparr>"

interpretation ref_redis_server: redis_server ref_redis "\<lambda>s. s"
  by unfold_locales
     (auto simp: ref_redis_def ref_SetNX_def time_Now_def later_def time_Add_def not_le
       split: option.splits if_splits intro!: exI [of _ "w_ticks _"])

interpretation redis_store: idem_storage "NewRedisStorage ref_redis []"
    "redis_entry ref_redis (\<lambda>s. s) (redis_prefix [])"
  by (rule ref_redis_server.redis_storage)

interpretation ref_redis_nx: redis_server_nx ref_redis "\<lambda>s. s"
  by unfold_locales (auto simp: ref_redis_def ref_SetNX_def time_Now_def)

interpretation redis_locks: idem_locking "NewRedisStorage ref_redis []"
    "redis_entry ref_redis (\<lambda>s. s) (redis_prefix [])" "\<lambda>s k. s (formatKey (redis_prefix []) k) = None"
  by (rule ref_redis_nx.redis_locking)

end
