(* ===== verification/Idempotency_Races.thy ===== *)
theory Idempotency_Races
  imports Idempotency_Specs
begin

text \<open>
  Concurrent calls of the executor with one key on the in-memory storage. Each storage
  operation is atomic (it holds the mutex); between two operations of a call any other
  call may move, and the business functions of several calls may run at the same time.
\<close>

section \<open>Interleavings\<close>

text \<open>
  Where a call is: before the check, past it, running its function since it took the lock
  at some time, answered without running it, or ended with success, failure or a crash
  (a panic or a value that does not marshal: the key is left as it is).
\<close>

datatype 'a pc =
    Idle
  | Checked
  | Running time
  | Answered "'a outcome"
  | Succeeded 'a
  | Failed
  | Crashed

type_synonym 'a system = "memory world \<times> (nat \<Rightarrow> 'a pc)"

definition now_of :: "'s world \<Rightarrow> time" where
  "now_of w = w_clock w (w_ticks w)"

definition completed :: "bytes \<Rightarrow> time \<Rightarrow> Record" where
  "completed bs t = \<lparr>rc_Status = StatusCompleted, rc_Response = bs, rc_CreatedAt = t\<rparr>"

inductive idem_step ::
  "(memory, 'a) Executor \<Rightarrow> string \<Rightarrow> 'a system \<Rightarrow> 'a system \<Rightarrow> bool" for e key where
  check_go: "ps p = Idle \<Longrightarrow> Memory_Get c key w = (Inr r, w') \<Longrightarrow> replay_record e r = None \<Longrightarrow>
     idem_step e key (w, ps) (w', ps(p := Checked))"
| check_answer: "ps p = Idle \<Longrightarrow> Memory_Get c key w = (Inr r, w') \<Longrightarrow>
     replay_record e r = Some out \<Longrightarrow> idem_step e key (w, ps) (w', ps(p := Answered out))"
| lock_taken: "ps p = Checked \<Longrightarrow>
     Memory_Lock c key (ec_lockTTL (ex_cfg e)) w = (Inr True, w') \<Longrightarrow>
     idem_step e key (w, ps) (w', ps(p := Running (now_of w)))"
| lock_busy: "ps p = Checked \<Longrightarrow>
     Memory_Lock c key (ec_lockTTL (ex_cfg e)) w = (Inr False, w') \<Longrightarrow>
     idem_step e key (w, ps)
       (w', ps(p := Answered (Returns (ex_zero e) (Some (Sentinel ErrConcurrentRequest)))))"
| succeed: "ps p = Running t \<Longrightarrow> ex_Marshal e val = Inr bs \<Longrightarrow>
     Memory_Set c key (completed bs u) (ec_completeTTL (ex_cfg e)) w = (x, w') \<Longrightarrow>
     idem_step e key (w, ps) (w', ps(p := Succeeded val))"
| fail: "ps p = Running t \<Longrightarrow> Memory_Delete c key w = (x, w') \<Longrightarrow>
     idem_step e key (w, ps) (w', ps(p := Failed))"
| crash: "ps p = Running t \<Longrightarrow> idem_step e key (w, ps) (w, ps(p := Crashed))"
| tick: "idem_step e key (w, ps) (w\<lparr>w_ticks := w_ticks w + k\<rparr>, ps)"

inductive_cases idem_stepE: "idem_step e key s s'"

text \<open>
  A state in which every running function is within its lease and no cached answer has
  expired. \<open>timely\<close> are the executions that pass through such states only.
\<close>

definition in_time :: "(memory, 'a) Executor \<Rightarrow> string \<Rightarrow> 'a system \<Rightarrow> bool" where
  "in_time e key s \<longleftrightarrow>
     (case s of (w, ps) \<Rightarrow>
        (\<forall>p t. ps p = Running t \<longrightarrow> now_of w < time_Add t (ec_lockTTL (ex_cfg e))) \<and>
        (\<forall>i. w_db w key = Some i \<and> rc_Status (mi_record i) = StatusCompleted \<longrightarrow>
             now_of w < mi_expiresAt i))"

inductive timely ::
  "(memory, 'a) Executor \<Rightarrow> string \<Rightarrow> memory world \<Rightarrow> 'a system \<Rightarrow> bool" for e key w0 where
  start: "w_db w0 key = None \<Longrightarrow> timely e key w0 (w0, \<lambda>_. Idle)"
| more: "timely e key w0 s \<Longrightarrow> idem_step e key s s' \<Longrightarrow> in_time e key s' \<Longrightarrow> timely e key w0 s'"

section \<open>The invariant\<close>

definition excl :: "(memory, 'a) Executor \<Rightarrow> string \<Rightarrow> 'a system \<Rightarrow> bool" where
  "excl e key s \<longleftrightarrow>
     (case s of (w, ps) \<Rightarrow>
        (\<forall>p t. ps p = Running t \<longrightarrow>
           (\<forall>q. (\<forall>u. ps q = Running u \<longrightarrow> q = p) \<and> (\<forall>v. ps q \<noteq> Succeeded v)) \<and>
           (\<exists>i. w_db w key = Some i \<and> rc_Status (mi_record i) = StatusInProgress \<and>
                mi_expiresAt i = time_Add t (ec_lockTTL (ex_cfg e)))) \<and>
        (\<forall>p v. ps p = Succeeded v \<longrightarrow>
           (\<forall>q u. ps q = Succeeded u \<longrightarrow> q = p) \<and>
           (\<exists>i. w_db w key = Some i \<and> rc_Status (mi_record i) = StatusCompleted)))"

lemma Memory_Get_world:
  "Memory_Get c key w = (x, w') \<Longrightarrow> w_db w' = w_db w"
  by (auto simp: Memory_Get_def time_Now_def split: option.splits if_splits)

lemma Memory_Lock_taken:
  "Memory_Lock c key ttl w = (Inr True, w') \<Longrightarrow>
     (\<forall>i. w_db w key = Some i \<longrightarrow> mi_expiresAt i \<le> now_of w) \<and>
     (\<exists>i. w_db w' key = Some i \<and> rc_Status (mi_record i) = StatusInProgress \<and>
          mi_expiresAt i = time_Add (now_of w) ttl)"
  by (auto simp: Memory_Lock_def time_Now_def time_defs now_of_def Let_def split: option.splits if_splits)

lemma Memory_Get_answers: "\<exists>r w'. Memory_Get c key w = (Inr r, w')"
  by (auto simp: Memory_Get_def time_Now_def split: option.splits)

lemma Memory_Lock_answers: "\<exists>b w'. Memory_Lock c key ttl w = (Inr b, w')"
  by (auto simp: Memory_Lock_def time_Now_def Let_def split: option.splits)

lemma Memory_Lock_busy: "Memory_Lock c key ttl w = (Inr False, w') \<Longrightarrow> w_db w' = w_db w"
  by (auto simp: Memory_Lock_def time_Now_def Let_def split: option.splits if_splits)

lemma excl_step:
  assumes "idem_step e key s s'" "excl e key s" "in_time e key s"
  shows "excl e key s'"
  using assms
proof (induction rule: idem_step.induct)
  case (check_go ps p c w r w')
  then show ?case using Memory_Get_world [OF check_go.hyps(2)] by (auto simp: excl_def)
next
  case (check_answer ps p c w r w' out)
  then show ?case using Memory_Get_world [OF check_answer.hyps(2)] by (auto simp: excl_def)
next
  case (lock_taken ps p c w w')
  note l = Memory_Lock_taken [OF lock_taken.hyps(2)]
  have free: "mi_expiresAt i \<le> now_of w" if "w_db w key = Some i" for i using l that by blast
  have "ps q \<noteq> Running t" for q t
  proof
    assume q: "ps q = Running t"
    with lock_taken.prems(1) obtain i where "w_db w key = Some i"
      "mi_expiresAt i = time_Add t (ec_lockTTL (ex_cfg e))" unfolding excl_def by blast
    moreover have "now_of w < time_Add t (ec_lockTTL (ex_cfg e))"
      using lock_taken.prems(2) q unfolding in_time_def by blast
    ultimately show False using free [of i] by simp
  qed
  moreover have "ps q \<noteq> Succeeded v" for q v
  proof
    assume q: "ps q = Succeeded v"
    with lock_taken.prems(1) obtain i where "w_db w key = Some i"
      "rc_Status (mi_record i) = StatusCompleted" unfolding excl_def by blast
    with free [of i] lock_taken.prems(2) show False by (auto simp: in_time_def)
  qed
  ultimately have idle: "ps q \<noteq> Running t" "ps q \<noteq> Succeeded v" for q t v by blast+
  from l obtain i where "w_db w' key = Some i" "rc_Status (mi_record i) = StatusInProgress"
    "mi_expiresAt i = time_Add (now_of w) (ec_lockTTL (ex_cfg e))" by blast
  with idle show ?case by (simp add: excl_def)
next
  case (lock_busy ps p c w w')
  then show ?case using Memory_Lock_busy [OF lock_busy.hyps(2)] by (auto simp: excl_def)
next
  case (succeed ps p t val bs c u w x w')
  have "ps q \<noteq> Running t' \<or> q = p" "ps q \<noteq> Succeeded v" for q t' v
    using succeed.hyps(1) succeed.prems(1) by (auto simp: excl_def)
  moreover have "\<exists>i. w_db w' key = Some i \<and> rc_Status (mi_record i) = StatusCompleted"
    using succeed.hyps(3) by (auto simp: Memory_Set_def time_Now_def completed_def)
  ultimately show ?case by (auto simp: excl_def)
next
  case (fail ps p t c w x w')
  have "ps q \<noteq> Running t' \<or> q = p" "ps q \<noteq> Succeeded v" for q t' v
    using fail.hyps(1) fail.prems(1) by (auto simp: excl_def)
  then show ?case by (auto simp: excl_def)
next
  case (crash ps p t w)
  have "ps q \<noteq> Running t' \<or> q = p" "ps q \<noteq> Succeeded v" for q t' v
    using crash.hyps(1) crash.prems(1) by (auto simp: excl_def)
  then show ?case by (auto simp: excl_def)
next
  case (tick w ps k)
  then show ?case by (auto simp: excl_def)
qed

lemma timely_excl: "timely e key w0 s \<Longrightarrow> excl e key s \<and> in_time e key s"
proof (induction rule: timely.induct)
  case start
  then show ?case by (simp add: excl_def in_time_def)
next
  case (more s s')
  then show ?case using excl_step by blast
qed

lemma timely_exclusive:
  assumes "timely e key w0 (w, ps)"
  shows "(\<forall>p q t u. ps p = Running t \<and> ps q = Running u \<longrightarrow> p = q) \<and>
         (\<forall>p q v u. ps p = Succeeded v \<and> ps q = Succeeded u \<longrightarrow> p = q) \<and>
         (\<forall>p q t v. ps p = Running t \<longrightarrow> ps q \<noteq> Succeeded v)"
  using timely_excl [OF assms] unfolding excl_def by blast

section \<open>The steps are those of the executor\<close>

text \<open>A call that runs alone, with a function that leaves the storage alone, is a path.\<close>

lemma Execute_is_path:
  assumes st: "ex_storage e = NewMemoryStorage" and key: "key \<noteq> []" and ps: "ps p = Idle"
    and fn: "\<And>c w. \<exists>out k. fn c w = (out, w\<lparr>w_ticks := w_ticks w + k\<rparr>)"
    and run: "Execute e c key fn w = (out, w')"
  shows "\<exists>st'. (idem_step e key)\<^sup>*\<^sup>* (w, ps) (w', ps(p := st')) \<and>
           (st' = Answered out \<or> (\<exists>v. out = Returns v None \<and> st' = Succeeded v) \<or>
            st' = Failed \<or> st' = Crashed)"
proof -
  obtain r w1 where g: "Memory_Get c key w = (Inr r, w1)"
    using Memory_Get_answers by blast
  show ?thesis
  proof (cases "replay_record e r")
    case (Some out')
    with run g st key have "out' = out" "w1 = w'" by (auto simp: Execute_def NewMemoryStorage_def)
    with idem_step.check_answer [where ps = ps and p = p, OF ps g Some] show ?thesis by auto
  next
    case None
    note s1 = idem_step.check_go [where ps = ps and p = p, OF ps g None]
    define ps1 where "ps1 = ps(p := Checked)"
    have c1: "ps1 p = Checked" and upd: "ps1(p := x) = ps(p := x)" for x by (simp_all add: ps1_def)
    obtain b w2 where l: "Memory_Lock c key (ec_lockTTL (ex_cfg e)) w1 = (Inr b, w2)"
      using Memory_Lock_answers by blast
    show ?thesis
    proof (cases b)
      case False
      then have b: "b = False" by simp
      with run g None l st key have "out = Returns (ex_zero e) (Some (Sentinel ErrConcurrentRequest))" "w' = w2"
        by (auto simp: Execute_def NewMemoryStorage_def)
      with s1 idem_step.lock_busy [where ps = ps1 and p = p, OF c1 l [unfolded b], folded upd] show ?thesis
        by (auto simp: ps1_def intro!: exI [of _ "Answered out"] rtranclp.rtrancl_into_rtrancl [OF r_into_rtranclp])
    next
      case True
      then have b: "b = True" by simp
      with run g None l st key have rl: "run_locked e c key fn w2 = (out, w')"
        by (simp add: Execute_def NewMemoryStorage_def)
      define ps2 where "ps2 = ps1(p := Running (now_of w1))"
      have s2: "idem_step e key (w1, ps1) (w2, ps2)"
        unfolding ps2_def by (rule idem_step.lock_taken [where ps = ps1 and p = p, OF c1 l [unfolded b]])
      have r2: "ps2 p = Running (now_of w1)" and upd2: "ps2(p := x) = ps(p := x)" for x
        by (simp_all add: ps2_def ps1_def)
      obtain o3 k where f: "fn c w2 = (o3, w2\<lparr>w_ticks := w_ticks w2 + k\<rparr>)" using fn by blast
      define w3 where "w3 = w2\<lparr>w_ticks := w_ticks w2 + k\<rparr>"
      have s3: "idem_step e key (w2, ps2) (w3, ps2)" unfolding w3_def by (rule idem_step.tick)
      have path: "(idem_step e key)\<^sup>*\<^sup>* (w, ps) (w3, ps2)"
        using s1 s2 s3 unfolding ps1_def [symmetric]
        by (meson r_into_rtranclp rtranclp.rtrancl_into_rtrancl)
      have finish: "\<exists>st'. (idem_step e key)\<^sup>*\<^sup>* (w, ps) (w', ps(p := st')) \<and>
           (st' = Answered out \<or> (\<exists>v. out = Returns v None \<and> st' = Succeeded v) \<or>
            st' = Failed \<or> st' = Crashed)"
        if "(idem_step e key)\<^sup>*\<^sup>* (w, ps) (w4, ps2)" "idem_step e key (w4, ps2) (w', ps2(p := x))"
          "x = Failed \<or> x = Crashed \<or> (\<exists>v. out = Returns v None \<and> x = Succeeded v)" for w4 x
        using that unfolding upd2 by (intro exI [of _ x]) (auto intro: rtranclp.rtrancl_into_rtrancl)
      consider (panic) q where "o3 = Panics q" | (err) v x where "o3 = Returns v (Some x)"
        | (ok) v where "o3 = Returns v None"
        by (cases o3) (metis option.exhaust)+
      then show ?thesis
      proof cases
        case panic
        with rl f have "w' = w3" by (simp add: run_locked_def w3_def)
        then show ?thesis
          using finish [OF path] idem_step.crash [where ps = ps2 and p = p, OF r2, of e key w3] by blast
      next
        case err
        obtain y w4 where d: "Memory_Delete c key w3 = (y, w4)" by fastforce
        with err rl f st have "w' = w4" by (simp add: run_locked_def w3_def NewMemoryStorage_def)
        then show ?thesis
          using finish [OF path] idem_step.fail [where ps = ps2 and p = p, OF r2 d, of e] by blast
      next
        case ok
        show ?thesis
        proof (cases "ex_Marshal e v")
          case (Inl x)
          with ok rl f have "w' = w3" by (simp add: run_locked_def w3_def)
          then show ?thesis
            using finish [OF path] idem_step.crash [where ps = ps2 and p = p, OF r2, of e key w3] by blast
        next
          case (Inr bs)
          define w4 where "w4 = w3\<lparr>w_ticks := w_ticks w3 + 1\<rparr>"
          have s4: "idem_step e key (w3, ps2) (w4, ps2)" unfolding w4_def by (rule idem_step.tick)
          obtain y w5 where d: "Memory_Set c key (completed bs (now_of w3)) (ec_completeTTL (ex_cfg e)) w4 = (y, w5)"
            by fastforce
          have y: "y = None" using d by (auto simp: Memory_Set_def time_Now_def)
          have "out = Returns v None" "w' = w5"
            using ok rl f st Inr d y
            by (auto simp: run_locked_def w3_def w4_def NewMemoryStorage_def time_Now_def completed_def now_of_def)
          then show ?thesis
            using finish [OF rtranclp.rtrancl_into_rtrancl [OF path s4]]
              idem_step.succeed [where ps = ps2 and p = p, OF r2 Inr d] by blast
        qed
      qed
    qed
  qed
qed

end
