(* ===== verification/Idempotency_Properties.thy ===== *)
theory Idempotency_Properties
  imports Idempotency_Races
begin

text \<open>
  The properties of the idempotency executor: replies are replayed, concurrent calls are
  refused, executions within their lease exclude each other, and the two situations in
  which the guarantee of the documentation is lost.
\<close>

section \<open>A demo executor of strings\<close>

definition demo_exec :: "(memory, string) Executor" where
  "demo_exec = NewExecutor NewMemoryStorage [] [] (\<lambda>v. Inr (CHR ''s'' # v)) (\<lambda>b. Inr (tl b))"

definition demo_store :: "memory \<Rightarrow> memory world" where
  "demo_store m = \<lparr>w_db = m, w_clock = (\<lambda>n. int n * 50 * second), w_ticks = 0,
     w_entropy = (\<lambda>k n. Inr []), w_draws = 0, w_log = []\<rparr>"

lemma demo_exec_simps [simp]:
  "ex_storage demo_exec = NewMemoryStorage"
  "ec_lockTTL (ex_cfg demo_exec) = 120000000000" "ec_completeTTL (ex_cfg demo_exec) = 86400000000000"
  "ex_Marshal demo_exec v = Inr (CHR ''s'' # v)" "ex_Unmarshal demo_exec b = Inr (tl b)"
  "ex_zero demo_exec = []"
  by (simp_all add: demo_exec_def NewExecutor_def second_def)

lemma demo_leases: "lease (ec_lockTTL (ex_cfg demo_exec))" "lease (ec_completeTTL (ex_cfg demo_exec))"
  by (simp_all add: lease_def millisecond_def)

section \<open>Sequential calls\<close>

text \<open>
  C20: After a call with a new key has succeeded, every later call with the key returns the same
  value and does not run its function, as long as the cached record is kept (on any storage
  that keeps the contract; an error of the storage is reported as such).
\<close>
theorem idempotent_reply_replayed:
  fixes w :: "'s world"
  assumes "idem_storage st entry" and "ex_storage e = st" and "key \<noteq> []"
    and "lease (ec_lockTTL (ex_cfg e))" and "lease (ec_completeTTL (ex_cfg e))"
    and "mono (w_clock w)" and "entry (w_db w) key = None" and "leaves_key entry key fn"
    and "Execute e c key fn w = (Returns val None, w1)"
    and "\<And>bs. ex_Marshal e val = Inr bs \<Longrightarrow> bs \<noteq> [] \<and> ex_Unmarshal e bs = Inr val"
    and "entry (w_db w2) key = entry (w_db w1) key"
    and "\<And>n. w_clock w2 n \<le> w_clock w (w_ticks w) + sint (ec_completeTTL (ex_cfg e))"
  shows "\<exists>out w3. (\<forall>fn'. Execute e c' key fn' w2 = (out, w3)) \<and>
           (out = Returns val None \<or> check_failed e out)"
  by (rule idem_storage.Execute_cached [OF assms])

theorem idempotent_reply_replayed_witness:
  "\<exists>w1 out w3. Execute demo_exec Background ''k'' (\<lambda>c w. (Returns ''paid'' None, w)) (demo_store (\<lambda>_. None))
       = (Returns ''paid'' None, w1) \<and>
     (\<forall>fn'. Execute demo_exec Background ''k'' fn' (w1\<lparr>w_clock := (\<lambda>n. 500 * second)\<rparr>) = (out, w3)) \<and>
     (out = Returns ''paid'' None \<or> check_failed demo_exec out)"
proof -
  let ?fn = "\<lambda>c (w :: memory world). (Returns ''paid'' None, w)"
  obtain out1 w1 where r: "Execute demo_exec Background ''k'' ?fn (demo_store (\<lambda>_. None)) = (out1, w1)"
    by fastforce
  have out1: "out1 = Returns ''paid'' None"
    using r by (simp add: Execute_def replay_record_def memory_defs demo_store_def run_locked_def Let_def)
  have m: "mono (w_clock (demo_store (\<lambda>_. None)))"
    by (rule monoI) (simp add: demo_store_def second_def)
  have "\<exists>out w3. (\<forall>fn'. Execute demo_exec Background ''k'' fn' (w1\<lparr>w_clock := (\<lambda>n. 500 * second)\<rparr>) = (out, w3)) \<and>
     (out = Returns ''paid'' None \<or> check_failed demo_exec out)"
    by (rule idempotent_reply_replayed [OF mem.idem_storage_axioms _ _ demo_leases m _ _ r [unfolded out1]])
       (auto simp: memory_entry_def demo_store_def leaves_key_def second_def)
  with r out1 show ?thesis by blast
qed

text \<open>
  While a call holds the lock of a key, every other call with the key is refused with
  \<open>ErrConcurrentRequest\<close> without running its function, and changes nothing.
\<close>
theorem concurrent_call_refused:
  fixes w :: "'s world"
  assumes "idem_storage st entry" and "ex_storage e = st" and "key \<noteq> []"
    and "entry (w_db w) key = Some (r, ex)" and "rc_Status r = StatusInProgress"
    and "\<And>n. w_clock w n \<le> ex"
  shows "\<exists>out w'. (\<forall>fn. Execute e c key fn w = (out, w')) \<and> entry (w_db w') = entry (w_db w) \<and>
           (out = Returns (ex_zero e) (Some (Sentinel ErrConcurrentRequest)) \<or> check_failed e out)"
  by (rule idem_storage.Execute_in_progress [OF assms])

theorem concurrent_call_refused_witness:
  "\<exists>out w'. (\<forall>fn. Execute demo_exec Background ''k'' fn
        ((demo_store [''k'' \<mapsto> \<lparr>mi_record = \<lparr>rc_Status = StatusInProgress, rc_Response = [], rc_CreatedAt = 0\<rparr>,
            mi_expiresAt = 120 * second\<rparr>])\<lparr>w_clock := (\<lambda>n. 5 * second)\<rparr>) = (out, w')) \<and>
     (out = Returns [] (Some (Sentinel ErrConcurrentRequest)) \<or> check_failed demo_exec out)"
proof -
  let ?w = "(demo_store [''k'' \<mapsto> \<lparr>mi_record = \<lparr>rc_Status = StatusInProgress, rc_Response = [], rc_CreatedAt = 0\<rparr>,
      mi_expiresAt = 120 * second\<rparr>])\<lparr>w_clock := (\<lambda>n. 5 * second)\<rparr>"
  have en: "memory_entry (w_db ?w) ''k'' =
      Some (\<lparr>rc_Status = StatusInProgress, rc_Response = [], rc_CreatedAt = 0\<rparr>, 120 * second)"
    by (simp add: memory_entry_def demo_store_def)
  have "\<And>n. w_clock ?w n \<le> 120 * second" by (simp add: second_def)
  from concurrent_call_refused [OF mem.idem_storage_axioms demo_exec_simps(1) _ en _ this, of Background]
  show ?thesis by simp blast
qed

section \<open>Concurrent calls\<close>

text \<open>
  C21: Whatever the interleaving of concurrent calls with one new key, as long as every running
  function stays within its lease and the cached answer has not expired: at most one
  function runs at a time, at most one call ever succeeds, and none runs beside or after it.
\<close>
theorem executions_exclusive:
  assumes "timely e key w0 (w, ps)"
  shows "(\<forall>p q t u. ps p = Running t \<and> ps q = Running u \<longrightarrow> p = q) \<and>
         (\<forall>p q v u. ps p = Succeeded v \<and> ps q = Succeeded u \<longrightarrow> p = q) \<and>
         (\<forall>p q t v. ps p = Running t \<longrightarrow> ps q \<noteq> Succeeded v)"
  by (rule timely_exclusive [OF assms])

lemma demo_check:
  "w_db w ''k'' = None \<or> (\<exists>i. w_db w ''k'' = Some i \<and> mi_expiresAt i < now_of w) \<Longrightarrow> ps p = Idle \<Longrightarrow>
   idem_step demo_exec ''k'' (w, ps)
     (if w_db w ''k'' = None then w else w\<lparr>w_ticks := Suc (w_ticks w)\<rparr>, ps(p := Checked))"
  by (rule idem_step.check_go [where r = None and c = Background])
     (auto simp: memory_defs replay_record_def now_of_def split: option.splits)

lemma demo_lock:
  "w_db w ''k'' = None \<or> (\<exists>i. w_db w ''k'' = Some i \<and> mi_expiresAt i \<le> now_of w) \<Longrightarrow> ps p = Checked \<Longrightarrow>
   idem_step demo_exec ''k'' (w, ps)
     (w\<lparr>w_ticks := Suc (w_ticks w), w_db := (w_db w)(''k'' \<mapsto>
        \<lparr>mi_record = \<lparr>rc_Status = StatusInProgress, rc_Response = [], rc_CreatedAt = now_of w\<rparr>,
         mi_expiresAt = now_of w + 120000000000\<rparr>)\<rparr>, ps(p := Running (now_of w)))"
  by (rule idem_step.lock_taken [where c = Background])
     (auto simp: memory_defs now_of_def Let_def split: option.splits)

theorem executions_exclusive_witness:
  "\<exists>w ps. timely demo_exec ''k'' (demo_store (\<lambda>_. None)) (w, ps) \<and> ps 0 = Running 0 \<and>
     (\<forall>q u. ps q = Running u \<longrightarrow> q = 0)"
proof -
  let ?w = "demo_store (\<lambda>_. None)"
  have none: "w_db ?w ''k'' = None" by (simp add: demo_store_def)
  note s0 = timely.start [where e = demo_exec and key = "''k''", OF none]
  have s1: "timely demo_exec ''k'' ?w (?w, (\<lambda>_. Idle)(0 := Checked))"
    using timely.more [OF s0, of "(?w, (\<lambda>_. Idle)(0 := Checked))"] demo_check [of ?w "\<lambda>_. Idle" 0] none
    by (simp add: in_time_def)
  define w1 where "w1 = ?w\<lparr>w_ticks := Suc (w_ticks ?w), w_db := (w_db ?w)(''k'' \<mapsto>
        \<lparr>mi_record = \<lparr>rc_Status = StatusInProgress, rc_Response = [], rc_CreatedAt = now_of ?w\<rparr>,
         mi_expiresAt = now_of ?w + 120000000000\<rparr>)\<rparr>"
  have n: "now_of ?w = 0" "now_of w1 = 50000000000"
    by (simp_all add: now_of_def demo_store_def w1_def second_def)
  have "timely demo_exec ''k'' ?w (w1, (\<lambda>_. Idle)(0 := Checked, 0 := Running (now_of ?w)))"
  proof (rule timely.more [OF s1])
    show "idem_step demo_exec ''k'' (?w, (\<lambda>_. Idle)(0 := Checked))
        (w1, (\<lambda>_. Idle)(0 := Checked, 0 := Running (now_of ?w)))"
      unfolding w1_def by (rule demo_lock) (simp_all add: none)
    show "in_time demo_exec ''k'' (w1, (\<lambda>_. Idle)(0 := Checked, 0 := Running (now_of ?w)))"
      by (simp add: in_time_def n time_Add_def) (simp add: w1_def)
  qed
  moreover define ps where "ps = (\<lambda>_ :: nat. Idle :: string pc)(0 := Checked, 0 := Running (now_of ?w))"
  ultimately have t: "timely demo_exec ''k'' ?w (w1, ps)" by simp
  have 0: "ps 0 = Running 0" by (simp add: ps_def n)
  with executions_exclusive [OF t] have "\<forall>q u. ps q = Running u \<longrightarrow> q = 0" by blast
  with t 0 show ?thesis by blast
qed

section \<open>Where the guarantee is lost\<close>

text \<open>
  A function that overruns its lease breaks the exclusion for good: a second call runs
  beside it, and when the first one fails it releases the lock of the second, so that a
  third runs beside the second although both are within their leases.
\<close>
theorem overrun_breaks_exclusion:
  "\<exists>w ps t u. (idem_step demo_exec ''k'')\<^sup>*\<^sup>* (demo_store (\<lambda>_. None), \<lambda>_. Idle) (w, ps) \<and>
     ps 0 = Failed \<and> ps 1 = Running t \<and> ps 2 = Running u \<and>
     now_of w < t + 120 * second \<and> now_of w < u + 120 * second"
proof -
  let ?W = "\<lambda>n m. demo_store m\<lparr>w_ticks := n\<rparr>"
  let ?I = "\<lambda>t. \<lparr>mi_record = \<lparr>rc_Status = StatusInProgress, rc_Response = [], rc_CreatedAt = t\<rparr>,
      mi_expiresAt = t + 120000000000\<rparr>"
  let ?E = "\<lambda>_. None :: memoryItem option" and ?i = "\<lambda>_ :: nat. Idle :: string pc"
  have now: "now_of (?W n m) = int n * 50000000000" for n m
    by (simp add: now_of_def demo_store_def second_def)
  have sel: "w_db (?W n m) = m" "w_ticks (?W n m) = n" for n m by (simp_all add: demo_store_def)
  have upd: "?W n m\<lparr>w_ticks := k\<rparr> = ?W k m" "?W n m\<lparr>w_db := m'\<rparr> = ?W n m'" for n k m m'
    by (simp_all add: demo_store_def)
  let ?R = "idem_step demo_exec ''k''"
  have 1: "?R (?W 0 ?E, ?i) (?W 0 ?E, ?i(0 := Checked))"
    using demo_check [of "?W 0 ?E" ?i 0] by (simp add: sel)
  have 2: "?R (?W 0 ?E, ?i(0 := Checked)) (?W 1 [''k'' \<mapsto> ?I 0], ?i(0 := Running 0))"
    using demo_lock [of "?W 0 ?E" "?i(0 := Checked)" 0] by (simp add: sel now upd)
  have 3: "?R (?W 1 [''k'' \<mapsto> ?I 0], ?i(0 := Running 0)) (?W 3 [''k'' \<mapsto> ?I 0], ?i(0 := Running 0))"
    using idem_step.tick [of demo_exec "''k''" "?W 1 [''k'' \<mapsto> ?I 0]" "?i(0 := Running 0)" 2]
    by (simp add: sel upd eval_nat_numeral)
  have 4: "?R (?W 3 [''k'' \<mapsto> ?I 0], ?i(0 := Running 0)) (?W 4 [''k'' \<mapsto> ?I 0], ?i(0 := Running 0, 1 := Checked))"
    using demo_check [of "?W 3 [''k'' \<mapsto> ?I 0]" "?i(0 := Running 0)" 1] by (simp add: sel now upd)
  have 5: "?R (?W 4 [''k'' \<mapsto> ?I 0], ?i(0 := Running 0, 1 := Checked))
      (?W 5 [''k'' \<mapsto> ?I 200000000000], ?i(0 := Running 0, 1 := Running 200000000000))"
    using demo_lock [of "?W 4 [''k'' \<mapsto> ?I 0]" "?i(0 := Running 0, 1 := Checked)" 1]
    by (simp add: sel now upd)
  have 6: "?R (?W 5 [''k'' \<mapsto> ?I 200000000000], ?i(0 := Running 0, 1 := Running 200000000000))
      (?W 5 ?E, ?i(0 := Failed, 1 := Running 200000000000))"
    using idem_step.fail [where e = demo_exec and key = "''k''" and p = 0 and t = 0 and c = Background
        and ps = "?i(0 := Running 0, 1 := Running 200000000000)" and w = "?W 5 [''k'' \<mapsto> ?I 200000000000]"]
    by (simp add: Memory_Delete_def sel upd fun_upd_twist)
  have 7: "?R (?W 5 ?E, ?i(0 := Failed, 1 := Running 200000000000))
      (?W 5 ?E, ?i(0 := Failed, 1 := Running 200000000000, 2 := Checked))"
    using demo_check [of "?W 5 ?E" "?i(0 := Failed, 1 := Running 200000000000)" 2] by (simp add: sel)
  have 8: "?R (?W 5 ?E, ?i(0 := Failed, 1 := Running 200000000000, 2 := Checked))
      (?W 6 [''k'' \<mapsto> ?I 250000000000], ?i(0 := Failed, 1 := Running 200000000000, 2 := Running 250000000000))"
    using demo_lock [of "?W 5 ?E" "?i(0 := Failed, 1 := Running 200000000000, 2 := Checked)" 2]
    by (simp add: sel now upd)
  have init: "?W 0 ?E = demo_store ?E" by (simp add: demo_store_def)
  have "?R\<^sup>*\<^sup>* (?W 0 ?E, ?i)
      (?W 6 [''k'' \<mapsto> ?I 250000000000], ?i(0 := Failed, 1 := Running 200000000000, 2 := Running 250000000000))"
    by (intro converse_rtranclp_into_rtranclp [where r = ?R, OF 1] converse_rtranclp_into_rtranclp [where r = ?R, OF 2]
        converse_rtranclp_into_rtranclp [where r = ?R, OF 3] converse_rtranclp_into_rtranclp [where r = ?R, OF 4]
        converse_rtranclp_into_rtranclp [where r = ?R, OF 5] converse_rtranclp_into_rtranclp [where r = ?R, OF 6]
        converse_rtranclp_into_rtranclp [where r = ?R, OF 7] r_into_rtranclp [where r = ?R, OF 8])
  moreover have "now_of (?W 6 [''k'' \<mapsto> ?I 250000000000]) = 300000000000" by (simp add: now)
  ultimately show ?thesis unfolding init
    by (intro exI [of _ "?W 6 [''k'' \<mapsto> ?I 250000000000]"]
        exI [of _ "?i(0 := Failed, 1 := Running 200000000000, 2 := Running 250000000000)"]
        exI [of _ "200000000000"] exI [of _ "250000000000"]) (simp add: second_def)
qed

text \<open>
  A function whose value does not marshal, or that panics, leaves the lock of its key until
  the lease ends, although nothing runs any more.
\<close>
theorem unmarshalled_value_keeps_lock:
  assumes "fn c w = (Returns v None, w1)" "ex_Marshal e v = Inl x"
  shows "run_locked e c key fn w =
       (Returns (ex_zero e) (Some (Wrapped ''idempotency: marshal response: '' x [])), w1)"
  using assms by (simp add: run_locked_def)

theorem panic_keeps_lock: "fn c w = (Panics p, w1) \<Longrightarrow> run_locked e c key fn w = (Panics p, w1)"
  by (simp add: run_locked_def)

section \<open>Failures\<close>

text \<open>
  C22: A call with a free key whose function fails passes the function's error on and frees
  the key again, so that a retry with the key is not refused: it takes the lock and runs
  its own function. Only an error of the storage, which is reported as such, can prevent it.
\<close>
theorem failure_releases_key:
  fixes w :: "'s world"
  assumes "idem_locking st entry free" and "ex_storage e = st" and "key \<noteq> []"
    and "lease (ec_lockTTL (ex_cfg e))" and "free (w_db w) key"
    and "\<And>w. \<exists>v. fst (fn c w) = Returns v (Some err)"
    and "\<And>w1. fst (st_Delete st c key w1) = None"
    and "Execute e c key fn w = (out, w1)" and "free (w_db w2) key = free (w_db w1) key"
  shows "out = Returns (ex_zero e) (Some err) \<and> entry (w_db w1) key = None \<and>
       ((\<exists>w3. locks_and_runs e entry c' key w2 w3) \<or> storage_failed e c' key w2) \<or>
     check_failed e out \<or> lock_failed e out"
  using idem_locking.Execute_failure [where fn = fn, OF assms(1-8)] idem_locking.Execute_free [OF assms(1-4), of w2 c']
    idem_locking.free_entry [OF assms(1)] assms(9) by blast

theorem failure_releases_key_witness:
  "\<exists>out w1 w2. Execute demo_exec Background ''k'' (\<lambda>c w. (Returns [] (Some (Foreign ''declined'')), w))
       (demo_store (\<lambda>_. None)) = (out, w1) \<and> out = Returns [] (Some (Foreign ''declined'')) \<and>
     memory_entry (w_db w1) ''k'' = None \<and> locks_and_runs demo_exec memory_entry Background ''k'' w1 w2"
proof -
  let ?fn = "\<lambda>c (w :: memory world). (Returns [] (Some (Foreign ''declined'')), w)"
  obtain out w1 where r: "Execute demo_exec Background ''k'' ?fn (demo_store (\<lambda>_. None)) = (out, w1)"
    by fastforce
  have out: "out = Returns [] (Some (Foreign ''declined''))"
    using r by (simp add: Execute_def replay_record_def memory_defs demo_store_def run_locked_def Let_def)
  have sure: "\<not> storage_failed demo_exec Background ''k'' w" if "w_db w ''k'' = None" for w
  proof
    assume "storage_failed demo_exec Background ''k'' w"
    then obtain out' w' where "\<And>fn. Execute demo_exec Background ''k'' fn w = (out', w')"
      "check_failed demo_exec out' \<or> lock_failed demo_exec out'"
      unfolding storage_failed_def by blast
    from this(1) [of ?fn] this(2) that show False
      by (auto simp: Execute_def replay_record_def memory_defs run_locked_def Let_def check_failed_def lock_failed_def)
  qed
  have "out = Returns (ex_zero demo_exec) (Some (Foreign ''declined'')) \<and> memory_entry (w_db w1) ''k'' = None \<and>
       ((\<exists>w3. locks_and_runs demo_exec memory_entry Background ''k'' w1 w3) \<or>
        storage_failed demo_exec Background ''k'' w1) \<or>
     check_failed demo_exec out \<or> lock_failed demo_exec out"
    by (rule failure_releases_key [OF mem_locking.idem_locking_axioms _ _ demo_leases(1) _ _ _ r])
      (auto simp: demo_store_def NewMemoryStorage_def Memory_Delete_def)
  then have "memory_entry (w_db w1) ''k'' = None \<and>
      ((\<exists>w3. locks_and_runs demo_exec memory_entry Background ''k'' w1 w3) \<or>
       storage_failed demo_exec Background ''k'' w1)"
    using out by (auto simp: check_failed_def lock_failed_def)
  then show ?thesis using r out sure [of w1] by (auto simp: memory_entry_def)
qed

end
