(* ===== verification/Routine.thy ===== *)
theory Routine
  imports Go_Context Go_Strings
begin

text \<open>
  \<^verbatim>\<open>pkg/routine/routine.go\<close> and \<^verbatim>\<open>pkg/routine/metrics.go\<close>: goroutines started through the
  package, the counters they keep and the wait for shutdown. Launching, the body, and each
  effect of the deferred function are separate steps, so that the moments between them are
  states of the model.
\<close>

section \<open>Metrics (metrics.go)\<close>

text \<open>The Prometheus collectors, as the numbers they hold; a histogram by its count.\<close>

record metrics =
  activeGoroutines :: int
  tasksTotal :: "string \<Rightarrow> nat"
  panicsTotal :: nat
  taskDuration :: "string \<Rightarrow> nat"

definition metricIncActive :: "metrics \<Rightarrow> metrics" where
  "metricIncActive m = m\<lparr>activeGoroutines := activeGoroutines m + 1\<rparr>"

definition metricDecActive :: "metrics \<Rightarrow> metrics" where
  "metricDecActive m = m\<lparr>activeGoroutines := activeGoroutines m - 1\<rparr>"

definition metricIncTasks :: "string \<Rightarrow> metrics \<Rightarrow> metrics" where
  "metricIncTasks ty m = m\<lparr>tasksTotal := (tasksTotal m)(ty := Suc (tasksTotal m ty))\<rparr>"

definition metricIncPanics :: "metrics \<Rightarrow> metrics" where
  "metricIncPanics m = m\<lparr>panicsTotal := Suc (panicsTotal m)\<rparr>"

definition metricObserveDuration :: "string \<Rightarrow> metrics \<Rightarrow> metrics" where
  "metricObserveDuration ty m = m\<lparr>taskDuration := (taskDuration m)(ty := Suc (taskDuration m ty))\<rparr>"

lemmas metric_defs = metricIncActive_def metricDecActive_def metricIncTasks_def
  metricIncPanics_def metricObserveDuration_def

text \<open>The collectors, and their registration: at most once, failures ignored.\<close>

datatype collector = ActiveGauge | TasksCounter | PanicsCounter | DurationHistogram

definition MetricsCollectors :: "collector list" where
  "MetricsCollectors = [ActiveGauge, TasksCounter, PanicsCounter, DurationHistogram]"

definition RegisterMetrics ::
  "(collector \<Rightarrow> 'r \<Rightarrow> go_error option \<times> 'r) \<Rightarrow> 'r option \<Rightarrow> bool \<Rightarrow> 'r option \<times> bool" where
  "RegisterMetrics register reg once =
     (case reg of
        None \<Rightarrow> (None, once)
      | Some r \<Rightarrow>
          if once then (Some r, True)
          else (Some (fold (\<lambda>col r. snd (register col r)) MetricsCollectors r), True))"

section \<open>The package state (routine.go)\<close>

text \<open>
  \<open>rt_tracker\<close> is the counter of the \<^verbatim>\<open>WaitGroup\<close>. A panic handler is called with the
  context and the panic value and changes the state \<open>'h\<close> it reports to (a log).
\<close>

type_synonym 'h PanicHandler = "ctx \<Rightarrow> string \<Rightarrow> 'h \<Rightarrow> 'h"

record 'h routine =
  rt_tracker :: int
  rt_activeCount :: int
  rt_panicHandler :: "'h PanicHandler"
  rt_metrics :: metrics
  rt_report :: 'h

definition SetPanicHandler :: "'h PanicHandler option \<Rightarrow> 'h routine \<Rightarrow> 'h routine" where
  "SetPanicHandler handler s =
     (case handler of Some h \<Rightarrow> s\<lparr>rt_panicHandler := h\<rparr> | None \<Rightarrow> s)"

definition getPanicHandler :: "'h routine \<Rightarrow> 'h PanicHandler" where
  "getPanicHandler s = rt_panicHandler s"

definition ActiveCount :: "'h routine \<Rightarrow> int" where
  "ActiveCount s = rt_activeCount s"

text \<open>What \<^verbatim>\<open>Go\<close> and \<^verbatim>\<open>Safe\<close> do before the function runs.\<close>

definition launch :: "'h routine \<Rightarrow> 'h routine" where
  "launch s = s\<lparr>rt_tracker := rt_tracker s + 1, rt_activeCount := rt_activeCount s + 1,
     rt_metrics := metricIncActive (rt_metrics s)\<rparr>"

text \<open>
  The deferred function, in its order: the metrics and the active count, then
  \<^verbatim>\<open>tracker.Done\<close>, then \<^verbatim>\<open>recover\<close> and the handler.
\<close>

definition defer_count :: "string \<Rightarrow> 'h routine \<Rightarrow> 'h routine" where
  "defer_count ty s = s\<lparr>
     rt_metrics := metricObserveDuration ty (metricIncTasks ty (metricDecActive (rt_metrics s))),
     rt_activeCount := rt_activeCount s - 1\<rparr>"

definition defer_done :: "'h routine \<Rightarrow> 'h routine" where
  "defer_done s = s\<lparr>rt_tracker := rt_tracker s - 1\<rparr>"

definition defer_recover :: "ctx \<Rightarrow> string option \<Rightarrow> 'h routine \<Rightarrow> 'h routine" where
  "defer_recover c r s =
     (case r of
        None \<Rightarrow> s
      | Some p \<Rightarrow> s\<lparr>rt_metrics := metricIncPanics (rt_metrics s),
                    rt_report := getPanicHandler s c p (rt_report s)\<rparr>)"

text \<open>
  A launched function run to its end with nothing in between: \<^verbatim>\<open>Safe\<close> as its caller sees
  it, and a goroutine of \<^verbatim>\<open>Go\<close> on its own. The function may itself use the package.
\<close>

type_synonym ('s, 'h) managed = "ctx \<Rightarrow> 's \<times> 'h routine \<Rightarrow> unit outcome \<times> 's \<times> 'h routine"

definition run_managed ::
  "string \<Rightarrow> ctx \<Rightarrow> ('s, 'h) managed \<Rightarrow> 's \<Rightarrow> 'h routine \<Rightarrow> 's \<times> 'h routine" where
  "run_managed ty c fn w s =
     (case fn c (w, launch s) of
        (Returns u e, w1, s1) \<Rightarrow> (w1, defer_recover c None (defer_done (defer_count ty s1)))
      | (Panics p, w1, s1) \<Rightarrow> (w1, defer_recover c (Some p) (defer_done (defer_count ty s1))))"

definition Go :: "ctx \<Rightarrow> ('s, 'h) managed \<Rightarrow> 's \<Rightarrow> 'h routine \<Rightarrow> 's \<times> 'h routine" where
  "Go c fn w s = run_managed ''go'' c fn w s"

definition GoDetached :: "ctx \<Rightarrow> ('s, 'h) managed \<Rightarrow> 's \<Rightarrow> 'h routine \<Rightarrow> 's \<times> 'h routine" where
  "GoDetached c fn w s = Go (WithoutCancel c) fn w s"

definition Safe ::
  "('s \<times> 'h routine \<Rightarrow> unit outcome \<times> 's \<times> 'h routine) \<Rightarrow> 's \<Rightarrow> 'h routine \<Rightarrow> 's \<times> 'h routine" where
  "Safe fn w s = run_managed ''safe'' Background (\<lambda>_. fn) w s"

lemmas routine_defs = launch_def defer_count_def defer_done_def defer_recover_def

section \<open>Goroutines side by side\<close>

text \<open>Where a launched function is; a panic value is carried until it is recovered.\<close>

datatype gpc =
    Body string ctx
  | Unwound string ctx "string option"
  | Counted ctx "string option"
  | Untracked ctx "string option"
  | Finished

text \<open>
  \<open>waited\<close> is set when the goroutine inside \<^verbatim>\<open>WaitForShutdown\<close> has seen the tracker at zero
  and closed \<^verbatim>\<open>done\<close>.
\<close>

record 'h routines =
  rs_state :: "'h routine"
  rs_pcs :: "nat \<Rightarrow> gpc option"
  rs_waited :: bool

inductive routine_step :: "'h routines \<Rightarrow> 'h routines \<Rightarrow> bool" where
  launched: "rs_pcs s p = None \<Longrightarrow>
     routine_step s (s\<lparr>rs_state := launch (rs_state s), rs_pcs := (rs_pcs s)(p \<mapsto> Body ty c)\<rparr>)"
| body_ends: "rs_pcs s p = Some (Body ty c) \<Longrightarrow>
     routine_step s (s\<lparr>rs_pcs := (rs_pcs s)(p \<mapsto> Unwound ty c r)\<rparr>)"
| counted: "rs_pcs s p = Some (Unwound ty c r) \<Longrightarrow>
     routine_step s (s\<lparr>rs_state := defer_count ty (rs_state s), rs_pcs := (rs_pcs s)(p \<mapsto> Counted c r)\<rparr>)"
| untracked: "rs_pcs s p = Some (Counted c r) \<Longrightarrow>
     routine_step s (s\<lparr>rs_state := defer_done (rs_state s), rs_pcs := (rs_pcs s)(p \<mapsto> Untracked c r)\<rparr>)"
| recovered: "rs_pcs s p = Some (Untracked c r) \<Longrightarrow>
     routine_step s (s\<lparr>rs_state := defer_recover c r (rs_state s), rs_pcs := (rs_pcs s)(p \<mapsto> Finished)\<rparr>)"
| waited: "rt_tracker (rs_state s) = 0 \<Longrightarrow> routine_step s (s\<lparr>rs_waited := True\<rparr>)"

inductive_cases routine_stepE: "routine_step s s'"

text \<open>
  \<^verbatim>\<open>WaitForShutdown\<close> at time \<open>now\<close>: \<open>None\<close> while it blocks, otherwise its result. When both
  cases of the \<^verbatim>\<open>select\<close> are ready, \<open>prefer\<close> says which one is taken.
\<close>

definition WaitForShutdown ::
  "bool \<Rightarrow> ctx \<Rightarrow> time \<Rightarrow> 'h routines \<Rightarrow> go_error option option" where
  "WaitForShutdown prefer c now s =
     (case ctx_Err c now of
        None \<Rightarrow> if rs_waited s then Some None else None
      | Some err \<Rightarrow>
          if rs_waited s \<and> prefer then Some None
          else Some (Some (Wrapped
            (''routine: shutdown timed out with '' @ FormatInt (ActiveCount (rs_state s))
               @ '' goroutines still active: '') err [])))"

section \<open>The counters\<close>

definition in_body :: "gpc option \<Rightarrow> bool" where
  "in_body x \<longleftrightarrow> (\<exists>ty c. x = Some (Body ty c)) \<or> (\<exists>ty c r. x = Some (Unwound ty c r))"

definition tracked :: "gpc option \<Rightarrow> bool" where
  "tracked x \<longleftrightarrow> in_body x \<or> (\<exists>c r. x = Some (Counted c r))"

text \<open>How many of the processes \<open>f\<close> satisfy \<open>P\<close>.\<close>

definition pc_count :: "('p option \<Rightarrow> bool) \<Rightarrow> (nat \<Rightarrow> 'p option) \<Rightarrow> int" where
  "pc_count P f = int (card {p. P (f p)})"

definition counters_ok :: "'h routines \<Rightarrow> bool" where
  "counters_ok s \<longleftrightarrow>
     finite (dom (rs_pcs s)) \<and>
     rt_tracker (rs_state s) = pc_count tracked (rs_pcs s) \<and>
     rt_activeCount (rs_state s) = pc_count in_body (rs_pcs s) \<and>
     activeGoroutines (rt_metrics (rs_state s)) = rt_activeCount (rs_state s)"

definition no_routines :: "'h PanicHandler \<Rightarrow> 'h \<Rightarrow> 'h routines" where
  "no_routines h rep = \<lparr>rs_state = \<lparr>rt_tracker = 0, rt_activeCount = 0, rt_panicHandler = h,
      rt_metrics = \<lparr>activeGoroutines = 0, tasksTotal = (\<lambda>_. 0), panicsTotal = 0, taskDuration = (\<lambda>_. 0)\<rparr>,
      rt_report = rep\<rparr>, rs_pcs = Map.empty, rs_waited = False\<rparr>"

lemma pc_count_finite: "finite (dom f) \<Longrightarrow> \<not> P None \<Longrightarrow> finite {p. P (f p)}"
  by (erule rev_finite_subset) (auto simp: domIff intro: ccontr)

lemma pc_count_upd:
  assumes "finite (dom f)" "\<not> P None"
  shows "pc_count P (f(p := x)) = pc_count P f - (if P (f p) then 1 else 0) + (if P x then 1 else 0)"
proof -
  have fin: "finite {q. P (f q)}" using assms by (rule pc_count_finite)
  have "{q. P ((f(p := x)) q)} = (if P x then insert p ({q. P (f q)} - {p}) else {q. P (f q)} - {p})"
    by auto
  moreover have "0 < card {q. P (f q)}" if "P (f p)" using fin that by (auto simp: card_gt_0_iff)
  ultimately show ?thesis
    using fin by (auto simp: pc_count_def card_Diff_singleton_if card_insert_if of_nat_diff Suc_le_eq)
qed

lemma pc_count_empty [simp]: "\<not> P None \<Longrightarrow> pc_count P Map.empty = 0"
  by (simp add: pc_count_def)

lemma pc_count_zero: "finite (dom f) \<Longrightarrow> \<not> P None \<Longrightarrow> pc_count P f = 0 \<longleftrightarrow> (\<forall>p. \<not> P (f p))"
  by (simp add: pc_count_def pc_count_finite)

lemma pc_count_pos: "finite (dom f) \<Longrightarrow> \<not> P None \<Longrightarrow> P (f p) \<Longrightarrow> 0 < pc_count P f"
  by (metis pc_count_zero pc_count_def of_nat_0_le_iff order_le_less)

lemma pc_count_nonneg: "0 \<le> pc_count P f"
  by (simp add: pc_count_def)

lemma pc_count_mono: "finite (dom f) \<Longrightarrow> \<not> Q None \<Longrightarrow> (\<And>x. P x \<Longrightarrow> Q x) \<Longrightarrow> pc_count P f \<le> pc_count Q f"
  unfolding pc_count_def of_nat_le_iff by (intro card_mono) (auto simp: pc_count_finite)

lemma gpc_classes [simp]:
  "\<not> in_body None" "in_body (Some (Body ty c))" "in_body (Some (Unwound ty c r))"
  "\<not> in_body (Some (Counted c r))" "\<not> in_body (Some (Untracked c r))" "\<not> in_body (Some Finished)"
  "\<not> tracked None" "tracked (Some (Body ty c))" "tracked (Some (Unwound ty c r))"
  "tracked (Some (Counted c r))" "\<not> tracked (Some (Untracked c r))" "\<not> tracked (Some Finished)"
  by (auto simp: in_body_def tracked_def)

lemma counters_ok_init: "counters_ok (no_routines h rep)"
  by (simp add: counters_ok_def no_routines_def)

lemma counters_ok_step:
  assumes "routine_step s s'" "counters_ok s"
  shows "counters_ok s'"
  using assms
  by (cases rule: routine_step.cases)
    (auto simp: counters_ok_def routine_defs metric_defs pc_count_upd split: option.splits)

lemma counters_ok_reachable: "routine_step\<^sup>*\<^sup>* (no_routines h rep) s \<Longrightarrow> counters_ok s"
  by (induction rule: rtranclp_induct) (auto intro: counters_ok_init counters_ok_step)

section \<open>The wait for shutdown\<close>

text \<open>A function that was launched stays launched, and one that is over is not tracked again.\<close>

lemma untracked_step:
  "routine_step s s' \<Longrightarrow> rs_pcs s p \<noteq> None \<Longrightarrow> \<not> tracked (rs_pcs s p) \<Longrightarrow>
     rs_pcs s' p \<noteq> None \<and> \<not> tracked (rs_pcs s' p)"
  by (cases rule: routine_step.cases) (auto split: if_splits)

lemma untracked_stable:
  "routine_step\<^sup>*\<^sup>* s s' \<Longrightarrow> rs_pcs s p \<noteq> None \<Longrightarrow> \<not> tracked (rs_pcs s p) \<Longrightarrow>
     rs_pcs s' p \<noteq> None \<and> \<not> tracked (rs_pcs s' p)"
  by (induction rule: rtranclp_induct) (auto dest: untracked_step)

lemma launched_stable:
  "routine_step\<^sup>*\<^sup>* s s' \<Longrightarrow> rs_pcs s p \<noteq> None \<Longrightarrow> rs_pcs s' p \<noteq> None"
  by (induction rule: rtranclp_induct) (auto elim!: routine_step.cases)

lemma waited_after_idle:
  "routine_step\<^sup>*\<^sup>* sc s \<Longrightarrow> \<not> rs_waited sc \<Longrightarrow> rs_waited s \<Longrightarrow>
     \<exists>s0. routine_step\<^sup>*\<^sup>* sc s0 \<and> routine_step\<^sup>*\<^sup>* s0 s \<and> rt_tracker (rs_state s0) = 0"
proof (induction rule: rtranclp_induct)
  case (step s s')
  show ?case
  proof (cases "rs_waited s")
    case True
    then show ?thesis using step by (meson rtranclp.rtrancl_into_rtrancl)
  next
    case False
    have "rt_tracker (rs_state s) = 0" using step(2) False step(5) by (cases rule: routine_step.cases) auto
    then show ?thesis using step(1,2) by blast
  qed
qed simp

lemma idle_tracker:
  assumes "counters_ok s" "rt_tracker (rs_state s) = 0"
  shows "\<not> tracked (rs_pcs s p)" "ActiveCount (rs_state s) = 0"
proof -
  have fin: "finite (dom (rs_pcs s))" "pc_count tracked (rs_pcs s) = 0"
    using assms by (simp_all add: counters_ok_def)
  then have none: "\<not> tracked (rs_pcs s p)" for p using pc_count_zero [of _ tracked] by simp
  then have "pc_count in_body (rs_pcs s) = 0" using pc_count_zero [OF fin(1), of in_body]
    by (simp add: tracked_def)
  then show "\<not> tracked (rs_pcs s p)" "ActiveCount (rs_state s) = 0"
    using assms(1) none by (simp_all add: counters_ok_def ActiveCount_def)
qed

text \<open>
  \<open>sc\<close> is the moment of the call, \<open>s\<close> that of the return: in between the package was idle, and
  what had been launched at the call is over at the return.
\<close>

lemma wait_nil_idle:
  assumes "routine_step\<^sup>*\<^sup>* (no_routines h rep) sc" "\<not> rs_waited sc" "routine_step\<^sup>*\<^sup>* sc s"
    and "WaitForShutdown prefer c now s = Some None"
  shows "\<exists>s0. routine_step\<^sup>*\<^sup>* sc s0 \<and> routine_step\<^sup>*\<^sup>* s0 s \<and>
       (\<forall>p. \<not> tracked (rs_pcs s0 p)) \<and> ActiveCount (rs_state s0) = 0"
    and "rs_pcs sc p \<noteq> None \<Longrightarrow> \<not> tracked (rs_pcs s p)"
proof -
  have "rs_waited s" using assms(4) by (auto simp: WaitForShutdown_def split: option.splits if_splits)
  from waited_after_idle [OF assms(3,2) this] obtain s0 where
    s0: "routine_step\<^sup>*\<^sup>* sc s0" "routine_step\<^sup>*\<^sup>* s0 s" "rt_tracker (rs_state s0) = 0" by blast
  have ok: "counters_ok s0"
    using assms(1) s0(1) by (intro counters_ok_reachable) (rule rtranclp_trans)
  note idle = idle_tracker [OF ok s0(3)]
  show "\<exists>s0. routine_step\<^sup>*\<^sup>* sc s0 \<and> routine_step\<^sup>*\<^sup>* s0 s \<and>
       (\<forall>p. \<not> tracked (rs_pcs s0 p)) \<and> ActiveCount (rs_state s0) = 0"
    using s0 idle by blast
  show "\<not> tracked (rs_pcs s p)" if "rs_pcs sc p \<noteq> None"
    using launched_stable [OF s0(1) that] untracked_stable [OF s0(2)] idle by blast
qed

text \<open>A run: a function is launched, \<^verbatim>\<open>WaitForShutdown\<close> is called, the function ends.\<close>

lemma one_routine_waited:
  "\<exists>sc s. routine_step\<^sup>*\<^sup>* (no_routines h rep) sc \<and> \<not> rs_waited sc \<and> tracked (rs_pcs sc 0) \<and>
     WaitForShutdown True Background 0 sc = None \<and>
     routine_step\<^sup>*\<^sup>* sc s \<and> WaitForShutdown True Background 0 s = Some None \<and> rt_report (rs_state s) = rep \<and>
     rs_pcs s 0 = Some (Untracked Background r)"
proof -
  define s0 where "s0 = no_routines h rep"
  define s1 where "s1 = s0\<lparr>rs_state := launch (rs_state s0), rs_pcs := (rs_pcs s0)(0 \<mapsto> Body ''go'' Background)\<rparr>"
  define s2 where "s2 = s1\<lparr>rs_pcs := (rs_pcs s1)(0 \<mapsto> Unwound ''go'' Background r)\<rparr>"
  define s3 where "s3 = s2\<lparr>rs_state := defer_count ''go'' (rs_state s2), rs_pcs := (rs_pcs s2)(0 \<mapsto> Counted Background r)\<rparr>"
  define s4 where "s4 = s3\<lparr>rs_state := defer_done (rs_state s3), rs_pcs := (rs_pcs s3)(0 \<mapsto> Untracked Background r)\<rparr>"
  define s5 where "s5 = s4\<lparr>rs_waited := True\<rparr>"
  have live: "ctx_Err Background 0 = None" by (simp add: ctx_Err_def Background_def)
  have "routine_step s0 s1" unfolding s1_def by (rule routine_step.launched) (simp add: s0_def no_routines_def)
  moreover have "routine_step s1 s2" unfolding s2_def by (rule routine_step.body_ends) (simp add: s1_def)
  moreover have "routine_step s2 s3" unfolding s3_def by (rule routine_step.counted) (simp add: s2_def)
  moreover have "routine_step s3 s4" unfolding s4_def by (rule routine_step.untracked) (simp add: s3_def)
  moreover have "routine_step s4 s5" unfolding s5_def
    by (rule routine_step.waited)
      (simp add: s4_def s3_def s2_def s1_def s0_def no_routines_def routine_defs)
  ultimately have "routine_step\<^sup>*\<^sup>* s0 s1" "routine_step\<^sup>*\<^sup>* s1 s5"
    by (meson rtranclp.rtrancl_refl rtranclp.rtrancl_into_rtrancl)+
  moreover have "\<not> rs_waited s1" "tracked (rs_pcs s1 0)" "WaitForShutdown True Background 0 s1 = None"
    using live by (simp_all add: s1_def s0_def no_routines_def WaitForShutdown_def)
  moreover have "rs_pcs s5 0 = Some (Untracked Background r)" "rt_report (rs_state s5) = rep"
    "WaitForShutdown True Background 0 s5 = Some None"
    using live by (simp_all add: s5_def s4_def s3_def s2_def s1_def s0_def no_routines_def routine_defs WaitForShutdown_def)
  ultimately show ?thesis unfolding s0_def by blast
qed

end
