(* ===== verification/Go_Float.thy ===== *)
theory Go_Float
  imports Go_Prelude "HOL-Library.Signed_Division"
begin

text \<open>
  The \<^verbatim>\<open>float64\<close> arithmetic of the backoff computations: conversion from an integer,
  multiplication, comparison with one, and conversion back. Results are rounded to 53
  bits, to nearest, ties to even. The products computed by the program are at least one
  in size, so the subnormal range is not reached and not modelled.
\<close>

section \<open>Values\<close>

text \<open>\<open>Finite m e\<close> is the number \<open>m * 2 ^ e\<close>; \<open>Infinite True\<close> is the negative infinity.\<close>

datatype float64 = Finite int int | Infinite bool | NotANumber

fun bit_length :: "nat \<Rightarrow> nat" where
  "bit_length n = (if n = 0 then 0 else Suc (bit_length (n div 2)))"

declare bit_length.simps [simp del]

text \<open>The nearest multiple of \<open>2 ^ k\<close>, divided by it.\<close>

definition round_shift :: "nat \<Rightarrow> nat \<Rightarrow> nat" where
  "round_shift k n =
     (let q = n div 2 ^ k; r = 2 * (n mod 2 ^ k)
      in if 2 ^ k < r \<or> r = 2 ^ k \<and> odd q then Suc q else q)"

definition f64_round :: "int \<Rightarrow> int \<Rightarrow> float64" where
  "f64_round m e =
     (let n = nat \<bar>m\<bar>; k = bit_length n - 53; q = round_shift k n
      in if q \<noteq> 0 \<and> 1024 < int (bit_length q) + e + int k then Infinite (m < 0)
         else Finite (sgn m * int q) (e + int k))"

definition f64_of_int64 :: "64 word \<Rightarrow> float64" where
  "f64_of_int64 i = f64_round (sint i) 0"

fun f64_mul :: "float64 \<Rightarrow> float64 \<Rightarrow> float64" where
  "f64_mul (Finite m e) (Finite n f) = f64_round (m * n) (e + f)"
| "f64_mul (Infinite s) (Finite n f) = (if n = 0 then NotANumber else Infinite (s \<noteq> (n < 0)))"
| "f64_mul (Finite m e) (Infinite s) = (if m = 0 then NotANumber else Infinite (s \<noteq> (m < 0)))"
| "f64_mul (Infinite s) (Infinite t) = Infinite (s \<noteq> t)"
| "f64_mul x y = NotANumber"

text \<open>Truncation towards zero.\<close>

definition shift_trunc :: "int \<Rightarrow> int \<Rightarrow> int" where
  "shift_trunc m e = (if 0 \<le> e then m * 2 ^ nat e else sgn m * (\<bar>m\<bar> div 2 ^ nat (- e)))"

text \<open>\<^verbatim>\<open>x <= 1.0\<close>: every comparison with a value that is not a number is false.\<close>

fun f64_le_one :: "float64 \<Rightarrow> bool" where
  "f64_le_one (Finite m e) = (if 0 \<le> e then m * 2 ^ nat e \<le> 1 else m \<le> 2 ^ nat (- e))"
| "f64_le_one (Infinite s) = s"
| "f64_le_one NotANumber = False"

text \<open>
  Conversion to \<^verbatim>\<open>int64\<close>. When the truncated value does not fit, the language leaves the
  result to the implementation: \<open>oor\<close> is what the platform answers.
\<close>

fun f64_to_int64 :: "(float64 \<Rightarrow> 64 word) \<Rightarrow> float64 \<Rightarrow> 64 word" where
  "f64_to_int64 oor (Finite m e) =
     (if - (2 ^ 63) \<le> shift_trunc m e \<and> shift_trunc m e < 2 ^ 63
      then word_of_int (shift_trunc m e) else oor (Finite m e))"
| "f64_to_int64 oor x = oor x"

text \<open>The literals \<^verbatim>\<open>1.0\<close> and \<^verbatim>\<open>2.0\<close>.\<close>

definition f64_one :: float64 where "f64_one = Finite 1 0"
definition f64_two :: float64 where "f64_two = Finite 1 1"

section \<open>Exact results\<close>

lemma bit_length_bound: "n < 2 ^ k \<longleftrightarrow> bit_length n \<le> k"
proof (induction k arbitrary: n)
  case 0
  then show ?case by (subst bit_length.simps) simp
next
  case (Suc k)
  have "n < 2 ^ Suc k \<longleftrightarrow> n div 2 < 2 ^ k" by auto
  also have "\<dots> \<longleftrightarrow> bit_length (n div 2) \<le> k" by (rule Suc.IH)
  also have "\<dots> \<longleftrightarrow> bit_length n \<le> Suc k"
    by (cases "n = 0") (subst (2) bit_length.simps, simp add: bit_length.simps [of 0])+
  finally show ?case .
qed

lemma round_shift_0 [simp]: "round_shift 0 n = n"
  by (simp add: round_shift_def)

lemma f64_round_exact:
  assumes "\<bar>m\<bar> < 2 ^ 53" "0 \<le> e" "e \<le> 900"
  shows "f64_round m e = Finite m e"
proof -
  have "nat \<bar>m\<bar> < 2 ^ 53" using assms(1) by (simp add: nat_less_iff)
  then have k: "bit_length (nat \<bar>m\<bar>) \<le> 53" by (simp only: bit_length_bound)
  with assms(3) show ?thesis by (simp add: f64_round_def Let_def sgn_mult_abs)
qed

lemma sint_word_of_int_64:
  "- (2 ^ 63) \<le> i \<Longrightarrow> i < 2 ^ 63 \<Longrightarrow> sint (word_of_int i :: 64 word) = i"
  by (simp add: sint_sbintrunc' signed_take_bit_int_eq_self_iff)

text \<open>Doubling an interval below \<open>2 ^ 53\<close> nanoseconds (more than a hundred days) is exact.\<close>

lemma double_exact:
  assumes "0 \<le> sint i" "sint i < 2 ^ 53"
  shows "sint (f64_to_int64 oor (f64_mul (f64_of_int64 i) f64_two)) = 2 * sint i"
proof -
  have "f64_mul (f64_of_int64 i) f64_two = Finite (sint i) 1"
    using assms by (simp add: f64_of_int64_def f64_two_def f64_round_exact)
  moreover have "sint (word_of_int (sint i * 2) :: 64 word) = sint i * 2"
    using assms by (intro sint_word_of_int_64) simp_all
  ultimately show ?thesis using assms by (simp add: shift_trunc_def)
qed

end
