(* ===== verification/Retry.thy ===== *)
theory Retry
  imports Routine Go_Float
begin

text \<open>
  \<^verbatim>\<open>pkg/routine/retry.go\<close>: retrying with exponential backoff. The pauses that were asked
  for are part of the result, so that they can be bounded.
\<close>

section \<open>Configuration\<close>

record RetryConfig =
  ry_MaxAttempts :: goint
  ry_InitialInterval :: duration
  ry_BackoffFactor :: float64
  ry_MaxInterval :: duration
  ry_Jitter :: bool
  ry_RetryIf :: "(go_error \<Rightarrow> bool) option"

definition applyDefaults :: "RetryConfig \<Rightarrow> RetryConfig" where
  "applyDefaults c0 =
     (let c1 = (if sint (ry_MaxAttempts c0) \<le> 0 then c0\<lparr>ry_MaxAttempts := 3\<rparr> else c0);
          c2 = (if sint (ry_InitialInterval c1) \<le> 0
                then c1\<lparr>ry_InitialInterval := word_of_int (100 * millisecond)\<rparr> else c1);
          c3 = (if f64_le_one (ry_BackoffFactor c2) then c2\<lparr>ry_BackoffFactor := f64_two\<rparr> else c2)
      in if sint (ry_MaxInterval c3) \<le> 0
         then c3\<lparr>ry_MaxInterval := word_of_int (5 * second)\<rparr> else c3)"

section \<open>The loop\<close>

text \<open>
  What the loop takes from its surroundings, by attempt: the answers of \<^verbatim>\<open>rand.Int64N\<close>
  for a bound, which case of the \<^verbatim>\<open>select\<close> wins when the timer and \<^verbatim>\<open>ctx.Done\<close> are ready
  together, and the platform's conversion of a float that does not fit.
\<close>

record retry_env =
  re_Int64N :: "nat \<Rightarrow> duration \<Rightarrow> duration"
  re_timer_first :: "nat \<Rightarrow> bool"
  re_oor :: "float64 \<Rightarrow> duration"

definition Int64N_spec :: "retry_env \<Rightarrow> bool" where
  "Int64N_spec env \<longleftrightarrow>
     (\<forall>n k. 0 < sint k \<longrightarrow> 0 \<le> sint (re_Int64N env n k) \<and> sint (re_Int64N env n k) < sint k)"

definition sleepDuration :: "retry_env \<Rightarrow> RetryConfig \<Rightarrow> nat \<Rightarrow> duration \<Rightarrow> duration" where
  "sleepDuration env cfg n currentInterval =
     (if ry_Jitter cfg then
        (let jitterLimit = word_of_int (sint currentInterval sdiv 4)
         in if 0 < sint jitterLimit then currentInterval + re_Int64N env n jitterLimit
            else currentInterval)
      else currentInterval)"

definition nextInterval :: "retry_env \<Rightarrow> RetryConfig \<Rightarrow> duration \<Rightarrow> duration" where
  "nextInterval env cfg currentInterval =
     (let next = f64_to_int64 (re_oor env)
                   (f64_mul (f64_of_int64 currentInterval) (ry_BackoffFactor cfg))
      in if sint (ry_MaxInterval cfg) < sint next then ry_MaxInterval cfg else next)"

text \<open>
  The \<^verbatim>\<open>select\<close> on \<^verbatim>\<open>time.After(d)\<close> and \<^verbatim>\<open>ctx.Done()\<close>: the earlier of the two, \<open>None\<close> for
  the timer. A duration that is not positive fires at once.
\<close>

definition pause :: "retry_env \<Rightarrow> nat \<Rightarrow> ctx \<Rightarrow> duration \<Rightarrow> 's world \<Rightarrow> go_error option \<times> 's world" where
  "pause env n c d w =
     (case time_Now w of (now, w1) \<Rightarrow>
        (let due = now + max 0 (sint d)
         in (if ctx_Err c due = None then None
             else if now < due \<and> ctx_Err c (due - 1) \<noteq> None then ctx_Err c due
             else if re_timer_first env n then None
             else ctx_Err c due, w1)))"

lemma sint_Suc_64: "sint (a :: 64 word) < sint (b :: 64 word) \<Longrightarrow> sint (a + 1) = sint a + 1"
proof -
  assume "sint a < sint b"
  moreover have "sint b < 2 ^ 63" using sint_lt [of b] by simp
  moreover have "- (2 ^ 63) \<le> sint a" using sint_ge [of a] by simp
  ultimately have "sint (word_of_int (sint a + 1) :: 64 word) = sint a + 1"
    by (intro sint_word_of_int_64) simp_all
  then show ?thesis by (simp add: wi_hom_syms)
qed

function (sequential) retry_loop ::
  "retry_env \<Rightarrow> RetryConfig \<Rightarrow> ctx \<Rightarrow> (ctx \<Rightarrow> 's world \<Rightarrow> unit outcome \<times> 's world) \<Rightarrow>
   goint \<Rightarrow> duration \<Rightarrow> 's world \<Rightarrow> unit outcome \<times> duration list \<times> 's world" where
  "retry_loop env cfg c fn attempt currentInterval w =
     (if sint (ry_MaxAttempts cfg) < sint attempt then (Returns () None, [], w)
      else
        (case time_Now w of (now, w1) \<Rightarrow>
          (case ctx_Err c now of
             Some err \<Rightarrow> (Returns () (Some err), [], w1)
           | None \<Rightarrow>
              (case fn c w1 of
                 (Panics p, w2) \<Rightarrow> (Panics p, [], w2)
               | (Returns u None, w2) \<Rightarrow> (Returns () None, [], w2)
               | (Returns u (Some err), w2) \<Rightarrow>
                  (if attempt = ry_MaxAttempts cfg then (Returns () (Some err), [], w2)
                   else if (case ry_RetryIf cfg of None \<Rightarrow> False | Some f \<Rightarrow> \<not> f err)
                   then (Returns () (Some err), [], w2)
                   else
                     (let d = sleepDuration env cfg (unat attempt) currentInterval
                      in (case pause env (unat attempt) c d w2 of
                            (Some e, w3) \<Rightarrow> (Returns () (Some e), [d], w3)
                          | (None, w3) \<Rightarrow>
                              (case retry_loop env cfg c fn (attempt + 1)
                                      (nextInterval env cfg currentInterval) w3 of
                                 (r, ds, w4) \<Rightarrow> (r, d # ds, w4)))))))))"
  by pat_completeness auto

termination
proof (relation "measure (\<lambda>(_, cfg, _, _, attempt, _, _). nat (sint (ry_MaxAttempts cfg) + 1 - sint attempt))")
  fix cfg :: RetryConfig and attempt :: goint
  assume "\<not> sint (ry_MaxAttempts cfg) < sint attempt" "attempt \<noteq> ry_MaxAttempts cfg"
  then have "sint attempt < sint (ry_MaxAttempts cfg)"
    by (metis linorder_neqE_linordered_idom signed_word_eqI)
  then show "((env, cfg, c, fn, attempt + 1, i, w3), env, cfg, c, fn, attempt, j, w)
      \<in> measure (\<lambda>(_, cfg, _, _, attempt, _, _). nat (sint (ry_MaxAttempts cfg) + 1 - sint attempt))"
    for env :: retry_env and c :: ctx and fn :: "ctx \<Rightarrow> 'a world \<Rightarrow> unit outcome \<times> 'a world" and i j w w3
    by (simp add: sint_Suc_64)
qed simp

declare retry_loop.simps [simp del]

definition Retry ::
  "retry_env \<Rightarrow> ctx \<Rightarrow> RetryConfig \<Rightarrow> (ctx \<Rightarrow> 's world \<Rightarrow> unit outcome \<times> 's world) \<Rightarrow>
   's world \<Rightarrow> metrics \<Rightarrow> unit outcome \<times> duration list \<times> 's world \<times> metrics" where
  "Retry env c cfg0 fn w m =
     (let cfg = applyDefaults cfg0
      in case retry_loop env cfg c fn 1 (ry_InitialInterval cfg) w of
           (r, ds, w1) \<Rightarrow> (r, ds, w1, metricObserveDuration ''retry'' (metricIncTasks ''retry'' m)))"

text \<open>In the background the result is dropped.\<close>

definition retry_task ::
  "retry_env \<Rightarrow> RetryConfig \<Rightarrow> (ctx \<Rightarrow> 's world \<Rightarrow> unit outcome \<times> 's world) \<Rightarrow> ('s world, 'h) managed" where
  "retry_task env cfg fn c ws =
     (case ws of (w, s) \<Rightarrow>
        (case Retry env c cfg fn w (rt_metrics s) of
           (Returns u e, ds, w1, m1) \<Rightarrow> (Returns () None, w1, s\<lparr>rt_metrics := m1\<rparr>)
         | (Panics p, ds, w1, m1) \<Rightarrow> (Panics p, w1, s\<lparr>rt_metrics := m1\<rparr>)))"

definition GoWithRetry ::
  "retry_env \<Rightarrow> ctx \<Rightarrow> RetryConfig \<Rightarrow> (ctx \<Rightarrow> 's world \<Rightarrow> unit outcome \<times> 's world) \<Rightarrow>
   's world \<Rightarrow> 'h routine \<Rightarrow> 's world \<times> 'h routine" where
  "GoWithRetry env c cfg fn w s = Go c (retry_task env cfg fn) w s"

definition GoDetachedWithRetry ::
  "retry_env \<Rightarrow> ctx \<Rightarrow> RetryConfig \<Rightarrow> (ctx \<Rightarrow> 's world \<Rightarrow> unit outcome \<times> 's world) \<Rightarrow>
   's world \<Rightarrow> 'h routine \<Rightarrow> 's world \<times> 'h routine" where
  "GoDetachedWithRetry env c cfg fn w s = GoWithRetry env (WithoutCancel c) cfg fn w s"

section \<open>What the loop does\<close>

definition retryable :: "RetryConfig \<Rightarrow> go_error \<Rightarrow> bool" where
  "retryable cfg err = (case ry_RetryIf cfg of None \<Rightarrow> True | Some f \<Rightarrow> f err)"

text \<open>
  The function's results as a sequence: \<open>cnt\<close> reads from the outside world how often it
  has been called, and its next result is \<open>res\<close> of that number.
\<close>

definition scripted ::
  "(ctx \<Rightarrow> 's world \<Rightarrow> unit outcome \<times> 's world) \<Rightarrow> ctx \<Rightarrow> ('s \<Rightarrow> nat) \<Rightarrow> (nat \<Rightarrow> go_error option) \<Rightarrow> bool" where
  "scripted fn c cnt res \<longleftrightarrow>
     (\<forall>w. \<exists>w'. fn c w = (Returns () (res (cnt (w_db w))), w') \<and> cnt (w_db w') = Suc (cnt (w_db w)))"

definition counted ::
  "(ctx \<Rightarrow> 's world \<Rightarrow> unit outcome \<times> 's world) \<Rightarrow> ctx \<Rightarrow> ('s \<Rightarrow> nat) \<Rightarrow> bool" where
  "counted fn c cnt \<longleftrightarrow> (\<forall>w. cnt (w_db (snd (fn c w))) = Suc (cnt (w_db w)))"

definition backoff :: "retry_env \<Rightarrow> RetryConfig \<Rightarrow> nat \<Rightarrow> duration" where
  "backoff env cfg n = (nextInterval env cfg ^^ n) (ry_InitialInterval cfg)"

lemma pause_db: "pause env n c d w = (x, w') \<Longrightarrow> w_db w' = w_db w"
  by (auto simp: pause_def time_Now_def Let_def split: if_splits)

lemma pause_live: "(\<And>t. ctx_Err c t = None) \<Longrightarrow> \<exists>w'. pause env n c d w = (None, w')"
  by (simp add: pause_def time_Now_def Let_def)

lemma pause_error: "pause env n c d w = (Some e, w') \<Longrightarrow> \<exists>t. ctx_Err c t = Some e"
  by (auto simp: pause_def time_Now_def Let_def split: if_splits)

lemma applyDefaults_sound:
  "0 < sint (ry_MaxAttempts (applyDefaults cfg))" "0 < sint (ry_InitialInterval (applyDefaults cfg))"
  "0 < sint (ry_MaxInterval (applyDefaults cfg))" "\<not> f64_le_one (ry_BackoffFactor (applyDefaults cfg))"
  by (auto simp: applyDefaults_def Let_def f64_two_def millisecond_def second_def)

lemma applyDefaults_keeps:
  "0 < sint (ry_MaxAttempts cfg) \<Longrightarrow> 0 < sint (ry_InitialInterval cfg) \<Longrightarrow>
   \<not> f64_le_one (ry_BackoffFactor cfg) \<Longrightarrow> 0 < sint (ry_MaxInterval cfg) \<Longrightarrow> applyDefaults cfg = cfg"
  by (simp add: applyDefaults_def)

lemma unat_Suc_64:
  assumes "0 \<le> sint (a :: 64 word)" "sint a < sint (b :: 64 word)"
  shows "unat (a + 1) = Suc (unat a)"
proof -
  have "1 + a \<noteq> 0" using sint_Suc_64 [OF assms(2)] assms(1) by (auto simp: add.commute)
  then show ?thesis by (simp add: unatSuc add.commute)
qed

lemma retry_loop_scripted:
  assumes live: "\<And>t. ctx_Err c t = None"
    and script: "scripted fn c cnt res"
    and "0 \<le> sint attempt" "sint attempt + int k \<le> sint (ry_MaxAttempts cfg)" "n = cnt (w_db w)"
    and "\<And>j. j < k \<Longrightarrow> \<exists>err. res (n + j) = Some err \<and> retryable cfg err"
    and "sint attempt + int k = sint (ry_MaxAttempts cfg) \<or>
         (\<forall>err. res (n + k) = Some err \<longrightarrow> \<not> retryable cfg err)"
  shows "\<exists>w'. retry_loop env cfg c fn attempt cur w =
       (Returns () (res (n + k)),
        map (\<lambda>j. sleepDuration env cfg (unat attempt + j) ((nextInterval env cfg ^^ j) cur)) [0..<k], w') \<and>
     cnt (w_db w') = n + k + 1"
  using assms(3-7)
proof (induction k arbitrary: attempt cur w n)
  case 0
  let ?w1 = "w\<lparr>w_ticks := Suc (w_ticks w)\<rparr>"
  obtain w2 where fn: "fn c ?w1 = (Returns () (res n), w2)" "cnt (w_db w2) = Suc n"
    using script [unfolded scripted_def, THEN spec, of ?w1] 0(3) by auto
  have "attempt = ry_MaxAttempts cfg \<or> (\<forall>err. res n = Some err \<longrightarrow> \<not> retryable cfg err)"
    using 0(5) signed_word_eqI by fastforce
  then show ?case using 0(2) fn live
    by (subst retry_loop.simps)
      (auto simp: time_Now_def retryable_def split: option.splits)
next
  case (Suc k)
  let ?w1 = "w\<lparr>w_ticks := Suc (w_ticks w)\<rparr>"
  obtain err where err: "res n = Some err" "retryable cfg err" using Suc.prems(4) [of 0] by auto
  obtain w2 where fn: "fn c ?w1 = (Returns () (Some err), w2)" "cnt (w_db w2) = Suc n"
    using script [unfolded scripted_def, THEN spec, of ?w1] Suc.prems(3) err(1) by auto
  obtain w3 where w3: "pause env (unat attempt) c (sleepDuration env cfg (unat attempt) cur) w2 = (None, w3)"
    using pause_live [OF live] by blast
  have less: "sint attempt < sint (ry_MaxAttempts cfg)" using Suc.prems(2) by simp
  note inc = sint_Suc_64 [OF less] unat_Suc_64 [OF Suc.prems(1) less]
  have "\<exists>w'. retry_loop env cfg c fn (attempt + 1) (nextInterval env cfg cur) w3 =
       (Returns () (res (Suc n + k)),
        map (\<lambda>j. sleepDuration env cfg (unat (attempt + 1) + j)
              ((nextInterval env cfg ^^ j) (nextInterval env cfg cur))) [0..<k], w') \<and>
     cnt (w_db w') = Suc n + k + 1"
    using Suc.prems inc pause_db [OF w3] fn(2) Suc.prems(4) [of "Suc _"]
    by (intro Suc.IH) (auto simp: algebra_simps)
  moreover have "attempt \<noteq> ry_MaxAttempts cfg" using less by auto
  ultimately show ?case using fn err w3 live less inc
    by (subst retry_loop.simps)
      (auto simp: time_Now_def Let_def retryable_def upt_conv_Cons map_Suc_upt [symmetric] funpow_swap1
        simp del: upt_Suc split: option.splits)
qed

text \<open>One round of the loop, by what ends it.\<close>

lemma retry_loop_cases:
  assumes "retry_loop env cfg c fn attempt cur w = (r, ds, w')" "sint attempt \<le> sint (ry_MaxAttempts cfg)"
  obtains (canceled) t e where "ctx_Err c t = Some e" "r = Returns () (Some e)" "ds = []" "w_db w' = w_db w"
  | (finished) w1 where "w_db w1 = w_db w" "fn c w1 = (r, w')" "ds = []"
  | (interrupted) w1 err w2 t e where "w_db w1 = w_db w" "fn c w1 = (Returns () (Some err), w2)"
      "ctx_Err c t = Some e" "r = Returns () (Some e)" "ds = [sleepDuration env cfg (unat attempt) cur]"
      "w_db w' = w_db w2" "sint attempt < sint (ry_MaxAttempts cfg)"
  | (again) w1 err w2 w3 ds' where "w_db w1 = w_db w" "fn c w1 = (Returns () (Some err), w2)"
      "w_db w3 = w_db w2" "ds = sleepDuration env cfg (unat attempt) cur # ds'"
      "retry_loop env cfg c fn (attempt + 1) (nextInterval env cfg cur) w3 = (r, ds', w')"
      "sint attempt < sint (ry_MaxAttempts cfg)"
proof -
  let ?w1 = "w\<lparr>w_ticks := Suc (w_ticks w)\<rparr>" and ?now = "w_clock w (w_ticks w)"
  obtain x w2 where fn: "fn c ?w1 = (x, w2)" by (cases "fn c ?w1")
  note unf = assms(1) [unfolded retry_loop.simps [of env cfg c fn attempt cur w] time_Now_def]
  consider (dead) e where "ctx_Err c ?now = Some e"
    | (panic) p where "ctx_Err c ?now = None" "x = Panics p"
    | (ok) u where "ctx_Err c ?now = None" "x = Returns u None"
    | (last) u err where "ctx_Err c ?now = None" "x = Returns u (Some err)"
        "attempt = ry_MaxAttempts cfg \<or> \<not> retryable cfg err"
    | (go) err where "ctx_Err c ?now = None" "x = Returns () (Some err)"
        "attempt \<noteq> ry_MaxAttempts cfg" "retryable cfg err"
    by (metis (full_types) unit.exhaust outcome.exhaust option.exhaust)
  then show thesis
  proof cases
    case dead
    then show thesis using unf assms(2) by (intro canceled) auto
  next
    case panic
    then show thesis using unf assms(2) fn by (intro finished [of ?w1]) auto
  next
    case ok
    then show thesis using unf assms(2) fn by (intro finished [of ?w1]) auto
  next
    case last
    then show thesis using unf assms(2) fn
      by (intro finished [of ?w1]) (auto simp: retryable_def split: option.splits if_splits)
  next
    case go
    let ?d = "sleepDuration env cfg (unat attempt) cur"
    obtain y w3 where p: "pause env (unat attempt) c ?d w2 = (y, w3)"
      by (cases "pause env (unat attempt) c ?d w2")
    obtain r' ds' w4 where rest:
      "retry_loop env cfg c fn (attempt + 1) (nextInterval env cfg cur) w3 = (r', ds', w4)"
      by (cases "retry_loop env cfg c fn (attempt + 1) (nextInterval env cfg cur) w3")
    have less: "sint attempt < sint (ry_MaxAttempts cfg)"
      using assms(2) go(3) by (metis order_le_less signed_word_eqI)
    have "\<not> (case ry_RetryIf cfg of None \<Rightarrow> False | Some f \<Rightarrow> \<not> f err)"
      using go(4) by (auto simp: retryable_def split: option.splits)
    with unf assms(2) fn go p less have body: "(case y of Some e \<Rightarrow> (Returns () (Some e), [?d], w3)
        | None \<Rightarrow> (r', ?d # ds', w4)) = (r, ds, w')"
      by (simp add: Let_def rest split: option.splits)
    show thesis
    proof (cases y)
      case (Some e)
      with p obtain t where "ctx_Err c t = Some e" using pause_error by metis
      then show thesis using Some body fn go(2) pause_db [OF p] less
        by (intro interrupted [of ?w1]) auto
    next
      case None
      then show thesis using body fn go(2) pause_db [OF p] rest less by (intro again [of ?w1]) auto
    qed
  qed
qed

lemma retry_loop_sound:
  assumes "retry_loop env cfg c fn attempt cur w = (r, ds, w')" "counted fn c cnt"
    and "sint attempt \<le> sint (ry_MaxAttempts cfg)"
  shows "((\<exists>w1. fn c w1 = (r, w')) \<or> (\<exists>t e. ctx_Err c t = Some e \<and> r = Returns () (Some e))) \<and>
     sint attempt + int (length ds) \<le> sint (ry_MaxAttempts cfg) \<and>
     sint attempt + int (cnt (w_db w')) \<le> sint (ry_MaxAttempts cfg) + int (cnt (w_db w)) + 1"
  using assms(1,3)
proof (induction "nat (sint (ry_MaxAttempts cfg) - sint attempt)" arbitrary: attempt cur w r ds w' rule: less_induct)
  case less
  have step: "cnt (w_db w2) = Suc (cnt (w_db w1))" if "fn c w1 = (x, w2)" for x w1 w2
    using assms(2) that by (metis counted_def snd_conv)
  from less(2,3) show ?case
  proof (cases rule: retry_loop_cases)
    case (canceled t e)
    then show ?thesis using less(3) by auto
  next
    case (finished w1)
    then show ?thesis using less(3) step [OF finished(2)] by auto
  next
    case (interrupted w1 err w2 t e)
    then show ?thesis using step [OF interrupted(2)] by auto
  next
    case (again w1 err w2 w3 ds')
    have "nat (sint (ry_MaxAttempts cfg) - sint (attempt + 1)) < nat (sint (ry_MaxAttempts cfg) - sint attempt)"
      using sint_Suc_64 [OF again(6)] again(6) by simp
    from less(1) [OF this again(5)] show ?thesis
      using again step [OF again(2)] sint_Suc_64 [OF again(6)] by simp
  qed
qed

lemma retry_loop_sleeps:
  assumes "retry_loop env cfg c fn attempt cur w = (r, ds, w')"
    and "0 \<le> sint attempt" "sint attempt \<le> sint (ry_MaxAttempts cfg)"
  shows "\<forall>i < length ds. ds ! i = sleepDuration env cfg (unat attempt + i) ((nextInterval env cfg ^^ i) cur)"
  using assms
proof (induction "nat (sint (ry_MaxAttempts cfg) - sint attempt)" arbitrary: attempt cur w r ds w' rule: less_induct)
  case less
  from less(2,4) show ?case
  proof (cases rule: retry_loop_cases)
    case (again w1 err w2 w3 ds')
    have "nat (sint (ry_MaxAttempts cfg) - sint (attempt + 1)) < nat (sint (ry_MaxAttempts cfg) - sint attempt)"
      using sint_Suc_64 [OF again(6)] again(6) by simp
    from less(1) [OF this again(5)] show ?thesis
      using again(4,6) less(3) sint_Suc_64 [OF again(6)] unat_Suc_64 [OF less(3) again(6)]
      by (auto simp: nth_Cons funpow_swap1 split: nat.splits)
  qed simp_all
qed

section \<open>How long the pauses are\<close>

lemma sleepDuration_bound:
  assumes env: "Int64N_spec env" and cur: "sint cur \<le> L" "0 \<le> L" "L \<le> 2 ^ 62"
  shows "sint (sleepDuration env cfg n cur) \<le> L + L div 4"
    and "sint cur \<le> sint (sleepDuration env cfg n cur)"
proof -
  let ?k = "word_of_int (sint cur sdiv 4) :: 64 word"
  have low: "- (2 ^ 63) \<le> sint cur" using sint_ge [of cur] by simp
  have "- (2 ^ 63) \<le> sint cur sdiv 4 \<and> sint cur sdiv 4 < 2 ^ 63"
    using low cur by (auto simp: signed_divide_int_def sgn_if)
  then have k: "sint ?k = sint cur sdiv 4" by (intro sint_word_of_int_64) auto
  have "sint (sleepDuration env cfg n cur) \<le> L + L div 4 \<and> sint cur \<le> sint (sleepDuration env cfg n cur)"
  proof (cases "ry_Jitter cfg \<and> 0 < sint ?k")
    case True
    then have pos: "0 < sint cur" "sint ?k = sint cur div 4"
      using k by (auto simp: signed_divide_int_def sgn_if split: if_splits)
    define j where "j = re_Int64N env n ?k"
    have j: "0 \<le> sint j" "sint j < sint ?k" using env True by (auto simp: Int64N_spec_def j_def)
    have "sint cur + sint j \<le> L + L div 4" using j pos cur(1) zdiv_mono1 [OF cur(1), of 4] by simp
    moreover have "L + L div 4 < 2 ^ 63" using cur(2,3) by simp
    ultimately have "sint (word_of_int (sint cur + sint j) :: 64 word) = sint cur + sint j"
      using low j by (intro sint_word_of_int_64) auto
    then have "sint (cur + j) = sint cur + sint j" by (simp add: wi_hom_syms)
    then show ?thesis using True j pos \<open>sint cur + sint j \<le> L + L div 4\<close>
      by (simp add: sleepDuration_def Let_def j_def)
  next
    case False
    have "0 \<le> L div 4" using cur(2) by simp
    with False cur(1) show ?thesis by (auto simp: sleepDuration_def Let_def)
  qed
  then show "sint (sleepDuration env cfg n cur) \<le> L + L div 4"
    and "sint cur \<le> sint (sleepDuration env cfg n cur)" by auto
qed

lemma backoff_capped:
  "sint (backoff env cfg n) \<le> max (sint (ry_InitialInterval cfg)) (sint (ry_MaxInterval cfg))"
  by (cases n) (auto simp: backoff_def nextInterval_def Let_def)

text \<open>With the factor two the pauses double until they reach the cap.\<close>

lemma backoff_doubles:
  assumes "ry_BackoffFactor cfg = f64_two" "0 \<le> sint (ry_InitialInterval cfg)"
    and "sint (ry_InitialInterval cfg) \<le> sint (ry_MaxInterval cfg)" "sint (ry_MaxInterval cfg) < 2 ^ 53"
  shows "sint (backoff env cfg n) = min (sint (ry_InitialInterval cfg) * 2 ^ n) (sint (ry_MaxInterval cfg))"
proof (induction n)
  case 0
  then show ?case using assms(3) by (simp add: backoff_def)
next
  case (Suc n)
  let ?b = "backoff env cfg n" and ?M = "sint (ry_MaxInterval cfg)" and ?I = "sint (ry_InitialInterval cfg)"
  have b: "0 \<le> sint ?b" "sint ?b < 2 ^ 53" using Suc assms(2-4) by auto
  have "backoff env cfg (Suc n) = nextInterval env cfg ?b" by (simp add: backoff_def)
  then have "sint (backoff env cfg (Suc n)) = min (2 * sint ?b) ?M"
    using double_exact [OF b, of "re_oor env"] assms(1) by (simp add: nextInterval_def Let_def min_def)
  also have "\<dots> = min (?I * 2 ^ Suc n) ?M"
  proof (cases "?I * 2 ^ n \<le> ?M")
    case True
    then show ?thesis using Suc by (simp add: min_def)
  next
    case False
    then show ?thesis using Suc assms(2,3) by (simp add: min_def)
  qed
  finally show ?case .
qed

end
