(* ===== verification/Group.thy ===== *)
theory Group
  imports Routine
begin

text \<open>
  \<^verbatim>\<open>pkg/routine/group.go\<close>: tasks run side by side under one context, with an optional
  limit. The blocks of \<^verbatim>\<open>Submit\<close>, of the goroutine it starts, of its deferred function and of
  \<^verbatim>\<open>recordError\<close> are the steps of a relation, in which any number of tasks interleave: between
  the look at \<^verbatim>\<open>ctx.Err()\<close> and the call of the function, and between the two assignments of the
  first error, the other tasks move.
\<close>

section \<open>The group\<close>

text \<open>
  \<open>gr_limit\<close> and \<open>gr_used\<close> are the capacity and the contents of the semaphore channel,
  \<open>gr_done\<close> the value of \<^verbatim>\<open>ctx.Err()\<close>, \<open>gr_once\<close> the state of \<^verbatim>\<open>errOnce\<close>, whose \<^verbatim>\<open>Do\<close> makes
  later callers wait while the first call runs, and \<open>gr_report\<close> what the panic handler has
  reported.
\<close>

datatype once = Unfired | Firing | Fired

record 'h group =
  gr_ctx :: ctx
  gr_done :: "go_error option"
  gr_wg :: int
  gr_limit :: "nat option"
  gr_used :: nat
  gr_once :: once
  gr_err :: "go_error option"
  gr_report :: 'h

type_synonym 'h group_option = "'h group \<Rightarrow> 'h group"

definition WithLimit :: "goint \<Rightarrow> 'h group_option" where
  "WithLimit limit g = (if 0 < sint limit then g\<lparr>gr_limit := Some (nat (sint limit))\<rparr> else g)"

definition Group_WithTimeout :: "time \<Rightarrow> duration \<Rightarrow> 'h group_option" where
  "Group_WithTimeout now timeout g =
     (if 0 < sint timeout then g\<lparr>gr_ctx := WithTimeout (gr_ctx g) now timeout\<rparr> else g)"

definition NewGroup :: "ctx \<Rightarrow> 'h \<Rightarrow> 'h group_option list \<Rightarrow> 'h group" where
  "NewGroup c rep opts =
     fold (\<lambda>opt. opt) opts \<lparr>gr_ctx = c, gr_done = None, gr_wg = 0, gr_limit = None, gr_used = 0,
       gr_once = Unfired, gr_err = None, gr_report = rep\<rparr>"

definition Context :: "'h group \<Rightarrow> ctx" where
  "Context g = gr_ctx g"

text \<open>\<^verbatim>\<open>g.cancel()\<close>: a context that is already done keeps its error.\<close>

definition cancel :: "'h group \<Rightarrow> 'h group" where
  "cancel g = (if gr_done g = None then g\<lparr>gr_done := Some (Sentinel ContextCanceled)\<rparr> else g)"

text \<open>
  The function of \<^verbatim>\<open>recordError\<close>'s \<^verbatim>\<open>errOnce.Do\<close>: it stores the error, then cancels the context
  and \<^verbatim>\<open>Do\<close> is over. \<open>recordError\<close> is the whole call with nothing in between.
\<close>

definition once_store :: "go_error \<Rightarrow> 'h group \<Rightarrow> 'h group" where
  "once_store e g = g\<lparr>gr_once := Firing, gr_err := Some e\<rparr>"

definition once_cancel :: "'h group \<Rightarrow> 'h group" where
  "once_cancel g = (cancel g)\<lparr>gr_once := Fired\<rparr>"

definition recordError :: "go_error option \<Rightarrow> 'h group \<Rightarrow> 'h group" where
  "recordError err g =
     (case err of
        None \<Rightarrow> g
      | Some e \<Rightarrow> if gr_once g = Unfired then once_cancel (once_store e g) else g)"

text \<open>\<^verbatim>\<open>Wait\<close>: \<open>None\<close> while it blocks.\<close>

definition Wait :: "'h group \<Rightarrow> (go_error option \<times> 'h group) option" where
  "Wait g = (if gr_wg g = 0 then Some (gr_err g, cancel g) else None)"

definition wg_Add :: "int \<Rightarrow> 'h group \<Rightarrow> 'h group" where
  "wg_Add n g = g\<lparr>gr_wg := gr_wg g + n\<rparr>"

text \<open>The error of a recovered panic; \<open>p\<close> is the panic value as \<^verbatim>\<open>%v\<close> prints it.\<close>

definition panic_error :: "string \<Rightarrow> go_error" where
  "panic_error p = Foreign (''routine.Group: panic recovered: '' @ p)"

section \<open>Submitted tasks\<close>

text \<open>
  \<open>Blocked\<close>: in the \<^verbatim>\<open>select\<close> of \<^verbatim>\<open>Submit\<close>; \<open>Ready\<close>: the goroutine has started; \<open>Checked\<close>: it has
  found \<^verbatim>\<open>ctx.Err()\<close> nil; \<open>InFn\<close>: its function runs; \<open>Panicking\<close>: it panicked; \<open>Failing\<close>: it calls
  \<^verbatim>\<open>recordError\<close>; \<open>Cancelling\<close>: it has stored its error there and not yet cancelled; \<open>Leaving\<close>
  and \<open>Released\<close>: in the deferred function, before and after the slot is given back; \<open>Gone\<close>:
  ended. The last three remember the error of the function. \<open>Dropped\<close>: never started.
\<close>

datatype task =
    Blocked
  | Ready
  | Checked
  | InFn
  | Panicking string
  | Failing go_error
  | Cancelling go_error
  | Leaving "go_error option"
  | Released "go_error option"
  | Gone "go_error option"
  | Dropped

type_synonym 'h group_state = "'h group \<times> (nat \<Rightarrow> task option)"

inductive group_step :: "'h PanicHandler \<Rightarrow> 'h group_state \<Rightarrow> 'h group_state \<Rightarrow> bool" for h where
  submit: "ts p = None \<Longrightarrow>
     group_step h (g, ts) (wg_Add 1 g, ts(p \<mapsto> if gr_limit g = None then Ready else Blocked))"
| acquire: "ts p = Some Blocked \<Longrightarrow> gr_limit g = Some n \<Longrightarrow> gr_used g < n \<Longrightarrow>
     group_step h (g, ts) (g\<lparr>gr_used := Suc (gr_used g)\<rparr>, ts(p \<mapsto> Ready))"
| drop: "ts p = Some Blocked \<Longrightarrow> gr_done g \<noteq> None \<Longrightarrow>
     group_step h (g, ts) (wg_Add (- 1) g, ts(p \<mapsto> Dropped))"
| skip: "ts p = Some Ready \<Longrightarrow> gr_done g \<noteq> None \<Longrightarrow>
     group_step h (g, ts) (g, ts(p \<mapsto> Leaving None))"
| check: "ts p = Some Ready \<Longrightarrow> gr_done g = None \<Longrightarrow>
     group_step h (g, ts) (g, ts(p \<mapsto> Checked))"
| start: "ts p = Some Checked \<Longrightarrow> group_step h (g, ts) (g, ts(p \<mapsto> InFn))"
| succeed: "ts p = Some InFn \<Longrightarrow> group_step h (g, ts) (g, ts(p \<mapsto> Leaving None))"
| fail: "ts p = Some InFn \<Longrightarrow> group_step h (g, ts) (g, ts(p \<mapsto> Failing e))"
| panic: "ts p = Some InFn \<Longrightarrow> group_step h (g, ts) (g, ts(p \<mapsto> Panicking r))"
| recover: "ts p = Some (Panicking r) \<Longrightarrow>
     group_step h (g, ts)
       (g\<lparr>gr_report := h (gr_ctx g) r (gr_report g)\<rparr>, ts(p \<mapsto> Failing (panic_error r)))"
| store_error: "ts p = Some (Failing e) \<Longrightarrow> gr_once g = Unfired \<Longrightarrow>
     group_step h (g, ts) (once_store e g, ts(p \<mapsto> Cancelling e))"
| cancel_error: "ts p = Some (Cancelling e) \<Longrightarrow>
     group_step h (g, ts) (once_cancel g, ts(p \<mapsto> Leaving (Some e)))"
| later_error: "ts p = Some (Failing e) \<Longrightarrow> gr_once g = Fired \<Longrightarrow>
     group_step h (g, ts) (g, ts(p \<mapsto> Leaving (Some e)))"
| release: "ts p = Some (Leaving e) \<Longrightarrow>
     group_step h (g, ts)
       (if gr_limit g = None then g else g\<lparr>gr_used := gr_used g - 1\<rparr>, ts(p \<mapsto> Released e))"
| finish: "ts p = Some (Released e) \<Longrightarrow>
     group_step h (g, ts) (wg_Add (- 1) g, ts(p \<mapsto> Gone e))"
| ctx_done: "gr_done g = None \<Longrightarrow> ctx_Err (gr_ctx g) t = Some e \<Longrightarrow>
     group_step h (g, ts) (g\<lparr>gr_done := Some e\<rparr>, ts)"

inductive_cases group_stepE: "group_step h (g, ts) s'"

text \<open>The steps of a failing task, with no other in between, are \<open>recordError\<close>.\<close>

lemma recordError_steps:
  assumes "ts p = Some (Failing e)" "gr_once g \<noteq> Firing"
  shows "(group_step h)\<^sup>*\<^sup>* (g, ts) (recordError (Some e) g, ts(p \<mapsto> Leaving (Some e)))"
proof (cases "gr_once g")
  case Unfired
  have "group_step h (g, ts) (once_store e g, ts(p \<mapsto> Cancelling e))"
    using assms(1) Unfired by (rule group_step.store_error)
  moreover have "group_step h (once_store e g, ts(p \<mapsto> Cancelling e))
      (once_cancel (once_store e g), ts(p \<mapsto> Leaving (Some e)))"
    using group_step.cancel_error [of "ts(p \<mapsto> Cancelling e)" p e h "once_store e g"] by simp
  ultimately show ?thesis using Unfired by (simp add: recordError_def)
next
  case Fired
  then have "group_step h (g, ts) (g, ts(p \<mapsto> Leaving (Some e)))"
    using assms(1) by (intro group_step.later_error)
  then show ?thesis using Fired by (simp add: recordError_def)
qed (use assms(2) in simp)

section \<open>The invariant\<close>

fun holds_slot :: "task option \<Rightarrow> bool" where
  "holds_slot (Some Ready) = True"
| "holds_slot (Some Checked) = True"
| "holds_slot (Some InFn) = True"
| "holds_slot (Some (Panicking r)) = True"
| "holds_slot (Some (Failing e)) = True"
| "holds_slot (Some (Cancelling e)) = True"
| "holds_slot (Some (Leaving e)) = True"
| "holds_slot _ = False"

fun pending :: "task option \<Rightarrow> bool" where
  "pending None = False"
| "pending (Some (Gone e)) = False"
| "pending (Some Dropped) = False"
| "pending _ = True"

fun failed_with :: "go_error \<Rightarrow> task option \<Rightarrow> bool" where
  "failed_with e (Some (Leaving x)) = (x = Some e)"
| "failed_with e (Some (Released x)) = (x = Some e)"
| "failed_with e (Some (Gone x)) = (x = Some e)"
| "failed_with e _ = False"

definition group_counts :: "'h group_state \<Rightarrow> bool" where
  "group_counts s \<longleftrightarrow>
     (case s of (g, ts) \<Rightarrow>
        finite (dom ts) \<and>
        gr_wg g = pc_count pending ts \<and>
        (\<forall>n. gr_limit g = Some n \<longrightarrow>
           0 < n \<and> int (gr_used g) = pc_count holds_slot ts \<and> gr_used g \<le> n) \<and>
        (gr_limit g = None \<longrightarrow> (\<forall>p. ts p \<noteq> Some Blocked)))"

definition group_errors :: "'h group_state \<Rightarrow> bool" where
  "group_errors s \<longleftrightarrow>
     (case s of (g, ts) \<Rightarrow>
        (gr_once g = Unfired \<longleftrightarrow> gr_err g = None) \<and>
        (gr_once g = Fired \<longrightarrow> gr_done g \<noteq> None) \<and>
        (gr_once g = Firing \<longleftrightarrow> (\<exists>p e. ts p = Some (Cancelling e))) \<and>
        (\<forall>p q e f. ts p = Some (Cancelling e) \<longrightarrow> ts q = Some (Cancelling f) \<longrightarrow> p = q) \<and>
        (\<forall>e. gr_err g = Some e \<longrightarrow> (\<exists>p. ts p = Some (Cancelling e) \<or> failed_with e (ts p))) \<and>
        (\<forall>p e. failed_with e (ts p) \<longrightarrow> gr_once g = Fired))"

definition group_options :: "'h group_option list \<Rightarrow> bool" where
  "group_options opts \<longleftrightarrow>
     (\<forall>opt \<in> set opts. (\<exists>n. opt = WithLimit n) \<or> (\<exists>now d. opt = Group_WithTimeout now d))"

lemma group_options_limit [simp]: "group_options [WithLimit n]"
  by (auto simp: group_options_def)

definition fresh_group :: "'h group \<Rightarrow> bool" where
  "fresh_group g \<longleftrightarrow> gr_done g = None \<and> gr_wg g = 0 \<and> gr_used g = 0 \<and> gr_once g = Unfired \<and> gr_err g = None \<and>
     (\<forall>n. gr_limit g = Some n \<longrightarrow> 0 < n)"

lemma fresh_option: "fresh_group g \<Longrightarrow> fresh_group (WithLimit n g)"
  "fresh_group g \<Longrightarrow> fresh_group (Group_WithTimeout now d g)"
  by (auto simp: fresh_group_def WithLimit_def Group_WithTimeout_def)

lemma NewGroup_fresh:
  assumes "group_options opts"
  shows "fresh_group (NewGroup c rep opts)"
proof -
  have "fresh_group (fold (\<lambda>opt. opt) opts g)" if "fresh_group g" for g
    using assms that
    by (induction opts arbitrary: g) (auto simp: group_options_def fresh_option)
  then show ?thesis by (auto simp: NewGroup_def fresh_group_def [of "\<lparr>gr_ctx = c, gr_done = None, gr_wg = 0, gr_limit = None, gr_used = 0, gr_once = Unfired, gr_err = None, gr_report = rep\<rparr>"])
qed

lemma NewGroup_ok:
  assumes "group_options opts"
  shows "group_counts (NewGroup c rep opts, Map.empty)" "group_errors (NewGroup c rep opts, Map.empty)"
  using NewGroup_fresh [OF assms, of c rep]
  by (auto simp: group_counts_def group_errors_def fresh_group_def)

lemma cancel_fields [simp]:
  "gr_done (cancel g) \<noteq> None" "gr_wg (cancel g) = gr_wg g" "gr_limit (cancel g) = gr_limit g"
  "gr_used (cancel g) = gr_used g" "gr_once (cancel g) = gr_once g" "gr_err (cancel g) = gr_err g"
  by (simp_all add: cancel_def)

lemma once_store_fields [simp]:
  "gr_done (once_store e g) = gr_done g" "gr_wg (once_store e g) = gr_wg g"
  "gr_limit (once_store e g) = gr_limit g" "gr_used (once_store e g) = gr_used g"
  "gr_once (once_store e g) = Firing" "gr_err (once_store e g) = Some e"
  by (simp_all add: once_store_def)

lemma once_cancel_fields [simp]:
  "gr_done (once_cancel g) \<noteq> None" "gr_wg (once_cancel g) = gr_wg g"
  "gr_limit (once_cancel g) = gr_limit g" "gr_used (once_cancel g) = gr_used g"
  "gr_once (once_cancel g) = Fired" "gr_err (once_cancel g) = gr_err g"
  by (simp_all add: once_cancel_def cancel_def)

lemma group_counts_step: "group_step h s s' \<Longrightarrow> group_counts s \<Longrightarrow> group_counts s'"
proof (erule group_step.cases, goal_cases)
  case (14 ts p e g)
  then show ?case using pc_count_pos [of ts holds_slot p]
    by (auto simp: group_counts_def pc_count_upd split: if_splits)
qed (auto simp: group_counts_def pc_count_upd wg_Add_def split: if_splits)

lemma done_stable:
  "group_step h (g, ts) (g', ts') \<Longrightarrow> gr_done g = Some e \<Longrightarrow> gr_done g' = Some e"
  by (cases rule: group_step.cases) (auto simp: wg_Add_def once_store_def once_cancel_def cancel_def)

text \<open>A step that is not part of \<open>recordError\<close> and fails no task.\<close>

lemma errors_untouched:
  assumes "group_errors (g, ts)"
    and "gr_once g' = gr_once g" "gr_err g' = gr_err g" "gr_done g = None \<or> gr_done g' \<noteq> None"
    and "\<forall>e. ts p \<noteq> Some (Cancelling e) \<and> x \<noteq> Cancelling e"
    and "\<forall>e. failed_with e (Some x) = failed_with e (ts p)"
  shows "group_errors (g', ts(p \<mapsto> x))"
proof -
  have canc: "(ts(p \<mapsto> x)) q = Some (Cancelling e) \<longleftrightarrow> ts q = Some (Cancelling e)" for q e
    using assms(5) by auto
  have fail: "failed_with e ((ts(p \<mapsto> x)) q) = failed_with e (ts q)" for q e
    using assms(6) by simp
  show ?thesis
    using assms(1-4) unfolding group_errors_def prod.case canc fail by auto
qed

lemma group_errors_step:
  assumes "group_step h s s'" "group_errors s"
  shows "group_errors s'"
  using assms(1)
proof (cases rule: group_step.cases)
  case (store_error ts p e g)
  then have "group_errors (g, ts)" using assms(2) by simp
  then have "gr_err g = None" "\<forall>q f. ts q \<noteq> Some (Cancelling f)" "\<forall>q f. \<not> failed_with f (ts q)"
    using store_error by (auto simp: group_errors_def)
  then show ?thesis using store_error by (auto simp: group_errors_def split: if_splits)
next
  case (cancel_error ts p e g)
  then have ok: "group_errors (g, ts)" using assms(2) by simp
  then have once: "gr_once g = Firing" using cancel_error by (auto simp: group_errors_def)
  then obtain x where x: "gr_err g = Some x" using ok by (auto simp: group_errors_def)
  have none: "\<forall>q f. \<not> failed_with f (ts q)" using ok once by (auto simp: group_errors_def)
  have only: "q = p" if "ts q = Some (Cancelling f)" for q f
    using ok cancel_error(3) that by (simp add: group_errors_def)
  obtain q where q: "ts q = Some (Cancelling x)" using ok x none by (auto simp: group_errors_def)
  then have "e = x" using only [OF q] cancel_error(3) by simp
  then have s': "s' = (once_cancel g, ts(p \<mapsto> Leaving (Some x)))" using cancel_error(2) by simp
  have canc: "(ts(p \<mapsto> Leaving (Some x))) q \<noteq> Some (Cancelling f)" for q f
    using only [of q f] by auto
  have fail: "failed_with f ((ts(p \<mapsto> Leaving (Some x))) q) \<longleftrightarrow> q = p \<and> f = x" for q f
    using none by auto
  show ?thesis unfolding s' group_errors_def prod.case fail using x by (simp add: canc del: fun_upd_apply)
next
  case (later_error ts p e g)
  then have ok: "group_errors (g, ts)" using assms(2) by simp
  then obtain x where x: "gr_err g = Some x" using later_error by (cases "gr_err g") (auto simp: group_errors_def)
  have none: "\<forall>q f. ts q \<noteq> Some (Cancelling f)" using ok later_error by (auto simp: group_errors_def)
  obtain q where q: "failed_with x (ts q)" using ok x none by (auto simp: group_errors_def)
  then have "q \<noteq> p" using later_error by auto
  then show ?thesis using q ok later_error x none by (auto simp: group_errors_def)
next
  case (ctx_done g t e ts)
  then show ?thesis using assms(2) by (auto simp: group_errors_def)
qed (use assms(2) in \<open>auto intro!: errors_untouched simp: wg_Add_def\<close>)

lemma first_error_failed:
  "group_errors (g, ts) \<Longrightarrow> gr_err g = Some e \<Longrightarrow> \<exists>p. ts p = Some (Cancelling e) \<or> failed_with e (ts p)"
  by (simp add: group_errors_def)

lemma failed_recorded:
  "group_errors (g, ts) \<Longrightarrow> failed_with e (ts p) \<Longrightarrow> gr_err g \<noteq> None \<and> gr_done g \<noteq> None"
  by (auto simp: group_errors_def)

definition group_reachable :: "'h PanicHandler \<Rightarrow> 'h group \<Rightarrow> 'h group_state \<Rightarrow> bool" where
  "group_reachable h g0 s \<longleftrightarrow> (group_step h)\<^sup>*\<^sup>* (g0, Map.empty) s"

lemma group_reachable_ok:
  assumes "group_reachable h (NewGroup c rep opts) s" "group_options opts"
  shows "group_counts s \<and> group_errors s"
  using assms(1) unfolding group_reachable_def
  by (induction rule: rtranclp_induct)
    (use NewGroup_ok [OF assms(2)] in \<open>auto intro: group_counts_step group_errors_step\<close>)

section \<open>Every task can leave\<close>

fun task_rank :: "task option \<Rightarrow> nat" where
  "task_rank (Some Blocked) = 9"
| "task_rank (Some Ready) = 8"
| "task_rank (Some Checked) = 7"
| "task_rank (Some InFn) = 6"
| "task_rank (Some (Panicking r)) = 5"
| "task_rank (Some (Failing e)) = 4"
| "task_rank (Some (Cancelling e)) = 3"
| "task_rank (Some (Leaving e)) = 2"
| "task_rank (Some (Released e)) = 1"
| "task_rank _ = 0"

definition group_rank :: "(nat \<Rightarrow> task option) \<Rightarrow> nat" where
  "group_rank ts = (\<Sum>p \<in> dom ts. task_rank (ts p))"

lemma group_rank_upd:
  assumes "finite (dom ts)" "ts p = Some x" "task_rank (Some y) < task_rank (Some x)"
  shows "group_rank (ts(p \<mapsto> y)) < group_rank ts"
proof -
  have dom: "dom (ts(p \<mapsto> y)) = dom ts" using assms(2) by auto
  have "group_rank ts = task_rank (Some x) + (\<Sum>q \<in> dom ts - {p}. task_rank (ts q))"
    unfolding group_rank_def using assms(1,2) by (subst sum.remove [of _ p]) auto
  moreover have "group_rank (ts(p \<mapsto> y)) = task_rank (Some y) + (\<Sum>q \<in> dom ts - {p}. task_rank (ts q))"
    unfolding group_rank_def dom using assms(1,2) by (subst sum.remove [of _ p]) (auto intro!: sum.cong)
  ultimately show ?thesis using assms(3) by simp
qed

text \<open>
  A blocked task waits for a slot that another task holds, and a failing one at most for the
  task that is about to cancel, so somebody can always move.
\<close>

lemma group_progress:
  assumes "group_counts (g, ts)" "group_errors (g, ts)" "gr_wg g \<noteq> 0"
  shows "\<exists>g' ts'. group_step h (g, ts) (g', ts') \<and> group_rank ts' < group_rank ts"
proof -
  have fin: "finite (dom ts)" using assms(1) by (simp add: group_counts_def)
  have move: ?thesis if "group_step h (g, ts) (g', ts(p \<mapsto> y))" "ts p = Some x"
    "task_rank (Some y) < task_rank (Some x)" for g' p x y
    using that group_rank_upd [OF fin] by blast
  have slot: ?thesis if held: "holds_slot (ts p)" for p
  proof -
    obtain x where x: "ts p = Some x" using held by (cases "ts p") auto
    show ?thesis
    proof (cases x)
      case Ready
      show ?thesis
      proof (cases "gr_done g")
        case None
        show ?thesis by (rule move [OF group_step.check]) (use x Ready None in auto)
      next
        case (Some e)
        show ?thesis by (rule move [OF group_step.skip]) (use x Ready Some in auto)
      qed
    next
      case Checked
      show ?thesis by (rule move [OF group_step.start]) (use x Checked in auto)
    next
      case InFn
      show ?thesis by (rule move [OF group_step.succeed]) (use x InFn in auto)
    next
      case (Panicking r)
      show ?thesis by (rule move [OF group_step.recover]) (use x Panicking in auto)
    next
      case (Failing e)
      show ?thesis
      proof (cases "gr_once g")
        case Unfired
        show ?thesis by (rule move [OF group_step.store_error]) (use x Failing Unfired in auto)
      next
        case Firing
        then obtain q f where q: "ts q = Some (Cancelling f)" using assms(2) by (auto simp: group_errors_def)
        show ?thesis by (rule move [OF group_step.cancel_error]) (use q in auto)
      next
        case Fired
        show ?thesis by (rule move [OF group_step.later_error]) (use x Failing Fired in auto)
      qed
    next
      case (Cancelling e)
      show ?thesis by (rule move [OF group_step.cancel_error]) (use x Cancelling in auto)
    next
      case (Leaving e)
      show ?thesis by (rule move [OF group_step.release]) (use x Leaving in auto)
    qed (use held x in auto)
  qed
  obtain p where p: "pending (ts p)"
    using assms(1,3) pc_count_zero [OF fin, of pending] by (auto simp: group_counts_def)
  then obtain x where x: "ts p = Some x" by (cases "ts p") auto
  show ?thesis
  proof (cases x)
    case Blocked
    then obtain n where n: "gr_limit g = Some n" "0 < n" "int (gr_used g) = pc_count holds_slot ts"
      using assms(1) x by (cases "gr_limit g") (auto simp: group_counts_def)
    show ?thesis
    proof (cases "gr_used g < n")
      case True
      show ?thesis using group_step.acquire [of ts p g n h] True n x Blocked by (auto intro: move)
    next
      case False
      with n have "pc_count holds_slot ts \<noteq> 0" by simp
      then obtain q where "holds_slot (ts q)" using pc_count_zero [OF fin, of holds_slot] by auto
      then show ?thesis by (rule slot)
    qed
  next
    case (Released e)
    then show ?thesis using group_step.finish [of ts p e h g] x by (auto intro: move)
  qed (use p x in \<open>auto intro: slot [of p]\<close>)
qed

lemma group_can_drain:
  assumes "group_counts (g, ts)" "group_errors (g, ts)"
  shows "\<exists>g' ts'. (group_step h)\<^sup>*\<^sup>* (g, ts) (g', ts') \<and> gr_wg g' = 0"
  using assms
proof (induction "group_rank ts" arbitrary: g ts rule: less_induct)
  case less
  show ?case
  proof (cases "gr_wg g = 0")
    case False
    obtain g1 ts1 where step: "group_step h (g, ts) (g1, ts1)" "group_rank ts1 < group_rank ts"
      using group_progress [OF less(2,3) False] by blast
    have "group_counts (g1, ts1)" "group_errors (g1, ts1)"
      using group_counts_step group_errors_step step(1) less(2,3) by blast+
    from less(1) [OF step(2) this] show ?thesis using step(1) by (meson converse_rtranclp_into_rtranclp)
  qed blast
qed

section \<open>Tasks that come too late\<close>

text \<open>A task that has not passed its look at \<^verbatim>\<open>ctx.Err()\<close>, and what becomes of it after the end.\<close>

fun before_check :: "task option \<Rightarrow> bool" where
  "before_check None = True"
| "before_check (Some Blocked) = True"
| "before_check (Some Ready) = True"
| "before_check _ = False"

fun never_ran :: "task option \<Rightarrow> bool" where
  "never_ran (Some (Leaving e)) = (e = None)"
| "never_ran (Some (Released e)) = (e = None)"
| "never_ran (Some (Gone e)) = (e = None)"
| "never_ran (Some Dropped) = True"
| "never_ran x = before_check x"

lemma before_check_never_ran: "before_check x \<Longrightarrow> never_ran x"
  by (cases x rule: before_check.cases) auto

lemma never_ran_step:
  "group_step h (g, ts) (g', ts') \<Longrightarrow> gr_done g \<noteq> None \<Longrightarrow> never_ran (ts p) \<Longrightarrow> never_ran (ts' p)"
  by (cases rule: group_step.cases) auto

lemma late_task_never_runs:
  assumes "(group_step h)\<^sup>*\<^sup>* (g, ts) (g', ts')" "gr_done g \<noteq> None" "never_ran (ts p)"
  shows "never_ran (ts' p)"
proof -
  have "gr_done (fst s) \<noteq> None \<and> never_ran (snd s p)" if "(group_step h)\<^sup>*\<^sup>* (g, ts) s" for s
    using that
  proof (induction rule: rtranclp_induct)
    case base
    then show ?case using assms by simp
  next
    case (step s s')
    obtain e where "gr_done (fst s) = Some e" using step(3) by auto
    then show ?case using step(2,3) done_stable never_ran_step by (metis prod.collapse option.distinct(1))
  qed
  from this [OF assms(1)] show ?thesis by simp
qed

end
