(* ===== verification/Pool.thy ===== *)
theory Pool
  imports Routine "HOL-Library.Multiset"
begin

text \<open>
  \<^verbatim>\<open>pkg/routine/pool.go\<close>: a fixed set of workers on a bounded queue. Submitters, workers
  and \<^verbatim>\<open>Stop\<close> interleave; the checks of \<^verbatim>\<open>Submit\<close> and its \<^verbatim>\<open>select\<close> are separate steps, as are
  the two statements of \<^verbatim>\<open>Stop\<close>.
\<close>

section \<open>The pool\<close>

datatype Strategy = StrategyBlock | StrategyDiscard

record 'f poolTask =
  pt_ctx :: ctx
  pt_fn :: 'f

text \<open>
  \<open>po_tasks\<close> is the buffer of the channel and \<open>po_chan_closed\<close> whether it has been closed;
  \<open>po_closed\<close> is the atomic flag. The last three fields record the history: the tasks
  accepted, taken by a worker and ended, in that order of events.
\<close>

record ('f, 'h) pool =
  po_workerCount :: int
  po_queueSize :: int
  po_strategy :: Strategy
  po_tasks :: "'f poolTask list"
  po_chan_closed :: bool
  po_closed :: bool
  po_wg :: int
  po_routine :: "'h routine"
  po_accepted :: "'f poolTask list"
  po_started :: "'f poolTask list"
  po_completed :: "'f poolTask list"

type_synonym ('f, 'h) PoolOption = "('f, 'h) pool \<Rightarrow> ('f, 'h) pool"

definition WithQueueSize :: "goint \<Rightarrow> ('f, 'h) PoolOption" where
  "WithQueueSize n p = (if 0 < sint n then p\<lparr>po_queueSize := sint n\<rparr> else p)"

definition WithStrategy :: "Strategy \<Rightarrow> ('f, 'h) PoolOption" where
  "WithStrategy strategy p = p\<lparr>po_strategy := strategy\<rparr>"

definition RunningWorkers :: "('f, 'h) pool \<Rightarrow> int" where
  "RunningWorkers p = po_workerCount p"

definition QueueCapacity :: "('f, 'h) pool \<Rightarrow> int" where
  "QueueCapacity p = po_queueSize p"

definition NewPool :: "goint \<Rightarrow> 'h routine \<Rightarrow> ('f, 'h) PoolOption list \<Rightarrow> ('f, 'h) pool" where
  "NewPool workerCount rt opts =
     (let n = (if sint workerCount \<le> 0 then 1 else sint workerCount);
          p = fold (\<lambda>opt. opt) opts
                \<lparr>po_workerCount = n, po_queueSize = 100, po_strategy = StrategyBlock, po_tasks = [],
                 po_chan_closed = False, po_closed = False, po_wg = 0, po_routine = rt,
                 po_accepted = [], po_started = [], po_completed = []\<rparr>
      in p\<lparr>po_wg := po_wg p + po_workerCount p\<rparr>)"

section \<open>Workers\<close>

datatype 'f worker = Ready_worker | Executing "'f poolTask" | Exited

definition initial_workers :: "('f, 'h) pool \<Rightarrow> nat \<Rightarrow> 'f worker option" where
  "initial_workers p i = (if int i < po_workerCount p then Some Ready_worker else None)"

text \<open>
  \<^verbatim>\<open>executeTask\<close> before and after the task's function; \<open>r\<close> is the recovered panic value.
\<close>

definition execute_begin :: "'h routine \<Rightarrow> 'h routine" where
  "execute_begin s = s\<lparr>rt_metrics := metricIncActive (rt_metrics s)\<rparr>"

definition execute_end :: "ctx \<Rightarrow> string option \<Rightarrow> 'h routine \<Rightarrow> 'h routine" where
  "execute_end c r s =
     defer_recover c r (s\<lparr>rt_metrics := metricObserveDuration ''pool''
       (metricIncTasks ''pool'' (metricDecActive (rt_metrics s)))\<rparr>)"

text \<open>\<^verbatim>\<open>for task := range p.tasks\<close>: take a task, or leave when the closed channel is empty.\<close>

definition take_task :: "('f, 'h) pool \<Rightarrow> ('f poolTask \<times> ('f, 'h) pool) option" where
  "take_task p =
     (case po_tasks p of
        [] \<Rightarrow> None
      | t # ts \<Rightarrow> Some (t, p\<lparr>po_tasks := ts, po_routine := execute_begin (po_routine p),
                            po_started := po_started p @ [t]\<rparr>))"

definition end_task :: "'f poolTask \<Rightarrow> string option \<Rightarrow> ('f, 'h) pool \<Rightarrow> ('f, 'h) pool" where
  "end_task t r p = p\<lparr>po_routine := execute_end (pt_ctx t) r (po_routine p),
     po_completed := po_completed p @ [t]\<rparr>"

section \<open>Submit\<close>

datatype 'f submitter =
    Admitted "'f poolTask"
  | Sending "'f poolTask"
  | Accepted "'f poolTask"
  | Rejected go_error
  | SendPanic

definition submit_check :: "'f poolTask \<Rightarrow> ('f, 'h) pool \<Rightarrow> 'f submitter" where
  "submit_check t p = (if po_closed p then Rejected (Sentinel ErrPoolClosed) else Admitted t)"

definition submit_ctx :: "'f poolTask \<Rightarrow> time \<Rightarrow> 'f submitter" where
  "submit_ctx t now =
     (case ctx_Err (pt_ctx t) now of Some err \<Rightarrow> Rejected err | None \<Rightarrow> Sending t)"

text \<open>
  The \<^verbatim>\<open>select\<close> at time \<open>now\<close>; \<open>prefer\<close> resolves the choice between a ready send and a done
  context. A send to a closed channel is ready and panics. \<open>None\<close> while it blocks.
\<close>

definition submit_select ::
  "bool \<Rightarrow> time \<Rightarrow> 'f poolTask \<Rightarrow> ('f, 'h) pool \<Rightarrow> ('f submitter \<times> ('f, 'h) pool) option" where
  "submit_select prefer now t p =
     (let sent = (Accepted t, p\<lparr>po_tasks := po_tasks p @ [t], po_accepted := po_accepted p @ [t]\<rparr>);
          ready = po_chan_closed p \<or> int (length (po_tasks p)) < po_queueSize p;
          send = (if po_chan_closed p then (SendPanic, p) else sent)
      in case po_strategy p of
           StrategyDiscard \<Rightarrow>
             Some (if ready then send else (Rejected (Sentinel ErrQueueFull), p))
         | StrategyBlock \<Rightarrow>
             (case ctx_Err (pt_ctx t) now of
                None \<Rightarrow> if ready then Some send else None
              | Some err \<Rightarrow> if ready \<and> prefer then Some send else Some (Rejected err, p)))"

section \<open>Stop\<close>

definition stop_store :: "('f, 'h) pool \<Rightarrow> ('f, 'h) pool" where
  "stop_store p = p\<lparr>po_closed := True\<rparr>"

definition stop_close :: "('f, 'h) pool \<Rightarrow> ('f, 'h) pool" where
  "stop_close p = p\<lparr>po_chan_closed := True\<rparr>"

text \<open>\<^verbatim>\<open>Stop\<close> returns once the channel is closed and \<^verbatim>\<open>wg.Wait\<close> is through.\<close>

definition Stop_returns :: "('f, 'h) pool \<Rightarrow> bool" where
  "Stop_returns p \<longleftrightarrow> po_chan_closed p \<and> po_wg p = 0"

section \<open>Interleavings\<close>

type_synonym ('f, 'h) pool_state =
  "('f, 'h) pool \<times> (nat \<Rightarrow> 'f worker option) \<times> (nat \<Rightarrow> 'f submitter option)"

inductive pool_step :: "('f, 'h) pool_state \<Rightarrow> ('f, 'h) pool_state \<Rightarrow> bool" where
  submit: "ss q = None \<Longrightarrow> pool_step (p, ws, ss) (p, ws, ss(q \<mapsto> submit_check t p))"
| check_ctx: "ss q = Some (Admitted t) \<Longrightarrow>
     pool_step (p, ws, ss) (p, ws, ss(q \<mapsto> submit_ctx t now))"
| send: "ss q = Some (Sending t) \<Longrightarrow> submit_select prefer now t p = Some (x, p') \<Longrightarrow>
     pool_step (p, ws, ss) (p', ws, ss(q \<mapsto> x))"
| work: "ws i = Some Ready_worker \<Longrightarrow> take_task p = Some (t, p') \<Longrightarrow>
     pool_step (p, ws, ss) (p', ws(i \<mapsto> Executing t), ss)"
| work_ends: "ws i = Some (Executing t) \<Longrightarrow>
     pool_step (p, ws, ss) (end_task t r p, ws(i \<mapsto> Ready_worker), ss)"
| exit: "ws i = Some Ready_worker \<Longrightarrow> take_task p = None \<Longrightarrow> po_chan_closed p \<Longrightarrow>
     pool_step (p, ws, ss) (p\<lparr>po_wg := po_wg p - 1\<rparr>, ws(i \<mapsto> Exited), ss)"
| stop: "\<not> po_closed p \<Longrightarrow> pool_step (p, ws, ss) (stop_store p, ws, ss)"
| close: "po_closed p \<Longrightarrow> \<not> po_chan_closed p \<Longrightarrow> pool_step (p, ws, ss) (stop_close p, ws, ss)"

inductive_cases pool_stepE: "pool_step s s'"

section \<open>The invariant\<close>

fun alive :: "'f worker option \<Rightarrow> bool" where
  "alive (Some Ready_worker) = True"
| "alive (Some (Executing t)) = True"
| "alive _ = False"

fun executing :: "'f worker option \<Rightarrow> 'f poolTask multiset" where
  "executing (Some (Executing t)) = {#t#}"
| "executing _ = {#}"

text \<open>The tasks in the hands of the workers.\<close>

definition in_progress :: "(nat \<Rightarrow> 'f worker option) \<Rightarrow> 'f poolTask multiset" where
  "in_progress ws = (\<Sum>i \<in> dom ws. executing (ws i))"

definition pool_ok :: "('f, 'h) pool_state \<Rightarrow> bool" where
  "pool_ok s \<longleftrightarrow>
     (case s of (p, ws, ss) \<Rightarrow>
        finite (dom ws) \<and>
        0 < po_queueSize p \<and> int (length (po_tasks p)) \<le> po_queueSize p \<and>
        po_wg p = pc_count alive ws \<and>
        int (card (dom ws)) = po_workerCount p \<and> 0 < po_workerCount p \<and>
        po_accepted p = po_started p @ po_tasks p \<and>
        mset (po_started p) = mset (po_completed p) + in_progress ws \<and>
        (po_chan_closed p \<longrightarrow> po_closed p) \<and>
        ((\<exists>i. ws i = Some Exited) \<longrightarrow> po_chan_closed p \<and> po_tasks p = []))"

lemma in_progress_upd:
  assumes "finite (dom ws)" "ws i = Some x"
  shows "in_progress (ws(i \<mapsto> y)) + executing (Some x) = in_progress ws + executing (Some y)"
proof -
  have dom: "dom (ws(i \<mapsto> y)) = dom ws" using assms(2) by auto
  have "in_progress ws = executing (Some x) + (\<Sum>q \<in> dom ws - {i}. executing (ws q))"
    unfolding in_progress_def using assms by (subst sum.remove [of _ i]) auto
  moreover have "in_progress (ws(i \<mapsto> y)) = executing (Some y) + (\<Sum>q \<in> dom ws - {i}. executing (ws q))"
    unfolding in_progress_def dom using assms by (subst sum.remove [of _ i]) (auto intro!: sum.cong)
  ultimately show ?thesis by simp
qed

lemma executing_size: "size (executing x) \<le> 1"
  by (cases x rule: executing.cases) simp_all

lemma in_progress_size:
  assumes "finite (dom ws)"
  shows "size (in_progress ws) \<le> card (dom ws)"
proof -
  have "size (in_progress ws) = (\<Sum>i \<in> dom ws. size (executing (ws i)))"
    unfolding in_progress_def by simp
  also have "\<dots> \<le> (\<Sum>i \<in> dom ws. 1)" by (rule sum_mono) (rule executing_size)
  finally show ?thesis by simp
qed

lemma in_progress_empty:
  assumes "finite (dom ws)" "pc_count alive ws = 0"
  shows "in_progress ws = {#}"
proof -
  have "executing (ws i) = {#}" for i
    using assms pc_count_zero [of ws alive] by (cases "ws i" rule: executing.cases) (auto, metis alive.simps(2))
  then show ?thesis by (simp add: in_progress_def)
qed

lemma initial_workers:
  assumes "0 \<le> po_workerCount p"
  shows "finite (dom (initial_workers p))" "int (card (dom (initial_workers p))) = po_workerCount p"
    "pc_count alive (initial_workers p) = po_workerCount p" "in_progress (initial_workers p) = {#}"
proof -
  have dom: "dom (initial_workers p) = {..<nat (po_workerCount p)}"
    using assms by (auto simp: initial_workers_def split: if_splits)
  have "{i. alive (initial_workers p i)} = {..<nat (po_workerCount p)}"
    using assms by (auto simp: initial_workers_def split: if_splits)
  then show "pc_count alive (initial_workers p) = po_workerCount p" using assms by (simp add: pc_count_def)
  show "finite (dom (initial_workers p))" "int (card (dom (initial_workers p))) = po_workerCount p"
    using assms by (simp_all add: dom)
  show "in_progress (initial_workers p) = {#}"
    unfolding in_progress_def by (rule sum.neutral) (auto simp: initial_workers_def)
qed

definition pool_options :: "('f, 'h) PoolOption list \<Rightarrow> bool" where
  "pool_options opts \<longleftrightarrow>
     (\<forall>opt \<in> set opts. (\<exists>n. opt = WithQueueSize n) \<or> (\<exists>st. opt = WithStrategy st))"

lemma pool_options_none [simp]: "pool_options []"
  by (simp add: pool_options_def)

definition fresh_pool :: "int \<Rightarrow> ('f, 'h) pool \<Rightarrow> bool" where
  "fresh_pool n p \<longleftrightarrow> po_workerCount p = n \<and> 0 < po_queueSize p \<and> po_tasks p = [] \<and> \<not> po_chan_closed p \<and>
     \<not> po_closed p \<and> po_accepted p = [] \<and> po_started p = [] \<and> po_completed p = [] \<and> po_wg p = 0"

lemma fresh_pool_options:
  "pool_options opts \<Longrightarrow> fresh_pool n p \<Longrightarrow> fresh_pool n (fold (\<lambda>opt. opt) opts p)"
proof (induction opts arbitrary: p)
  case (Cons opt opts)
  have "fresh_pool n (opt p)"
    using Cons.prems by (auto simp: pool_options_def fresh_pool_def WithQueueSize_def WithStrategy_def split: if_splits)
  then show ?case using Cons by (simp add: pool_options_def)
qed simp

definition pool_start :: "goint \<Rightarrow> 'h routine \<Rightarrow> ('f, 'h) PoolOption list \<Rightarrow> ('f, 'h) pool_state" where
  "pool_start n rt opts = (NewPool n rt opts, initial_workers (NewPool n rt opts), Map.empty)"

lemma pool_ok_start:
  assumes "pool_options opts"
  shows "pool_ok (pool_start n rt opts)"
proof -
  define k where "k = (if sint n \<le> 0 then 1 else sint n)"
  have k: "0 < k" by (simp add: k_def)
  have "\<exists>q. fresh_pool k q \<and> NewPool n rt opts = q\<lparr>po_wg := k\<rparr>"
    using fresh_pool_options [OF assms, of k "\<lparr>po_workerCount = k, po_queueSize = 100,
        po_strategy = StrategyBlock, po_tasks = [], po_chan_closed = False, po_closed = False, po_wg = 0,
        po_routine = rt, po_accepted = [], po_started = [], po_completed = []\<rparr>"]
    by (auto simp: NewPool_def Let_def fresh_pool_def k_def)
  then obtain q where q: "fresh_pool k q" "NewPool n rt opts = q\<lparr>po_wg := k\<rparr>" by blast
  have "po_workerCount (q\<lparr>po_wg := k\<rparr>) = k" using q(1) by (simp add: fresh_pool_def)
  then show ?thesis using q(1) k initial_workers [of "q\<lparr>po_wg := k\<rparr>"]
    unfolding pool_start_def q(2)
    by (auto simp: pool_ok_def fresh_pool_def initial_workers_def)
qed

lemma pool_ok_step:
  assumes "pool_step s s'" "pool_ok s"
  shows "pool_ok s'"
  using assms
proof (cases rule: pool_step.cases)
  case (work ws i p t p' ss)
  then show ?thesis using assms(2) in_progress_upd [of ws i Ready_worker "Executing t"]
    by (auto simp: pool_ok_def pc_count_upd take_task_def insert_absorb [OF domI] split: list.splits)
next
  case (work_ends ws i t p r ss)
  then show ?thesis using assms(2) in_progress_upd [of ws i "Executing t" Ready_worker]
    by (auto simp: pool_ok_def pc_count_upd end_task_def insert_absorb [OF domI])
next
  case (exit ws i p ss)
  then show ?thesis using assms(2) in_progress_upd [of ws i Ready_worker Exited]
    by (auto simp: pool_ok_def pc_count_upd take_task_def insert_absorb [OF domI] split: list.splits)
qed (auto simp: pool_ok_def submit_select_def Let_def stop_store_def stop_close_def
      split: Strategy.splits option.splits if_splits)

definition pool_reachable ::
  "goint \<Rightarrow> 'h routine \<Rightarrow> ('f, 'h) PoolOption list \<Rightarrow> ('f, 'h) pool_state \<Rightarrow> bool" where
  "pool_reachable n rt opts s \<longleftrightarrow> pool_step\<^sup>*\<^sup>* (pool_start n rt opts) s"

lemma pool_reachable_ok:
  assumes "pool_reachable n rt opts s" "pool_options opts"
  shows "pool_ok s"
  using assms(1) unfolding pool_reachable_def
  by (induction rule: rtranclp_induct) (auto intro: pool_ok_start [OF assms(2)] pool_ok_step)

section \<open>Draining\<close>

text \<open>After the channel is closed the workers alone can bring the pool to its end.\<close>

definition pool_rank :: "('f, 'h) pool \<Rightarrow> (nat \<Rightarrow> 'f worker option) \<Rightarrow> nat" where
  "pool_rank p ws = 2 * length (po_tasks p) + nat (po_wg p) + size (in_progress ws)"

lemma pool_progress:
  assumes "pool_ok (p, ws, ss)" "po_chan_closed p" "po_wg p \<noteq> 0"
  shows "\<exists>p' ws'. pool_step (p, ws, ss) (p', ws', ss) \<and> po_chan_closed p' \<and> pool_rank p' ws' < pool_rank p ws"
proof -
  have fin: "finite (dom ws)" and wg: "po_wg p = pc_count alive ws"
    using assms(1) by (simp_all add: pool_ok_def)
  obtain i where "alive (ws i)"
    using assms(3) wg pc_count_zero [OF fin, of alive] by auto
  then consider t where "ws i = Some (Executing t)" | "ws i = Some Ready_worker"
    by (cases "ws i" rule: alive.cases) auto
  then show ?thesis
  proof cases
    case 1
    have "pool_step (p, ws, ss) (end_task t None p, ws(i \<mapsto> Ready_worker), ss)"
      using 1 by (rule pool_step.work_ends)
    moreover have "in_progress ws = add_mset t (in_progress (ws(i \<mapsto> Ready_worker)))"
      using in_progress_upd [OF fin 1, of Ready_worker] by simp
    ultimately show ?thesis using assms(2)
      by (intro exI conjI) (assumption, simp_all add: end_task_def pool_rank_def)
  next
    case 2
    show ?thesis
    proof (cases "po_tasks p")
      case Nil
      then have "pool_step (p, ws, ss) (p\<lparr>po_wg := po_wg p - 1\<rparr>, ws(i \<mapsto> Exited), ss)"
        using 2 assms(2) by (intro pool_step.exit) (simp_all add: take_task_def)
      moreover have "in_progress (ws(i \<mapsto> Exited)) = in_progress ws"
        using in_progress_upd [OF fin 2, of Exited] by simp
      moreover have "0 < po_wg p" using wg assms(3) pc_count_nonneg [of alive ws] by simp
      ultimately show ?thesis using assms(2)
        by (intro exI conjI) (assumption, simp_all add: pool_rank_def)
    next
      case (Cons t ts)
      let ?p = "p\<lparr>po_tasks := ts, po_routine := execute_begin (po_routine p), po_started := po_started p @ [t]\<rparr>"
      have "pool_step (p, ws, ss) (?p, ws(i \<mapsto> Executing t), ss)"
        using 2 Cons by (intro pool_step.work) (simp_all add: take_task_def)
      moreover have "in_progress (ws(i \<mapsto> Executing t)) = add_mset t (in_progress ws)"
        using in_progress_upd [OF fin 2, of "Executing t"] by simp
      ultimately show ?thesis using assms(2) Cons
        by (intro exI conjI) (assumption, simp_all add: pool_rank_def)
    qed
  qed
qed

lemma pool_can_drain:
  assumes "pool_ok (p, ws, ss)" "po_chan_closed p"
  shows "\<exists>p' ws'. pool_step\<^sup>*\<^sup>* (p, ws, ss) (p', ws', ss) \<and> Stop_returns p'"
  using assms
proof (induction "pool_rank p ws" arbitrary: p ws rule: less_induct)
  case less
  show ?case
  proof (cases "po_wg p = 0")
    case True
    then show ?thesis using less(3) by (auto simp: Stop_returns_def)
  next
    case False
    obtain p1 ws1 where step: "pool_step (p, ws, ss) (p1, ws1, ss)" "po_chan_closed p1"
      "pool_rank p1 ws1 < pool_rank p ws"
      using pool_progress [OF less(2,3) False] by blast
    from less(1) [OF step(3) pool_ok_step [OF step(1) less(2)] step(2)] show ?thesis
      using step(1) by (meson converse_rtranclp_into_rtranclp)
  qed
qed

end
