(* ===== verification/Singleflight.thy ===== *)
theory Singleflight
  imports Routine
begin

text \<open>
  \<^verbatim>\<open>pkg/routine/singleflight.go\<close>: one execution per key, its result shared by the calls that
  arrive meanwhile. The critical sections, the end of the function and each delivery are
  the steps; \<^verbatim>\<open>Forget\<close> is kept apart, so that executions without it can be told from those
  with it.
\<close>

section \<open>The coordinator\<close>

record 'a Result =
  res_Val :: 'a
  res_Err :: "go_error option"
  res_Shared :: bool

text \<open>
  A call is known by the process that leads it, a follower's channel by the follower.
  \<open>sf_mail\<close> holds the contents of the channels (capacity one).
\<close>

record 'a call =
  cl_val :: 'a
  cl_err :: "go_error option"
  cl_dups :: nat
  cl_chans :: "nat list"

record 'a Singleflight =
  sf_m :: "string \<Rightarrow> nat option"
  sf_calls :: "nat \<Rightarrow> 'a call option"
  sf_mail :: "nat \<Rightarrow> 'a Result option"

definition NewSingleflight :: "'a Singleflight" where
  "NewSingleflight = \<lparr>sf_m = Map.empty, sf_calls = Map.empty, sf_mail = Map.empty\<rparr>"

definition NewDeduplicator :: "'a Singleflight" where
  "NewDeduplicator = NewSingleflight"

definition Forget :: "string \<Rightarrow> 'a Singleflight \<Rightarrow> 'a Singleflight" where
  "Forget key g = g\<lparr>sf_m := (sf_m g)(key := None)\<rparr>"

text \<open>The first critical section of \<^verbatim>\<open>Do\<close> and \<^verbatim>\<open>DoChan\<close>: join the call of the key, or lead one.\<close>

definition join_call :: "nat \<Rightarrow> nat \<Rightarrow> 'a call \<Rightarrow> 'a Singleflight \<Rightarrow> 'a Singleflight" where
  "join_call p a c g = g\<lparr>sf_calls := (sf_calls g)(a \<mapsto> c\<lparr>cl_dups := Suc (cl_dups c), cl_chans := cl_chans c @ [p]\<rparr>)\<rparr>"

definition lead_call :: "'a \<Rightarrow> nat \<Rightarrow> string \<Rightarrow> 'a Singleflight \<Rightarrow> 'a Singleflight" where
  "lead_call zero p key g =
     g\<lparr>sf_m := (sf_m g)(key \<mapsto> p),
       sf_calls := (sf_calls g)(p \<mapsto> \<lparr>cl_val = zero, cl_err = None, cl_dups = 0, cl_chans = []\<rparr>)\<rparr>"

text \<open>What \<^verbatim>\<open>execute\<close> stores when the function returns or its panic has been recovered.\<close>

definition flight_panic :: "string \<Rightarrow> go_error" where
  "flight_panic r = Foreign (''routine.Singleflight: panic recovered: '' @ r)"

definition store_result :: "'a \<Rightarrow> 'a outcome \<Rightarrow> 'a call \<Rightarrow> 'a call" where
  "store_result zero out c =
     (case out of
        Returns v e \<Rightarrow> c\<lparr>cl_val := v, cl_err := e\<rparr>
      | Panics r \<Rightarrow> c\<lparr>cl_val := zero, cl_err := Some (flight_panic r)\<rparr>)"

definition execute_metrics :: "ctx \<Rightarrow> 'a outcome \<Rightarrow> 'h routine \<Rightarrow> 'h routine" where
  "execute_metrics c out s =
     defer_recover c (case out of Returns v e \<Rightarrow> None | Panics r \<Rightarrow> Some r)
       (s\<lparr>rt_metrics := metricObserveDuration ''singleflight''
           (metricIncTasks ''singleflight'' (metricDecActive (rt_metrics s)))\<rparr>)"

text \<open>The second critical section: the key and the channels are taken out.\<close>

definition clear_call :: "nat \<Rightarrow> string \<Rightarrow> 'a call \<Rightarrow> 'a Singleflight \<Rightarrow> 'a Singleflight" where
  "clear_call p key c g =
     g\<lparr>sf_m := (sf_m g)(key := None), sf_calls := (sf_calls g)(p \<mapsto> c\<lparr>cl_chans := []\<rparr>)\<rparr>"

definition deliver :: "nat \<Rightarrow> 'a call \<Rightarrow> 'a Singleflight \<Rightarrow> 'a Singleflight" where
  "deliver q c g =
     g\<lparr>sf_mail := (sf_mail g)(q \<mapsto> \<lparr>res_Val = cl_val c, res_Err = cl_err c, res_Shared = True\<rparr>)\<rparr>"

section \<open>Calls side by side\<close>

text \<open>
  \<open>Flying\<close>: the leader's function runs; \<open>Landed\<close>: its result is stored; \<open>Handing\<close>: it sends
  to the channels it took; \<open>Led\<close>: it returned. \<open>Following\<close>: waiting for a leader;
  \<open>Received\<close> and \<open>Abandoned\<close>: it returned the leader's result, or its context's error.
\<close>

datatype 'a flight =
    Flying string
  | Landed string
  | Handing "nat list"
  | Led "'a Result"
  | Following nat
  | Received nat "'a Result"
  | Abandoned nat go_error

type_synonym ('a, 'h) sf_state =
  "'a Singleflight \<times> (nat \<Rightarrow> 'a flight option) \<times> 'h routine"

inductive sf_step :: "'a \<Rightarrow> ('a, 'h) sf_state \<Rightarrow> ('a, 'h) sf_state \<Rightarrow> bool" for zero where
  follow: "fs p = None \<Longrightarrow> sf_m g key = Some a \<Longrightarrow> sf_calls g a = Some c \<Longrightarrow>
     sf_step zero (g, fs, s) (join_call p a c g, fs(p \<mapsto> Following a), s)"
| lead: "fs p = None \<Longrightarrow> sf_m g key = None \<Longrightarrow>
     sf_step zero (g, fs, s) (lead_call zero p key g, fs(p \<mapsto> Flying key),
       s\<lparr>rt_metrics := metricIncActive (rt_metrics s)\<rparr>)"
| land: "fs p = Some (Flying key) \<Longrightarrow> sf_calls g p = Some c \<Longrightarrow>
     sf_step zero (g, fs, s)
       (g\<lparr>sf_calls := (sf_calls g)(p \<mapsto> store_result zero out c)\<rparr>, fs(p \<mapsto> Landed key),
        execute_metrics x out s)"
| clear: "fs p = Some (Landed key) \<Longrightarrow> sf_calls g p = Some c \<Longrightarrow>
     sf_step zero (g, fs, s) (clear_call p key c g, fs(p \<mapsto> Handing (cl_chans c)), s)"
| hand: "fs p = Some (Handing (q # qs)) \<Longrightarrow> sf_calls g p = Some c \<Longrightarrow>
     sf_step zero (g, fs, s) (deliver q c g, fs(p \<mapsto> Handing qs), s)"
| led: "fs p = Some (Handing []) \<Longrightarrow> sf_calls g p = Some c \<Longrightarrow>
     sf_step zero (g, fs, s)
       (g, fs(p \<mapsto> Led \<lparr>res_Val = cl_val c, res_Err = cl_err c, res_Shared = 0 < cl_dups c\<rparr>), s)"
| receive: "fs p = Some (Following a) \<Longrightarrow> sf_mail g p = Some r \<Longrightarrow>
     sf_step zero (g, fs, s) (g, fs(p \<mapsto> Received a r), s)"
| abandon: "fs p = Some (Following a) \<Longrightarrow> ctx_Err x now = Some e \<Longrightarrow>
     sf_step zero (g, fs, s) (g, fs(p \<mapsto> Abandoned a e), s)"

inductive_cases sf_stepE: "sf_step zero (g, fs, s) s'"

definition sf_or_forget :: "'a \<Rightarrow> ('a, 'h) sf_state \<Rightarrow> ('a, 'h) sf_state \<Rightarrow> bool" where
  "sf_or_forget zero s s' \<longleftrightarrow>
     sf_step zero s s' \<or> (\<exists>key. s' = (Forget key (fst s), snd s))"

section \<open>The result that is shared\<close>

text \<open>
  Every process that leads or follows has its call; the entry of a key is a leader that
  has not cleared it; a follower's channel is with its leader until it is filled with the
  leader's final result.
\<close>

fun finished_leader :: "'a flight option \<Rightarrow> bool" where
  "finished_leader (Some (Handing qs)) = True"
| "finished_leader (Some (Led r)) = True"
| "finished_leader _ = False"

fun in_flight :: "string \<Rightarrow> 'a flight option \<Rightarrow> bool" where
  "in_flight key (Some (Flying k)) = (k = key)"
| "in_flight key (Some (Landed k)) = (k = key)"
| "in_flight key _ = False"

fun follows :: "nat \<Rightarrow> 'a flight option \<Rightarrow> bool" where
  "follows a (Some (Following b)) = (b = a)"
| "follows a (Some (Received b r)) = (b = a)"
| "follows a (Some (Abandoned b e)) = (b = a)"
| "follows a _ = False"

fun to_hand :: "'a flight option \<Rightarrow> nat list" where
  "to_hand (Some (Handing qs)) = qs"
| "to_hand _ = []"

fun result_of :: "'a call option \<Rightarrow> 'a Result \<Rightarrow> bool" where
  "result_of None r = False"
| "result_of (Some c) r = (res_Val r = cl_val c \<and> res_Err r = cl_err c)"

fun chans :: "'a call option \<Rightarrow> nat list" where
  "chans None = []"
| "chans (Some c) = cl_chans c"

text \<open>The channels a leader still has to fill.\<close>

definition owed :: "('a, 'h) sf_state \<Rightarrow> nat \<Rightarrow> nat set" where
  "owed s a = (case s of (g, fs, _) \<Rightarrow> set (chans (sf_calls g a)) \<union> set (to_hand (fs a)))"

definition sf_calls_ok :: "('a, 'h) sf_state \<Rightarrow> bool" where
  "sf_calls_ok s \<longleftrightarrow>
     (case s of (g, fs, _) \<Rightarrow>
        (\<forall>p. sf_calls g p = None \<longleftrightarrow> \<not> (\<exists>key. in_flight key (fs p)) \<and> \<not> finished_leader (fs p)) \<and>
        (\<forall>key a. sf_m g key = Some a \<longrightarrow> in_flight key (fs a)) \<and>
        (\<forall>p. finished_leader (fs p) \<longrightarrow> chans (sf_calls g p) = []) \<and>
        (\<forall>q a. q \<in> set (chans (sf_calls g a)) \<longrightarrow> follows a (fs q)) \<and>
        (\<forall>q a. q \<in> set (to_hand (fs a)) \<longrightarrow> follows a (fs q)))"

lemma sf_calls_okD:
  assumes "sf_calls_ok (g, fs, s)"
  shows "sf_calls g p = None \<longleftrightarrow> \<not> (\<exists>key. in_flight key (fs p)) \<and> \<not> finished_leader (fs p)"
    "sf_m g key = Some a \<Longrightarrow> in_flight key (fs a)"
    "finished_leader (fs p) \<Longrightarrow> chans (sf_calls g p) = []"
    "q \<in> set (chans (sf_calls g a)) \<Longrightarrow> follows a (fs q)"
    "q \<in> set (to_hand (fs a)) \<Longrightarrow> follows a (fs q)"
    "sf_calls g a = Some c \<Longrightarrow> q \<in> set (cl_chans c) \<Longrightarrow> follows a (fs q)"
    "finished_leader (fs p) \<Longrightarrow> sf_calls g p = Some c \<Longrightarrow> cl_chans c = []"
    "fs a = Some (Handing qs) \<Longrightarrow> q \<in> set qs \<Longrightarrow> follows a (fs q)"
    "fs p = Some (Handing qs) \<Longrightarrow> sf_calls g p = Some c \<Longrightarrow> cl_chans c = []"
proof -
  note ok = assms [unfolded sf_calls_ok_def prod.case]
  show "sf_calls g p = None \<longleftrightarrow> \<not> (\<exists>key. in_flight key (fs p)) \<and> \<not> finished_leader (fs p)"
    using ok by blast
  show "sf_m g key = Some a \<Longrightarrow> in_flight key (fs a)" using ok by blast
  show 3: "finished_leader (fs p) \<Longrightarrow> chans (sf_calls g p) = []" for p using ok by blast
  show 4: "q \<in> set (chans (sf_calls g a)) \<Longrightarrow> follows a (fs q)" using ok by blast
  show 5: "q \<in> set (to_hand (fs a)) \<Longrightarrow> follows a (fs q)" using ok by blast
  show "sf_calls g a = Some c \<Longrightarrow> q \<in> set (cl_chans c) \<Longrightarrow> follows a (fs q)" using 4 by simp
  show "finished_leader (fs p) \<Longrightarrow> sf_calls g p = Some c \<Longrightarrow> cl_chans c = []" using 3 [of p] by simp
  show "fs a = Some (Handing qs) \<Longrightarrow> q \<in> set qs \<Longrightarrow> follows a (fs q)" using 5 by simp
  show "fs p = Some (Handing qs) \<Longrightarrow> sf_calls g p = Some c \<Longrightarrow> cl_chans c = []" using 3 [of p] by simp
qed

lemma sf_calls_okI:
  assumes "\<And>p. sf_calls g p = None \<longleftrightarrow> \<not> (\<exists>key. in_flight key (fs p)) \<and> \<not> finished_leader (fs p)"
    "\<And>key a. sf_m g key = Some a \<Longrightarrow> in_flight key (fs a)"
    "\<And>p. finished_leader (fs p) \<Longrightarrow> chans (sf_calls g p) = []"
    "\<And>q a. q \<in> set (chans (sf_calls g a)) \<Longrightarrow> follows a (fs q)"
    "\<And>q a. q \<in> set (to_hand (fs a)) \<Longrightarrow> follows a (fs q)"
  shows "sf_calls_ok (g, fs, s)"
  using assms by (simp add: sf_calls_ok_def)

definition sf_results_ok :: "('a, 'h) sf_state \<Rightarrow> bool" where
  "sf_results_ok s \<longleftrightarrow>
     (case s of (g, fs, _) \<Rightarrow>
        (\<forall>q a. fs q = Some (Following a) \<longrightarrow> q \<in> owed s a \<or> sf_mail g q \<noteq> None) \<and>
        (\<forall>q r. sf_mail g q = Some r \<longrightarrow> res_Shared r \<and> (\<exists>a. follows a (fs q))) \<and>
        (\<forall>q r a. sf_mail g q = Some r \<longrightarrow> follows a (fs q) \<longrightarrow>
           result_of (sf_calls g a) r \<and> finished_leader (fs a)) \<and>
        (\<forall>q a r. fs q = Some (Received a r) \<longrightarrow> sf_mail g q = Some r) \<and>
        (\<forall>p r. fs p = Some (Led r) \<longrightarrow> result_of (sf_calls g p) r))"

lemma sf_results_okD:
  assumes "sf_results_ok (g, fs, s)"
  shows "fs q = Some (Following a) \<Longrightarrow> sf_mail g q = None \<Longrightarrow> q \<notin> set (to_hand (fs a)) \<Longrightarrow>
       q \<in> set (chans (sf_calls g a))"
    "sf_mail g q = Some r \<Longrightarrow> res_Shared r"
    "sf_mail g q = Some r \<Longrightarrow> \<exists>a. follows a (fs q)"
    "sf_mail g q = Some r \<Longrightarrow> follows a (fs q) \<Longrightarrow> result_of (sf_calls g a) r"
    "sf_mail g q = Some r \<Longrightarrow> follows a (fs q) \<Longrightarrow> finished_leader (fs a)"
    "fs q = Some (Received a r) \<Longrightarrow> sf_mail g q = Some r"
    "fs q = Some (Led r) \<Longrightarrow> result_of (sf_calls g q) r"
    "fs q = Some (Following a) \<Longrightarrow> sf_mail g q = None \<Longrightarrow> sf_calls g a = Some c \<Longrightarrow>
       q \<notin> set (to_hand (fs a)) \<Longrightarrow> q \<in> set (cl_chans c)"
  using assms unfolding sf_results_ok_def prod.case owed_def
  by (blast | metis Un_iff chans.simps(2))+

lemma sf_results_okI:
  assumes "\<And>q a. fs q = Some (Following a) \<Longrightarrow> sf_mail g q = None \<Longrightarrow> q \<in> owed (g, fs, s) a"
    "\<And>q r. sf_mail g q = Some r \<Longrightarrow> res_Shared r"
    "\<And>q r. sf_mail g q = Some r \<Longrightarrow> \<exists>a. follows a (fs q)"
    "\<And>q r a. sf_mail g q = Some r \<Longrightarrow> follows a (fs q) \<Longrightarrow> result_of (sf_calls g a) r"
    "\<And>q r a. sf_mail g q = Some r \<Longrightarrow> follows a (fs q) \<Longrightarrow> finished_leader (fs a)"
    "\<And>q a r. fs q = Some (Received a r) \<Longrightarrow> sf_mail g q = Some r"
    "\<And>q r. fs q = Some (Led r) \<Longrightarrow> result_of (sf_calls g q) r"
  shows "sf_results_ok (g, fs, s)"
  using assms unfolding sf_results_ok_def prod.case by blast

definition sf_exclusive :: "('a, 'h) sf_state \<Rightarrow> bool" where
  "sf_exclusive s \<longleftrightarrow>
     (case s of (g, fs, _) \<Rightarrow> \<forall>p key. in_flight key (fs p) \<longrightarrow> sf_m g key = Some p)"

lemmas sf_ops = join_call_def lead_call_def clear_call_def deliver_def store_result_def Forget_def

lemma store_result_fields [simp]:
  "cl_chans (store_result zero out c) = cl_chans c" "cl_dups (store_result zero out c) = cl_dups c"
  by (simp_all add: store_result_def split: outcome.splits)

lemma follows_unique: "follows a x \<Longrightarrow> follows b x \<Longrightarrow> a = b"
  by (cases "(a, x)" rule: follows.cases) auto

lemma follows_no_leader: "follows a x \<Longrightarrow> \<not> in_flight key x \<and> \<not> finished_leader x"
  by (cases "(a, x)" rule: follows.cases) auto

lemma in_flight_unfinished: "in_flight key x \<Longrightarrow> \<not> finished_leader x"
  by (cases x rule: finished_leader.cases) auto

lemma in_flight_unique: "in_flight key x \<Longrightarrow> in_flight key' x \<Longrightarrow> key = key'"
  by (cases "(key, x)" rule: in_flight.cases) auto

lemma sf_calls_ok_step: "sf_step zero s s' \<Longrightarrow> sf_calls_ok s \<Longrightarrow> sf_calls_ok s'"
proof (induction rule: sf_step.induct)
  case (follow fs p g key a c s)
  note D = sf_calls_okD [OF follow(4)]
  have "in_flight key (fs a)" using D(2) follow(2) .
  moreover have "p \<noteq> a" using calculation follow(1) by auto
  moreover have "sf_calls g p = None" using D(1) [of p] follow(1) by simp
  moreover have "p \<notin> set (chans (sf_calls g b))" "p \<notin> set (to_hand (fs b))" for b
    using D(4,5) [of p b] follow(1) by auto
  ultimately show ?case using follow(1-3)
    by (intro sf_calls_okI)
      (auto simp: sf_ops D(1) dest: D(2-9) in_flight_unfinished split: if_splits)
next
  case (lead fs p g key s)
  note D = sf_calls_okD [OF lead(3)]
  have "sf_calls g p = None" using D(1) [of p] lead(1) by simp
  moreover have "p \<notin> set (chans (sf_calls g b))" "p \<notin> set (to_hand (fs b))" for b
    using D(4,5) [of p b] lead(1) by auto
  ultimately show ?case using lead(1,2)
    by (intro sf_calls_okI)
      (auto simp: sf_ops D(1) dest: D(2-9) split: if_splits)
next
  case (land fs p key g c s out x)
  note D = sf_calls_okD [OF land(3)]
  show ?case using land(1,2)
    by (intro sf_calls_okI)
      (auto simp: D(1) dest: D(2-9) split: if_splits)
next
  case (clear fs p key g c s)
  note D = sf_calls_okD [OF clear(3)]
  show ?case using clear(1,2)
    by (intro sf_calls_okI)
      (auto simp: sf_ops D(1) dest: D(2-9) split: if_splits)
next
  case (hand fs p q qs g c s)
  note D = sf_calls_okD [OF hand(3)]
  have "p \<notin> set qs" using D(8) [of p "q # qs" p] hand(1) by auto
  then show ?case using hand(1,2)
    by (intro sf_calls_okI)
      (auto simp: sf_ops D(1) dest: D(2-9) split: if_splits)
next
  case (led fs p g c s)
  note D = sf_calls_okD [OF led(3)]
  show ?case using led(1,2)
    by (intro sf_calls_okI)
      (auto simp: D(1) dest: D(2-9) split: if_splits)
next
  case (receive fs p a g r s)
  note D = sf_calls_okD [OF receive(3)]
  show ?case using receive(1,2)
    by (intro sf_calls_okI)
      (auto simp: D(1) dest: D(2-9) split: if_splits)
next
  case (abandon fs p a x now e g s)
  note D = sf_calls_okD [OF abandon(3)]
  show ?case using abandon(1,2)
    by (intro sf_calls_okI)
      (auto simp: D(1) dest: D(2-9) split: if_splits)
qed

lemma sf_results_ok_step:
  assumes "sf_step zero s s'" "sf_calls_ok s" "sf_results_ok s"
  shows "sf_results_ok s'"
  using assms
proof (induction rule: sf_step.induct)
  case (follow fs p g key a c s)
  note D = sf_calls_okD [OF follow(4)] and R = sf_results_okD [OF follow(5)]
  have a: "in_flight key (fs a)" "\<not> finished_leader (fs a)" "p \<noteq> a"
    using D(2) follow(1,2) in_flight_unfinished by fastforce+
  have mail: "sf_mail g p = None" using R(3) [of p] follow(1) by (cases "sf_mail g p") auto
  show ?case using follow(1-3) a mail
    by (intro sf_results_okI)
      (auto simp: sf_ops owed_def dest: R split: if_splits)
next
  case (lead fs p g key s)
  note D = sf_calls_okD [OF lead(3)] and R = sf_results_okD [OF lead(4)]
  have "sf_calls g p = None" using D(1) [of p] lead(1) by simp
  moreover have "sf_mail g p = None" using R(3) [of p] lead(1) by (cases "sf_mail g p") auto
  ultimately show ?case using lead(1,2)
    by (intro sf_results_okI)
      (auto simp: sf_ops owed_def dest: R split: if_splits)
next
  case (land fs p key g c s out x)
  note R = sf_results_okD [OF land(4)]
  show ?case using land(1,2)
    by (intro sf_results_okI)
      (auto simp: owed_def dest: R split: if_splits)
next
  case (clear fs p key g c s)
  note R = sf_results_okD [OF clear(4)]
  show ?case using clear(1,2)
    by (intro sf_results_okI)
      (auto simp: sf_ops owed_def dest: R split: if_splits)
next
  case (hand fs p q qs g c s)
  note D = sf_calls_okD [OF hand(3)] and R = sf_results_okD [OF hand(4)]
  have f: "follows p (fs q)" using D(8) hand(1) by simp
  then have uniq: "follows a (fs q) \<longleftrightarrow> a = p" for a using follows_unique by blast
  have same: "\<lparr>res_Val = cl_val c, res_Err = cl_err c, res_Shared = True\<rparr> = r"
    if "fs q = Some (Received p r)" for r
    using R(2) [OF R(6) [OF that]] R(4) [OF R(6) [OF that] f] hand(2) by (cases r) simp
  show ?case using hand(1,2) uniq same
    by (intro sf_results_okI)
      (auto simp: sf_ops owed_def dest: R split: if_splits)
next
  case (led fs p g c s)
  note R = sf_results_okD [OF led(4)]
  show ?case using led(1,2)
    by (intro sf_results_okI)
      (auto simp: owed_def dest: R split: if_splits)
next
  case (receive fs p a g r s)
  note R = sf_results_okD [OF receive(4)]
  show ?case using receive(1,2)
    by (intro sf_results_okI)
      (auto simp: owed_def dest: R split: if_splits)
next
  case (abandon fs p a x now e g s)
  note R = sf_results_okD [OF abandon(4)]
  show ?case using abandon(1,2)
    by (intro sf_results_okI)
      (auto simp: owed_def dest: R split: if_splits)
qed

lemma sf_ok_Forget:
  "sf_calls_ok (g, fs, s) \<Longrightarrow> sf_calls_ok (Forget key g, fs, s)"
  "sf_results_ok (g, fs, s) \<Longrightarrow> sf_results_ok (Forget key g, fs, s)"
  by (auto simp: sf_calls_ok_def sf_results_ok_def owed_def Forget_def)

section \<open>One execution per key\<close>

lemma sf_exclusive_step:
  assumes "sf_step zero s s'" "sf_exclusive s"
  shows "sf_exclusive s'"
  using assms
proof (induction rule: sf_step.induct)
  case (clear fs p key g c s)
  note E = clear(3) [unfolded sf_exclusive_def prod.case, rule_format]
  have "sf_m g key = Some p" using E [of key p] clear(1) by simp
  then have "q = p" if "in_flight key (fs q)" for q using E [OF that] by simp
  then show ?case using clear(1) E by (auto simp: sf_exclusive_def sf_ops split: if_splits)
qed (auto simp: sf_exclusive_def sf_ops split: if_splits)

definition sf_start :: "'h routine \<Rightarrow> ('a, 'h) sf_state" where
  "sf_start rt = (NewSingleflight, Map.empty, rt)"

lemma sf_start_ok: "sf_calls_ok (sf_start rt)" "sf_results_ok (sf_start rt)" "sf_exclusive (sf_start rt)"
  by (simp_all add: sf_start_def NewSingleflight_def sf_calls_ok_def sf_results_ok_def sf_exclusive_def)

lemma sf_reachable_exclusive: "(sf_step zero)\<^sup>*\<^sup>* (sf_start rt) s \<Longrightarrow> sf_exclusive s"
  by (induction rule: rtranclp_induct) (auto intro: sf_start_ok sf_exclusive_step)

lemma sf_reachable_results:
  "(sf_or_forget zero)\<^sup>*\<^sup>* (sf_start rt) s \<Longrightarrow> sf_calls_ok s \<and> sf_results_ok s"
proof (induction rule: rtranclp_induct)
  case (step s s')
  then show ?case
    by (cases s) (auto simp: sf_or_forget_def intro: sf_calls_ok_step sf_results_ok_step sf_ok_Forget)
qed (simp add: sf_start_ok)

end
