(* ===== verification/Routine_Properties.thy ===== *)
theory Routine_Properties
  imports Retry Group Pool Singleflight
begin

text \<open>
  The properties of \<^verbatim>\<open>pkg/routine\<close>: retries, the wait for shutdown, groups, the worker pool
  and the call coordinator. The witnesses use a world whose database counts the calls.
\<close>

section \<open>Retries\<close>

definition demo_count :: "nat \<Rightarrow> nat world" where
  "demo_count n = \<lparr>w_db = n, w_clock = int, w_ticks = 0, w_entropy = (\<lambda>_ _. Inr []), w_draws = 0, w_log = []\<rparr>"

definition demo_env :: retry_env where
  "demo_env = \<lparr>re_Int64N = (\<lambda>_ k. 0), re_timer_first = (\<lambda>_. True), re_oor = (\<lambda>_. 0)\<rparr>"

definition demo_retry :: RetryConfig where
  "demo_retry = \<lparr>ry_MaxAttempts = 0, ry_InitialInterval = 0, ry_BackoffFactor = f64_one, ry_MaxInterval = 0,
     ry_Jitter = True, ry_RetryIf = None\<rparr>"

text \<open>A function that fails until its third call.\<close>

definition third_time :: "ctx \<Rightarrow> nat world \<Rightarrow> unit outcome \<times> nat world" where
  "third_time c w =
     (Returns () (if w_db w = 2 then None else Some (Foreign ''busy'')), w\<lparr>w_db := Suc (w_db w)\<rparr>)"

definition demo_metrics :: metrics where
  "demo_metrics = \<lparr>activeGoroutines = 0, tasksTotal = (\<lambda>_. 0), panicsTotal = 0, taskDuration = (\<lambda>_. 0)\<rparr>"

lemma Background_live: "ctx_Err Background t = None"
  by (simp add: ctx_Err_def Background_def)

lemma demo_env_spec: "Int64N_spec demo_env"
  by (simp add: Int64N_spec_def demo_env_def)

text \<open>
  C23: While the context lives, \<^verbatim>\<open>Retry\<close> calls the function until it succeeds, fails with
  an error that is not to be retried, or has been called \<open>MaxAttempts\<close> times (three by
  default); it returns the last result and has paused in between for the backoff intervals.
\<close>

theorem retry_runs_script:
  assumes "\<forall>t. ctx_Err c t = None" "scripted fn c cnt res"
    and "int k < sint (ry_MaxAttempts (applyDefaults cfg))"
    and "\<forall>j < k. \<exists>err. res (cnt (w_db w) + j) = Some err \<and> retryable cfg err"
    and "int k + 1 = sint (ry_MaxAttempts (applyDefaults cfg)) \<or>
         (\<forall>err. res (cnt (w_db w) + k) = Some err \<longrightarrow> \<not> retryable cfg err)"
  shows "\<exists>w'. Retry env c cfg fn w m =
       (Returns () (res (cnt (w_db w) + k)),
        map (\<lambda>j. sleepDuration env (applyDefaults cfg) (j + 1) (backoff env (applyDefaults cfg) j)) [0..<k],
        w', metricObserveDuration ''retry'' (metricIncTasks ''retry'' m)) \<and>
     cnt (w_db w') = cnt (w_db w) + k + 1"
proof -
  have same: "retryable (applyDefaults cfg) = retryable cfg"
    by (rule ext) (simp add: retryable_def applyDefaults_def)
  have "\<exists>w'. retry_loop env (applyDefaults cfg) c fn 1 (ry_InitialInterval (applyDefaults cfg)) w =
       (Returns () (res (cnt (w_db w) + k)),
        map (\<lambda>j. sleepDuration env (applyDefaults cfg) (unat (1 :: goint) + j)
           ((nextInterval env (applyDefaults cfg) ^^ j) (ry_InitialInterval (applyDefaults cfg)))) [0..<k], w') \<and>
     cnt (w_db w') = cnt (w_db w) + k + 1"
    using assms(1,3-5) by (intro retry_loop_scripted [OF _ assms(2)]) (auto simp: same)
  then show ?thesis by (auto simp: Retry_def Let_def backoff_def add.commute)
qed

theorem retry_runs_script_witness:
  "\<exists>w' ds m. Retry demo_env Background demo_retry third_time (demo_count 0) demo_metrics =
     (Returns () None, ds, w', m) \<and> w_db w' = 3 \<and> length ds = 2"
proof -
  have "\<forall>t. ctx_Err Background t = None" by (simp add: Background_live)
  moreover have "scripted third_time Background id (\<lambda>n. if n = 2 then None else Some (Foreign ''busy''))"
    by (simp add: scripted_def third_time_def)
  ultimately show ?thesis
    using retry_runs_script [of Background third_time id "\<lambda>n. if n = 2 then None else Some (Foreign ''busy'')"
        2 demo_retry "demo_count 0" demo_env demo_metrics]
    by (auto simp: demo_retry_def applyDefaults_def demo_count_def retryable_def f64_one_def)
qed

text \<open>
  Whatever the function and the context do, \<^verbatim>\<open>Retry\<close> calls the function at most
  \<open>MaxAttempts\<close> times, returns what its last call or the context returned, and no pause is
  longer than a quarter above the larger of the initial and the maximal interval.
\<close>

theorem retry_bounded:
  assumes "Retry env c cfg fn w m = (r, ds, w', m')" "counted fn c cnt" "Int64N_spec env"
    and "L = max (sint (ry_InitialInterval (applyDefaults cfg))) (sint (ry_MaxInterval (applyDefaults cfg)))"
    and "L \<le> 2 ^ 62"
  shows "((\<exists>w1. fn c w1 = (r, w')) \<or> (\<exists>t e. ctx_Err c t = Some e \<and> r = Returns () (Some e))) \<and>
     int (cnt (w_db w')) \<le> int (cnt (w_db w)) + sint (ry_MaxAttempts (applyDefaults cfg)) \<and>
     int (length ds) < sint (ry_MaxAttempts (applyDefaults cfg)) \<and>
     (\<forall>d \<in> set ds. sint d \<le> L + L div 4)"
proof -
  let ?cfg = "applyDefaults cfg"
  have loop: "retry_loop env ?cfg c fn 1 (ry_InitialInterval ?cfg) w = (r, ds, w')"
    using assms(1) by (auto simp: Retry_def Let_def split: prod.splits)
  have max: "sint (1 :: goint) \<le> sint (ry_MaxAttempts ?cfg)"
    using applyDefaults_sound(1) [of cfg] by simp
  note s = retry_loop_sound [OF loop assms(2) max]
  have "sint d \<le> L + L div 4" if "d \<in> set ds" for d
  proof -
    obtain i where i: "i < length ds" "d = ds ! i" using \<open>d \<in> set ds\<close> by (auto simp: in_set_conv_nth)
    have "d = sleepDuration env ?cfg (unat (1 :: goint) + i) (backoff env ?cfg i)"
      using retry_loop_sleeps [OF loop _ max] i by (simp add: backoff_def)
    moreover have "sint (backoff env ?cfg i) \<le> L" unfolding assms(4) by (rule backoff_capped)
    moreover have "0 \<le> L" using applyDefaults_sound(3) [of cfg] assms(4) by simp
    ultimately show ?thesis using sleepDuration_bound(1) [OF assms(3)] assms(5) by blast
  qed
  then show ?thesis using s by auto
qed

theorem retry_bounded_witness:
  "\<exists>r ds w' m. Retry demo_env Background demo_retry third_time (demo_count 5) demo_metrics = (r, ds, w', m) \<and>
     w_db w' \<le> 8 \<and> (\<forall>d \<in> set ds. sint d \<le> 6250000000)"
proof -
  obtain r ds w' m where run:
    "Retry demo_env Background demo_retry third_time (demo_count 5) demo_metrics = (r, ds, w', m)"
    by (metis prod_cases4)
  have "counted third_time Background id" by (simp add: counted_def third_time_def)
  from retry_bounded [OF run this demo_env_spec refl] show ?thesis
    unfolding run by (auto simp: demo_retry_def applyDefaults_def demo_count_def f64_one_def second_def millisecond_def)
qed

section \<open>Shutdown\<close>

text \<open>
  C24: When \<^verbatim>\<open>WaitForShutdown\<close> returns nil, there was a moment between its call and its return
  at which no function launched through the package was running and the active count was
  zero; every function launched before the call is over by the return.
\<close>

theorem shutdown_waits:
  assumes "routine_step\<^sup>*\<^sup>* (no_routines h rep) sc" "\<not> rs_waited sc" "routine_step\<^sup>*\<^sup>* sc s"
    and "WaitForShutdown prefer c now s = Some None"
  shows "(\<exists>s0. routine_step\<^sup>*\<^sup>* sc s0 \<and> routine_step\<^sup>*\<^sup>* s0 s \<and>
       (\<forall>p. \<not> tracked (rs_pcs s0 p)) \<and> ActiveCount (rs_state s0) = 0) \<and>
     (\<forall>p. rs_pcs sc p \<noteq> None \<longrightarrow> \<not> tracked (rs_pcs s p))"
  using wait_nil_idle [OF assms] by blast

theorem shutdown_waits_witness:
  "\<exists>sc s. routine_step\<^sup>*\<^sup>* (no_routines (\<lambda>_ _ r. r) ()) sc \<and> routine_step\<^sup>*\<^sup>* sc s \<and>
     tracked (rs_pcs sc 0) \<and> WaitForShutdown True Background 0 sc = None \<and>
     WaitForShutdown True Background 0 s = Some None \<and> \<not> tracked (rs_pcs s 0)"
proof -
  obtain sc s where run: "routine_step\<^sup>*\<^sup>* (no_routines (\<lambda>_ _ r. r) ()) sc" "\<not> rs_waited sc"
      "routine_step\<^sup>*\<^sup>* sc s" "WaitForShutdown True Background 0 s = Some None"
    and sc: "tracked (rs_pcs sc 0)" "WaitForShutdown True Background 0 sc = None"
    using one_routine_waited [of "\<lambda>_ _ r. r" "()" None] by blast
  have "rs_pcs sc 0 \<noteq> None" using sc(1) by (metis gpc_classes(7))
  then have "\<not> tracked (rs_pcs s 0)" using shutdown_waits [OF run] by blast
  then show ?thesis using run sc by blast
qed

text \<open>But a panic may not have been reported yet: the tracker is released before the handler runs.\<close>

theorem panic_report_after_shutdown:
  "\<exists>s. routine_step\<^sup>*\<^sup>* (no_routines h rep) s \<and> WaitForShutdown True Background 0 s = Some None \<and>
     rs_pcs s 0 = Some (Untracked Background (Some r)) \<and> rt_report (rs_state s) = rep"
proof -
  obtain sc s where "routine_step\<^sup>*\<^sup>* (no_routines h rep) sc" "routine_step\<^sup>*\<^sup>* sc s"
      "WaitForShutdown True Background 0 s = Some None" "rt_report (rs_state s) = rep"
      "rs_pcs s 0 = Some (Untracked Background (Some r))"
    using one_routine_waited [of h rep "Some r"] by blast
  then show ?thesis by (intro exI [of _ s]) simp
qed

section \<open>Groups\<close>

text \<open>
  C25: A group with a limit never runs more functions at once than the limit. Once its
  context is done, which it is as soon as one failed task has left \<^verbatim>\<open>recordError\<close>, no task
  that has not yet passed its look at the context runs its function, however the run goes on.
\<close>

theorem group_bounds:
  assumes "group_reachable h (NewGroup c rep opts) (g, ts)" "group_options opts"
  shows "(\<forall>n. gr_limit g = Some n \<longrightarrow> pc_count (\<lambda>x. x = Some InFn) ts \<le> int n) \<and>
     (gr_done g \<noteq> None \<or> (\<exists>q e. failed_with e (ts q)) \<longrightarrow> before_check (ts p) \<longrightarrow>
        (group_step h)\<^sup>*\<^sup>* (g, ts) (g', ts') \<longrightarrow> never_ran (ts' p))"
proof -
  have ok: "group_counts (g, ts)" "group_errors (g, ts)" using group_reachable_ok [OF assms] by auto
  then have fin: "finite (dom ts)" by (simp add: group_counts_def)
  have "pc_count (\<lambda>x. x = Some InFn) ts \<le> pc_count holds_slot ts"
    by (rule pc_count_mono [OF fin]) auto
  then have limit: "pc_count (\<lambda>x. x = Some InFn) ts \<le> int n" if "gr_limit g = Some n" for n
    using ok(1) that by (auto simp: group_counts_def)
  have "gr_done g \<noteq> None" if "failed_with e (ts q)" for q e
    using failed_recorded ok(2) that by blast
  then show ?thesis using limit late_task_never_runs before_check_never_ran by blast
qed

text \<open>A run with limit 1: a task runs, the next one waits, the first fails, the second gets its slot.\<close>

definition two_tasks :: "task \<Rightarrow> task \<Rightarrow> nat \<Rightarrow> task option" where
  "two_tasks x y = [0 \<mapsto> x, 1 \<mapsto> y]"

lemma two_tasks [simp]:
  "two_tasks x y 0 = Some x" "two_tasks x y (Suc 0) = Some y"
  "(two_tasks x y)(0 \<mapsto> z) = two_tasks z y" "(two_tasks x y)(Suc 0 \<mapsto> z) = two_tasks x z"
  "[0 \<mapsto> x, Suc 0 \<mapsto> y] = two_tasks x y"
  by (auto simp: two_tasks_def fun_eq_iff)

lemma waiting_run:
  "\<exists>g. group_reachable h (NewGroup Background () [WithLimit 1]) (g, two_tasks InFn Blocked) \<and>
     gr_limit g = Some 1 \<and> gr_used g = 1 \<and> gr_once g = Unfired"
proof -
  let ?g0 = "NewGroup Background () [WithLimit 1]"
  define g1 where "g1 = wg_Add 1 ?g0"
  define g2 where "g2 = g1\<lparr>gr_used := 1\<rparr>"
  define g3 where "g3 = wg_Add 1 g2"
  have fields: "gr_limit g1 = Some 1" "gr_used g1 = 0" "gr_limit g2 = Some 1" "gr_done g2 = None"
    by (simp_all add: g1_def g2_def wg_Add_def NewGroup_def WithLimit_def)
  have "group_step h (?g0, Map.empty) (g1, [0 \<mapsto> Blocked])"
    using group_step.submit [of Map.empty 0 h ?g0] by (simp add: g1_def NewGroup_def WithLimit_def)
  moreover have "group_step h (g1, [0 \<mapsto> Blocked]) (g2, [0 \<mapsto> Ready])"
    using group_step.acquire [of "[0 \<mapsto> Blocked]" 0 g1 1 h] fields by (simp add: g2_def)
  moreover have "group_step h (g2, [0 \<mapsto> Ready]) (g2, [0 \<mapsto> Checked])"
    using group_step.check [of "[0 \<mapsto> Ready]" 0 g2 h] fields by simp
  moreover have "group_step h (g2, [0 \<mapsto> Checked]) (g2, [0 \<mapsto> InFn])"
    using group_step.start [of "[0 \<mapsto> Checked]" 0 h g2] by simp
  moreover have "group_step h (g2, [0 \<mapsto> InFn]) (g3, two_tasks InFn Blocked)"
    using group_step.submit [of "[0 \<mapsto> InFn]" 1 h g2] fields by (simp add: g3_def)
  ultimately have "group_reachable h ?g0 (g3, two_tasks InFn Blocked)"
    unfolding group_reachable_def by (meson rtranclp.rtrancl_refl rtranclp.rtrancl_into_rtrancl)
  then show ?thesis
    by (intro exI [of _ g3]) (simp add: g3_def g2_def g1_def wg_Add_def NewGroup_def WithLimit_def)
qed

lemma failed_run:
  assumes "gr_limit g = Some 1" "gr_used g = 1" "gr_once g = Unfired"
  shows "\<exists>g'. (group_step h)\<^sup>*\<^sup>* (g, two_tasks InFn Blocked) (g', two_tasks (Released (Some e)) Ready) \<and>
     (group_step h)\<^sup>*\<^sup>* (g', two_tasks (Released (Some e)) Ready) (g', two_tasks (Released (Some e)) (Leaving None))"
proof -
  define g1 where "g1 = once_cancel (once_store e g)"
  define g2 where "g2 = g1\<lparr>gr_used := 0\<rparr>"
  define g3 where "g3 = g2\<lparr>gr_used := 1\<rparr>"
  have fields: "gr_limit g1 = Some 1" "gr_used g1 = 1" "gr_limit g2 = Some 1" "gr_used g2 = 0" "gr_done g3 \<noteq> None"
    using assms once_cancel_fields(1) [of "once_store e g"] by (simp_all add: g1_def g2_def g3_def)
  have "group_step h (g, two_tasks InFn Blocked) (g, two_tasks (Failing e) Blocked)"
    using group_step.fail [of "two_tasks InFn Blocked" 0 h g e] by simp
  moreover have "(group_step h)\<^sup>*\<^sup>* (g, two_tasks (Failing e) Blocked) (g1, two_tasks (Leaving (Some e)) Blocked)"
    using recordError_steps [of "two_tasks (Failing e) Blocked" 0 e g h] assms(3) by (simp add: recordError_def g1_def)
  moreover have "group_step h (g1, two_tasks (Leaving (Some e)) Blocked) (g2, two_tasks (Released (Some e)) Blocked)"
    using group_step.release [of "two_tasks (Leaving (Some e)) Blocked" 0 "Some e" h g1] fields by (simp add: g2_def)
  moreover have "group_step h (g2, two_tasks (Released (Some e)) Blocked) (g3, two_tasks (Released (Some e)) Ready)"
    using group_step.acquire [of "two_tasks (Released (Some e)) Blocked" 1 g2 1 h] fields by (simp add: g3_def)
  moreover have "group_step h (g3, two_tasks (Released (Some e)) Ready) (g3, two_tasks (Released (Some e)) (Leaving None))"
    using group_step.skip [of "two_tasks (Released (Some e)) Ready" 1 g3 h] fields by simp
  ultimately show ?thesis
    by (meson converse_rtranclp_into_rtranclp rtranclp.rtrancl_into_rtrancl r_into_rtranclp)
qed

theorem group_bounds_witness:
  "\<exists>g1 g2. group_reachable (\<lambda>_ _ r. r) (NewGroup Background () [WithLimit 1]) (g1, two_tasks InFn Blocked) \<and>
     gr_limit g1 = Some 1 \<and> pc_count (\<lambda>x. x = Some InFn) (two_tasks InFn Blocked) \<le> int 1 \<and>
     group_reachable (\<lambda>_ _ r. r) (NewGroup Background () [WithLimit 1])
       (g2, two_tasks (Released (Some (Foreign ''busy''))) Ready) \<and>
     (group_step (\<lambda>_ _ r. r))\<^sup>*\<^sup>* (g2, two_tasks (Released (Some (Foreign ''busy''))) Ready)
       (g2, two_tasks (Released (Some (Foreign ''busy''))) (Leaving None)) \<and>
     never_ran (two_tasks (Released (Some (Foreign ''busy''))) (Leaving None) 1)"
proof -
  let ?h = "(\<lambda>_ _ r. r) :: unit PanicHandler"
  let ?G = "NewGroup Background () [WithLimit 1]"
  obtain g1 where g1: "group_reachable ?h ?G (g1, two_tasks InFn Blocked)"
    "gr_limit g1 = Some 1" "gr_used g1 = 1" "gr_once g1 = Unfired"
    using waiting_run by blast
  obtain g2 where g2: "(group_step ?h)\<^sup>*\<^sup>* (g1, two_tasks InFn Blocked) (g2, two_tasks (Released (Some (Foreign ''busy''))) Ready)"
    "(group_step ?h)\<^sup>*\<^sup>* (g2, two_tasks (Released (Some (Foreign ''busy''))) Ready)
       (g2, two_tasks (Released (Some (Foreign ''busy''))) (Leaving None))"
    using failed_run [OF g1(2-4)] by blast
  have reach: "group_reachable ?h ?G (g2, two_tasks (Released (Some (Foreign ''busy''))) Ready)"
    using g1(1) g2(1) unfolding group_reachable_def by (rule rtranclp_trans)
  have "failed_with (Foreign ''busy'') (two_tasks (Released (Some (Foreign ''busy''))) Ready 0)"
    "before_check (two_tasks (Released (Some (Foreign ''busy''))) Ready 1)" by simp_all
  then have "never_ran (two_tasks (Released (Some (Foreign ''busy''))) (Leaving None) 1)"
    using group_bounds [OF reach group_options_limit] g2(2) by blast
  moreover have "pc_count (\<lambda>x. x = Some InFn) (two_tasks InFn Blocked) \<le> int 1"
    using group_bounds [OF g1(1) group_options_limit] g1(2) by blast
  ultimately show ?thesis using g1(1,2) reach g2(2) by blast
qed

text \<open>
  C26: When \<^verbatim>\<open>Wait\<close> returns, every submitted task has ended or was dropped; it returns an
  error exactly when some function failed or panicked, that of such a function, and the
  group's context is done.
\<close>

theorem group_wait_sound:
  assumes "group_reachable h (NewGroup c rep opts) (g, ts)" "group_options opts"
    and "Wait g = Some (r, g')"
  shows "(\<forall>p x. ts p = Some x \<longrightarrow> x = Dropped \<or> (\<exists>e. x = Gone e)) \<and>
     (r \<noteq> None \<longleftrightarrow> (\<exists>p e. ts p = Some (Gone (Some e)))) \<and>
     (\<forall>e. r = Some e \<longrightarrow> (\<exists>p. ts p = Some (Gone (Some e)))) \<and> gr_done g' \<noteq> None"
proof -
  note ok = group_reachable_ok [OF assms(1,2)]
  have wait: "gr_wg g = 0" "r = gr_err g" "g' = cancel g"
    using assms(3) by (auto simp: Wait_def split: if_splits)
  have fin: "finite (dom ts)" and "pc_count pending ts = 0" using ok wait(1) by (auto simp: group_counts_def)
  then have none: "\<not> pending (ts p)" for p using pc_count_zero [of ts pending] by simp
  then have over: "x = Dropped \<or> (\<exists>e. x = Gone e)" if "ts p = Some x" for p x
    using none [of p] that by (cases x) auto
  then have gone: "failed_with e (ts p) \<longleftrightarrow> ts p = Some (Gone (Some e))" for e p
    using none [of p] by (cases "ts p" rule: pending.cases) auto
  have some: "\<exists>p. ts p = Some (Gone (Some e))" if r: "r = Some e" for e
  proof -
    obtain p where "ts p = Some (Cancelling e) \<or> failed_with e (ts p)"
      using first_error_failed [of g ts e] ok r wait(2) by auto
    then show ?thesis using none [of p] gone by auto
  qed
  have none: "r \<noteq> None" if "ts p = Some (Gone (Some e))" for p e
    using failed_recorded [of g ts e p] ok that gone wait(2) by simp
  have "r \<noteq> None \<longleftrightarrow> (\<exists>p e. ts p = Some (Gone (Some e)))" using some none by (metis not_None_eq)
  then show ?thesis using over some unfolding wait(3) by (simp del: not_None_eq)
qed

lemma dropped_run:
  "\<exists>g ts. group_reachable (\<lambda>_ _ r. r) (NewGroup (Background\<lparr>ctx_cancel := Some 0\<rparr>) () [WithLimit 1]) (g, ts) \<and>
     Wait g = Some (None, g) \<and> ts 0 = Some Dropped"
proof -
  define h :: "unit PanicHandler" where "h = (\<lambda>_ _ r. r)"
  define g0 where "g0 = NewGroup (Background\<lparr>ctx_cancel := Some 0\<rparr>) () [WithLimit 1]"
  define g1 where "g1 = g0\<lparr>gr_done := Some (Sentinel ContextCanceled)\<rparr>"
  have g0: "gr_done g0 = None" "gr_limit g0 = Some 1" "gr_wg g0 = 0" "gr_err g0 = None"
    "ctx_Err (gr_ctx g0) 0 = Some (Sentinel ContextCanceled)"
    by (simp_all add: g0_def NewGroup_def WithLimit_def ctx_Err_def Background_def)
  have "group_step h (g0, Map.empty) (g1, Map.empty)"
    unfolding g1_def using g0 by (intro group_step.ctx_done)
  moreover have "group_step h (g1, Map.empty) (wg_Add 1 g1, [0 \<mapsto> Blocked])"
    using group_step.submit [of Map.empty 0 h g1] g0 by (simp add: g1_def)
  moreover have "group_step h (wg_Add 1 g1, [0 \<mapsto> Blocked]) (wg_Add (- 1) (wg_Add 1 g1), [0 \<mapsto> Dropped])"
    using group_step.drop [of "[0 \<mapsto> Blocked]" 0 "wg_Add 1 g1" h] by (simp add: g1_def wg_Add_def)
  moreover have "wg_Add (- 1) (wg_Add 1 g1) = g1" by (simp add: wg_Add_def)
  ultimately have "group_reachable h g0 (g1, [0 \<mapsto> Dropped])"
    unfolding group_reachable_def by (metis rtranclp.rtrancl_refl rtranclp.rtrancl_into_rtrancl)
  moreover have "Wait g1 = Some (None, g1)" using g0 by (simp add: Wait_def g1_def cancel_def)
  ultimately show ?thesis unfolding h_def g0_def by fastforce
qed

theorem group_wait_sound_witness:
  "\<exists>g ts. group_reachable (\<lambda>_ _ r. r) (NewGroup (Background\<lparr>ctx_cancel := Some 0\<rparr>) () [WithLimit 1]) (g, ts) \<and>
     Wait g = Some (None, g) \<and> (\<forall>p e. ts p \<noteq> Some (Gone (Some e)))"
proof -
  obtain g ts where run:
    "group_reachable (\<lambda>_ _ r. r) (NewGroup (Background\<lparr>ctx_cancel := Some 0\<rparr>) () [WithLimit 1]) (g, ts)"
    "Wait g = Some (None, g)" using dropped_run by blast
  from group_wait_sound [OF run(1) group_options_limit run(2)] run show ?thesis by blast
qed

text \<open>
  C27: \<^verbatim>\<open>Wait\<close> can always come to its end: from every reachable state some order of the
  remaining steps finishes all submitted tasks, a limit included.
\<close>

theorem group_wait_returns:
  assumes "group_reachable h (NewGroup c rep opts) (g, ts)" "group_options opts"
  shows "\<exists>g' ts'. (group_step h)\<^sup>*\<^sup>* (g, ts) (g', ts') \<and> Wait g' \<noteq> None"
  using group_can_drain [of g ts h] group_reachable_ok [OF assms] by (auto simp: Wait_def)

theorem group_wait_returns_witness:
  "\<exists>g' ts'. (group_step (\<lambda>_ _ r. r))\<^sup>*\<^sup>*
     (wg_Add 1 (NewGroup Background () [WithLimit 1]), [0 \<mapsto> Blocked]) (g', ts') \<and> Wait g' \<noteq> None"
proof -
  let ?g = "NewGroup Background () [WithLimit 1]"
  have "group_step (\<lambda>_ _ r. r) (?g, Map.empty) (wg_Add 1 ?g, [0 \<mapsto> Blocked])"
    using group_step.submit [of Map.empty 0 "\<lambda>_ _ r. r" ?g] by (simp add: NewGroup_def WithLimit_def)
  then have "group_reachable (\<lambda>_ _ r. r) ?g (wg_Add 1 ?g, [0 \<mapsto> Blocked])"
    by (simp add: group_reachable_def r_into_rtranclp)
  from group_wait_returns [OF this group_options_limit] show ?thesis .
qed

section \<open>The worker pool\<close>

text \<open>
  C28: The pool loses and invents nothing and keeps the order of submission: the accepted
  tasks are those started, in order, followed by the queue; those started are completed or
  in the hands of a worker; the queue keeps its capacity and the workers their number.
\<close>

theorem pool_fifo:
  assumes "pool_reachable n rt opts (p, ws, ss)" "pool_options opts"
  shows "po_accepted p = po_started p @ po_tasks p \<and>
     mset (po_started p) = mset (po_completed p) + in_progress ws \<and>
     int (length (po_tasks p)) \<le> po_queueSize p \<and> int (size (in_progress ws)) \<le> po_workerCount p"
proof -
  have ok: "pool_ok (p, ws, ss)" using assms by (rule pool_reachable_ok)
  then have "finite (dom ws)" "int (card (dom ws)) = po_workerCount p" by (simp_all add: pool_ok_def)
  then have "int (size (in_progress ws)) \<le> po_workerCount p"
    using in_progress_size [of ws] by linarith
  with ok show ?thesis by (simp add: pool_ok_def)
qed

definition demo_task :: "nat poolTask" where
  "demo_task = \<lparr>pt_ctx = Background, pt_fn = 7\<rparr>"

definition demo_routine :: "unit routine" where
  "demo_routine = rs_state (no_routines (\<lambda>_ _ r. r) ())"

lemma demo_pool: "NewPool 1 demo_routine [] =
  \<lparr>po_workerCount = 1, po_queueSize = 100, po_strategy = StrategyBlock, po_tasks = [],
   po_chan_closed = False, po_closed = False, po_wg = 1, po_routine = demo_routine,
   po_accepted = [], po_started = [], po_completed = []\<rparr>"
  by (simp add: NewPool_def)

lemma demo_sending:
  "pool_step\<^sup>*\<^sup>* (pool_start 1 demo_routine [])
     (NewPool 1 demo_routine [], initial_workers (NewPool 1 demo_routine []), [0 \<mapsto> Sending demo_task])"
proof -
  let ?p = "NewPool 1 demo_routine [] :: (nat, unit) pool"
  let ?ws = "initial_workers ?p :: nat \<Rightarrow> nat worker option"
  have "pool_step (?p, ?ws, Map.empty) (?p, ?ws, [0 \<mapsto> Admitted demo_task])"
    using pool_step.submit [of Map.empty 0 ?p ?ws demo_task] by (simp add: submit_check_def demo_pool)
  moreover have "pool_step (?p, ?ws, [0 \<mapsto> Admitted demo_task]) (?p, ?ws, [0 \<mapsto> Sending demo_task])"
    using pool_step.check_ctx [of "[0 \<mapsto> Admitted demo_task]" 0 demo_task ?p ?ws 0]
    by (simp add: submit_ctx_def demo_task_def Background_live)
  ultimately show ?thesis unfolding pool_start_def
    by (meson rtranclp.rtrancl_refl rtranclp.rtrancl_into_rtrancl)
qed

lemma demo_accepted:
  "pool_step\<^sup>*\<^sup>* (pool_start 1 demo_routine [])
     (NewPool 1 demo_routine []\<lparr>po_tasks := [demo_task], po_accepted := [demo_task]\<rparr>,
      initial_workers (NewPool 1 demo_routine []), [0 \<mapsto> Accepted demo_task])"
proof -
  let ?p = "NewPool 1 demo_routine [] :: (nat, unit) pool"
  let ?ws = "initial_workers ?p :: nat \<Rightarrow> nat worker option"
  have "submit_select True 0 demo_task ?p =
      Some (Accepted demo_task, ?p\<lparr>po_tasks := [demo_task], po_accepted := [demo_task]\<rparr>)"
    unfolding demo_pool by (simp add: submit_select_def demo_task_def Background_live)
  then have "pool_step (?p, ?ws, [0 \<mapsto> Sending demo_task])
      (?p\<lparr>po_tasks := [demo_task], po_accepted := [demo_task]\<rparr>, ?ws, [0 \<mapsto> Accepted demo_task])"
    using pool_step.send [of "[0 \<mapsto> Sending demo_task]" 0 demo_task True 0 ?p] by simp
  with demo_sending show ?thesis by (rule rtranclp.rtrancl_into_rtrancl)
qed

theorem pool_fifo_witness:
  "\<exists>p ws ss. pool_reachable 1 demo_routine [] (p, ws, ss) \<and> po_accepted p = [demo_task] \<and>
     po_accepted p = po_started p @ po_tasks p"
proof -
  let ?p = "NewPool 1 demo_routine []\<lparr>po_tasks := [demo_task], po_accepted := [demo_task]\<rparr>"
  have run: "pool_reachable 1 demo_routine []
      (?p, initial_workers (NewPool 1 demo_routine []), [0 \<mapsto> Accepted demo_task])"
    unfolding pool_reachable_def by (rule demo_accepted)
  have "po_accepted ?p = [demo_task]" by simp
  moreover have "po_accepted ?p = po_started ?p @ po_tasks ?p"
    using pool_fifo [OF run pool_options_none] by simp
  ultimately show ?thesis using run by blast
qed

text \<open>
  C29: Once \<^verbatim>\<open>Stop\<close> has closed the queue the workers can bring the pool to its end, and when
  \<^verbatim>\<open>Stop\<close> returns the queue is empty and every accepted task has been executed.
\<close>

theorem pool_stop_drains:
  assumes "pool_reachable n rt opts (p, ws, ss)" "pool_options opts" "po_chan_closed p"
  shows "(\<exists>p' ws'. pool_step\<^sup>*\<^sup>* (p, ws, ss) (p', ws', ss) \<and> Stop_returns p') \<and>
     (Stop_returns p \<longrightarrow> po_tasks p = [] \<and> mset (po_accepted p) = mset (po_completed p))"
proof (intro conjI impI)
  have ok: "pool_ok (p, ws, ss)" using assms(1,2) by (rule pool_reachable_ok)
  show "\<exists>p' ws'. pool_step\<^sup>*\<^sup>* (p, ws, ss) (p', ws', ss) \<and> Stop_returns p'"
    using ok assms(3) by (rule pool_can_drain)
  assume "Stop_returns p"
  then have wg: "pc_count alive ws = 0" and fin: "finite (dom ws)"
    using ok by (simp_all add: Stop_returns_def pool_ok_def)
  have "card (dom ws) \<noteq> 0" using ok by (simp add: pool_ok_def del: card_0_eq card_eq_0_iff)
  then obtain i x where "ws i = Some x" by (metis card.empty domD ex_in_conv)
  moreover have "\<not> alive (ws i)" using wg pc_count_zero [OF fin, of alive] by simp
  ultimately have "ws i = Some Exited" by (cases x) auto
  then show tasks: "po_tasks p = []" using ok by (auto simp: pool_ok_def)
  show "mset (po_accepted p) = mset (po_completed p)"
    using ok tasks in_progress_empty [OF fin wg] by (simp add: pool_ok_def)
qed

lemma demo_stopped:
  "\<exists>p. pool_reachable 1 demo_routine []
     (p, initial_workers (NewPool 1 demo_routine []), [0 \<mapsto> Accepted demo_task]) \<and> po_chan_closed p"
proof -
  let ?p = "NewPool 1 demo_routine []\<lparr>po_tasks := [demo_task], po_accepted := [demo_task]\<rparr>"
  let ?ws = "initial_workers (NewPool 1 demo_routine [] :: (nat, unit) pool) :: nat \<Rightarrow> nat worker option"
  have "pool_step (?p, ?ws, [0 \<mapsto> Accepted demo_task]) (stop_store ?p, ?ws, [0 \<mapsto> Accepted demo_task])"
    by (rule pool_step.stop) (simp add: demo_pool)
  moreover have "pool_step (stop_store ?p, ?ws, [0 \<mapsto> Accepted demo_task])
      (stop_close (stop_store ?p), ?ws, [0 \<mapsto> Accepted demo_task])"
    by (rule pool_step.close) (simp_all add: demo_pool stop_store_def)
  moreover have "po_chan_closed (stop_close (stop_store ?p))" by (simp add: stop_close_def)
  ultimately show ?thesis using demo_accepted unfolding pool_reachable_def
    by (meson rtranclp.rtrancl_into_rtrancl)
qed

theorem pool_stop_drains_witness:
  "\<exists>p ws ss p' ws'. pool_reachable 1 demo_routine [] (p, ws, ss) \<and> ss 0 = Some (Accepted demo_task) \<and>
     pool_step\<^sup>*\<^sup>* (p, ws, ss) (p', ws', ss) \<and> Stop_returns p'"
proof -
  obtain p where run: "pool_reachable 1 demo_routine []
     (p, initial_workers (NewPool 1 demo_routine []), [0 \<mapsto> Accepted demo_task])" "po_chan_closed p"
    using demo_stopped by blast
  from pool_stop_drains [OF run(1) pool_options_none run(2)] have
    "\<exists>p' ws'. pool_step\<^sup>*\<^sup>* (p, initial_workers (NewPool 1 demo_routine []), [0 \<mapsto> Accepted demo_task])
       (p', ws', [0 \<mapsto> Accepted demo_task]) \<and> Stop_returns p'"
    by (rule conjunct1)
  with run(1) show ?thesis by fastforce
qed

text \<open>A submission that has passed the check when the pool stops panics on the closed channel.\<close>

theorem pool_submit_panics:
  "\<exists>p ws ss. pool_reachable 1 demo_routine [] (p, ws, ss) \<and> ss 0 = Some (SendPanic :: nat submitter)"
proof -
  let ?p = "NewPool 1 demo_routine [] :: (nat, unit) pool"
  let ?ws = "initial_workers ?p :: nat \<Rightarrow> nat worker option" and ?ss = "[0 \<mapsto> Sending demo_task]"
  let ?q = "stop_close (stop_store ?p)"
  have "pool_step (?p, ?ws, ?ss) (stop_store ?p, ?ws, ?ss)"
    by (rule pool_step.stop) (simp add: demo_pool)
  moreover have "pool_step (stop_store ?p, ?ws, ?ss) (?q, ?ws, ?ss)"
    by (rule pool_step.close) (simp_all add: demo_pool stop_store_def)
  moreover have "submit_select True 0 demo_task ?q = Some (SendPanic, ?q)"
    unfolding demo_pool by (simp add: submit_select_def stop_close_def stop_store_def demo_task_def Background_live)
  then have "pool_step (?q, ?ws, ?ss) (?q, ?ws, [0 \<mapsto> SendPanic])"
    using pool_step.send [of ?ss 0 demo_task True 0 ?q] by simp
  ultimately have "pool_step\<^sup>*\<^sup>* (pool_start 1 demo_routine []) (?q, ?ws, [0 \<mapsto> SendPanic])"
    using demo_sending by (meson rtranclp.rtrancl_into_rtrancl)
  then show ?thesis unfolding pool_reachable_def
    by (intro exI [of _ ?q] exI [of _ ?ws] exI [of _ "[0 \<mapsto> SendPanic]"] conjI) simp_all
qed

section \<open>Shared calls\<close>

text \<open>
  C30: Without \<^verbatim>\<open>Forget\<close> at most one call of a key is in flight.
\<close>

theorem singleflight_one_execution:
  assumes "(sf_step zero)\<^sup>*\<^sup>* (sf_start rt) (g, fs, s)" "in_flight key (fs p)" "in_flight key (fs q)"
  shows "p = q"
proof -
  have "sf_exclusive (g, fs, s)" using assms(1) by (rule sf_reachable_exclusive)
  note E = this [unfolded sf_exclusive_def prod.case, rule_format]
  show ?thesis using E [OF assms(2)] E [OF assms(3)] by simp
qed

definition led0 :: "nat Singleflight" where
  "led0 = lead_call 0 0 ''k'' NewSingleflight"

lemma demo_lead:
  "(sf_step 0)\<^sup>*\<^sup>* (sf_start demo_routine)
     (led0, [0 \<mapsto> Flying ''k''], demo_routine\<lparr>rt_metrics := metricIncActive (rt_metrics demo_routine)\<rparr>)"
proof -
  have "sf_step 0 (sf_start demo_routine)
     (led0, [0 \<mapsto> Flying ''k''], demo_routine\<lparr>rt_metrics := metricIncActive (rt_metrics demo_routine)\<rparr>)"
    using sf_step.lead [of Map.empty 0 NewSingleflight "''k''" "0 :: nat" demo_routine]
    by (simp add: sf_start_def led0_def NewSingleflight_def)
  then show ?thesis by blast
qed

theorem singleflight_one_execution_witness:
  "\<exists>g fs s. (sf_step (0 :: nat))\<^sup>*\<^sup>* (sf_start demo_routine) (g, fs, s) \<and>
     in_flight ''k'' (fs 0) \<and> (\<forall>q. in_flight ''k'' (fs q) \<longrightarrow> 0 = q)"
proof -
  let ?fs = "[0 \<mapsto> Flying ''k''] :: nat \<Rightarrow> nat flight option"
  have "in_flight ''k'' (?fs 0)" by simp
  from singleflight_one_execution [OF demo_lead this] demo_lead this show ?thesis by blast
qed

text \<open>
  C31: With or without \<^verbatim>\<open>Forget\<close>, a call that followed another and returned its result got
  exactly the value and the error of its leader, marked as shared, after the leader's
  function had ended; and while it waits its leader still owes it the result or has sent it.
\<close>

theorem singleflight_shares_result:
  assumes "(sf_or_forget zero)\<^sup>*\<^sup>* (sf_start rt) (g, fs, s)"
  shows "(fs q = Some (Received a r) \<longrightarrow>
       res_Shared r \<and> result_of (sf_calls g a) r \<and> finished_leader (fs a) \<and>
       (\<forall>r'. fs a = Some (Led r') \<longrightarrow> res_Val r' = res_Val r \<and> res_Err r' = res_Err r)) \<and>
     (fs q = Some (Following a) \<longrightarrow> q \<in> owed (g, fs, s) a \<or> sf_mail g q \<noteq> None)"
proof (intro conjI impI allI)
  have ok: "sf_calls_ok (g, fs, s)" "sf_results_ok (g, fs, s)"
    using sf_reachable_results [OF assms] by simp_all
  note R = sf_results_okD [OF ok(2)]
  {
    assume rec: "fs q = Some (Received a r)"
    show "res_Shared r" "result_of (sf_calls g a) r" "finished_leader (fs a)"
      using R(2,4,5) [OF R(6) [OF rec]] rec by simp_all
    then show "res_Val r' = res_Val r" "res_Err r' = res_Err r" if "fs a = Some (Led r')" for r'
      using R(7) [OF that] by (cases "sf_calls g a"; simp)+
  }
  show "q \<in> owed (g, fs, s) a \<or> sf_mail g q \<noteq> None" if "fs q = Some (Following a)"
    using ok(2) that unfolding sf_results_ok_def by blast
qed

theorem singleflight_shares_result_witness:
  "\<exists>g fs s. (sf_or_forget (0 :: nat))\<^sup>*\<^sup>* (sf_start demo_routine) (g, fs, s) \<and>
     fs 1 = Some (Following 0) \<and> (1 \<in> owed (g, fs, s) 0 \<or> sf_mail g 1 \<noteq> None)"
proof -
  let ?s = "demo_routine\<lparr>rt_metrics := metricIncActive (rt_metrics demo_routine)\<rparr>"
  let ?c = "\<lparr>cl_val = 0 :: nat, cl_err = None, cl_dups = 0, cl_chans = []\<rparr>"
  have "sf_step 0 (led0, [0 \<mapsto> Flying ''k''], ?s)
     (join_call 1 0 ?c led0, [0 \<mapsto> Flying ''k'', 1 \<mapsto> Following 0], ?s)"
    using sf_step.follow [of "[0 \<mapsto> Flying ''k'']" 1 led0 "''k''" 0 ?c 0 ?s]
    by (simp add: led0_def lead_call_def)
  with demo_lead have "(sf_step 0)\<^sup>*\<^sup>* (sf_start demo_routine)
     (join_call 1 0 ?c led0, [0 \<mapsto> Flying ''k'', 1 \<mapsto> Following 0], ?s)"
    by (rule rtranclp.rtrancl_into_rtrancl)
  then have run: "(sf_or_forget 0)\<^sup>*\<^sup>* (sf_start demo_routine)
     (join_call 1 0 ?c led0, [0 \<mapsto> Flying ''k'', 1 \<mapsto> Following 0], ?s)"
    by (rule rtranclp_mono [THEN predicate2D, rotated]) (auto simp: sf_or_forget_def)
  have "[0 \<mapsto> Flying ''k'', 1 \<mapsto> Following 0] 1 = Some (Following 0 :: nat flight)" by simp
  with run singleflight_shares_result [OF run, of 1 0] show ?thesis by blast
qed

text \<open>
  After one \<^verbatim>\<open>Forget\<close> the first call's end removes the entry of the second, so that a third
  starts although nothing has been forgotten since the second did.
\<close>

theorem forget_breaks_next_execution:
  "\<exists>s1 s2 key. (sf_step zero)\<^sup>*\<^sup>* (sf_start rt) s1 \<and>
     (sf_step zero)\<^sup>*\<^sup>* (Forget key (fst s1), snd s1) s2 \<and>
     fst (snd s1) 1 = None \<and> fst (snd s1) 2 = None \<and>
     in_flight key (fst (snd s2) 1) \<and> in_flight key (fst (snd s2) 2)"
proof -
  let ?k = "''k''" and ?c = "\<lparr>cl_val = zero, cl_err = None, cl_dups = 0, cl_chans = []\<rparr>"
  define up where "up = (\<lambda>s :: 'b routine. s\<lparr>rt_metrics := metricIncActive (rt_metrics s)\<rparr>)"
  define g1 where "g1 = lead_call zero 0 ?k NewSingleflight"
  define g2 where "g2 = lead_call zero 1 ?k (Forget ?k g1)"
  define d where "d = store_result zero (Returns zero None) ?c"
  define g3 where "g3 = g2\<lparr>sf_calls := (sf_calls g2)(0 \<mapsto> d)\<rparr>"
  define g4 where "g4 = clear_call 0 ?k d g3"
  define g5 where "g5 = lead_call zero 2 ?k g4"
  define rt3 where "rt3 = execute_metrics Background (Returns zero None) (up (up rt))"
  let ?f1 = "[0 \<mapsto> Flying ?k]" and ?f2 = "[0 \<mapsto> Flying ?k, 1 \<mapsto> Flying ?k]"
  let ?f3 = "[0 \<mapsto> Landed ?k, 1 \<mapsto> Flying ?k]" and ?f4 = "[0 \<mapsto> Handing [], 1 \<mapsto> Flying ?k]"
  let ?f5 = "[0 \<mapsto> Handing [], 1 \<mapsto> Flying ?k, 2 \<mapsto> Flying ?k]"
  have m: "sf_m g1 ?k = Some 0" "sf_calls g1 0 = Some ?c" "sf_m g2 ?k = Some 1" "sf_calls g2 0 = Some ?c"
    "sf_calls g3 0 = Some d" "cl_chans d = []" "sf_m g4 ?k = None"
    by (simp_all add: g1_def g2_def g3_def g4_def d_def lead_call_def Forget_def clear_call_def NewSingleflight_def)
  have "sf_step zero (sf_start rt) (g1, ?f1, up rt)"
    using sf_step.lead [of Map.empty 0 NewSingleflight ?k zero rt]
    by (simp add: sf_start_def g1_def up_def NewSingleflight_def)
  moreover have "sf_step zero (Forget ?k g1, ?f1, up rt) (g2, ?f2, up (up rt))"
    using sf_step.lead [of ?f1 1 "Forget ?k g1" ?k zero "up rt"] by (simp add: g2_def up_def Forget_def)
  moreover have "sf_step zero (g2, ?f2, up (up rt)) (g3, ?f3, rt3)"
    using sf_step.land [of ?f2 0 ?k g2 ?c zero "up (up rt)" "Returns zero None" Background] m
    by (simp add: g3_def d_def rt3_def fun_upd_twist)
  moreover have "sf_step zero (g3, ?f3, rt3) (g4, ?f4, rt3)"
    using sf_step.clear [of ?f3 0 ?k g3 d zero rt3] m by (simp add: g4_def fun_upd_twist)
  moreover have "sf_step zero (g4, ?f4, rt3) (g5, ?f5, up rt3)"
    using sf_step.lead [of ?f4 2 g4 ?k zero rt3] m by (simp add: g5_def up_def)
  ultimately have "(sf_step zero)\<^sup>*\<^sup>* (sf_start rt) (g1, ?f1, up rt)"
    "(sf_step zero)\<^sup>*\<^sup>* (Forget ?k g1, ?f1, up rt) (g5, ?f5, up rt3)"
    by (blast, meson rtranclp.rtrancl_refl rtranclp.rtrancl_into_rtrancl)
  then show ?thesis
    by (intro exI [of _ "(g1, ?f1, up rt)"] exI [of _ "(g5, ?f5, up rt3)"] exI [of _ ?k]) simp
qed

end
