(* ===== verification/Base64.thy ===== *)
theory Base64
  imports Go_Prelude "HOL-Library.Code_Target_Numeral"
begin

text \<open>
  \<^verbatim>\<open>encoding/base64\<close> with the URL-safe alphabet: \<^verbatim>\<open>RawURLEncoding\<close> (no padding) and the
  decoder of \<^verbatim>\<open>URLEncoding\<close> (padding required). The decoders skip carriage returns and
  line feeds and, not being strict, ignore the unused bits of the last character.
\<close>

section \<open>The alphabet\<close>

definition b64_alphabet :: string where
  "b64_alphabet = ''ABCDEFGHIJKLMNOPQRSTUVWXYZabcdefghijklmnopqrstuvwxyz0123456789-_''"

definition b64_char :: "nat \<Rightarrow> char" where
  "b64_char n = b64_alphabet ! n"

definition b64_val :: "char \<Rightarrow> nat option" where
  "b64_val c = (if c \<in> set b64_alphabet
     then Some (length (takeWhile (\<lambda>x. x \<noteq> c) b64_alphabet)) else None)"

section \<open>Encoding and decoding\<close>

text \<open>The four six-bit groups of three bytes, and back.\<close>

definition sextets :: "nat \<Rightarrow> nat \<Rightarrow> nat \<Rightarrow> nat list" where
  "sextets x y z = [x div 4, (x mod 4) * 16 + y div 16, (y mod 16) * 4 + z div 64, z mod 64]"

definition octets :: "nat \<Rightarrow> nat \<Rightarrow> nat \<Rightarrow> nat \<Rightarrow> bytes" where
  "octets a b c d = map char_of [a * 4 + b div 16, (b mod 16) * 16 + c div 4, (c mod 4) * 64 + d]"

fun RawURL_Encode :: "bytes \<Rightarrow> string" where
  "RawURL_Encode (x # y # z # bs) =
     map b64_char (sextets (of_char x) (of_char y) (of_char z)) @ RawURL_Encode bs"
| "RawURL_Encode [x, y] = map b64_char (take 3 (sextets (of_char x) (of_char y) 0))"
| "RawURL_Encode [x] = map b64_char (take 2 (sextets (of_char x) 0 0))"
| "RawURL_Encode [] = []"

fun decode_groups :: "nat list \<Rightarrow> bytes option" where
  "decode_groups (a # b # c # d # vs) = map_option ((@) (octets a b c d)) (decode_groups vs)"
| "decode_groups [a, b, c] = Some (take 2 (octets a b c 0))"
| "decode_groups [a, b] = Some (take 1 (octets a b 0 0))"
| "decode_groups [a] = None"
| "decode_groups [] = Some []"

definition not_newline :: "char \<Rightarrow> bool" where
  "not_newline c \<longleftrightarrow> (of_char c :: nat) \<noteq> 10 \<and> (of_char c :: nat) \<noteq> 13"

fun b64_values :: "string \<Rightarrow> nat list option" where
  "b64_values [] = Some []"
| "b64_values (c # s) = (case b64_val c of None \<Rightarrow> None | Some v \<Rightarrow> map_option ((#) v) (b64_values s))"

definition RawURL_Decode :: "string \<Rightarrow> bytes option" where
  "RawURL_Decode s = Option.bind (b64_values (filter not_newline s)) decode_groups"

text \<open>Padded: whole groups of four characters, the last of which may end in one or two \<^verbatim>\<open>=\<close>.\<close>

definition URL_Decode :: "string \<Rightarrow> bytes option" where
  "URL_Decode s =
     (let t = filter not_newline s;
          body = takeWhile (\<lambda>c. c \<noteq> CHR ''='') t;
          pad = drop (length body) t
      in if length t mod 4 = 0 \<and> pad \<in> {[], ''='', ''==''}
         then Option.bind (b64_values body) decode_groups else None)"

section \<open>Round trips\<close>

lemma b64_alphabet_facts:
  "distinct b64_alphabet" "length b64_alphabet = 64"
  "list_all (\<lambda>c. not_newline c \<and> c \<noteq> CHR ''='') b64_alphabet"
  by code_simp+

lemma takeWhile_neq_nth:
  "distinct xs \<Longrightarrow> n < length xs \<Longrightarrow> takeWhile (\<lambda>x. x \<noteq> xs ! n) xs = take n xs"
  by (rule takeWhile_eq_take_P_nth) (auto simp: nth_eq_iff_index_eq)

lemma b64_val_char: "n < 64 \<Longrightarrow> b64_val (b64_char n) = Some n"
  using takeWhile_neq_nth [OF b64_alphabet_facts(1), of n]
  by (simp add: b64_val_def b64_char_def b64_alphabet_facts(2))

lemma b64_char_plain: "n < 64 \<Longrightarrow> not_newline (b64_char n) \<and> b64_char n \<noteq> CHR ''=''"
  using b64_alphabet_facts(3) by (simp add: b64_char_def list_all_length b64_alphabet_facts(2))

lemma not_newline_pad: "not_newline (CHR ''='')" by code_simp

lemma values_map: "list_all (\<lambda>n. n < 64) ns \<Longrightarrow> b64_values (map b64_char ns) = Some ns"
  by (induction ns) (simp_all add: b64_val_char)

text \<open>The sextets of a whole byte string, of which the encoding is the image.\<close>

fun groups :: "bytes \<Rightarrow> nat list" where
  "groups (x # y # z # bs) = sextets (of_char x) (of_char y) (of_char z) @ groups bs"
| "groups [x, y] = take 3 (sextets (of_char x) (of_char y) 0)"
| "groups [x] = take 2 (sextets (of_char x) 0 0)"
| "groups [] = []"

lemma RawURL_Encode_groups: "RawURL_Encode bs = map b64_char (groups bs)"
  by (induction bs rule: groups.induct) simp_all

lemma div_mod_group:
  "q < k \<Longrightarrow> (a * k + q) div k = a" "q < k \<Longrightarrow> (a * k + q) mod k = q" for a q k :: nat
  by simp_all

lemma div_byte: "n < 256 \<Longrightarrow> n div 4 < 64" "n < 256 \<Longrightarrow> n div 16 < 16" "n < 256 \<Longrightarrow> n div 64 < 4" for n :: nat
  by simp_all

lemma sextets_small:
  assumes "x < 256" "y < 256" "z < 256"
  shows "list_all (\<lambda>n. n < 64) (sextets x y z)"
proof -
  have "x mod 4 < 4" "y mod 16 < 16" by simp_all
  then have "x mod 4 * 16 + y div 16 < 64" "y mod 16 * 4 + z div 64 < 64"
    using div_byte(2) [OF assms(2)] div_byte(3) [OF assms(3)] by linarith+
  then show ?thesis using div_byte(1) [OF assms(1)] by (simp add: sextets_def)
qed

lemma groups_small: "list_all (\<lambda>n. n < 64) (groups bs)"
proof (induction bs rule: groups.induct)
  case (1 x y z bs)
  then show ?case
    using sextets_small [OF of_char_less_256 of_char_less_256 of_char_less_256, of x y z] by simp
next
  case (2 x y)
  show ?case using sextets_small [OF of_char_less_256 of_char_less_256, of 0 x y]
    by (auto simp: list_all_iff dest: in_set_takeD)
next
  case (3 x)
  show ?case using sextets_small [OF of_char_less_256, of 0 0 x]
    by (auto simp: list_all_iff dest: in_set_takeD)
qed simp

lemma octets_sextets:
  assumes "sextets (of_char x) (of_char y) (of_char z) = [a, b, c, d]"
  shows "octets a b c d = [x, y, z]"
proof -
  have "(of_char y :: nat) div 16 < 16" "(of_char z :: nat) div 64 < 4"
    using div_byte of_char_less_256 by blast+
  note less = this
  have "a * 4 + b div 16 = of_char x" "(b mod 16) * 16 + c div 4 = of_char y" "(c mod 4) * 64 + d = of_char z"
    using assms
    by (auto simp: sextets_def div_mult_mod_eq mod_less [OF less(1)] mod_less [OF less(2)]
        div_less [OF less(1)] div_less [OF less(2)])
  then show ?thesis by (simp add: octets_def)
qed

lemma decode_groups_groups: "decode_groups (groups bs) = Some bs"
proof (induction bs rule: groups.induct)
  case (1 x y z bs)
  obtain a b c d where s: "sextets (of_char x) (of_char y) (of_char z) = [a, b, c, d]"
    by (simp add: sextets_def)
  with 1 octets_sextets [OF s] show ?case by simp
next
  case (2 x y)
  obtain a b c d where s: "sextets (of_char x) (of_char y) (of_char (CHR 0x00)) = [a, b, c, d]"
    by (simp add: sextets_def)
  have "octets a b c 0 = octets a b c d" using s by (auto simp: sextets_def)
  with octets_sextets [OF s] s show ?case by simp
next
  case (3 x)
  obtain a b c d where s: "sextets (of_char x) (of_char (CHR 0x00)) (of_char (CHR 0x00)) = [a, b, c, d]"
    by (simp add: sextets_def)
  have "octets a b 0 0 = octets a b c d" using s by (auto simp: sextets_def)
  with octets_sextets [OF s] s show ?case by simp
qed simp

lemma filter_newline_encoded: "filter not_newline (map b64_char (groups bs)) = map b64_char (groups bs)"
  using groups_small [of bs] by (auto simp: filter_id_conv list_all_iff b64_char_plain)

theorem RawURL_roundtrip: "RawURL_Decode (RawURL_Encode bs) = Some bs"
  unfolding RawURL_Decode_def RawURL_Encode_groups filter_newline_encoded
  by (simp add: values_map groups_small decode_groups_groups)

lemma values_bad: "c \<in> set s \<Longrightarrow> b64_val c = None \<Longrightarrow> b64_values s = None"
  by (induction s) (auto split: option.splits)

lemma RawURL_Decode_padded: "CHR ''='' \<in> set s \<Longrightarrow> RawURL_Decode s = None"
proof -
  have "b64_val CHR ''='' = None" by code_simp
  moreover assume "CHR ''='' \<in> set s"
  then have "CHR ''='' \<in> set (filter not_newline s)" by (simp add: not_newline_pad)
  ultimately show ?thesis by (simp add: RawURL_Decode_def values_bad)
qed

text \<open>A token whose padding a client has added.\<close>

definition b64_pad :: "string \<Rightarrow> string" where
  "b64_pad s = s @ replicate ((4 - length s mod 4) mod 4) (CHR ''='')"

lemma length_groups_mod: "length (groups bs) mod 4 \<noteq> 1"
  by (induction bs rule: groups.induct) (simp_all add: sextets_def)

lemma URL_Decode_pad: "URL_Decode (b64_pad (RawURL_Encode bs)) = Some bs"
proof -
  let ?t = "map b64_char (groups bs)" and ?n = "(4 - length (groups bs) mod 4) mod 4"
  have plain: "\<forall>c \<in> set ?t. c \<noteq> CHR ''=''"
    using groups_small [of bs] b64_char_plain by (auto simp: list_all_iff)
  have flt: "filter not_newline (?t @ replicate ?n (CHR ''='')) = ?t @ replicate ?n (CHR ''='')"
    by (simp add: filter_newline_encoded filter_replicate not_newline_pad)
  have tw: "takeWhile (\<lambda>c. c \<noteq> CHR ''='') (?t @ replicate ?n (CHR ''='')) = ?t"
    using plain by (subst takeWhile_append2) (auto simp: takeWhile_replicate)
  have step: "(length (groups bs) + k) mod 4 = (length (groups bs) mod 4 + k) mod 4" for k
    by (simp add: mod_simps)
  have "length (groups bs) mod 4 < 4" by simp
  then consider "length (groups bs) mod 4 = 0" | "length (groups bs) mod 4 = 2" | "length (groups bs) mod 4 = 3"
    using length_groups_mod [of bs] by linarith
  then have n: "(length (groups bs) + ?n) mod 4 = 0 \<and> replicate ?n (CHR ''='') \<in> {[], ''='', ''==''}"
  proof cases
    case 1
    then show ?thesis by simp
  next
    case 2
    then show ?thesis using step [of 2] by (simp add: numeral_2_eq_2)
  next
    case 3
    then show ?thesis using step [of 1] by simp
  qed
  show ?thesis unfolding URL_Decode_def b64_pad_def RawURL_Encode_groups Let_def length_map flt tw
    using n by (simp add: values_map groups_small decode_groups_groups)
qed

end
