(* ===== verification/Pagination.thy ===== *)
theory Pagination
  imports Base64 Go_Errors Go_Strings "HOL-Library.Signed_Division"
begin

text \<open>
  \<^verbatim>\<open>pkg/pagination\<close>: page parameters and results (\<^verbatim>\<open>pagination.go\<close>), sort expressions
  (\<^verbatim>\<open>sort.go\<close>), opaque cursors (\<^verbatim>\<open>cursor.go\<close>) and the scopes for GORM (\<^verbatim>\<open>gorm.go\<close>).
\<close>

section \<open>Pages (pagination.go)\<close>

definition DefaultPage :: goint where "DefaultPage = 1"
definition DefaultPageSize :: goint where "DefaultPageSize = 20"
definition MaxPageSize :: goint where "MaxPageSize = 100"

record Params =
  pa_Page :: goint
  pa_PageSize :: goint

definition Normalize :: "Params \<Rightarrow> Params" where
  "Normalize p0 =
     (let p1 = (if sint (pa_Page p0) < 1 then p0\<lparr>pa_Page := DefaultPage\<rparr> else p0);
          p2 = (if sint (pa_PageSize p1) < 1 then p1\<lparr>pa_PageSize := DefaultPageSize\<rparr> else p1)
      in if sint MaxPageSize < sint (pa_PageSize p2) then p2\<lparr>pa_PageSize := MaxPageSize\<rparr> else p2)"

definition Offset :: "Params \<Rightarrow> goint" where
  "Offset p = (pa_Page p - 1) * pa_PageSize p"

definition Limit :: "Params \<Rightarrow> goint" where
  "Limit p = pa_PageSize p"

record 'a PageResult =
  pr_Items :: "'a list"
  pr_TotalItems :: "64 word"
  pr_TotalPages :: goint
  pr_Page :: goint
  pr_PageSize :: goint
  pr_HasNext :: bool
  pr_HasPrev :: bool

text \<open>Integer division of two's complement numbers truncates.\<close>

definition sdiv64 :: "64 word \<Rightarrow> 64 word \<Rightarrow> 64 word" where
  "sdiv64 a b = word_of_int (sint a sdiv sint b)"

definition NewResult :: "'a list \<Rightarrow> 64 word \<Rightarrow> Params \<Rightarrow> 'a PageResult" where
  "NewResult items totalItems params0 =
     (let params = Normalize params0;
          totalPages = (if 0 < sint (pa_PageSize params)
                        then sdiv64 (totalItems + pa_PageSize params - 1) (pa_PageSize params) else 0)
      in \<lparr>pr_Items = items, pr_TotalItems = totalItems, pr_TotalPages = totalPages,
          pr_Page = pa_Page params, pr_PageSize = pa_PageSize params,
          pr_HasNext = (sint (pa_Page params) < sint totalPages),
          pr_HasPrev = (1 < sint (pa_Page params) \<and> 0 < sint totalPages)\<rparr>)"

section \<open>Sorting (sort.go)\<close>

datatype OrderDirection = OrderAsc | OrderDesc | OrderOther string

record SortCriteria =
  so_Field :: string
  so_Order :: OrderDirection

record Sort =
  so_Criteria :: "SortCriteria list"

definition TrimPrefix1 :: "string \<Rightarrow> char \<Rightarrow> string" where
  "TrimPrefix1 s c = (if HasPrefix s [c] then tl s else s)"

text \<open>\<^verbatim>\<open>strings.ToUpper\<close>, through the Unicode tables on non-ASCII strings like \<open>ToLower\<close>.\<close>

definition upper_byte :: "char \<Rightarrow> char" where
  "upper_byte c = (if 97 \<le> (of_char c :: nat) \<and> (of_char c :: nat) \<le> 122
                   then char_of ((of_char c :: nat) - 32) else c)"

definition ToUpper :: "(string \<Rightarrow> string) \<Rightarrow> string \<Rightarrow> string" where
  "ToUpper uni s = (if ascii s then map upper_byte s else uni s)"

definition is_separator :: "char \<Rightarrow> bool" where
  "is_separator c \<longleftrightarrow> c \<in> set '':. ''"

text \<open>One token of the query, already trimmed: the criterion it adds, if any.\<close>

definition parse_direction :: "(string \<Rightarrow> string) \<Rightarrow> string \<Rightarrow> SortCriteria option" where
  "parse_direction uni token =
     (let (field, order) =
        (if list_ex is_separator token
         then (TrimSpace (takeWhile (\<lambda>c. \<not> is_separator c) token),
               if ToUpper uni (TrimSpace (tl (dropWhile (\<lambda>c. \<not> is_separator c) token))) = ''DESC''
               then OrderDesc else OrderAsc)
         else (token, OrderAsc))
      in if field \<noteq> [] then Some \<lparr>so_Field = field, so_Order = order\<rparr> else None)"

definition parse_token :: "(string \<Rightarrow> string) \<Rightarrow> string \<Rightarrow> SortCriteria option" where
  "parse_token uni token =
     (if token = [] then None
      else if HasPrefix token ''-'' \<and> TrimPrefix1 token (CHR ''-'') \<noteq> []
      then Some \<lparr>so_Field = TrimPrefix1 token (CHR ''-''), so_Order = OrderDesc\<rparr>
      else if HasPrefix token ''+'' \<and> TrimPrefix1 token (CHR ''+'') \<noteq> []
      then Some \<lparr>so_Field = TrimPrefix1 token (CHR ''+''), so_Order = OrderAsc\<rparr>
      else parse_direction uni token)"

definition ParseSort :: "(string \<Rightarrow> string) \<Rightarrow> string \<Rightarrow> string \<Rightarrow> OrderDirection \<Rightarrow> Sort" where
  "ParseSort uni query0 defaultField defaultOrder =
     (let query = TrimSpace query0;
          criteria = (if query \<noteq> []
                      then List.map_filter (\<lambda>token. parse_token uni (TrimSpace token)) (Split (CHR '','') query)
                      else [])
      in if criteria = [] \<and> defaultField \<noteq> []
         then \<lparr>so_Criteria = [\<lparr>so_Field = defaultField,
                so_Order = (if defaultOrder \<noteq> OrderDesc then OrderAsc else defaultOrder)\<rparr>]\<rparr>
         else \<lparr>so_Criteria = criteria\<rparr>)"

definition sql_dir :: "OrderDirection \<Rightarrow> string" where
  "sql_dir d = (if d = OrderDesc then ''DESC'' else ''ASC'')"

text \<open>The loop of \<^verbatim>\<open>SQL\<close>: the column and direction of each clause, \<open>seen\<close> as in the code.\<close>

fun sql_columns ::
  "(string \<Rightarrow> string) \<Rightarrow> (string \<Rightarrow> string option) \<Rightarrow> string set \<Rightarrow> SortCriteria list \<Rightarrow> (string \<times> string) list" where
  "sql_columns uni whitelist seen [] = []"
| "sql_columns uni whitelist seen (c # cs) =
     (case whitelist (ToLower uni (so_Field c)) of
        None \<Rightarrow> sql_columns uni whitelist seen cs
      | Some dbCol \<Rightarrow>
          if dbCol \<in> seen then sql_columns uni whitelist seen cs
          else (dbCol, sql_dir (so_Order c)) # sql_columns uni whitelist (insert dbCol seen) cs)"

definition sql_clause :: "string \<times> string \<Rightarrow> string" where
  "sql_clause cd = fst cd @ '' '' @ snd cd"

definition SQL :: "(string \<Rightarrow> string) \<Rightarrow> Sort \<Rightarrow> (string \<Rightarrow> string option) \<Rightarrow> string" where
  "SQL uni s whitelist =
     Join '', '' (map sql_clause (sql_columns uni whitelist {} (so_Criteria s)))"

section \<open>Cursors (cursor.go)\<close>

record CursorParams =
  cp_Cursor :: string
  cp_Limit :: goint

definition Cursor_Normalize :: "CursorParams \<Rightarrow> CursorParams" where
  "Cursor_Normalize p0 =
     (let p1 = (if sint (cp_Limit p0) < 1 then p0\<lparr>cp_Limit := DefaultPageSize\<rparr> else p0)
      in if sint MaxPageSize < sint (cp_Limit p1) then p1\<lparr>cp_Limit := MaxPageSize\<rparr> else p1)"

record CursorData =
  cd_ID :: string
  cd_CreatedAt :: "time option"

text \<open>
  The JSON codec of \<^verbatim>\<open>CursorData\<close> is an argument: \<open>cj_Marshal\<close>, which does not fail on this
  type, and \<open>cj_Unmarshal\<close>, \<open>None\<close> for its error.
\<close>

record cursor_json =
  cj_Marshal :: "CursorData \<Rightarrow> bytes"
  cj_Unmarshal :: "bytes \<Rightarrow> CursorData option"

definition cursor_json_spec :: "cursor_json \<Rightarrow> CursorData \<Rightarrow> bool" where
  "cursor_json_spec cj d \<longleftrightarrow> cj_Marshal cj d \<noteq> [] \<and> cj_Unmarshal cj (cj_Marshal cj d) = Some d"

text \<open>\<open>id\<close> is the identifier as \<^verbatim>\<open>%v\<close> prints it; only the first timestamp is looked at.\<close>

definition cursor_data :: "string \<Rightarrow> time list \<Rightarrow> CursorData" where
  "cursor_data i createdAt = \<lparr>cd_ID = i, cd_CreatedAt =
     (case createdAt of t # _ \<Rightarrow> if t \<noteq> zero_time then Some t else None | [] \<Rightarrow> None)\<rparr>"

definition EncodeCursor :: "cursor_json \<Rightarrow> string \<Rightarrow> time list \<Rightarrow> string" where
  "EncodeCursor cj i createdAt = RawURL_Encode (cj_Marshal cj (cursor_data i createdAt))"

definition DecodeCursor :: "cursor_json \<Rightarrow> string \<Rightarrow> CursorData option result" where
  "DecodeCursor cj cursorToken =
     (if cursorToken = [] then Inr None
      else
        (case (case RawURL_Decode cursorToken of Some raw \<Rightarrow> Some raw | None \<Rightarrow> URL_Decode cursorToken) of
           None \<Rightarrow> Inl (Sentinel ErrInvalidCursor)
         | Some raw \<Rightarrow>
             (case cj_Unmarshal cj raw of
                None \<Rightarrow> Inl (Sentinel ErrInvalidCursor)
              | Some d \<Rightarrow> Inr (Some d))))"

record 'a CursorResult =
  cr_Items :: "'a list"
  cr_NextCursor :: string
  cr_PrevCursor :: string
  cr_HasNext :: bool
  cr_HasPrev :: bool
  cr_Limit :: goint

definition NewCursorResult ::
  "'a list \<Rightarrow> goint \<Rightarrow> bool \<Rightarrow> ('a \<Rightarrow> string) option \<Rightarrow> 'a CursorResult" where
  "NewCursorResult items limit0 hasMore getCursorFn =
     (let limit = (if sint limit0 < 1 then DefaultPageSize else limit0);
          actualItems = (if hasMore \<and> sint limit < int (length items)
                         then take (nat (sint limit)) items else items);
          (prevCursor, nextCursor) =
            (case getCursorFn of
               Some f \<Rightarrow>
                 if actualItems \<noteq> []
                 then (f (List.hd actualItems), if hasMore then f (last actualItems) else [])
                 else ([], [])
             | None \<Rightarrow> ([], []))
      in \<lparr>cr_Items = actualItems, cr_NextCursor = nextCursor, cr_PrevCursor = prevCursor,
          cr_HasNext = hasMore, cr_HasPrev = (prevCursor \<noteq> []), cr_Limit = limit\<rparr>)"

section \<open>Scopes (gorm.go)\<close>

text \<open>The query builder of GORM, as the three calls the scopes make.\<close>

record 'q query_builder =
  qb_Offset :: "goint \<Rightarrow> 'q \<Rightarrow> 'q"
  qb_Limit :: "goint \<Rightarrow> 'q \<Rightarrow> 'q"
  qb_Order :: "string \<Rightarrow> 'q \<Rightarrow> 'q"

definition GormScope :: "'q query_builder \<Rightarrow> Params \<Rightarrow> 'q \<Rightarrow> 'q" where
  "GormScope qb p0 = (let p = Normalize p0 in (\<lambda>db. qb_Limit qb (Limit p) (qb_Offset qb (Offset p) db)))"

definition GormSortScope ::
  "'q query_builder \<Rightarrow> (string \<Rightarrow> string) \<Rightarrow> Sort \<Rightarrow> (string \<Rightarrow> string option) \<Rightarrow> 'q \<Rightarrow> 'q" where
  "GormSortScope qb uni s whitelist =
     (let orderClause = SQL uni s whitelist
      in (\<lambda>db. if orderClause \<noteq> [] then qb_Order qb orderClause db else db))"

section \<open>Facts about pages\<close>

lemma Normalize_bounds:
  "1 \<le> sint (pa_Page (Normalize p))" "1 \<le> sint (pa_PageSize (Normalize p))"
  "sint (pa_PageSize (Normalize p)) \<le> 100"
  by (auto simp: Normalize_def Let_def DefaultPage_def DefaultPageSize_def MaxPageSize_def)

lemma Normalize_id:
  "1 \<le> sint (pa_Page p) \<Longrightarrow> 1 \<le> sint (pa_PageSize p) \<Longrightarrow> sint (pa_PageSize p) \<le> 100 \<Longrightarrow> Normalize p = p"
  by (simp add: Normalize_def MaxPageSize_def)

lemma Normalize_idem [simp]: "Normalize (Normalize p) = Normalize p"
  by (rule Normalize_id) (rule Normalize_bounds)+

lemma ceil_div: "0 \<le> t \<Longrightarrow> 0 < s \<Longrightarrow> (t + s - 1) div s * s \<ge> t \<and> (t + s - 1) div s * s < t + s" for t s :: int
proof -
  assume "0 \<le> t" "0 < s"
  have "(t + s - 1) div s * s = t + s - 1 - (t + s - 1) mod s" by (simp add: minus_mod_eq_div_mult)
  moreover have "0 \<le> (t + s - 1) mod s" "(t + s - 1) mod s < s" using \<open>0 < s\<close> by simp_all
  ultimately show ?thesis by linarith
qed

end
