(* ===== verification/Pagination_Properties.thy ===== *)
theory Pagination_Properties
  imports Pagination Reference_Libs
begin

text \<open>
  The properties of \<^verbatim>\<open>pkg/pagination\<close>: the pages cover a list exactly once, the ORDER BY
  clause is made of whitelisted columns only, and a cursor decodes to what it encodes.
\<close>

section \<open>Pages\<close>

text \<open>The rows a query with the given offset and limit returns.\<close>

definition page_of :: "'a list \<Rightarrow> Params \<Rightarrow> 'a list" where
  "page_of xs p = take (nat (sint (Limit p))) (drop (nat (sint (Offset p))) xs)"

definition nth_page :: "'a list \<Rightarrow> goint \<Rightarrow> nat \<Rightarrow> 'a list" where
  "nth_page xs n k = page_of xs \<lparr>pa_Page = word_of_int (int (Suc k)), pa_PageSize = n\<rparr>"

lemma chunks_concat: "concat (map (\<lambda>k. take n (drop (k * n) xs)) [0..<m]) = take (m * n) xs"
proof (induction m)
  case (Suc m)
  have "take (Suc m * n) xs = take (m * n) xs @ take n (drop (m * n) xs)"
    using take_add [of "m * n" n xs] by (simp add: add.commute)
  with Suc show ?case by simp
qed simp

lemma sint_word_of_int_nonneg: "0 \<le> i \<Longrightarrow> i < 2 ^ 63 \<Longrightarrow> sint (word_of_int i :: 64 word) = i"
  by (simp add: sint_sbintrunc' signed_take_bit_int_eq_self_iff)

lemma nth_page_eq:
  assumes "1 \<le> sint n" "int (Suc k) * sint n < 2 ^ 63"
  shows "nth_page xs n k = take (nat (sint n)) (drop (k * nat (sint n)) xs)"
proof -
  have le: "int k * sint n < 2 ^ 63" using assms by (simp add: algebra_simps)
  have "word_of_int (int (Suc k)) - 1 = (word_of_int (int k) :: 64 word)" by simp
  moreover have "word_of_int (int k) * n = (word_of_int (int k * sint n) :: 64 word)"
    by (simp add: wi_hom_mult [symmetric])
  moreover have "sint (word_of_int (int k * sint n) :: 64 word) = int k * sint n"
    using assms(1) le by (intro sint_word_of_int_nonneg) simp_all
  ultimately have "sint (Offset \<lparr>pa_Page = word_of_int (int (Suc k)), pa_PageSize = n\<rparr>) = int k * sint n"
    by (simp add: Offset_def)
  then show ?thesis using assms(1) by (simp add: nth_page_def page_of_def Limit_def nat_mult_distrib)
qed

lemma TotalPages_eq:
  assumes "0 \<le> tot" "tot < 2 ^ 62" "n = sint (pa_PageSize (Normalize p))"
  shows "sint (pr_TotalPages (NewResult items (word_of_int tot) p)) = (tot + n - 1) div n"
proof -
  have n: "1 \<le> n" "n \<le> 100" using Normalize_bounds [of p] assms(3) by simp_all
  define q where "q = (tot + n - 1) div n"
  have q: "0 \<le> q" using assms(1) n by (simp add: q_def pos_imp_zdiv_nonneg_iff)
  have "q * 1 \<le> q * n" using q n by (intro mult_left_mono) simp_all
  then have "q \<le> tot + n - 1" using ceil_div [of tot n] assms(1) n by (simp add: q_def)
  then have sq: "sint (word_of_int q :: 64 word) = q"
    using q assms(2) n by (intro sint_word_of_int_nonneg) simp_all
  have sum: "word_of_int tot + pa_PageSize (Normalize p) - 1 = (word_of_int (tot + n - 1) :: 64 word)"
    by (simp add: assms(3) wi_hom_syms)
  have ssum: "sint (word_of_int (tot + n - 1) :: 64 word) = tot + n - 1"
    using assms n by (intro sint_word_of_int_nonneg) simp_all
  have div: "(tot + n - 1) sdiv n = q"
    using assms(1) n by (simp add: q_def signed_divide_int_def sgn_if)
  have "pr_TotalPages (NewResult items (word_of_int tot) p) =
      sdiv64 (word_of_int tot + pa_PageSize (Normalize p) - 1) (pa_PageSize (Normalize p))"
    using n assms(3) by (simp add: NewResult_def Let_def)
  also have "\<dots> = word_of_int q"
    unfolding sdiv64_def sum ssum assms(3) [symmetric] div ..
  finally show ?thesis using sq unfolding q_def by simp
qed

text \<open>A page starts inside the list exactly when it is one of the pages.\<close>

lemma page_starts:
  fixes n m k x :: int
  assumes "x \<le> m * n" "m * n < x + n" "1 \<le> n"
  shows "k < m \<longleftrightarrow> k * n < x"
proof
  assume "k < m"
  then have "(k + 1) * n \<le> m * n" using assms(3) by (intro mult_right_mono) simp_all
  then show "k * n < x" using assms(2) by (simp add: algebra_simps)
next
  assume "k * n < x"
  then have "k * n < m * n" using assms(1) by simp
  then show "k < m" using assms(3) by simp
qed

text \<open>
  C32: Paging through a list of \<open>total\<close> items, from the first page to \<open>TotalPages\<close>, returns
  every item exactly once and in order; \<open>HasNext\<close> says that items follow the page and
  \<open>HasPrev\<close> that the page is not the first of a list that is not empty.
\<close>

theorem pages_cover:
  assumes "r = NewResult items (word_of_int (int (length xs))) p" "int (length xs) < 2 ^ 62"
  shows "concat (map (nth_page xs (pr_PageSize r)) [0..<nat (sint (pr_TotalPages r))]) = xs \<and>
     (pr_HasNext r \<longleftrightarrow> sint (pr_Page r) * sint (pr_PageSize r) < int (length xs)) \<and>
     (pr_HasPrev r \<longleftrightarrow> 1 < sint (pr_Page r) \<and> xs \<noteq> [])"
proof -
  define n where "n = sint (pa_PageSize (Normalize p))"
  define m where "m = (int (length xs) + n - 1) div n"
  have n: "1 \<le> n" "n \<le> 100" using Normalize_bounds [of p] by (simp_all add: n_def)
  have r: "pr_PageSize r = pa_PageSize (Normalize p)" "pr_Page r = pa_Page (Normalize p)"
    "pr_HasNext r \<longleftrightarrow> sint (pr_Page r) < sint (pr_TotalPages r)"
    "pr_HasPrev r \<longleftrightarrow> 1 < sint (pr_Page r) \<and> 0 < sint (pr_TotalPages r)"
    by (simp_all add: assms(1) NewResult_def Let_def)
  have tp: "sint (pr_TotalPages r) = m"
    unfolding assms(1) m_def using assms(2) by (intro TotalPages_eq) (simp_all add: n_def)
  have ceil: "int (length xs) \<le> m * n" "m * n < int (length xs) + n"
    using ceil_div [of "int (length xs)" n] n by (simp_all add: m_def)
  have m0: "0 \<le> m" unfolding m_def using n by (simp add: pos_imp_zdiv_nonneg_iff)
  note next_iff = page_starts [OF ceil n(1)]
  have "nth_page xs (pr_PageSize r) k = take (nat n) (drop (k * nat n) xs)" if "k < nat m" for k
  proof -
    have "int (Suc k) * n \<le> m * n" using that n m0 by (intro mult_right_mono) auto
    moreover have "m * n < 2 ^ 63" using ceil(2) assms(2) n by simp
    ultimately have "int (Suc k) * n < 2 ^ 63" by (rule le_less_trans)
    then show ?thesis using n(1) unfolding r(1) n_def by (intro nth_page_eq)
  qed
  then have "concat (map (nth_page xs (pr_PageSize r)) [0..<nat m]) = take (nat m * nat n) xs"
    unfolding chunks_concat [symmetric] by (intro arg_cong [where f = concat] map_cong) auto
  moreover have "int (length xs) \<le> int (nat m * nat n)" using ceil(1) n m0 by simp
  then have "length xs \<le> nat m * nat n" by (simp only: of_nat_le_iff)
  ultimately have "concat (map (nth_page xs (pr_PageSize r)) [0..<nat (sint (pr_TotalPages r))]) = xs"
    by (simp add: tp)
  moreover have "pr_HasNext r \<longleftrightarrow> sint (pr_Page r) * sint (pr_PageSize r) < int (length xs)"
    unfolding r(3) tp next_iff by (simp add: r(1) n_def)
  moreover have "0 < m \<longleftrightarrow> xs \<noteq> []" using next_iff [of 0] by simp
  ultimately show ?thesis by (simp add: r(4) tp)
qed

theorem pages_cover_witness:
  "concat (map (nth_page ''abcde'' 2) [0, 1, 2]) = ''abcde'' \<and>
     pr_HasNext (NewResult ''cd'' 5 \<lparr>pa_Page = 2, pa_PageSize = 2\<rparr>)"
proof -
  let ?p = "\<lparr>pa_Page = 2, pa_PageSize = 2\<rparr>"
  have f: "pr_PageSize (NewResult ''cd'' (word_of_int (int (length ''abcde''))) ?p) = 2"
    "sint (pr_TotalPages (NewResult ''cd'' (word_of_int (int (length ''abcde''))) ?p)) = 3"
    "pr_Page (NewResult ''cd'' (word_of_int (int (length ''abcde''))) ?p) = 2"
    by (simp_all add: NewResult_def Normalize_def MaxPageSize_def sdiv64_def)
  have "[0..<nat 3] = [0, 1, 2]" by (simp add: upt_rec)
  then show ?thesis using pages_cover [OF refl, of "''abcde''" "''cd''" ?p] unfolding f by simp
qed

text \<open>
  \<open>Normalize\<close> does not bound the page number, so that the offset of a far page wraps around
  to a negative number.
\<close>

lemma far_page_wraps:
  "sint (Offset (Normalize \<lparr>pa_Page = 2 ^ 60 + 1, pa_PageSize = 8\<rparr>)) < 0"
  by (simp add: Offset_def Normalize_def MaxPageSize_def)

section \<open>Sorting\<close>

definition column_of ::
  "(string \<Rightarrow> string) \<Rightarrow> (string \<Rightarrow> string option) \<Rightarrow> SortCriteria \<Rightarrow> (string \<times> string) option" where
  "column_of uni whitelist c =
     map_option (\<lambda>col. (col, sql_dir (so_Order c))) (whitelist (ToLower uni (so_Field c)))"

lemma sql_columns_spec:
  "distinct (map fst (sql_columns uni wl seen cs)) \<and>
   map_of (sql_columns uni wl seen cs) = map_of (List.map_filter (column_of uni wl) cs) |` (- seen)"
proof (induction cs arbitrary: seen)
  case Nil
  then show ?case by (simp add: map_filter_simps)
next
  case (Cons c cs)
  show ?case
  proof (cases "wl (ToLower uni (so_Field c))")
    case None
    then show ?thesis using Cons by (simp add: map_filter_simps column_of_def)
  next
    case (Some col)
    define m where "m = map_of (List.map_filter (column_of uni wl) cs)"
    let ?d = "sql_dir (so_Order c)"
    have mf: "map_of (List.map_filter (column_of uni wl) (c # cs)) = m(col \<mapsto> ?d)"
      using Some by (simp add: map_filter_simps column_of_def m_def)
    show ?thesis
    proof (cases "col \<in> seen")
      case True
      then have "(m(col \<mapsto> ?d)) |` (- seen) = m |` (- seen)" by (auto simp: restrict_map_def fun_eq_iff)
      then show ?thesis using Cons.IH [of seen, folded m_def] Some True unfolding mf
        by (simp del: fun_upd_apply)
    next
      case False
      note IH = Cons.IH [of "insert col seen", folded m_def]
      have "col \<notin> fst ` set (sql_columns uni wl (insert col seen) cs)"
        using arg_cong [OF conjunct2 [OF IH], of dom] by (auto simp: dom_map_of_conv_image_fst)
      moreover have upd: "(m |` (- insert col seen))(col \<mapsto> ?d) = (m(col \<mapsto> ?d)) |` (- seen)"
        using False by (auto simp: restrict_map_def fun_eq_iff)
      moreover have "sql_columns uni wl seen (c # cs) = (col, ?d) # sql_columns uni wl (insert col seen) cs"
        using Some False by simp
      ultimately show ?thesis using IH unfolding mf upd [symmetric] by simp
    qed
  qed
qed

lemma sql_columns_dirs: "snd ` set (sql_columns uni wl seen cs) \<subseteq> {''ASC'', ''DESC''}"
  by (induction cs arbitrary: seen) (auto simp: sql_dir_def split: option.splits)

text \<open>
  C33: Whatever the client sent, the ORDER BY clause consists of distinct columns that are
  values of the whitelist, each with ASC or DESC, the direction being that of the first
  criterion that names the column.
\<close>

theorem sort_sql_safe:
  "\<exists>cols. SQL uni s whitelist = Join '', '' (map sql_clause cols) \<and>
     distinct (map fst cols) \<and> fst ` set cols \<subseteq> ran whitelist \<and> snd ` set cols \<subseteq> {''ASC'', ''DESC''} \<and>
     map_of cols = map_of (List.map_filter (column_of uni whitelist) (so_Criteria s))"
proof -
  let ?cols = "sql_columns uni whitelist {} (so_Criteria s)"
  have spec: "distinct (map fst ?cols)"
    "map_of ?cols = map_of (List.map_filter (column_of uni whitelist) (so_Criteria s))"
    using sql_columns_spec [of uni whitelist "{}" "so_Criteria s"]
    by (auto simp: restrict_map_def)
  have "fst ` set ?cols = fst ` set (List.map_filter (column_of uni whitelist) (so_Criteria s))"
    using arg_cong [OF spec(2), of dom] by (simp add: dom_map_of_conv_image_fst)
  also have "\<dots> \<subseteq> ran whitelist"
    by (auto simp: map_filter_def column_of_def ran_def)
  finally show ?thesis using spec sql_columns_dirs [of uni whitelist "{}" "so_Criteria s"]
    by (auto simp: SQL_def intro!: exI [of _ ?cols])
qed

section \<open>Cursors\<close>

text \<open>
  C34: A cursor decodes to the identifier and the timestamp it was made of, also when a
  client has added the base64 padding, and the empty token to no cursor.
\<close>

theorem cursor_roundtrip:
  assumes "cursor_json_spec cj (cursor_data i createdAt)"
  shows "DecodeCursor cj (EncodeCursor cj i createdAt) = Inr (Some (cursor_data i createdAt)) \<and>
     DecodeCursor cj (b64_pad (EncodeCursor cj i createdAt)) = Inr (Some (cursor_data i createdAt)) \<and>
     DecodeCursor cj [] = Inr None"
proof -
  define raw where "raw = cj_Marshal cj (cursor_data i createdAt)"
  have raw: "raw \<noteq> []" "cj_Unmarshal cj raw = Some (cursor_data i createdAt)"
    using assms by (simp_all add: cursor_json_spec_def raw_def)
  have ne: "RawURL_Encode raw \<noteq> []"
    using RawURL_roundtrip [of raw] raw(1) by (auto simp: RawURL_Decode_def)
  have "(case RawURL_Decode (b64_pad (RawURL_Encode raw)) of Some x \<Rightarrow> Some x
      | None \<Rightarrow> URL_Decode (b64_pad (RawURL_Encode raw))) = Some raw"
  proof (cases "CHR ''='' \<in> set (b64_pad (RawURL_Encode raw))")
    case True
    then show ?thesis by (simp add: RawURL_Decode_padded URL_Decode_pad)
  next
    case False
    then have "b64_pad (RawURL_Encode raw) = RawURL_Encode raw"
      by (simp add: b64_pad_def split: if_splits)
    then show ?thesis by (simp add: RawURL_roundtrip)
  qed
  moreover have "b64_pad (RawURL_Encode raw) \<noteq> []" using ne by (simp add: b64_pad_def)
  ultimately show ?thesis using ne raw
    by (simp add: DecodeCursor_def EncodeCursor_def RawURL_roundtrip flip: raw_def)
qed

definition demo_cursor_json :: cursor_json where
  "demo_cursor_json =
     \<lparr>cj_Marshal = (\<lambda>d. enc_list [cd_ID d, opt_bytes (cd_CreatedAt d)]),
      cj_Unmarshal = (\<lambda>s. case dec_list [] s of
         Some [i, t] \<Rightarrow> Some \<lparr>cd_ID = i, cd_CreatedAt = bytes_opt t\<rparr> | _ \<Rightarrow> None)\<rparr>"

lemma demo_cursor_json_spec: "cursor_json_spec demo_cursor_json d"
proof -
  have "enc_bytes s \<noteq> []" for s by (cases s) simp_all
  then show ?thesis by (simp add: cursor_json_spec_def demo_cursor_json_def enc_list_def [symmetric])
      (simp add: enc_list_def)
qed

theorem cursor_roundtrip_witness:
  "DecodeCursor demo_cursor_json (EncodeCursor demo_cursor_json ''42'' [1700000000]) =
     Inr (Some \<lparr>cd_ID = ''42'', cd_CreatedAt = Some 1700000000\<rparr>)"
  using cursor_roundtrip [OF demo_cursor_json_spec, of "''42''" "[1700000000]"]
  by (simp add: cursor_data_def zero_time_def second_def)

text \<open>The first page of a cursor query claims to have a predecessor.\<close>

lemma first_window_has_prev:
  "cr_HasPrev (NewCursorResult [x] limit hasMore (Some (\<lambda>_. ''c'')))"
  by (simp add: NewCursorResult_def Let_def DefaultPageSize_def)

end
