(* ===== verification/Http_Header.thy ===== *)
theory Http_Header
  imports Go_Strings
begin

text \<open>
  \<^verbatim>\<open>net/http\<close> headers: a map from canonical keys to their values.
\<close>

type_synonym header = "string \<Rightarrow> string list option"

section \<open>Canonical keys\<close>

definition token_byte :: "char \<Rightarrow> bool" where
  "token_byte c \<longleftrightarrow>
     (let n = of_char c :: nat
      in 48 \<le> n \<and> n \<le> 57 \<or> 65 \<le> n \<and> n \<le> 90 \<or> 97 \<le> n \<and> n \<le> 122 \<or> c \<in> set ''!#$%&*+-.^_`|~'' \<or> n = 39)"

definition raise_byte :: "char \<Rightarrow> char" where
  "raise_byte c = (if 97 \<le> (of_char c :: nat) \<and> (of_char c :: nat) \<le> 122
                   then char_of ((of_char c :: nat) - 32) else c)"

text \<open>The first letter and those after a hyphen in upper case, the others in lower case.\<close>

fun canonical_from :: "bool \<Rightarrow> string \<Rightarrow> string" where
  "canonical_from up [] = []"
| "canonical_from up (c # s) =
     (if up then raise_byte c else lower_byte c) # canonical_from (c = CHR ''-'') s"

definition CanonicalHeaderKey :: "string \<Rightarrow> string" where
  "CanonicalHeaderKey s = (if list_all token_byte s then canonical_from True s else s)"

section \<open>Operations\<close>

definition header_Get :: "header \<Rightarrow> string \<Rightarrow> string" where
  "header_Get h k = (case h (CanonicalHeaderKey k) of Some (v # _) \<Rightarrow> v | _ \<Rightarrow> [])"

definition header_Set :: "string \<Rightarrow> string \<Rightarrow> header \<Rightarrow> header" where
  "header_Set k v h = h(CanonicalHeaderKey k \<mapsto> [v])"

definition header_Add :: "string \<Rightarrow> string \<Rightarrow> header \<Rightarrow> header" where
  "header_Add k v h =
     h(CanonicalHeaderKey k \<mapsto> (case h (CanonicalHeaderKey k) of Some vs \<Rightarrow> vs | None \<Rightarrow> []) @ [v])"

lemma header_Get_Set [simp]: "header_Get (header_Set k v h) k = v"
  by (simp add: header_Get_def header_Set_def)

lemma header_Get_Set_other [simp]:
  "CanonicalHeaderKey k \<noteq> CanonicalHeaderKey l \<Longrightarrow> header_Get (header_Set k v h) l = header_Get h l"
  by (simp add: header_Get_def header_Set_def)

end
