(* ===== verification/Http_Client.thy ===== *)
theory Http_Client
  imports Retry Http_Header
begin

text \<open>
  \<^verbatim>\<open>pkg/httpclient\<close>: the options, the resilient transport and the client's methods. The
  standard \<^verbatim>\<open>http.Transport\<close>, the trace propagator, the URL library and \<^verbatim>\<open>http.Client.Do\<close> are
  arguments.
\<close>

section \<open>Requests and responses\<close>

text \<open>A body that can be read: its bytes, or the error of reading it. No body is \<open>None\<close>.\<close>

type_synonym body = "bytes result"

record http_request =
  rq_Method :: string
  rq_URL :: string
  rq_Header :: header
  rq_Body :: "body option"
  rq_ctx :: ctx

record http_response =
  rp_StatusCode :: int
  rp_Header :: header
  rp_Body :: body

type_synonym 's round_tripper =
  "http_request \<Rightarrow> 's world \<Rightarrow> (http_response option \<times> go_error option) \<times> 's world"

section \<open>Options (options.go)\<close>

text \<open>
  The entries of \<^verbatim>\<open>DefaultHeaders\<close> in the order of an iteration; \<open>hc_Logger\<close> says whether a
  logger is configured.
\<close>

record HttpConfig =
  hc_Timeout :: duration
  hc_MaxIdleConns :: goint
  hc_MaxIdleConnsPerHost :: goint
  hc_MaxConnsPerHost :: goint
  hc_IdleConnTimeout :: duration
  hc_TLSHandshakeTimeout :: duration
  hc_RetryCount :: goint
  hc_RetryWaitMin :: duration
  hc_RetryWaitMax :: duration
  hc_DefaultHeaders :: "(string \<times> string) list"
  hc_Logger :: bool

definition DefaultConfig :: HttpConfig where
  "DefaultConfig =
     \<lparr>hc_Timeout = word_of_int (15 * second), hc_MaxIdleConns = 100, hc_MaxIdleConnsPerHost = 20,
      hc_MaxConnsPerHost = 0, hc_IdleConnTimeout = word_of_int (90 * second),
      hc_TLSHandshakeTimeout = word_of_int (10 * second), hc_RetryCount = 0,
      hc_RetryWaitMin = word_of_int (100 * millisecond), hc_RetryWaitMax = word_of_int (2 * second),
      hc_DefaultHeaders = [], hc_Logger = False\<rparr>"

type_synonym http_option = "HttpConfig \<Rightarrow> HttpConfig"

definition Http_WithTimeout :: "duration \<Rightarrow> http_option" where
  "Http_WithTimeout timeout c = (if 0 < sint timeout then c\<lparr>hc_Timeout := timeout\<rparr> else c)"

definition WithPoolLimits :: "goint \<Rightarrow> goint \<Rightarrow> duration \<Rightarrow> http_option" where
  "WithPoolLimits maxIdleConns maxIdleConnsPerHost idleTimeout c0 =
     (let c1 = (if 0 < sint maxIdleConns then c0\<lparr>hc_MaxIdleConns := maxIdleConns\<rparr> else c0);
          c2 = (if 0 < sint maxIdleConnsPerHost
                then c1\<lparr>hc_MaxIdleConnsPerHost := maxIdleConnsPerHost\<rparr> else c1)
      in if 0 < sint idleTimeout then c2\<lparr>hc_IdleConnTimeout := idleTimeout\<rparr> else c2)"

definition WithRetry :: "goint \<Rightarrow> duration \<Rightarrow> duration \<Rightarrow> http_option" where
  "WithRetry count waitMin waitMax c0 =
     (let c1 = (if 0 < sint count then c0\<lparr>hc_RetryCount := count\<rparr> else c0);
          c2 = (if 0 < sint waitMin then c1\<lparr>hc_RetryWaitMin := waitMin\<rparr> else c1)
      in if 0 < sint waitMax then c2\<lparr>hc_RetryWaitMax := waitMax\<rparr> else c2)"

definition WithDefaultHeader :: "string \<Rightarrow> string \<Rightarrow> http_option" where
  "WithDefaultHeader key v c =
     c\<lparr>hc_DefaultHeaders := filter (\<lambda>(k, _). k \<noteq> key) (hc_DefaultHeaders c) @ [(key, v)]\<rparr>"

definition WithLogger :: "bool \<Rightarrow> http_option" where
  "WithLogger log c = c\<lparr>hc_Logger := log\<rparr>"

record RequestConfig =
  rc_Headers :: header
  rc_QueryParams :: "(string \<times> string) list"

type_synonym RequestOption = "RequestConfig \<Rightarrow> RequestConfig"

definition WithRequestHeader :: "string \<Rightarrow> string \<Rightarrow> RequestOption" where
  "WithRequestHeader key v rc = rc\<lparr>rc_Headers := header_Set key v (rc_Headers rc)\<rparr>"

definition WithQueryParam :: "string \<Rightarrow> string \<Rightarrow> RequestOption" where
  "WithQueryParam key v rc =
     rc\<lparr>rc_QueryParams := filter (\<lambda>(k, _). k \<noteq> key) (rc_QueryParams rc) @ [(key, v)]\<rparr>"

section \<open>The transport (transport.go)\<close>

text \<open>The settings the standard \<^verbatim>\<open>http.Transport\<close> is built with; the proxy comes from the environment.\<close>

record transport_settings =
  ts_DialTimeout :: duration
  ts_KeepAlive :: duration
  ts_ForceAttemptHTTP2 :: bool
  ts_MaxIdleConns :: goint
  ts_MaxIdleConnsPerHost :: goint
  ts_MaxConnsPerHost :: goint
  ts_IdleConnTimeout :: duration
  ts_TLSHandshakeTimeout :: duration
  ts_ExpectContinueTimeout :: duration

definition base_settings :: "HttpConfig \<Rightarrow> transport_settings" where
  "base_settings cfg =
     \<lparr>ts_DialTimeout = word_of_int (10 * second), ts_KeepAlive = word_of_int (30 * second),
      ts_ForceAttemptHTTP2 = True, ts_MaxIdleConns = hc_MaxIdleConns cfg,
      ts_MaxIdleConnsPerHost = hc_MaxIdleConnsPerHost cfg, ts_MaxConnsPerHost = hc_MaxConnsPerHost cfg,
      ts_IdleConnTimeout = hc_IdleConnTimeout cfg, ts_TLSHandshakeTimeout = hc_TLSHandshakeTimeout cfg,
      ts_ExpectContinueTimeout = word_of_int (1 * second)\<rparr>"

text \<open>
  \<open>http_Transport\<close> makes the standard transport; \<open>tr_inject\<close> is the trace propagator; \<open>tr_txt\<close> gives the texts of library errors.\<close>

record 's transport =
  tr_base :: "'s round_tripper"
  tr_config :: HttpConfig
  tr_inject :: "ctx \<Rightarrow> header \<Rightarrow> header"
  tr_txt :: "go_error \<Rightarrow> string"

definition newResilientTransport ::
  "(transport_settings \<Rightarrow> 's round_tripper) \<Rightarrow> (ctx \<Rightarrow> header \<Rightarrow> header) \<Rightarrow> (go_error \<Rightarrow> string) \<Rightarrow>
   HttpConfig \<Rightarrow> 's transport" where
  "newResilientTransport http_Transport inject txt cfg =
     \<lparr>tr_base = http_Transport (base_settings cfg), tr_config = cfg, tr_inject = inject, tr_txt = txt\<rparr>"

definition request_log :: "http_request \<Rightarrow> int \<Rightarrow> http_response option \<Rightarrow> (string \<times> log_value) list" where
  "request_log req micros resp =
     [(''http.client.method'', LStr (rq_Method req)), (''http.client.url'', LStr (rq_URL req)),
      (''http.client.duration_ms'', LMicros micros)]
     @ (case resp of Some r \<Rightarrow> [(''http.client.status_code'', LInt (rp_StatusCode r))] | None \<Rightarrow> [])"

definition executeWithLog :: "'s transport \<Rightarrow> 's round_tripper" where
  "executeWithLog t req w0 =
     (case time_Now w0 of (start, w1) \<Rightarrow>
       (case tr_base t req w1 of ((resp, err), w2) \<Rightarrow>
         (case time_Now w2 of (now, w3) \<Rightarrow>
           (if hc_Logger (tr_config t) then
              (let fields = request_log req ((now - start) sdiv 1000) resp;
                   (level, msg) =
                     (if err \<noteq> None then (ErrorLevel, ''outbound http request failed'')
                      else if (case resp of Some r \<Rightarrow> 400 \<le> rp_StatusCode r | None \<Rightarrow> False)
                      then (WarnLevel, ''outbound http request returned client/server error'')
                      else (DebugLevel, ''outbound http request completed''))
               in ((resp, err), log_write \<lparr>le_level = level, le_fields = fields, le_msg = msg\<rparr> w3))
            else ((resp, err), w3)))))"

text \<open>The codes 502, 503, 504 and 429; an error by its type or its text.\<close>

definition shouldRetry :: "'s transport \<Rightarrow> http_response option \<Rightarrow> go_error option \<Rightarrow> bool" where
  "shouldRetry t resp err =
     (case err of
        Some e \<Rightarrow>
          is_net_error e \<or>
          Contains (error_Error (tr_txt t) e) ''connection refused'' \<or>
          Contains (error_Error (tr_txt t) e) ''connection reset'' \<or>
          Contains (error_Error (tr_txt t) e) ''broken pipe''
      | None \<Rightarrow> (case resp of Some r \<Rightarrow> rp_StatusCode r \<in> {502, 503, 504, 429} | None \<Rightarrow> False))"

text \<open>
  The delay before the next attempt. \<^verbatim>\<open>rand.Int63n\<close> panics on a bound that is not positive,
  so \<open>None\<close> stands for that panic.
\<close>

definition http_backoff :: "retry_env \<Rightarrow> HttpConfig \<Rightarrow> goint \<Rightarrow> duration option" where
  "http_backoff env cfg attempt =
     (let wait0 = hc_RetryWaitMin cfg * push_bit (unat (attempt - 1)) 1;
          wait = (if sint (hc_RetryWaitMax cfg) < sint wait0 then hc_RetryWaitMax cfg else wait0);
          n = word_of_int (sint wait sdiv 5)
      in if sint n \<le> 0 then None else Some (wait + re_Int64N env (unat attempt) n))"

text \<open>The headers set before the first attempt.\<close>

definition default_header :: "string \<times> string \<Rightarrow> header \<Rightarrow> header" where
  "default_header kv h = (if header_Get h (fst kv) = [] then header_Set (fst kv) (snd kv) h else h)"

definition request_id_header :: "ctx \<Rightarrow> header \<Rightarrow> header" where
  "request_id_header c h =
     (if header_Get h ''X-Request-ID'' = [] then
        (case GetRequestID c of
           (reqID, ok) \<Rightarrow> if ok \<and> reqID \<noteq> [] then header_Set ''X-Request-ID'' reqID h else h)
      else h)"

definition outgoing_header :: "'s transport \<Rightarrow> http_request \<Rightarrow> header" where
  "outgoing_header t req =
     request_id_header (rq_ctx req)
       (tr_inject t (rq_ctx req) (fold default_header (hc_DefaultHeaders (tr_config t)) (rq_Header req)))"

text \<open>
  The loop. Besides the result it lists the delays it asked for; \<open>body\<close> is the buffered body.
\<close>

function (sequential) attempt_loop ::
  "retry_env \<Rightarrow> 's transport \<Rightarrow> http_request \<Rightarrow> bytes option \<Rightarrow> goint \<Rightarrow> goint \<Rightarrow>
   http_response option \<times> go_error option \<Rightarrow> 's world \<Rightarrow>
   (http_response option) outcome \<times> duration list \<times> 's world" where
  "attempt_loop env t req body attempts attempt prev w =
     (if sint attempts < sint attempt then (Returns (fst prev) (snd prev), [], w)
      else
        (let req1 = (case body of Some bs \<Rightarrow> req\<lparr>rq_Body := Some (Inr bs)\<rparr> | None \<Rightarrow> req)
         in (case executeWithLog t req1 w of
               ((resp, err), w1) \<Rightarrow>
                 (if \<not> shouldRetry t resp err \<or> attempt = attempts then (Returns resp err, [], w1)
                  else
                    (case http_backoff env (tr_config t) attempt of
                       None \<Rightarrow> (Panics ''invalid argument to Int63n'', [], w1)
                     | Some delay \<Rightarrow>
                         (case pause env (unat attempt) (rq_ctx req) delay w1 of
                            (Some e, w2) \<Rightarrow> (Returns None (Some e), [delay], w2)
                          | (None, w2) \<Rightarrow>
                              (case attempt_loop env t req body attempts (attempt + 1) (resp, err) w2 of
                                 (r, ds, w3) \<Rightarrow> (r, delay # ds, w3))))))))"
  by pat_completeness auto

termination
proof (relation "measure (\<lambda>(_, _, _, _, attempts, attempt, _, _). nat (sint attempts + 1 - sint attempt))")
  fix attempts attempt :: goint and t :: "'s transport" and resp :: "http_response option" and err
  assume "\<not> sint attempts < sint attempt" "\<not> (\<not> shouldRetry t resp err \<or> attempt = attempts)"
  then have "sint attempt < sint attempts"
    by (metis linorder_neqE_linordered_idom signed_word_eqI)
  then show "((env, t, req, body, attempts, attempt + 1, (resp, err), w2), env, t, req, body, attempts, attempt, prev, w)
      \<in> measure (\<lambda>(_, _, _, _, attempts, attempt, _, _). nat (sint attempts + 1 - sint attempt))"
    for env :: retry_env and req :: http_request and body :: "bytes option" and w2 w :: "'s world" and prev
    by (simp add: sint_Suc_64)
qed simp

declare attempt_loop.simps [simp del]

definition RoundTrip ::
  "retry_env \<Rightarrow> 's transport \<Rightarrow> http_request \<Rightarrow> 's world \<Rightarrow>
   (http_response option) outcome \<times> duration list \<times> 's world" where
  "RoundTrip env t req0 w =
     (let req = req0\<lparr>rq_Header := outgoing_header t req0\<rparr>
      in if sint (hc_RetryCount (tr_config t)) \<le> 0
         then (case executeWithLog t req w of ((resp, err), w1) \<Rightarrow> (Returns resp err, [], w1))
         else
           (case rq_Body req of
              Some (Inl err) \<Rightarrow> (Returns None (Some err), [], w)
            | Some (Inr bs) \<Rightarrow>
                attempt_loop env t req (Some bs) (hc_RetryCount (tr_config t) + 1) 1 (None, None) w
            | None \<Rightarrow>
                attempt_loop env t req None (hc_RetryCount (tr_config t) + 1) 1 (None, None) w))"

section \<open>The client (client.go)\<close>

text \<open>
  \<open>hl_add_query\<close> parses the URL, sets the query parameters and prints it; \<open>hl_NewRequest\<close> is
  the error of \<^verbatim>\<open>http.NewRequestWithContext\<close>, if any; \<open>hl_Do\<close> is \<^verbatim>\<open>http.Client.Do\<close> on a
  transport and a timeout.
\<close>

type_synonym 's exchange = "http_request \<Rightarrow> 's world \<Rightarrow> (http_response option) outcome \<times> 's world"

record 's http_libs =
  hl_add_query :: "string \<Rightarrow> (string \<times> string) list \<Rightarrow> string result"
  hl_NewRequest :: "string \<Rightarrow> string \<Rightarrow> go_error option"
  hl_Do :: "'s exchange \<Rightarrow> duration \<Rightarrow> 's exchange"

record 's httpClient =
  hq_transport :: "'s transport"
  hq_Timeout :: duration
  hq_config :: HttpConfig

definition MethodQuery :: string where "MethodQuery = ''QUERY''"

definition Http_New ::
  "(transport_settings \<Rightarrow> 's round_tripper) \<Rightarrow> (ctx \<Rightarrow> header \<Rightarrow> header) \<Rightarrow> (go_error \<Rightarrow> string) \<Rightarrow>
   http_option list \<Rightarrow> 's httpClient" where
  "Http_New http_Transport inject txt opts =
     (let cfg = fold (\<lambda>opt. opt) opts DefaultConfig
      in \<lparr>hq_transport = newResilientTransport http_Transport inject txt cfg, hq_Timeout = hc_Timeout cfg, hq_config = cfg\<rparr>)"

text \<open>The underlying \<^verbatim>\<open>*http.Client\<close>: its transport and its timeout.\<close>

definition StandardClient :: "'s httpClient \<Rightarrow> 's transport \<times> duration" where
  "StandardClient cl = (hq_transport cl, hq_Timeout cl)"

definition Http_Do :: "'s http_libs \<Rightarrow> retry_env \<Rightarrow> 's httpClient \<Rightarrow> 's exchange" where
  "Http_Do hl env cl req w =
     hl_Do hl (\<lambda>req w. case RoundTrip env (hq_transport cl) req w of (r, ds, w1) \<Rightarrow> (r, w1))
       (hq_Timeout cl) req w"

text \<open>Every value of every header of \<open>extra\<close> is added.\<close>

definition header_merge :: "header \<Rightarrow> header \<Rightarrow> header" where
  "header_merge h extra =
     (\<lambda>k. case extra k of
            None \<Rightarrow> h k
          | Some vs \<Rightarrow> (case h k of Some old \<Rightarrow> Some (old @ vs) | None \<Rightarrow> if vs = [] then None else Some vs))"

definition Http_send ::
  "'s http_libs \<Rightarrow> retry_env \<Rightarrow> 's httpClient \<Rightarrow> ctx \<Rightarrow> string \<Rightarrow> string \<Rightarrow> string \<Rightarrow> body option \<Rightarrow>
   RequestOption list \<Rightarrow> 's world \<Rightarrow> (http_response option) outcome \<times> 's world" where
  "Http_send hl env cl c meth targetURL0 contentType body opts w =
     (let rc = fold (\<lambda>opt. opt) opts \<lparr>rc_Headers = Map.empty, rc_QueryParams = []\<rparr>
      in (case (if rc_QueryParams rc \<noteq> [] then hl_add_query hl targetURL0 (rc_QueryParams rc)
                else Inr targetURL0) of
            Inl err \<Rightarrow> (Returns None (Some (Wrapped ''httpclient: invalid url: '' err [])), w)
          | Inr targetURL \<Rightarrow>
              (case hl_NewRequest hl meth targetURL of
                 Some err \<Rightarrow> (Returns None (Some (Wrapped ''httpclient: create request: '' err [])), w)
               | None \<Rightarrow>
                   (let h = (if contentType \<noteq> [] then header_Set ''Content-Type'' contentType Map.empty
                             else Map.empty)
                    in Http_Do hl env cl
                         \<lparr>rq_Method = meth, rq_URL = targetURL, rq_Header = header_merge h (rc_Headers rc),
                          rq_Body = body, rq_ctx = c\<rparr> w))))"

definition Get where
  "Get hl env cl c targetURL opts = Http_send hl env cl c ''GET'' targetURL [] None opts"

definition Post where
  "Post hl env cl c targetURL contentType body opts = Http_send hl env cl c ''POST'' targetURL contentType body opts"

definition Put where
  "Put hl env cl c targetURL contentType body opts = Http_send hl env cl c ''PUT'' targetURL contentType body opts"

definition Patch where
  "Patch hl env cl c targetURL contentType body opts = Http_send hl env cl c ''PATCH'' targetURL contentType body opts"

definition Delete where
  "Delete hl env cl c targetURL opts = Http_send hl env cl c ''DELETE'' targetURL [] None opts"

definition Query where
  "Query hl env cl c targetURL contentType body opts = Http_send hl env cl c MethodQuery targetURL contentType body opts"

text \<open>
  What the JSON methods do with an answer: \<open>target\<close> decodes the body into the value the
  caller supplied, \<open>None\<close> when the caller passed nil. The last component is that value, when
  it has been written.
\<close>

definition read_json ::
  "(bytes \<Rightarrow> 'v result) option \<Rightarrow> (http_response option) outcome \<times> 's world \<Rightarrow>
   (http_response option) outcome \<times> 'v option \<times> 's world" where
  "read_json target xw =
     (case xw of
        (Panics p, w) \<Rightarrow> (Panics p, None, w)
      | (Returns resp (Some err), w) \<Rightarrow> (Returns resp (Some err), None, w)
      | (Returns None None, w) \<Rightarrow> (Panics ''invalid memory address or nil pointer dereference'', None, w)
      | (Returns (Some r) None, w) \<Rightarrow>
          (case target of
             None \<Rightarrow> (Returns (Some r) None, None, w)
           | Some unmarshal \<Rightarrow>
               (case rp_Body r of
                  Inl readErr \<Rightarrow>
                    (Returns (Some r) (Some (Wrapped ''httpclient: read response body: '' readErr [])), None, w)
                | Inr bodyBytes \<Rightarrow>
                    (if bodyBytes = [] then (Returns (Some r) None, None, w)
                     else (case unmarshal bodyBytes of
                             Inl e \<Rightarrow> (Returns (Some r)
                               (Some (Wrapped ''httpclient: unmarshal json response: '' e [])), None, w)
                           | Inr v \<Rightarrow> (Returns (Some r) None, Some v, w))))))"

definition accept_json :: "RequestOption list \<Rightarrow> RequestOption list" where
  "accept_json opts = opts @ [WithRequestHeader ''Accept'' ''application/json'']"

definition GetJSON where
  "GetJSON hl env cl c targetURL target opts w =
     read_json target (Get hl env cl c targetURL (accept_json opts) w)"

text \<open>\<open>payload\<close> is \<open>None\<close> for a nil body, otherwise the result of marshalling it.\<close>

definition PostJSON where
  "PostJSON hl env cl c targetURL payload target opts w =
     (case payload of
        Some (Inl err) \<Rightarrow> (Returns None (Some (Wrapped ''httpclient: marshal request body: '' err [])), None, w)
      | Some (Inr raw) \<Rightarrow>
          read_json target (Post hl env cl c targetURL ''application/json'' (Some (Inr raw)) (accept_json opts) w)
      | None \<Rightarrow>
          read_json target (Post hl env cl c targetURL ''application/json'' None (accept_json opts) w))"

definition QueryJSON where
  "QueryJSON hl env cl c targetURL payload target opts w =
     (case payload of
        Some (Inl err) \<Rightarrow> (Returns None (Some (Wrapped ''httpclient: marshal query payload: '' err [])), None, w)
      | Some (Inr raw) \<Rightarrow>
          read_json target (Query hl env cl c targetURL ''application/json'' (Some (Inr raw)) (accept_json opts) w)
      | None \<Rightarrow>
          read_json target (Query hl env cl c targetURL ''application/json'' None (accept_json opts) w))"

text \<open>The client made with options carries their timeout and hands their pool limits to the transport.\<close>

lemma Http_New_settings:
  "fold (\<lambda>opt. opt) opts DefaultConfig = cfg \<Longrightarrow>
   StandardClient (Http_New http_Transport inject txt opts) =
     (\<lparr>tr_base = http_Transport (base_settings cfg), tr_config = cfg, tr_inject = inject, tr_txt = txt\<rparr>, hc_Timeout cfg)"
  by (simp add: StandardClient_def Http_New_def newResilientTransport_def Let_def)

section \<open>The attempts\<close>

text \<open>\<open>rec\<close> reads from the world the requests the standard transport has been given.\<close>

definition recorded :: "'s transport \<Rightarrow> ('s \<Rightarrow> http_request list) \<Rightarrow> bool" where
  "recorded t rec \<longleftrightarrow> (\<forall>req w. rec (w_db (snd (tr_base t req w))) = rec (w_db w) @ [req])"

lemma executeWithLog_recorded:
  "recorded t rec \<Longrightarrow> executeWithLog t req w = (x, w') \<Longrightarrow> rec (w_db w') = rec (w_db w) @ [req]"
proof -
  assume r: "recorded t rec" and e: "executeWithLog t req w = (x, w')"
  let ?w1 = "w\<lparr>w_ticks := Suc (w_ticks w)\<rparr>"
  obtain resp err w2 where b: "tr_base t req ?w1 = ((resp, err), w2)" by (metis prod.collapse)
  then have "rec (w_db w2) = rec (w_db w) @ [req]"
    using r [unfolded recorded_def, THEN spec, of req, THEN spec, of ?w1] by simp
  then show ?thesis using e b
    by (auto simp: executeWithLog_def time_Now_def Let_def log_write_def split: prod.splits if_splits)
qed

text \<open>What the standard transport has answered to the last request it was given before \<open>w'\<close>.\<close>

definition last_answer ::
  "'s transport \<Rightarrow> ('s \<Rightarrow> http_request list) \<Rightarrow> http_request \<Rightarrow> http_response option \<Rightarrow> go_error option \<Rightarrow>
   's world \<Rightarrow> bool" where
  "last_answer t rec req resp err w' \<longleftrightarrow>
     (\<exists>w wl. tr_base t req w = ((resp, err), wl) \<and> w_db wl = w_db w' \<and> rec (w_db w') = rec (w_db w) @ [req])"

lemma executeWithLog_answer:
  assumes "recorded t rec" "executeWithLog t req w = ((resp, err), w')"
  shows "last_answer t rec req resp err w'"
proof -
  let ?w1 = "w\<lparr>w_ticks := Suc (w_ticks w)\<rparr>"
  obtain resp1 err1 w2 where b: "tr_base t req ?w1 = ((resp1, err1), w2)" by (metis prod.collapse)
  then have "rec (w_db w2) = rec (w_db ?w1) @ [req]"
    using assms(1) [unfolded recorded_def, THEN spec, of req, THEN spec, of ?w1] by simp
  moreover have "resp1 = resp \<and> err1 = err \<and> w_db w2 = w_db w'" using assms(2) b
    by (auto simp: executeWithLog_def time_Now_def Let_def log_write_def split: prod.splits if_splits)
  ultimately show ?thesis using b unfolding last_answer_def by (intro exI [of _ ?w1] exI [of _ w2]) simp
qed

lemma attempt_loop_same_request:
  assumes "attempt_loop env t req body attempts attempt prev w = (r, ds, w')" "recorded t rec"
    and "sint attempt \<le> sint attempts" "case body of Some bs \<Rightarrow> rq_Body req = Some (Inr bs) | None \<Rightarrow> True"
  shows "\<exists>n. rec (w_db w') = rec (w_db w) @ replicate n req \<and> 0 < n \<and> sint attempt + int n \<le> sint attempts + 1 \<and>
     length ds \<le> n \<and> (\<forall>d \<in> set ds. \<exists>a. http_backoff env (tr_config t) a = Some d) \<and>
     (case r of
        Panics p \<Rightarrow> \<exists>k < n. http_backoff env (tr_config t) (attempt + word_of_nat k) = None
      | Returns resp err \<Rightarrow>
          last_answer t rec req resp err w' \<and>
            (\<not> shouldRetry t resp err \<or> sint attempt + int n = sint attempts + 1) \<or>
          (\<exists>e now. resp = None \<and> err = Some e \<and> ctx_Err (rq_ctx req) now = Some e))"
  using assms(1,3)
proof (induction "nat (sint attempts - sint attempt)" arbitrary: attempt prev w r ds w' rule: less_induct)
  case less
  obtain resp err w1 where e: "executeWithLog t req w = ((resp, err), w1)" by (metis prod.collapse)
  have req: "(case body of Some bs \<Rightarrow> req\<lparr>rq_Body := Some (Inr bs)\<rparr> | None \<Rightarrow> req) = req"
    using assms(4) by (cases body) auto
  have rec1: "rec (w_db w1) = rec (w_db w) @ replicate 1 req"
    using executeWithLog_recorded [OF assms(2) e] by simp
  note unf = less(2) [unfolded attempt_loop.simps [of env t req body attempts attempt prev w] Let_def req e]
  show ?case
  proof (cases "\<not> shouldRetry t resp err \<or> attempt = attempts")
    case True
    then have "r = Returns resp err" "ds = []" "w' = w1" using unf less(3) by auto
    then show ?thesis using True rec1 less(3) executeWithLog_answer [OF assms(2) e]
      by (intro exI [of _ 1]) auto
  next
    case False
    then have lt: "sint attempt < sint attempts" using less(3) by (metis order_le_less signed_word_eqI)
    show ?thesis
    proof (cases "http_backoff env (tr_config t) attempt")
      case None
      then have "r = Panics ''invalid argument to Int63n''" "ds = []" "w' = w1" using unf lt False by auto
      then show ?thesis using rec1 None less(3) by (intro exI [of _ 1]) auto
    next
      case (Some delay)
      obtain y w2 where p: "pause env (unat attempt) (rq_ctx req) delay w1 = (y, w2)"
        by (cases "pause env (unat attempt) (rq_ctx req) delay w1")
      show ?thesis
      proof (cases y)
        case (Some e)
        then have "r = Returns None (Some e)" "ds = [delay]" "w' = w2"
          using unf lt False p \<open>http_backoff env (tr_config t) attempt = Some delay\<close> by auto
        moreover obtain now where "ctx_Err (rq_ctx req) now = Some e"
          using p Some pause_error by metis
        ultimately show ?thesis
          using rec1 pause_db [OF p] less(3) \<open>http_backoff env (tr_config t) attempt = Some delay\<close>
          by (intro exI [of _ 1]) auto
      next
        case None
        obtain r' ds' w3 where rest:
          "attempt_loop env t req body attempts (attempt + 1) (resp, err) w2 = (r', ds', w3)"
          by (metis prod_cases3)
        have eq: "r = r'" "ds = delay # ds'" "w' = w3"
          using unf lt False p None rest \<open>http_backoff env (tr_config t) attempt = Some delay\<close> by auto
        note inc = sint_Suc_64 [OF lt]
        have "nat (sint attempts - sint (attempt + 1)) < nat (sint attempts - sint attempt)" using inc lt by simp
        from less(1) [OF this rest] obtain n where n:
          "rec (w_db w3) = rec (w_db w2) @ replicate n req" "0 < n" "sint (attempt + 1) + int n \<le> sint attempts + 1"
          "length ds' \<le> n" "\<forall>d \<in> set ds'. \<exists>a. http_backoff env (tr_config t) a = Some d"
          "case r' of
             Panics p \<Rightarrow> \<exists>k < n. http_backoff env (tr_config t) (attempt + 1 + word_of_nat k) = None
           | Returns resp err \<Rightarrow>
               last_answer t rec req resp err w3 \<and>
                 (\<not> shouldRetry t resp err \<or> sint (attempt + 1) + int n = sint attempts + 1) \<or>
               (\<exists>e now. resp = None \<and> err = Some e \<and> ctx_Err (rq_ctx req) now = Some e)"
          using inc lt by auto
        have "case r' of
             Panics p \<Rightarrow> \<exists>k < Suc n. http_backoff env (tr_config t) (attempt + word_of_nat k) = None
           | Returns resp err \<Rightarrow>
               last_answer t rec req resp err w3 \<and>
                 (\<not> shouldRetry t resp err \<or> sint attempt + int (Suc n) = sint attempts + 1) \<or>
               (\<exists>e now. resp = None \<and> err = Some e \<and> ctx_Err (rq_ctx req) now = Some e)"
          using n(6) inc by (auto simp: add.assoc split: outcome.splits intro: exI [of _ "Suc _"])
        then show ?thesis unfolding eq
          using n(1-5) rec1 pause_db [OF p] inc \<open>http_backoff env (tr_config t) attempt = Some delay\<close>
          by (intro exI [of _ "Suc n"]) auto
      qed
    qed
  qed
qed

end
