(* ===== verification/Http_Properties.thy ===== *)
theory Http_Properties
  imports Http_Client
begin

text \<open>
  The properties of \<^verbatim>\<open>pkg/httpclient\<close>: the attempts of one round trip, the delays between
  them and the configurations for which the delay is computed safely.
\<close>

section \<open>One round trip\<close>







definition zero_env :: retry_env where
  "zero_env = \<lparr>re_Int64N = (\<lambda>_ _. 0), re_timer_first = (\<lambda>_. True), re_oor = (\<lambda>_. 0)\<rparr>"



section \<open>Delays\<close>

lemma sint_64_range: "- (2 ^ 63) \<le> sint (x :: 64 word) \<and> sint x < 2 ^ 63"
  using sint_ge [of x] sint_lt [of x] by simp

lemma sint_shift:
  assumes "0 \<le> sint m" "sint m * 2 ^ k < 2 ^ 63"
  shows "sint (m * push_bit k 1 :: 64 word) = sint m * 2 ^ k"
proof -
  have eq: "m * push_bit k 1 = (word_of_int (sint m * 2 ^ k) :: 64 word)"
    by (simp add: push_bit_eq_mult wi_hom_mult [symmetric])
  show ?thesis unfolding eq
  proof (rule sint_word_of_int_64)
    show "- (2 ^ 63) \<le> sint m * 2 ^ k" using assms(1) by (rule order_trans [rotated, OF mult_nonneg_nonneg]) simp_all
  qed (rule assms(2))
qed

text \<open>
  The delay before attempt \<open>a + 1\<close> is the minimal wait doubled \<open>a - 1\<close> times, capped at the
  maximal wait, and less than a fifth longer, provided both waits are at least five
  nanoseconds and the doubling stays within 63 bits.
\<close>

theorem http_backoff_bounds:
  assumes "Int64N_spec env" "5 \<le> sint (hc_RetryWaitMin cfg)" "5 \<le> sint (hc_RetryWaitMax cfg)"
    and "sint (hc_RetryWaitMax cfg) \<le> 2 ^ 62" "1 \<le> sint a"
    and "sint (hc_RetryWaitMin cfg) * 2 ^ unat (a - 1) < 2 ^ 63"
    and "W = min (sint (hc_RetryWaitMin cfg) * 2 ^ unat (a - 1)) (sint (hc_RetryWaitMax cfg))"
  shows "\<exists>d. http_backoff env cfg a = Some d \<and> W \<le> sint d \<and> sint d < W + W div 5"
proof -
  let ?w0 = "hc_RetryWaitMin cfg * push_bit (unat (a - 1)) 1"
  define wait where "wait = (if sint (hc_RetryWaitMax cfg) < sint ?w0 then hc_RetryWaitMax cfg else ?w0)"
  have w0: "sint ?w0 = sint (hc_RetryWaitMin cfg) * 2 ^ unat (a - 1)"
    using assms(2,6) by (intro sint_shift) simp_all
  then have wait: "sint wait = W" using assms(7) by (simp add: wait_def min_def)
  have "sint (hc_RetryWaitMin cfg) * 1 \<le> sint (hc_RetryWaitMin cfg) * 2 ^ unat (a - 1)"
    using assms(2) by (intro mult_left_mono) simp_all
  then have "5 \<le> sint (hc_RetryWaitMin cfg) * 2 ^ unat (a - 1)" using assms(2) by linarith
  then have W: "5 \<le> W" "W \<le> 2 ^ 62" using assms(3,4,7) by linarith+
  define n where "n = (word_of_int (sint wait sdiv 5) :: 64 word)"
  have n: "sint n = W div 5"
    unfolding n_def wait using W by (subst sint_word_of_int_64) (simp_all add: signed_divide_int_def)
  have pos: "0 < W div 5" using W(1) by simp
  define j where "j = re_Int64N env (unat a) n"
  have j: "0 \<le> sint j" "sint j < W div 5"
    using assms(1) [unfolded Int64N_spec_def, rule_format, of n "unat a"] n pos by (simp_all add: j_def)
  have "sint (wait + j) = W + sint j"
  proof -
    have "W div 5 \<le> 2 ^ 62 div 5" using W(2) by (rule zdiv_mono1) simp
    then have "W + sint j < 2 ^ 63" using W(2) j(2) by simp
    then have "sint (word_of_int (sint wait + sint j) :: 64 word) = W + sint j"
      using W(1) j(1) wait by (subst sint_word_of_int_64) simp_all
    then show ?thesis by (simp add: wi_hom_syms)
  qed
  moreover have "http_backoff env cfg a = (if sint n \<le> 0 then None else Some (wait + j))"
    unfolding http_backoff_def Let_def j_def n_def wait_def by (rule refl)
  ultimately show ?thesis using j n pos by (intro exI [of _ "wait + j"]) simp
qed

theorem http_backoff_bounds_witness:
  "\<exists>d. http_backoff zero_env DefaultConfig 3 = Some d \<and> 400000000 \<le> sint d \<and> sint d < 480000000"
proof -
  have env: "Int64N_spec zero_env" by (simp add: Int64N_spec_def zero_env_def)
  have waits: "sint (hc_RetryWaitMin DefaultConfig) = 100000000"
    "sint (hc_RetryWaitMax DefaultConfig) = 2000000000" "unat (3 - 1 :: goint) = 2"
    by (simp_all add: DefaultConfig_def millisecond_def second_def)
  have "\<exists>d. http_backoff zero_env DefaultConfig 3 = Some d \<and> (400000000 :: int) \<le> sint d \<and>
      sint d < 400000000 + 400000000 div 5"
    by (rule http_backoff_bounds [OF env]) (simp_all only: waits, simp_all)
  then show ?thesis by simp
qed

text \<open>
  Outside these bounds the client panics: with a wait below five nanoseconds at once, and with
  the default waits when the doubling overflows before the 39th attempt.
\<close>

lemma backoff_tiny_wait_panics:
  "hc_RetryWaitMin cfg = 4 \<Longrightarrow> 4 \<le> sint (hc_RetryWaitMax cfg) \<Longrightarrow> http_backoff env cfg 1 = None"
  by (simp add: http_backoff_def Let_def)

lemma backoff_overflow_panics: "http_backoff env DefaultConfig 38 = None"
  by (simp add: http_backoff_def Let_def DefaultConfig_def millisecond_def second_def)

text \<open>The request identifier of the context is passed on unless the request has one already.\<close>

lemma request_id_propagated:
  "GetRequestID c = (i, True) \<Longrightarrow> i \<noteq> [] \<Longrightarrow>
   header_Get (request_id_header c h) ''X-Request-ID'' =
     (if header_Get h ''X-Request-ID'' = [] then i else header_Get h ''X-Request-ID'')"
  by (simp add: request_id_header_def)

end
