(* ===== verification/Utf8.thy ===== *)
theory Utf8
  imports Go_Strings
begin

text \<open>
  \<^verbatim>\<open>unicode/utf8\<close> as the conversions between \<^verbatim>\<open>string\<close> and \<^verbatim>\<open>[]rune\<close> use it: decoding one rune at
  the front of a byte sequence, the runes of a string, and their encoding. A rune is a
  natural number; an invalid byte decodes to U+FFFD with width one.
\<close>

section \<open>Decoding\<close>

definition cont :: "nat \<Rightarrow> nat \<Rightarrow> string \<Rightarrow> bool" where
  "cont lo hi s = (case s of c # _ \<Rightarrow> lo \<le> (of_char c :: nat) \<and> (of_char c :: nat) \<le> hi | [] \<Rightarrow> False)"

definition low6 :: "string \<Rightarrow> nat" where
  "low6 s = (case s of c # _ \<Rightarrow> of_char c mod 64 | [] \<Rightarrow> 0)"

text \<open>The range of the second byte depends on the first one.\<close>

definition second_lo :: "nat \<Rightarrow> nat" where
  "second_lo b = (if b = 224 then 160 else if b = 240 then 144 else 128)"

definition second_hi :: "nat \<Rightarrow> nat" where
  "second_hi b = (if b = 237 then 159 else if b = 244 then 143 else 191)"

definition RuneError :: nat where "RuneError = 65533"

definition rune2 :: "nat \<Rightarrow> string \<Rightarrow> nat" where
  "rune2 b s = (b - 192) * 64 + low6 s"

definition rune3 :: "nat \<Rightarrow> string \<Rightarrow> nat" where
  "rune3 b s = (b - 224) * 4096 + low6 s * 64 + low6 (drop 1 s)"

definition rune4 :: "nat \<Rightarrow> string \<Rightarrow> nat" where
  "rune4 b s = (b - 240) * 262144 + low6 s * 4096 + low6 (drop 1 s) * 64 + low6 (drop 2 s)"

fun DecodeRune :: "string \<Rightarrow> nat \<times> nat" where
  "DecodeRune [] = (RuneError, 0)"
| "DecodeRune (c # s) =
     (let b = of_char c :: nat
      in if b < 128 then (b, 1)
         else if 194 \<le> b \<and> b \<le> 223 \<and> cont 128 191 s then (rune2 b s, 2)
         else if 224 \<le> b \<and> b \<le> 239 \<and> cont (second_lo b) (second_hi b) s \<and> cont 128 191 (drop 1 s)
         then (rune3 b s, 3)
         else if 240 \<le> b \<and> b \<le> 244 \<and> cont (second_lo b) (second_hi b) s \<and> cont 128 191 (drop 1 s) \<and>
                 cont 128 191 (drop 2 s)
         then (rune4 b s, 4)
         else (RuneError, 1))"

lemma DecodeRune_size: "s \<noteq> [] \<Longrightarrow> 1 \<le> snd (DecodeRune s) \<and> snd (DecodeRune s) \<le> length s"
  by (cases s) (auto simp: Let_def cont_def neq_Nil_conv drop_Suc split: list.splits)

text \<open>\<^verbatim>\<open>[]rune(s)\<close>, the runes over which \<^verbatim>\<open>range s\<close> iterates.\<close>

function runes :: "string \<Rightarrow> nat list" where
  "runes s = (if s = [] then [] else fst (DecodeRune s) # runes (drop (snd (DecodeRune s)) s))"
  by pat_completeness auto
termination
  by (relation "measure length") (auto dest: DecodeRune_size)

declare runes.simps [simp del]

section \<open>Encoding\<close>

text \<open>A Unicode scalar value: not a surrogate and not beyond the last plane.\<close>

definition scalar :: "nat \<Rightarrow> bool" where
  "scalar r \<longleftrightarrow> r < 55296 \<or> 57344 \<le> r \<and> r < 1114112"

definition EncodeRune :: "nat \<Rightarrow> string" where
  "EncodeRune r0 =
     (let r = (if scalar r0 then r0 else RuneError)
      in map char_of
           (if r < 128 then [r]
            else if r < 2048 then [192 + r div 64, 128 + r mod 64]
            else if r < 65536 then [224 + r div 4096, 128 + r div 64 mod 64, 128 + r mod 64]
            else [240 + r div 262144, 128 + r div 4096 mod 64, 128 + r div 64 mod 64, 128 + r mod 64]))"

text \<open>\<^verbatim>\<open>string(runes)\<close>.\<close>

definition string_of_runes :: "nat list \<Rightarrow> string" where
  "string_of_runes rs = concat (map EncodeRune rs)"

lemma of_char_small [simp]: "n < 256 \<Longrightarrow> (of_char (char_of n :: char) :: nat) = n"
  by simp

lemma cont_char_of: "n < 256 \<Longrightarrow> cont lo hi (char_of n # s) \<longleftrightarrow> lo \<le> n \<and> n \<le> hi"
  by (simp add: cont_def)

lemma low6_char_of: "n < 256 \<Longrightarrow> low6 (char_of n # s) = n mod 64"
  by (simp add: low6_def)

lemma DecodeRune_char_of:
  "b < 256 \<Longrightarrow> DecodeRune (char_of b # s) =
     (if b < 128 then (b, 1)
      else if 194 \<le> b \<and> b \<le> 223 \<and> cont 128 191 s then (rune2 b s, 2)
      else if 224 \<le> b \<and> b \<le> 239 \<and> cont (second_lo b) (second_hi b) s \<and> cont 128 191 (drop 1 s)
      then (rune3 b s, 3)
      else if 240 \<le> b \<and> b \<le> 244 \<and> cont (second_lo b) (second_hi b) s \<and> cont 128 191 (drop 1 s) \<and>
              cont 128 191 (drop 2 s)
      then (rune4 b s, 4)
      else (RuneError, 1))"
  by (simp add: Let_def)

lemma cont_byte [simp]: "b < 64 \<Longrightarrow> (128 + b) mod 64 = (b :: nat)"
  using mod_mult_self1 [of b 2 64] by (simp add: add.commute)

lemma div_mod_64: "r div 64 * 64 + r mod 64 = (r :: nat)"
  by (rule div_mult_mod_eq)

lemma digits_64: "q * 64 + c = r \<Longrightarrow> a * 64 + b = q \<Longrightarrow> a * 4096 + b * 64 + c = (r :: nat)"
  by simp

lemma div_mod_4096: "r div 4096 * 4096 + r div 64 mod 64 * 64 + r mod 64 = (r :: nat)"
proof (rule digits_64 [OF div_mod_64])
  have "r div 4096 = r div 64 div 64" by (simp add: div_mult2_eq [symmetric])
  then show "r div 4096 * 64 + r div 64 mod 64 = r div 64" by (simp only: div_mod_64)
qed

lemma digits_4096: "q * 4096 + r2 = (r :: nat) \<Longrightarrow> a * 64 + b = q \<Longrightarrow> a * 262144 + b * 4096 + r2 = r"
  by simp

lemma div_mod_262144:
  "r div 262144 * 262144 + r div 4096 mod 64 * 4096 + r div 64 mod 64 * 64 + r mod 64 = (r :: nat)"
proof -
  have "r div 262144 = r div 4096 div 64" by (simp add: div_mult2_eq [symmetric])
  then have "r div 262144 * 64 + r div 4096 mod 64 = r div 4096" by (simp only: div_mod_64)
  moreover have "r div 4096 * 4096 + (r div 64 mod 64 * 64 + r mod 64) = r"
    using div_mod_4096 [of r] by (simp only: add.assoc)
  ultimately show ?thesis using digits_4096 by (simp only: add.assoc [symmetric])
qed

lemma decode_2:
  assumes "128 \<le> r" "r < 2048"
  shows "DecodeRune (EncodeRune r @ s) = (r, length (EncodeRune r))"
proof -
  define a b where ab: "a = r div 64" "b = r mod 64"
  have r: "a * 64 + b = r" by (simp add: ab)
  have "2 \<le> a" "a < 32" "b < 64" using assms r by (simp_all add: ab)
  moreover have "EncodeRune r = [char_of (192 + a), char_of (128 + b)]"
    using assms by (simp add: EncodeRune_def scalar_def ab)
  ultimately show ?thesis using r
    by (simp add: DecodeRune_char_of cont_char_of low6_char_of rune2_def del: DecodeRune.simps)
qed

lemma decode_3:
  assumes "2048 \<le> r" "r < 65536" "scalar r"
  shows "DecodeRune (EncodeRune r @ s) = (r, length (EncodeRune r))"
proof -
  define a b c where abc: "a = r div 4096" "b = r div 64 mod 64" "c = r mod 64"
  have r: "a * 4096 + b * 64 + c = r" by (simp only: abc div_mod_4096)
  have bnd: "a < 16" "b < 64" "c < 64" using assms by (simp_all add: abc)
  have two: "second_lo (224 + a) \<le> 128 + b" "128 + b \<le> second_hi (224 + a)"
    using assms r bnd by (auto simp: second_lo_def second_hi_def scalar_def)
  have "EncodeRune r = [char_of (224 + a), char_of (128 + b), char_of (128 + c)]"
    using assms by (simp add: EncodeRune_def abc)
  then show ?thesis using r bnd two
    by (simp add: DecodeRune_char_of cont_char_of low6_char_of rune3_def del: DecodeRune.simps)
qed

lemma decode_4:
  assumes "65536 \<le> r" "scalar r"
  shows "DecodeRune (EncodeRune r @ s) = (r, length (EncodeRune r))"
proof -
  define a b c d where abcd: "a = r div 262144" "b = r div 4096 mod 64" "c = r div 64 mod 64" "d = r mod 64"
  have r: "a * 262144 + b * 4096 + c * 64 + d = r" by (simp only: abcd div_mod_262144)
  have bnd: "a < 5" "b < 64" "c < 64" "d < 64" using assms by (auto simp: abcd scalar_def)
  have two: "second_lo (240 + a) \<le> 128 + b" "128 + b \<le> second_hi (240 + a)"
    using assms r bnd by (auto simp: second_lo_def second_hi_def scalar_def)
  have "EncodeRune r = [char_of (240 + a), char_of (128 + b), char_of (128 + c), char_of (128 + d)]"
    using assms by (simp add: EncodeRune_def abcd)
  then show ?thesis using r bnd two
    by (simp add: DecodeRune_char_of cont_char_of low6_char_of rune4_def drop_Suc del: DecodeRune.simps)
qed

lemma DecodeRune_EncodeRune:
  assumes "scalar r"
  shows "DecodeRune (EncodeRune r @ s) = (r, length (EncodeRune r))"
proof -
  consider "r < 128" | "128 \<le> r" "r < 2048" | "2048 \<le> r" "r < 65536" | "65536 \<le> r" by linarith
  then show ?thesis
  proof cases
    case 1
    then show ?thesis by (simp add: EncodeRune_def scalar_def)
  qed (use assms in \<open>simp_all add: decode_2 decode_3 decode_4\<close>)
qed

lemma EncodeRune_ne [simp]: "EncodeRune r \<noteq> []"
  by (simp add: EncodeRune_def Let_def)

lemma runes_string_of_runes: "list_all scalar rs \<Longrightarrow> runes (string_of_runes rs) = rs"
proof (induction rs)
  case Nil
  then show ?case by (simp add: string_of_runes_def runes.simps)
next
  case (Cons r rs)
  then show ?case
    by (subst runes.simps) (simp add: string_of_runes_def DecodeRune_EncodeRune)
qed

section \<open>What decoding yields\<close>

lemma low6_less [simp]: "low6 s < 64"
  by (simp add: low6_def split: list.splits)

lemma cont_low6:
  assumes "cont lo hi s" "128 \<le> lo" "hi \<le> 191"
  shows "lo - 128 \<le> low6 s \<and> low6 s \<le> hi - 128"
proof -
  obtain c where c: "lo \<le> (of_char c :: nat)" "(of_char c :: nat) \<le> hi" "low6 s = of_char c mod 64"
    using assms(1) by (auto simp: cont_def low6_def split: list.splits)
  obtain k where k: "(of_char c :: nat) = 128 + k" using c(1) assms(2) by (metis le_trans le_Suc_ex)
  then have "k < 64" using c(2) assms(3) by linarith
  then show ?thesis using c k assms(2) by auto
qed

lemma second_range: "128 \<le> second_lo b" "second_hi b \<le> 191"
  by (simp_all add: second_lo_def second_hi_def)

lemma DecodeRune_scalar: "scalar (fst (DecodeRune s))"
proof (cases s)
  case Nil
  then show ?thesis by (simp add: scalar_def RuneError_def)
next
  case (Cons c t)
  define b where "b = (of_char c :: nat)"
  define x y z where xyz: "x = low6 t" "y = low6 (drop 1 t)" "z = low6 (drop 2 t)"
  have l: "x < 64" "y < 64" "z < 64" by (simp_all add: xyz)
  have two: "second_lo b - 128 \<le> x \<and> x \<le> second_hi b - 128" if "cont (second_lo b) (second_hi b) t"
    unfolding xyz using cont_low6 [OF that second_range] .
  have r2: "scalar (rune2 b t)" if "194 \<le> b" "b \<le> 223"
    using that l unfolding scalar_def rune2_def xyz [symmetric] by linarith
  have r3: "scalar (rune3 b t)" if "224 \<le> b" "b \<le> 239" "cont (second_lo b) (second_hi b) t"
  proof -
    from that(2) consider "b \<le> 236" | "b = 237" | "b = 238" | "b = 239" by linarith
    then show ?thesis
    proof cases
      case 1
      then have "b - 224 \<le> 12" by simp
      with l have "(b - 224) * 4096 + x * 64 + y < 55296" by linarith
      then show ?thesis by (simp add: scalar_def rune3_def xyz [symmetric, simplified])
    next
      case 2
      then have "x \<le> 31" using two [OF that(3)] by (simp add: second_hi_def)
      with 2 l show ?thesis by (simp add: scalar_def rune3_def xyz [symmetric, simplified])
    qed (use that l in \<open>simp_all add: scalar_def rune3_def xyz [symmetric, simplified]\<close>)
  qed
  have r4: "scalar (rune4 b t)" if "240 \<le> b" "b \<le> 244" "cont (second_lo b) (second_hi b) t"
  proof -
    from that(1,2) consider "b = 240" | "b = 241" | "b = 242" | "b = 243" | "b = 244" by linarith
    then show ?thesis
    proof cases
      case 1
      then have "16 \<le> x" using two [OF that(3)] by (simp add: second_lo_def)
      with 1 l show ?thesis by (simp add: scalar_def rune4_def xyz [symmetric, simplified])
    next
      case 5
      then have "x \<le> 15" using two [OF that(3)] by (simp add: second_hi_def)
      with 5 l show ?thesis by (simp add: scalar_def rune4_def xyz [symmetric, simplified])
    qed (use l in \<open>simp_all add: scalar_def rune4_def xyz [symmetric, simplified]\<close>)
  qed
  show ?thesis using Cons r2 r3 r4 by (auto simp: Let_def b_def [symmetric] scalar_def RuneError_def)
qed

lemma runes_scalar: "list_all scalar (runes s)"
  by (induction s rule: runes.induct) (subst runes.simps, simp add: DecodeRune_scalar)

lemma length_runes: "length (runes s) \<le> length s"
proof (induction s rule: runes.induct)
  case (1 s)
  then show ?case using DecodeRune_size [of s] by (subst runes.simps) auto
qed

end
