(* ===== verification/Json_Text.thy ===== *)
theory Json_Text
  imports Utf8
begin

text \<open>
  \<^verbatim>\<open>encoding/json\<close> on bytes, as the gateway uses it: the quoting of strings, the check
  \<^verbatim>\<open>json.Valid\<close>, and the compaction of a \<^verbatim>\<open>json.RawMessage\<close> when it is marshalled inside
  another value. A JSON text is read into a tree that keeps the spelling of strings
  (the bytes between the quotes) and of numbers.
\<close>

declare DecodeRune.simps [simp del] hex_digit.simps [simp del]

section \<open>Strings\<close>

definition hex_byte :: "char \<Rightarrow> bool" where
  "hex_byte c \<longleftrightarrow> is_digit c \<or> (let n = of_char c :: nat in 97 \<le> n \<and> n \<le> 102 \<or> 65 \<le> n \<and> n \<le> 70)"

definition quote_char :: char where "quote_char = CHR 0x22"
definition backslash :: char where "backslash = CHR 0x5C"

definition escape_letters :: string where
  "escape_letters = [quote_char, backslash] @ ''/bfnrt''"

text \<open>The first item between the quotes: an escape sequence or a byte that stands for itself.\<close>

definition str_item :: "string \<Rightarrow> (string \<times> string) option" where
  "str_item s =
     (case s of
        [] \<Rightarrow> None
      | c # s' \<Rightarrow>
          if c = quote_char then None
          else if c = backslash then
            (case s' of
               [] \<Rightarrow> None
             | e # t \<Rightarrow>
                 if e \<in> set escape_letters then Some ([c, e], t)
                 else if e = CHR ''u'' \<and> 4 \<le> length t \<and> list_all hex_byte (take 4 t)
                 then Some (c # e # take 4 t, drop 4 t) else None)
          else if 32 \<le> (of_char c :: nat) then Some ([c], s') else None)"

lemma str_item_append:
  assumes "str_item s = Some (i, t)"
  shows "s = i @ t \<and> i \<noteq> [] \<and> str_item (i @ t') = Some (i, t')"
proof -
  obtain c s' where s: "s = c # s'" "c \<noteq> quote_char"
    using assms by (auto simp: str_item_def split: list.splits if_splits)
  show ?thesis
  proof (cases "c = backslash")
    case False
    then show ?thesis using assms s by (auto simp: str_item_def split: if_splits)
  next
    case True
    then obtain e u where u: "s' = e # u" using assms s by (auto simp: str_item_def split: list.splits)
    show ?thesis
    proof (cases "e \<in> set escape_letters")
      case True
      then have "i = [c, e]" "t = u" using assms s u \<open>c = backslash\<close> by (simp_all add: str_item_def)
      then show ?thesis using True s u \<open>c = backslash\<close> by (simp add: str_item_def)
    next
      case False
      then have h: "e = CHR ''u''" "4 \<le> length u" "list_all hex_byte (take 4 u)" "i = c # e # take 4 u" "t = drop 4 u"
        using assms s u \<open>c = backslash\<close> by (simp_all add: str_item_def split: if_splits)
      have "take 4 (take 4 u @ t') = take 4 u" "drop 4 (take 4 u @ t') = t'" using h(2) by simp_all
      then show ?thesis using h s u False \<open>c = backslash\<close> by (simp add: str_item_def)
    qed
  qed
qed

lemma str_item_shorter: "str_item s = Some (i, t) \<Longrightarrow> length t < length s"
  using str_item_append [of s i t "[]"] by auto

lemma str_item_quote [simp]: "str_item (quote_char # s) = None"
  by (simp add: str_item_def)

text \<open>Well-formed bytes between the quotes of a string.\<close>

function raw_ok :: "string \<Rightarrow> bool" where
  "raw_ok s = (s = [] \<or> (case str_item s of Some (i, t) \<Rightarrow> raw_ok t | None \<Rightarrow> False))"
  by pat_completeness auto
termination by (relation "measure length") (auto dest: str_item_shorter)

text \<open>The bytes up to the closing quote, and the rest after it.\<close>

function str_scan :: "string \<Rightarrow> (string \<times> string) option" where
  "str_scan s =
     (if s \<noteq> [] \<and> List.hd s = quote_char then Some ([], tl s)
      else (case str_item s of
              Some (i, t) \<Rightarrow> map_option (\<lambda>(r, t'). (i @ r, t')) (str_scan t)
            | None \<Rightarrow> None))"
  by pat_completeness auto
termination by (relation "measure length") (auto dest: str_item_shorter)

declare raw_ok.simps [simp del] str_scan.simps [simp del]

lemma raw_ok_Nil [simp]: "raw_ok []"
  by (simp add: raw_ok.simps)

lemma raw_ok_item: "str_item s = Some (i, t) \<Longrightarrow> raw_ok s = raw_ok t"
  by (subst raw_ok.simps) (auto simp: str_item_def)

lemma raw_ok_cases:
  "raw_ok s \<Longrightarrow> (s = [] \<Longrightarrow> P) \<Longrightarrow> (\<And>i t. str_item s = Some (i, t) \<Longrightarrow> s = i @ t \<Longrightarrow> i \<noteq> [] \<Longrightarrow> raw_ok t \<Longrightarrow> P) \<Longrightarrow> P"
  by (subst (asm) raw_ok.simps) (auto split: option.splits dest: str_item_append)

lemma raw_ok_append: "raw_ok a \<Longrightarrow> raw_ok b \<Longrightarrow> raw_ok (a @ b)"
proof (induction "length a" arbitrary: a rule: less_induct)
  case less
  from less.prems(1) show ?case
  proof (rule raw_ok_cases)
    fix i t assume it: "str_item a = Some (i, t)" "a = i @ t" "i \<noteq> []" "raw_ok t"
    have "raw_ok (t @ b)" using less.hyps [of t] it less.prems(2) by simp
    then show ?thesis using str_item_append [OF it(1), of "t @ b"] it(2) raw_ok_item by simp
  qed (use less.prems in simp)
qed

lemma raw_ok_high: "list_all (\<lambda>c. 128 \<le> (of_char c :: nat)) s \<Longrightarrow> raw_ok s"
proof (induction s)
  case (Cons c s)
  then have "str_item (c # s) = Some ([c], s)"
    by (auto simp: str_item_def quote_char_def backslash_def)
  then show ?case using Cons by (simp add: raw_ok_item)
qed simp

lemma str_scan_raw: "raw_ok r \<Longrightarrow> str_scan (r @ quote_char # t) = Some (r, t)"
proof (induction "length r" arbitrary: r rule: less_induct)
  case less
  from less.prems show ?case
  proof (rule raw_ok_cases)
    fix i u assume it: "str_item r = Some (i, u)" "r = i @ u" "i \<noteq> []" "raw_ok u"
    have step: "str_item (r @ quote_char # t) = Some (i, u @ quote_char # t)"
      using str_item_append [OF it(1), of "u @ quote_char # t"] it(2) by simp
    have "List.hd r \<noteq> quote_char" using it(1) by (cases r) (auto simp: str_item_def)
    moreover have "r \<noteq> []" using it(2,3) by simp
    ultimately have "List.hd (r @ quote_char # t) \<noteq> quote_char" by simp
    then show ?thesis using step less.hyps [of u] it by (subst str_scan.simps) simp
  qed (simp add: str_scan.simps)
qed

lemma str_scan_ok: "str_scan s = Some (r, t) \<Longrightarrow> raw_ok r \<and> s = r @ quote_char # t"
proof (induction "length s" arbitrary: s r rule: less_induct)
  case less
  show ?case
  proof (cases "s \<noteq> [] \<and> List.hd s = quote_char")
    case True
    then show ?thesis using less.prems by (cases s) (auto simp: str_scan.simps)
  next
    case False
    then obtain i u r' where it: "str_item s = Some (i, u)" "str_scan u = Some (r', t)" "r = i @ r'"
      using less.prems by (subst (asm) str_scan.simps) (auto split: option.splits)
    have "raw_ok r'" "u = r' @ quote_char # t" using less.hyps [OF str_item_shorter [OF it(1)] it(2)] by auto
    then show ?thesis using str_item_append [OF it(1), of r'] it(3) raw_ok_item [of r i r'] by simp
  qed
qed

text \<open>
  The quoting of a string, with the escapes for HTML: \<^verbatim>\<open><\<close>, \<^verbatim>\<open>>\<close>, \<^verbatim>\<open>&\<close>, the line separators
  U+2028 and U+2029, and the replacement of invalid bytes.
\<close>

definition hex4 :: "nat \<Rightarrow> string" where
  "hex4 n = [hex_digit (n div 4096 mod 16), hex_digit (n div 256 mod 16), hex_digit (n div 16 mod 16), hex_digit (n mod 16)]"

definition escape_u :: "nat \<Rightarrow> string" where
  "escape_u n = backslash # CHR ''u'' # hex4 n"

definition escape_byte :: "char \<Rightarrow> string" where
  "escape_byte c =
     (let b = of_char c :: nat
      in if c = quote_char \<or> c = backslash then [backslash, c]
         else if b = 8 then [backslash, CHR ''b''] else if b = 12 then [backslash, CHR ''f'']
         else if b = 10 then [backslash, CHR ''n''] else if b = 13 then [backslash, CHR ''r'']
         else if b = 9 then [backslash, CHR ''t'']
         else if b < 32 \<or> c \<in> set ''<>&'' then escape_u b else [c])"

definition escape_rune :: "string \<Rightarrow> string" where
  "escape_rune s =
     (case DecodeRune s of
        (r, n) \<Rightarrow>
          if r = RuneError \<and> n = 1 then escape_u RuneError
          else if r = 8232 \<or> r = 8233 then escape_u r else take n s)"

function quote_raw :: "string \<Rightarrow> string" where
  "quote_raw s =
     (case s of
        [] \<Rightarrow> []
      | c # s' \<Rightarrow>
          if (of_char c :: nat) < 128 then escape_byte c @ quote_raw s'
          else escape_rune s @ quote_raw (drop (snd (DecodeRune s)) s))"
  by pat_completeness auto
termination
proof (relation "measure length")
  fix s :: string and c s'
  assume "s = c # s'"
  then show "(drop (snd (DecodeRune s)) s, s) \<in> measure length" using DecodeRune_size [of s] by simp
qed simp_all

declare quote_raw.simps [simp del]

lemma hex_byte_digit [simp]: "n < 16 \<Longrightarrow> hex_byte (hex_digit n)"
  by (auto simp: hex_digit.simps hex_byte_def is_digit_def Let_def)

lemma raw_ok_escape_u [simp]: "raw_ok (escape_u n)"
proof -
  have "str_item (escape_u n) = Some (escape_u n, [])"
    by (simp add: str_item_def escape_u_def hex4_def escape_letters_def backslash_def quote_char_def)
  then show ?thesis by (simp add: raw_ok_item)
qed

lemma raw_ok_escape_byte: "raw_ok (escape_byte c)"
proof -
  have letter: "raw_ok [backslash, e]" if "e \<in> set escape_letters" for e
    using that raw_ok_item [of "[backslash, e]" "[backslash, e]" "[]"]
    by (simp add: str_item_def backslash_def quote_char_def)
  have plain: "raw_ok [c]" if "c \<noteq> quote_char" "c \<noteq> backslash" "32 \<le> (of_char c :: nat)"
    using that raw_ok_item [of "[c]" "[c]" "[]"] by (simp add: str_item_def)
  show ?thesis unfolding escape_byte_def Let_def
    by (auto intro!: letter plain simp: escape_letters_def)
qed

lemma cont_high: "cont lo hi s \<Longrightarrow> 128 \<le> lo \<Longrightarrow> \<exists>c t. s = c # t \<and> 128 \<le> (of_char c :: nat)"
  by (auto simp: cont_def split: list.splits)

lemma take_high:
  "128 \<le> (of_char c :: nat) \<Longrightarrow> cont l1 h1 s \<Longrightarrow> 128 \<le> l1 \<Longrightarrow> list_all (\<lambda>c. 128 \<le> (of_char c :: nat)) (take 2 (c # s))"
  "128 \<le> (of_char c :: nat) \<Longrightarrow> cont l1 h1 s \<Longrightarrow> 128 \<le> l1 \<Longrightarrow> cont 128 191 (drop 1 s) \<Longrightarrow>
     list_all (\<lambda>c. 128 \<le> (of_char c :: nat)) (take 3 (c # s))"
  "128 \<le> (of_char c :: nat) \<Longrightarrow> cont l1 h1 s \<Longrightarrow> 128 \<le> l1 \<Longrightarrow> cont 128 191 (drop 1 s) \<Longrightarrow> cont 128 191 (drop 2 s) \<Longrightarrow>
     list_all (\<lambda>c. 128 \<le> (of_char c :: nat)) (take 4 (c # s))"
  by (auto dest!: cont_high simp: take_Cons' drop_Cons')

lemma DecodeRune_high:
  assumes "128 \<le> (of_char c :: nat)" "DecodeRune (c # s) = (r, n)" "n \<noteq> 1"
  shows "list_all (\<lambda>c. 128 \<le> (of_char c :: nat)) (take n (c # s))"
  using assms take_high [OF assms(1)] second_range [of "of_char c"]
  by (auto simp: DecodeRune.simps Let_def split: if_splits)

lemma DecodeRune_error: "128 \<le> (of_char c :: nat) \<Longrightarrow> DecodeRune (c # s) = (r, 1) \<Longrightarrow> r = RuneError"
  by (auto simp: DecodeRune.simps Let_def split: if_splits)

lemma raw_ok_escape_rune:
  assumes "128 \<le> (of_char c :: nat)"
  shows "raw_ok (escape_rune (c # t))"
proof -
  obtain r n where d: "DecodeRune (c # t) = (r, n)" by (cases "DecodeRune (c # t)")
  show ?thesis
    using d DecodeRune_high [OF assms d] DecodeRune_error [OF assms, of t r]
    by (auto simp: escape_rune_def intro: raw_ok_high)
qed

lemma raw_ok_quote [simp]: "raw_ok (quote_raw s)"
proof (induction s rule: quote_raw.induct)
  case (1 s)
  then show ?case
    by (subst quote_raw.simps)
      (auto split: list.splits intro!: raw_ok_append raw_ok_escape_byte raw_ok_escape_rune)
qed

section \<open>Numbers\<close>

text \<open>The states of the scanner inside a number.\<close>

datatype num_state = NStart | NMinus | NZero | NInt | NPoint | NFrac | NExp | NExpSign | NExpDigits

definition num_accept :: "num_state \<Rightarrow> bool" where
  "num_accept q \<longleftrightarrow> q \<in> {NZero, NInt, NFrac, NExpDigits}"

definition num_step :: "num_state \<Rightarrow> char \<Rightarrow> num_state option" where
  "num_step q c =
     (if q \<in> {NStart, NMinus} then
        (if q = NStart \<and> c = CHR ''-'' then Some NMinus
         else if c = CHR ''0'' then Some NZero else if is_digit c then Some NInt else None)
      else if q = NInt \<and> is_digit c then Some NInt
      else if q \<in> {NZero, NInt} \<and> c = CHR ''.'' then Some NPoint
      else if q \<in> {NPoint, NFrac} \<and> is_digit c then Some NFrac
      else if q \<in> {NZero, NInt, NFrac} \<and> c \<in> set ''eE'' then Some NExp
      else if q = NExp \<and> c \<in> set ''+-'' then Some NExpSign
      else if q \<in> {NExp, NExpSign, NExpDigits} \<and> is_digit c then Some NExpDigits
      else None)"

fun num_munch :: "num_state \<Rightarrow> string \<Rightarrow> (string \<times> string) option" where
  "num_munch q [] = (if num_accept q then Some ([], []) else None)"
| "num_munch q (c # s) =
     (case num_step q c of
        Some q' \<Rightarrow> map_option (\<lambda>(l, t). (c # l, t)) (num_munch q' s)
      | None \<Rightarrow> if num_accept q then Some ([], c # s) else None)"

definition num_ok :: "string \<Rightarrow> bool" where
  "num_ok l \<longleftrightarrow> num_munch NStart l = Some (l, [])"

text \<open>What may follow a value inside a text.\<close>

definition delimited :: "string \<Rightarrow> bool" where
  "delimited s \<longleftrightarrow> (case s of [] \<Rightarrow> True | c # _ \<Rightarrow> c \<in> set '',]}'')"

lemma num_step_delimiter: "c \<in> set '',]}'' \<Longrightarrow> num_step q c = None"
  by (cases q) (auto simp: num_step_def is_digit_def)

lemma num_munch_append:
  "num_munch q l = Some (l, []) \<Longrightarrow> delimited t \<Longrightarrow> num_munch q (l @ t) = Some (l, t)"
proof (induction l arbitrary: q)
  case Nil
  then show ?case by (cases t) (auto simp: delimited_def num_step_delimiter split: if_splits)
next
  case (Cons c l)
  then show ?case by (auto split: option.splits if_splits)
qed

lemma num_munch_split: "num_munch q s = Some (l, t) \<Longrightarrow> s = l @ t \<and> num_munch q l = Some (l, [])"
  by (induction s arbitrary: q l) (auto split: option.splits if_splits)

lemma num_ok_head: "num_ok l \<Longrightarrow> \<exists>c s. l = c # s \<and> (c = CHR ''-'' \<or> is_digit c)"
  by (cases l) (auto simp: num_ok_def num_accept_def num_step_def is_digit_def split: option.splits if_splits)

section \<open>Values\<close>

datatype raw_json =
    RNull
  | RBool bool
  | RNum string
  | RStr string
  | RArr "raw_json list"
  | RObj "(string \<times> raw_json) list"

definition quoted :: "string \<Rightarrow> string" where
  "quoted r = quote_char # r @ [quote_char]"

text \<open>The compact text of a value.\<close>

fun print :: "raw_json \<Rightarrow> string" and print_elems :: "raw_json list \<Rightarrow> string"
  and print_members :: "(string \<times> raw_json) list \<Rightarrow> string" where
  "print RNull = ''null''"
| "print (RBool b) = (if b then ''true'' else ''false'')"
| "print (RNum l) = l"
| "print (RStr r) = quoted r"
| "print (RArr vs) = ''['' @ print_elems vs @ '']''"
| "print (RObj kvs) = ''{'' @ print_members kvs @ ''}''"
| "print_elems [] = []"
| "print_elems (v # vs) = print v @ (if vs = [] then [] else '','' @ print_elems vs)"
| "print_members [] = []"
| "print_members ((k, v) # kvs) =
     quoted k @ '':'' @ print v @ (if kvs = [] then [] else '','' @ print_members kvs)"

fun wf_json :: "raw_json \<Rightarrow> bool" where
  "wf_json RNull = True"
| "wf_json (RBool b) = True"
| "wf_json (RNum l) = num_ok l"
| "wf_json (RStr r) = raw_ok r"
| "wf_json (RArr vs) = list_all wf_json vs"
| "wf_json (RObj kvs) = list_all (\<lambda>(k, v). raw_ok k \<and> wf_json v) kvs"

definition json_space :: "char \<Rightarrow> bool" where
  "json_space c \<longleftrightarrow> (of_char c :: nat) \<in> {9, 10, 13, 32}"

definition skip_space :: "string \<Rightarrow> string" where
  "skip_space = dropWhile json_space"

definition expect :: "string \<Rightarrow> 'a \<Rightarrow> string \<Rightarrow> ('a \<times> string) option" where
  "expect w v s = (if HasPrefix s w then Some (v, drop (length w) s) else None)"

text \<open>
  The reader, by recursive descent; the first argument bounds the calls. An object or an
  array is read after its opening bracket.
\<close>

fun read_value :: "nat \<Rightarrow> string \<Rightarrow> (raw_json \<times> string) option"
  and read_elems :: "nat \<Rightarrow> string \<Rightarrow> (raw_json list \<times> string) option"
  and read_members :: "nat \<Rightarrow> string \<Rightarrow> ((string \<times> raw_json) list \<times> string) option" where
  "read_value 0 s = None"
| "read_value (Suc n) s0 =
     (case skip_space s0 of
        [] \<Rightarrow> None
      | c # s \<Rightarrow>
          if c = CHR ''{'' then
            (case skip_space s of
               [] \<Rightarrow> None
             | d # t \<Rightarrow> if d = CHR ''}'' then Some (RObj [], t)
                        else map_option (\<lambda>(kvs, t). (RObj kvs, t)) (read_members n (d # t)))
          else if c = CHR ''['' then
            (case skip_space s of
               [] \<Rightarrow> None
             | d # t \<Rightarrow> if d = CHR '']'' then Some (RArr [], t)
                        else map_option (\<lambda>(vs, t). (RArr vs, t)) (read_elems n (d # t)))
          else if c = quote_char then map_option (\<lambda>(r, t). (RStr r, t)) (str_scan s)
          else if c = CHR ''t'' then expect ''true'' (RBool True) (c # s)
          else if c = CHR ''f'' then expect ''false'' (RBool False) (c # s)
          else if c = CHR ''n'' then expect ''null'' RNull (c # s)
          else map_option (\<lambda>(l, t). (RNum l, t)) (num_munch NStart (c # s)))"
| "read_elems 0 s = None"
| "read_elems (Suc n) s =
     (case read_value n s of
        None \<Rightarrow> None
      | Some (v, t) \<Rightarrow>
          (case skip_space t of
             [] \<Rightarrow> None
           | c # u \<Rightarrow>
               if c = CHR '','' then map_option (\<lambda>(vs, u'). (v # vs, u')) (read_elems n u)
               else if c = CHR '']'' then Some ([v], u) else None))"
| "read_members 0 s = None"
| "read_members (Suc n) s0 =
     (case skip_space s0 of
        [] \<Rightarrow> None
      | c # s \<Rightarrow>
          if c \<noteq> quote_char then None
          else
            (case str_scan s of
               None \<Rightarrow> None
             | Some (k, s1) \<Rightarrow>
                 (case skip_space s1 of
                    [] \<Rightarrow> None
                  | c1 # s2 \<Rightarrow>
                      if c1 \<noteq> CHR '':'' then None
                      else
                        (case read_value n s2 of
                           None \<Rightarrow> None
                         | Some (v, t) \<Rightarrow>
                             (case skip_space t of
                                [] \<Rightarrow> None
                              | d # u \<Rightarrow>
                                  if d = CHR '','' then map_option (\<lambda>(kvs, u'). ((k, v) # kvs, u')) (read_members n u)
                                  else if d = CHR ''}'' then Some ([(k, v)], u) else None)))))"

definition parse_json :: "string \<Rightarrow> raw_json option" where
  "parse_json s =
     (case read_value (2 * length s + 2) s of
        Some (v, t) \<Rightarrow> if skip_space t = [] then Some v else None
      | None \<Rightarrow> None)"

section \<open>Reading what was printed\<close>

lemma skip_space_Cons [simp]: "\<not> json_space c \<Longrightarrow> skip_space (c # s) = c # s"
  by (simp add: skip_space_def)

lemma skip_space_delim [simp]:
  "skip_space (CHR '','' # s) = CHR '','' # s" "skip_space (CHR '']'' # s) = CHR '']'' # s"
  "skip_space (CHR ''}'' # s) = CHR ''}'' # s" "skip_space (CHR '':'' # s) = CHR '':'' # s"
  "skip_space (quote_char # s) = quote_char # s" "skip_space [] = []"
  by (simp_all add: skip_space_def json_space_def quote_char_def)

lemma delimited_simps [simp]:
  "delimited []" "delimited (CHR '','' # s)" "delimited (CHR '']'' # s)" "delimited (CHR ''}'' # s)"
  by (simp_all add: delimited_def)

lemma digit_not_space: "is_digit c \<Longrightarrow> \<not> json_space c \<and> c \<noteq> CHR '']'' \<and> c \<noteq> CHR ''}''"
  by (auto simp: is_digit_def json_space_def)

lemma print_head:
  assumes "wf_json v"
  shows "\<exists>c s. print v = c # s \<and> \<not> json_space c \<and> c \<noteq> CHR '']''"
proof (cases v)
  case (RNum l)
  then obtain c s where "l = c # s" "c = CHR ''-'' \<or> is_digit c" using assms num_ok_head [of l] by auto
  moreover from this have "\<not> json_space c" "c \<noteq> CHR '']''"
    using digit_not_space [of c] by (auto simp: json_space_def)
  ultimately show ?thesis using RNum by simp
qed (simp_all add: quoted_def quote_char_def json_space_def)

lemma print_length: "wf_json v \<Longrightarrow> 1 \<le> length (print v)"
  using print_head [of v] by auto

lemma read_value_num:
  assumes "num_ok l" "delimited t"
  shows "read_value (Suc n) (l @ t) = Some (RNum l, t)"
proof -
  obtain c s where l: "l = c # s" "c = CHR ''-'' \<or> is_digit c" using num_ok_head [OF assms(1)] by blast
  have "num_munch NStart (l @ t) = Some (l, t)"
    using assms by (intro num_munch_append) (simp_all add: num_ok_def)
  moreover have "\<not> json_space c" "c \<notin> set (quote_char # ''{[tfn'')"
    using l(2) by (auto simp: json_space_def is_digit_def quote_char_def)
  ultimately show ?thesis using l(1) by simp
qed

lemma read_elems_print:
  assumes "\<And>v n t. v \<in> set vs \<Longrightarrow> 2 * length (print v) \<le> n \<Longrightarrow> delimited t \<Longrightarrow>
      read_value n (print v @ t) = Some (v, t)"
    and "vs \<noteq> []" "2 * length (print_elems vs) + 1 \<le> n" "list_all wf_json vs"
  shows "read_elems n (print_elems vs @ CHR '']'' # t) = Some (vs, t)"
  using assms
proof (induction vs arbitrary: n)
  case Nil
  then show ?case by simp
next
  case (Cons v vs)
  obtain m where n: "n = Suc m" using Cons.prems(3) by (cases n) auto
  show ?case
  proof (cases "vs = []")
    case True
    then have "read_value m (print v @ CHR '']'' # t) = Some (v, CHR '']'' # t)"
      using Cons.prems n by simp
    then show ?thesis using True n by simp
  next
    case False
    let ?rest = "print_elems vs @ CHR '']'' # t"
    have "read_value m (print v @ CHR '','' # ?rest) = Some (v, CHR '','' # ?rest)"
      using Cons.prems(3) n False by (intro Cons.prems(1)) auto
    moreover have "read_elems m ?rest = Some (vs, t)"
      using Cons.prems n False by (intro Cons.IH) auto
    ultimately show ?thesis using n False by simp
  qed
qed

lemma read_members_print:
  assumes "\<And>k v n t. (k, v) \<in> set kvs \<Longrightarrow> 2 * length (print v) \<le> n \<Longrightarrow> delimited t \<Longrightarrow>
      read_value n (print v @ t) = Some (v, t)"
    and "kvs \<noteq> []" "2 * length (print_members kvs) + 1 \<le> n"
    and "list_all (\<lambda>(k, v). raw_ok k \<and> wf_json v) kvs"
  shows "read_members n (print_members kvs @ CHR ''}'' # t) = Some (kvs, t)"
  using assms
proof (induction kvs arbitrary: n)
  case Nil
  then show ?case by simp
next
  case (Cons kv kvs)
  obtain k v where kv: "kv = (k, v)" by (cases kv)
  obtain m where n: "n = Suc m" using Cons.prems(3) by (cases n) auto
  have key: "str_scan (k @ quote_char # s) = Some (k, s)" for s
    using Cons.prems(4) kv by (intro str_scan_raw) simp
  show ?case
  proof (cases "kvs = []")
    case True
    then have "read_value m (print v @ CHR ''}'' # t) = Some (v, CHR ''}'' # t)"
      using Cons.prems n kv by (simp add: quoted_def)
    then show ?thesis using True n kv key by (simp add: quoted_def)
  next
    case False
    let ?rest = "print_members kvs @ CHR ''}'' # t"
    have "read_value m (print v @ CHR '','' # ?rest) = Some (v, CHR '','' # ?rest)"
      using Cons.prems(3) n False kv by (intro Cons.prems(1)) (auto simp: quoted_def)
    moreover have "read_members m ?rest = Some (kvs, t)"
      using Cons.prems n False kv by (intro Cons.IH) (auto simp: quoted_def)
    ultimately show ?thesis using n False kv key by (simp add: quoted_def)
  qed
qed

lemma read_value_print:
  "wf_json v \<Longrightarrow> 2 * length (print v) \<le> n \<Longrightarrow> delimited t \<Longrightarrow> read_value n (print v @ t) = Some (v, t)"
proof (induction v arbitrary: n t)
  case RNull
  then obtain m where "n = Suc m" by (cases n) auto
  then show ?case by (simp add: json_space_def quote_char_def expect_def HasPrefix_def)
next
  case (RBool b)
  then obtain m where "n = Suc m" by (cases n) (auto split: if_splits)
  then show ?case by (simp add: json_space_def quote_char_def expect_def HasPrefix_def)
next
  case (RNum l)
  then obtain m where "n = Suc m" using num_ok_head [of l] by (cases n) auto
  then show ?case using RNum by (simp add: read_value_num del: read_value.simps)
next
  case (RStr r)
  then obtain m where "n = Suc m" by (cases n) (auto simp: quoted_def)
  moreover have "str_scan (r @ quote_char # t) = Some (r, t)" using RStr by (intro str_scan_raw) simp
  ultimately show ?case by (simp add: quoted_def quote_char_def json_space_def)
next
  case (RArr vs)
  then obtain m where n: "n = Suc m" "2 * length (print_elems vs) + 1 \<le> m" by (cases n) auto
  show ?case
  proof (cases vs)
    case Nil
    then show ?thesis using n by (simp add: json_space_def quote_char_def)
  next
    case (Cons v vs')
    obtain c s where cs: "print v = c # s" "\<not> json_space c" "c \<noteq> CHR '']''"
      using RArr.prems(1) Cons print_head [of v] by auto
    have "read_elems m (print_elems vs @ CHR '']'' # t) = Some (vs, t)"
      using RArr n Cons by (intro read_elems_print) (auto simp: list_all_iff)
    then show ?thesis using n Cons cs by (simp add: json_space_def [of "CHR ''[''"] quote_char_def)
  qed
next
  case (RObj kvs)
  then obtain m where n: "n = Suc m" "2 * length (print_members kvs) + 1 \<le> m" by (cases n) auto
  show ?case
  proof (cases kvs)
    case Nil
    then show ?thesis using n by (simp add: json_space_def quote_char_def)
  next
    case (Cons kv kvs')
    have "read_members m (print_members kvs @ CHR ''}'' # t) = Some (kvs, t)"
    proof (rule read_members_print)
      fix k v n t assume "(k, v) \<in> set kvs" "2 * length (print v) \<le> n" "delimited t"
      then show "read_value n (print v @ t) = Some (v, t)"
        using RObj.prems(1) by (intro RObj.IH [of "(k, v)"]) (auto simp: list_all_iff)
    qed (use RObj n Cons in auto)
    moreover have "\<exists>s. print_members kvs @ CHR ''}'' # t = quote_char # s \<and> quote_char \<noteq> CHR ''}''"
      using Cons by (cases kv) (simp add: quoted_def quote_char_def)
    ultimately show ?thesis using n by (auto simp: json_space_def [of "CHR ''{''"])
  qed
qed

theorem parse_json_print: "wf_json v \<Longrightarrow> parse_json (print v) = Some v"
  using read_value_print [of v "2 * length (print v) + 2" "[]"] by (simp add: parse_json_def)

section \<open>Validity and compaction\<close>

text \<open>A value read from a text is well-formed.\<close>

lemma expect_wf: "expect w v s = Some (v', t) \<Longrightarrow> v' = v"
  by (simp add: expect_def split: if_splits)

lemma read_wf:
  "read_value n s = Some (v, t) \<Longrightarrow> wf_json v"
  "read_elems n s = Some (vs, t) \<Longrightarrow> list_all wf_json vs"
  "read_members n s = Some (kvs, t) \<Longrightarrow> list_all (\<lambda>(k, v). raw_ok k \<and> wf_json v) kvs"
proof (induction n s and n s and n s arbitrary: v t and vs t and kvs t
    rule: read_value_read_elems_read_members.induct)
  case (2 n s0)
  obtain c s where s: "skip_space s0 = c # s" using "2.prems" by (auto split: list.splits)
  note IH = "2.IH" [OF s] and res = "2.prems" [simplified s read_value.simps list.case]
  consider "c = CHR ''{''" | "c = CHR ''[''" | "c = quote_char" | "c \<in> set ''tfn''"
    | "c \<notin> set (quote_char # ''{[tfn'')" by auto
  then show ?case
  proof cases
    case 1
    then show ?thesis using res IH by (auto split: list.splits if_splits)
  next
    case 2
    then show ?thesis using res IH by (auto split: list.splits if_splits)
  next
    case 3
    then show ?thesis using res by (auto simp: quote_char_def dest: str_scan_ok)
  next
    case 4
    then show ?thesis using res by (auto simp: quote_char_def dest!: expect_wf)
  next
    case 5
    then show ?thesis using res by (auto simp: num_ok_def dest: num_munch_split simp del: num_munch.simps)
  qed
next
  case (4 n s)
  then show ?case by (auto split: option.splits list.splits if_splits)
next
  case (6 n s0)
  then show ?case by (auto split: option.splits list.splits if_splits dest!: str_scan_ok [THEN conjunct1])
qed simp_all

lemma parse_json_wf: "parse_json s = Some v \<Longrightarrow> wf_json v"
  by (auto simp: parse_json_def simp del: read_value.simps dest: read_wf(1) split: option.splits if_splits)

text \<open>Arrays and objects may nest ten thousand deep.\<close>

fun depth :: "raw_json \<Rightarrow> nat" where
  "depth (RArr vs) = Suc (foldr max (map depth vs) 0)"
| "depth (RObj kvs) = Suc (foldr max (map (\<lambda>kv. depth (snd kv)) kvs) 0)"
| "depth _ = 0"

definition json_Valid :: "string \<Rightarrow> bool" where
  "json_Valid s = (case parse_json s of Some v \<Rightarrow> depth v \<le> 10000 | None \<Rightarrow> False)"

text \<open>
  Compaction escapes for HTML: the bytes of \<^verbatim>\<open><\<close>, \<^verbatim>\<open>>\<close>, \<^verbatim>\<open>&\<close> and the two line separators, which
  occur in strings only.
\<close>

fun html_raw :: "string \<Rightarrow> string" where
  "html_raw [] = []"
| "html_raw (c # s) =
     (if c \<in> set ''<>&'' then escape_u (of_char c) @ html_raw s
      else (case s of
              c1 # c2 # s' \<Rightarrow>
                if (of_char c :: nat) = 226 \<and> (of_char c1 :: nat) = 128 \<and>
                   ((of_char c2 :: nat) = 168 \<or> (of_char c2 :: nat) = 169)
                then escape_u (8064 + of_char c2) @ html_raw s'
                else c # html_raw s
            | _ \<Rightarrow> c # html_raw s))"

declare html_raw.simps(2) [simp del]

lemma html_raw_cases:
  assumes "c \<notin> set ''<>&''"
  obtains "html_raw (c # s) = c # html_raw s"
  | c1 c2 s' where "s = c1 # c2 # s'" "(of_char c1 :: nat) = 128" "168 \<le> (of_char c2 :: nat)"
      "html_raw (c # s) = escape_u (8064 + of_char c2) @ html_raw s'"
proof (cases "\<exists>c1 c2 s'. s = c1 # c2 # s' \<and> (of_char c :: nat) = 226 \<and> (of_char c1 :: nat) = 128 \<and>
    ((of_char c2 :: nat) = 168 \<or> (of_char c2 :: nat) = 169)")
  case True
  then obtain c1 c2 s' where s: "s = c1 # c2 # s'" "(of_char c :: nat) = 226" "(of_char c1 :: nat) = 128"
    "(of_char c2 :: nat) = 168 \<or> (of_char c2 :: nat) = 169" by blast
  then have "html_raw (c # s) = escape_u (8064 + of_char c2) @ html_raw s'"
    using assms by (subst html_raw.simps(2)) simp
  then show thesis using that(2) s by auto
next
  case False
  then have "html_raw (c # s) = c # html_raw s"
    using assms by (subst html_raw.simps(2)) (auto split: list.splits)
  then show thesis by (rule that(1))
qed

fun html_json :: "raw_json \<Rightarrow> raw_json" where
  "html_json (RStr r) = RStr (html_raw r)"
| "html_json (RArr vs) = RArr (map html_json vs)"
| "html_json (RObj kvs) = RObj (map (\<lambda>(k, v). (html_raw k, html_json v)) kvs)"
| "html_json v = v"

lemma raw_ok_plain:
  "c \<noteq> quote_char \<Longrightarrow> c \<noteq> backslash \<Longrightarrow> 32 \<le> (of_char c :: nat) \<Longrightarrow> raw_ok (c # s) = raw_ok s"
  by (rule raw_ok_item [of _ "[c]"]) (simp add: str_item_def)

lemma raw_ok_plainD: "raw_ok (c # s) \<Longrightarrow> c \<noteq> backslash \<Longrightarrow> c \<noteq> quote_char \<and> 32 \<le> (of_char c :: nat) \<and> raw_ok s"
  using raw_ok.simps [of "c # s"] by (auto simp: str_item_def split: if_splits)

lemma html_raw_same: "c \<notin> set ''<>&'' \<Longrightarrow> (of_char c :: nat) \<noteq> 226 \<Longrightarrow> html_raw (c # s) = c # html_raw s"
  by (subst html_raw.simps(2)) (simp split: list.splits)

lemma html_raw_item:
  assumes "str_item (backslash # s) = Some (i, t)"
  shows "html_raw (i @ t) = i @ html_raw t"
proof -
  define P where "P = (\<lambda>c. c \<notin> set ''<>&'' \<and> (of_char c :: nat) \<noteq> 226)"
  have same: "html_raw (l @ t) = l @ html_raw t" if "list_all P l" for l
    using that by (induction l) (simp_all add: html_raw_same P_def)
  have letters: "P c" if "c \<in> set escape_letters" for c
    using that by (auto simp: P_def escape_letters_def quote_char_def backslash_def)
  have hex: "P c" if "hex_byte c" for c
    using that by (auto simp: P_def hex_byte_def is_digit_def Let_def)
  have two: "P backslash" "P (CHR ''u'')" by (simp_all add: P_def backslash_def)
  have "list_all P i"
    using assms letters hex two by (auto simp: str_item_def list_all_iff split: list.splits if_splits)
  then show ?thesis by (rule same)
qed

lemma raw_ok_html: "raw_ok r \<Longrightarrow> raw_ok (html_raw r)"
proof (induction "length r" arbitrary: r rule: less_induct)
  case less
  show ?case
  proof (cases r)
    case Nil
    then show ?thesis by simp
  next
    case (Cons c s)
    show ?thesis
    proof (cases "c = backslash")
      case True
      obtain i t where it: "str_item r = Some (i, t)" "r = i @ t" "i \<noteq> []" "raw_ok t"
        using less.prems Cons by (auto elim: raw_ok_cases)
      have "raw_ok (html_raw t)" using less.hyps [of t] it by simp
      moreover have "html_raw r = i @ html_raw t" using it html_raw_item [of s i t] Cons True by simp
      ultimately show ?thesis
        using str_item_append [OF it(1), of "html_raw t"] raw_ok_item by simp
    next
      case False
      have c: "c \<noteq> quote_char" "32 \<le> (of_char c :: nat)" "raw_ok s"
        using raw_ok_plainD [of c s] less.prems Cons False by simp_all
      then have s: "raw_ok (html_raw s)" using less.hyps [of s] Cons by simp
      have plain: "raw_ok (c # html_raw s)" using c False s by (simp add: raw_ok_plain)
      have sep: "raw_ok (html_raw s')" if "s = c1 # c2 # s'" "(of_char c1 :: nat) = 128" "(of_char c2 :: nat) \<ge> 168" for c1 c2 s'
      proof -
        have "c1 \<noteq> backslash" "c2 \<noteq> backslash" using that by (auto simp: backslash_def)
        then have "raw_ok s'" using raw_ok_plainD [of c1] raw_ok_plainD [of c2] c(3) that(1) by blast
        then show ?thesis using less.hyps [of s'] Cons that(1) by simp
      qed
      show ?thesis
      proof (cases "c \<in> set ''<>&''")
        case True
        then have "html_raw r = escape_u (of_char c) @ html_raw s" using Cons by (simp add: html_raw.simps(2))
        then show ?thesis using s by (simp add: raw_ok_append)
      next
        case False
        from this show ?thesis
        proof (cases rule: html_raw_cases [where s = s])
          case 1
          then show ?thesis using plain Cons by simp
        next
          case (2 c1 c2 s')
          then show ?thesis using sep [of c1 c2 s'] Cons by (simp add: raw_ok_append)
        qed
      qed
    qed
  qed
qed

lemma wf_html: "wf_json v \<Longrightarrow> wf_json (html_json v)"
proof (induction v)
  case (RArr vs)
  then show ?case by (simp add: list_all_iff)
next
  case (RObj kvs)
  have "raw_ok (html_raw k) \<and> wf_json (html_json v)" if "(k, v) \<in> set kvs" for k v
  proof -
    have kv: "raw_ok k" "wf_json v" using RObj.prems that by (auto simp: list_all_iff)
    then show ?thesis using RObj.IH [of "(k, v)" v] that by (simp add: raw_ok_html)
  qed
  then show ?case by (auto simp: list_all_iff)
qed (simp_all add: raw_ok_html)

text \<open>
  Marshalling a \<^verbatim>\<open>json.RawMessage\<close>: the tree of its compact text, \<open>None\<close> for the error; a nil
  message is null.
\<close>

definition raw_message :: "string option \<Rightarrow> raw_json option" where
  "raw_message m =
     (case m of
        None \<Rightarrow> Some RNull
      | Some s \<Rightarrow> if json_Valid s then map_option html_json (parse_json s) else None)"

lemma raw_message_wf: "raw_message m = Some v \<Longrightarrow> wf_json v"
  by (auto simp: raw_message_def dest: parse_json_wf intro: wf_html split: option.splits if_splits)

text \<open>A string value.\<close>

definition json_string :: "string \<Rightarrow> raw_json" where
  "json_string s = RStr (quote_raw s)"

lemma wf_json_string [simp]: "wf_json (json_string s)"
  by (simp add: json_string_def)

lemma json_Valid_string: "json_Valid (print (json_string s))"
  unfolding json_Valid_def by (simp add: parse_json_print) (simp add: json_string_def)

lemma json_Valid_empty: "json_Valid ''{}''"
  by code_simp

end
