(* ===== verification/Calendar.thy ===== *)
theory Calendar
  imports Go_Errors Go_Strings
begin

text \<open>
  \<^verbatim>\<open>pkg/timeutil\<close> and the parts of package \<^verbatim>\<open>time\<close> it rests on: the proleptic Gregorian
  calendar in UTC, \<^verbatim>\<open>Time.Date\<close>, \<^verbatim>\<open>time.Date\<close> and the RFC 3339 layout. Days are counted
  from the first of January of the year 1.
\<close>

section \<open>Years\<close>

definition day_ns :: int where "day_ns = 86400 * second"

definition leap :: "int \<Rightarrow> bool" where
  "leap y \<longleftrightarrow> y mod 4 = 0 \<and> (y mod 100 \<noteq> 0 \<or> y mod 400 = 0)"

definition days_before_year :: "int \<Rightarrow> int" where
  "days_before_year y = 365 * (y - 1) + (y - 1) div 4 - (y - 1) div 100 + (y - 1) div 400"

text \<open>The year of a day: an estimate from the mean length of a year, corrected once.\<close>

definition year_of_day :: "int \<Rightarrow> int" where
  "year_of_day d =
     (let y = 400 * d div 146097 + 1
      in if days_before_year (y + 1) \<le> d then y + 1 else y)"

lemma div_step: "0 < k \<Longrightarrow> (n :: int) div k = (n - 1) div k + (if n mod k = 0 then 1 else 0)"
proof -
  assume k: "0 < k"
  have "n - 1 = (n mod k - 1) + n div k * k" using mod_div_mult_eq [of n k] by linarith
  moreover have "((n mod k - 1) + n div k * k) div k = n div k + (n mod k - 1) div k"
    using k by (intro div_mult_self1) simp
  ultimately have eq: "(n - 1) div k = n div k + (n mod k - 1) div k" by (simp only:)
  show ?thesis
  proof (cases "n mod k = 0")
    case True
    then show ?thesis using k eq by (simp add: div_eq_minus1)
  next
    case False
    then have "0 \<le> n mod k - 1" "n mod k - 1 < k"
      using k pos_mod_sign [of k n] pos_mod_bound [of k n] by linarith+
    then show ?thesis using False eq by simp
  qed
qed

lemma mod_zero_dvd: "k dvd m \<Longrightarrow> (y :: int) mod m = 0 \<Longrightarrow> y mod k = 0"
  by (metis mod_eq_0_iff_dvd dvd_trans)

lemma days_in_year: "days_before_year (y + 1) = days_before_year y + 365 + (if leap y then 1 else 0)"
proof -
  define a b c where abc: "a = (y mod 4 = 0)" "b = (y mod 100 = 0)" "c = (y mod 400 = 0)"
  have imp: "c \<longrightarrow> b" "b \<longrightarrow> a"
    unfolding abc using mod_zero_dvd [of 100 400 y] mod_zero_dvd [of 4 100 y] by simp_all
  have "days_before_year (y + 1) = 365 * y + y div 4 - y div 100 + y div 400"
    by (simp add: days_before_year_def)
  also have "\<dots> = 365 * y + ((y - 1) div 4 + (if a then 1 else 0)) - ((y - 1) div 100 + (if b then 1 else 0))
      + ((y - 1) div 400 + (if c then 1 else 0))"
    unfolding abc by (simp only: div_step [of 4 y] div_step [of 100 y] div_step [of 400 y] zero_less_numeral)
  also have "\<dots> = days_before_year y + 365 + (if leap y then 1 else 0)"
    using imp by (cases a; cases b; cases c) (simp_all add: days_before_year_def leap_def abc [symmetric])
  finally show ?thesis .
qed

lemma div_bounds: "0 < k \<Longrightarrow> k * ((n :: int) div k) \<le> n \<and> n < k * (n div k) + k"
  using pos_mod_sign [of k n] pos_mod_bound [of k n] minus_mod_eq_mult_div [of n k] by linarith

text \<open>The year found is the one the day lies in.\<close>

lemma year_of_day_bounds:
  "days_before_year (year_of_day d) \<le> d \<and> d < days_before_year (year_of_day d + 1)"
proof -
  define n where "n = 400 * d div 146097"
  have n: "146097 * n \<le> 400 * d" "400 * d < 146097 * n + 146097"
    using div_bounds [of 146097 "400 * d"] by (simp_all add: n_def)
  note b = div_bounds [of 4 n] div_bounds [of 100 n] div_bounds [of 400 n]
    div_bounds [of 4 "n + 1"] div_bounds [of 100 "n + 1"] div_bounds [of 400 "n + 1"]
  have lo: "days_before_year (n + 1) \<le> d" using b n by (simp add: days_before_year_def)
  have "d \<le> days_before_year (n + 2) + 1" using b n by (simp add: days_before_year_def)
  moreover have "days_before_year (n + 2) + 365 \<le> days_before_year (n + 3)"
    using days_in_year [of "n + 2"] by (simp add: add.assoc split: if_splits)
  ultimately have hi: "d < days_before_year (n + 3)" by linarith
  show ?thesis using lo hi by (simp add: year_of_day_def n_def [symmetric] Let_def add.commute)
qed

section \<open>Months\<close>

text \<open>The days before each month of a common year, and before the next year.\<close>

definition days_before :: "nat list" where
  "days_before = [0, 31, 59, 90, 120, 151, 181, 212, 243, 273, 304, 334, 365]"

definition days_before_month :: "bool \<Rightarrow> nat \<Rightarrow> int" where
  "days_before_month lp m = int (days_before ! (m - 1)) + (if lp \<and> 2 < m then 1 else 0)"

definition month_of :: "bool \<Rightarrow> int \<Rightarrow> nat" where
  "month_of lp yday = (case find (\<lambda>m. yday < days_before_month lp (m + 1)) [1 ..< 12] of
     Some m \<Rightarrow> m | None \<Rightarrow> 12)"

definition days_in_month :: "bool \<Rightarrow> nat \<Rightarrow> int" where
  "days_in_month lp m = days_before_month lp (m + 1) - days_before_month lp m"

lemma month_of_bounds:
  assumes "0 \<le> yday" "yday < 365 + (if lp then 1 else 0)"
  shows "1 \<le> month_of lp yday \<and> month_of lp yday \<le> 12 \<and>
    days_before_month lp (month_of lp yday) \<le> yday \<and> yday < days_before_month lp (month_of lp yday + 1)"
proof (cases "find (\<lambda>m. yday < days_before_month lp (m + 1)) [1 ..< 12]")
  case None
  moreover have "11 \<in> set [1 ..< 12 :: nat]" by simp
  ultimately have "\<not> yday < days_before_month lp (11 + 1)" unfolding find_None_iff by blast
  then show ?thesis using None assms
    by (simp add: month_of_def days_before_month_def days_before_def)
next
  case (Some m)
  then obtain i where i: "i < 11" "m = [1 ..< 12] ! i" "yday < days_before_month lp (m + 1)"
    "\<forall>j < i. \<not> yday < days_before_month lp ([1 ..< 12] ! j + 1)"
    by (auto simp: find_Some_iff)
  have m: "m = Suc i" using i(1,2) by simp
  have "days_before_month lp m \<le> yday"
  proof (cases i)
    case 0
    then show ?thesis using assms m by (simp add: days_before_month_def days_before_def)
  next
    case (Suc j)
    then have "\<not> yday < days_before_month lp ([1 ..< 12] ! j + 1)" using i(4) by blast
    then show ?thesis using m Suc i(1) by simp
  qed
  then show ?thesis using Some i m by (simp add: month_of_def)
qed

section \<open>Dates and clock times\<close>

definition Date :: "time \<Rightarrow> int \<times> nat \<times> int" where
  "Date t =
     (let d = (t - zero_time) div day_ns; y = year_of_day d; yday = d - days_before_year y;
          m = month_of (leap y) yday
      in (y, m, yday - days_before_month (leap y) m + 1))"

text \<open>\<^verbatim>\<open>time.Date\<close> in UTC, for arguments in their usual ranges.\<close>

definition time_Date :: "int \<Rightarrow> nat \<Rightarrow> int \<Rightarrow> int \<Rightarrow> int \<Rightarrow> int \<Rightarrow> int \<Rightarrow> time" where
  "time_Date y m d hour mins sec nsec =
     zero_time + (days_before_year y + days_before_month (leap y) m + (d - 1)) * day_ns
       + (hour * 3600 + mins * 60 + sec) * second + nsec"

text \<open>A date of the calendar: a month of the year and a day of that month.\<close>

definition valid_date :: "int \<Rightarrow> nat \<Rightarrow> int \<Rightarrow> bool" where
  "valid_date y m d \<longleftrightarrow> 1 \<le> m \<and> m \<le> 12 \<and> 1 \<le> d \<and> d \<le> days_in_month (leap y) m"

lemma Date_valid: "Date t = (y, m, d) \<Longrightarrow> valid_date y m d"
proof -
  assume e: "Date t = (y, m, d)"
  let ?d = "(t - zero_time) div day_ns"
  have "0 \<le> ?d - days_before_year (year_of_day ?d)"
    "?d - days_before_year (year_of_day ?d) < 365 + (if leap (year_of_day ?d) then 1 else 0)"
    using year_of_day_bounds [of ?d] days_in_year [of "year_of_day ?d"] by simp_all
  from month_of_bounds [OF this] show ?thesis
    using e by (auto simp: Date_def Let_def valid_date_def days_in_month_def)
qed

lemma time_Date_Date:
  assumes "Date t = (y, m, d)"
  shows "time_Date y m d 0 0 0 0 = t - (t - zero_time) mod day_ns"
proof -
  have "days_before_year y + days_before_month (leap y) m + (d - 1) = (t - zero_time) div day_ns"
    using assms by (auto simp: Date_def Let_def)
  then have "time_Date y m d 0 0 0 0 = zero_time + (t - zero_time) div day_ns * day_ns"
    by (simp add: time_Date_def)
  then show ?thesis by (simp add: minus_mod_eq_div_mult [symmetric])
qed

lemma time_Date_split:
  "time_Date y m d h mi s n = time_Date y m d 0 0 0 0 + (h * 3600 + mi * 60 + s) * second + n"
  by (simp add: time_Date_def)

lemma zero_time_day: "(t - zero_time) mod day_ns = t mod day_ns"
proof -
  have "t - zero_time = t + 719162 * day_ns" by (simp add: zero_time_def day_ns_def second_def)
  then show ?thesis by (simp only: mod_mult_self1)
qed

section \<open>The helpers (timeutil.go)\<close>

text \<open>A \<^verbatim>\<open>time.Time\<close> is modelled in UTC.\<close>

definition NowUTC :: "'s world \<Rightarrow> time \<times> 's world" where
  "NowUTC w = time_Now w"

definition StartOfDay :: "time \<Rightarrow> time" where
  "StartOfDay t = (case Date t of (y, m, d) \<Rightarrow> time_Date y m d 0 0 0 0)"

definition EndOfDay :: "time \<Rightarrow> time" where
  "EndOfDay t = (case Date t of (y, m, d) \<Rightarrow> time_Date y m d 23 59 59 (second - nanosecond))"

text \<open>The layout \<^verbatim>\<open>2006-01-02T15:04:05Z07:00\<close> in UTC, for the years 0 to 9999.\<close>

definition pad :: "nat \<Rightarrow> int \<Rightarrow> string" where
  "pad n i = (let s = FormatInt i in replicate (n - length s) CHR ''0'' @ s)"

definition Format_RFC3339 :: "time \<Rightarrow> string" where
  "Format_RFC3339 t =
     (case Date t of
        (y, m, d) \<Rightarrow>
          (let s = t mod day_ns div second
           in pad 4 y @ ''-'' @ pad 2 (int m) @ ''-'' @ pad 2 d @ ''T'' @ pad 2 (s div 3600) @ '':''
              @ pad 2 (s div 60 mod 60) @ '':'' @ pad 2 (s mod 60) @ ''Z''))"

definition FormatRFC3339 :: "time \<Rightarrow> string" where
  "FormatRFC3339 t = Format_RFC3339 t"

text \<open>\<open>parse\<close> is \<^verbatim>\<open>time.Parse\<close> with that layout, its result read in UTC.\<close>

definition ParseRFC3339 :: "(string \<Rightarrow> time result) \<Rightarrow> string \<Rightarrow> time \<times> go_error option" where
  "ParseRFC3339 parse s =
     (case parse s of Inl err \<Rightarrow> (zero_time, Some err) | Inr t \<Rightarrow> (t, None))"

lemma StartOfDay_eq: "StartOfDay t = t - t mod day_ns"
  by (cases "Date t") (simp add: StartOfDay_def time_Date_Date zero_time_day)

lemma EndOfDay_eq: "EndOfDay t = StartOfDay t + (day_ns - 1)"
  by (cases "Date t")
    (simp add: EndOfDay_def StartOfDay_def time_Date_split [of _ _ _ 23] day_ns_def second_def nanosecond_def)

lemma Format_example: "Format_RFC3339 (1709210096 * second) = ''2024-02-29T12:34:56Z''"
  by code_simp

end
