(* ===== verification/Http_Server.thy ===== *)
theory Http_Server
  imports Http_Client Json_Text Calendar
begin

text \<open>
  What the gateway uses of \<^verbatim>\<open>net/http\<close> on the server's side: the response writer, handlers,
  and the routing of \<^verbatim>\<open>ServeMux\<close>; and \<^verbatim>\<open>strconv.Quote\<close>.
\<close>

section \<open>The response writer\<close>

text \<open>
  What a handler does with its \<^verbatim>\<open>ResponseWriter\<close>, in order. \<open>HMerge h\<close> adds every value of
  every key of \<open>h\<close>.
\<close>

datatype rw_call =
    HSet string string
  | HMerge header
  | WriteHeader int
  | WriteBody bytes

text \<open>
  A handler's calls, the value it panics with if it does, and its effect on the world. Of a
  server's request, \<open>rq_URL\<close> is the path.
\<close>

type_synonym 's http_handler = "http_request \<Rightarrow> 's world \<Rightarrow> (rw_call list \<times> string option) \<times> 's world"

text \<open>
  The server's own writer: the first \<^verbatim>\<open>WriteHeader\<close> sends the status and the header as it
  is then, the first \<^verbatim>\<open>Write\<close> without one sends 200, and a status without a body drops what
  is written. Informational statuses are outside the model.
\<close>

record writer =
  wr_Header :: header
  wr_sent :: "(int \<times> header) option"
  wr_Body :: bytes

definition fresh_writer :: writer where
  "fresh_writer = \<lparr>wr_Header = Map.empty, wr_sent = None, wr_Body = []\<rparr>"

definition no_body :: "int \<Rightarrow> bool" where
  "no_body code \<longleftrightarrow> code = 204 \<or> code = 304"

definition send_header :: "int \<Rightarrow> writer \<Rightarrow> writer" where
  "send_header code wr = (if wr_sent wr = None then wr\<lparr>wr_sent := Some (code, wr_Header wr)\<rparr> else wr)"

definition write_body :: "bytes \<Rightarrow> writer \<Rightarrow> writer" where
  "write_body bs wr =
     (case wr_sent wr of
        Some (code, _) \<Rightarrow> if no_body code then wr else wr\<lparr>wr_Body := wr_Body wr @ bs\<rparr>
      | None \<Rightarrow> wr)"

fun writer_call :: "rw_call \<Rightarrow> writer \<Rightarrow> writer" where
  "writer_call (HSet k v) wr = wr\<lparr>wr_Header := header_Set k v (wr_Header wr)\<rparr>"
| "writer_call (HMerge h) wr = wr\<lparr>wr_Header := header_merge (wr_Header wr) h\<rparr>"
| "writer_call (WriteHeader code) wr = send_header code wr"
| "writer_call (WriteBody bs) wr = write_body bs (send_header 200 wr)"

text \<open>The answer the client gets when the handler has returned.\<close>

record answer =
  an_Code :: int
  an_Header :: header
  an_Body :: bytes

definition finish :: "writer \<Rightarrow> answer" where
  "finish wr =
     (case wr_sent (send_header 200 wr) of
        Some (code, h) \<Rightarrow> \<lparr>an_Code = code, an_Header = h, an_Body = wr_Body wr\<rparr>
      | None \<Rightarrow> \<lparr>an_Code = 200, an_Header = wr_Header wr, an_Body = []\<rparr>)"

definition answer_of :: "rw_call list \<Rightarrow> answer" where
  "answer_of calls = finish (fold writer_call calls fresh_writer)"

section \<open>Routing\<close>

text \<open>The cleaning of a path: no empty, \<^verbatim>\<open>.\<close> or \<^verbatim>\<open>..\<close> elements, and a leading slash.\<close>

fun clean_elems :: "string list \<Rightarrow> string list \<Rightarrow> string list" where
  "clean_elems acc [] = rev acc"
| "clean_elems acc (e # es) =
     (if e = [] \<or> e = ''.'' then clean_elems acc es
      else if e = ''..'' then clean_elems (tl acc) es
      else clean_elems (e # acc) es)"

definition cleanPath :: "string \<Rightarrow> string" where
  "cleanPath p0 =
     (let p = (case p0 of c # _ \<Rightarrow> if c = CHR ''/'' then p0 else CHR ''/'' # p0 | [] \<Rightarrow> ''/'');
          np = concat (map (\<lambda>e. CHR ''/'' # e) (clean_elems [] (Split (CHR ''/'') p)))
      in if np = [] then ''/'' else if last p = CHR ''/'' then np @ ''/'' else np)"

datatype 'r routed = Route 'r | Redirect string | NoRoute

definition pattern_matches :: "string \<Rightarrow> string \<Rightarrow> bool" where
  "pattern_matches pat path \<longleftrightarrow> pat = path \<or> (pat \<noteq> [] \<and> last pat = CHR ''/'' \<and> HasPrefix path pat)"

text \<open>The longest matching pattern.\<close>

fun best_match :: "string \<Rightarrow> (string \<times> 'r) option \<Rightarrow> (string \<times> 'r) list \<Rightarrow> (string \<times> 'r) option" where
  "best_match path best [] = best"
| "best_match path best ((pat, r) # pats) =
     (if pattern_matches pat path \<and> (case best of Some (p, _) \<Rightarrow> length p < length pat | None \<Rightarrow> True)
      then best_match path (Some (pat, r)) pats else best_match path best pats)"

text \<open>A path that is not clean, or lacks the slash of a registered subtree, is redirected.\<close>

definition mux_lookup :: "(string \<times> 'r) list \<Rightarrow> string \<Rightarrow> 'r routed" where
  "mux_lookup pats path0 =
     (let path = cleanPath path0
      in if path \<notin> fst ` set pats \<and> last path \<noteq> CHR ''/'' \<and> path @ ''/'' \<in> fst ` set pats
         then Redirect (path @ ''/'')
         else if path \<noteq> path0 then Redirect path
         else (case best_match path None pats of Some (_, r) \<Rightarrow> Route r | None \<Rightarrow> NoRoute))"

lemma best_match_sound:
  "best_match path best pats = Some (p, r) \<Longrightarrow> best = Some (p, r) \<or> (p, r) \<in> set pats \<and> pattern_matches p path"
  by (induction path best pats rule: best_match.induct) (auto split: if_splits)

lemma best_match_some: "\<exists>y. best_match path (Some x) pats = Some y"
  by (induction path "Some x" pats arbitrary: x rule: best_match.induct) (auto split: prod.splits)

lemma best_match_total:
  "\<exists>p r. (p, r) \<in> set pats \<and> pattern_matches p path \<Longrightarrow> \<exists>y. best_match path best pats = Some y"
proof (induction path best pats rule: best_match.induct)
  case (2 path best pat r pats)
  show ?case
  proof (cases best)
    case None
    then show ?thesis using 2 best_match_some [of path "(pat, r)" pats] by (cases "pattern_matches pat path") auto
  next
    case (Some x)
    then show ?thesis using best_match_some [of path x pats] best_match_some [of path "(pat, r)" pats]
      by (auto simp del: not_None_eq)
  qed
qed simp

lemma mux_lookup_sound: "mux_lookup pats path = Route r \<Longrightarrow> \<exists>p. (p, r) \<in> set pats \<and> pattern_matches p path"
  by (auto simp: mux_lookup_def Let_def dest!: best_match_sound split: if_splits option.splits)

section \<open>Quoting (strconv.Quote)\<close>

text \<open>\<open>pr\<close> is \<^verbatim>\<open>strconv.IsPrint\<close> beyond ASCII.\<close>

definition hex2 :: "nat \<Rightarrow> string" where
  "hex2 n = [hex_digit (n div 16 mod 16), hex_digit (n mod 16)]"

definition is_print :: "(nat \<Rightarrow> bool) \<Rightarrow> nat \<Rightarrow> bool" where
  "is_print pr r = (if r < 128 then 32 \<le> r \<and> r < 127 else pr r)"

definition quote_rune :: "(nat \<Rightarrow> bool) \<Rightarrow> string \<Rightarrow> string" where
  "quote_rune pr s =
     (case DecodeRune s of
        (r, n) \<Rightarrow>
          if r = RuneError \<and> n = 1 then [backslash, CHR ''x''] @ hex2 (of_char (List.hd s))
          else if r = of_char quote_char \<or> r = of_char backslash then [backslash, List.hd s]
          else if is_print pr r then take n s
          else (case map_of [(7, CHR ''a''), (8, CHR ''b''), (12, CHR ''f''), (10, CHR ''n''),
                             (13, CHR ''r''), (9, CHR ''t''), (11, CHR ''v'')] r of
                  Some e \<Rightarrow> [backslash, e]
                | None \<Rightarrow>
                    if r < 32 \<or> r = 127 then [backslash, CHR ''x''] @ hex2 r
                    else if r < 65536 then [backslash, CHR ''u''] @ hex4 r
                    else [backslash, CHR ''U''] @ hex4 (r div 65536) @ hex4 r))"

function quote_runes :: "(nat \<Rightarrow> bool) \<Rightarrow> string \<Rightarrow> string" where
  "quote_runes pr s = (if s = [] then [] else quote_rune pr s @ quote_runes pr (drop (snd (DecodeRune s)) s))"
  by pat_completeness auto
termination
proof (relation "measure (length \<circ> snd)")
  fix pr and s :: string assume "s \<noteq> []"
  then show "((pr, drop (snd (DecodeRune s)) s), pr, s) \<in> measure (length \<circ> snd)"
    using DecodeRune_size [of s] by (cases s) auto
qed simp

declare quote_runes.simps [simp del]

definition Quote :: "(nat \<Rightarrow> bool) \<Rightarrow> string \<Rightarrow> string" where
  "Quote pr s = quoted (quote_runes pr s)"

section \<open>Numbers in JSON\<close>

lemma FormatUint_head: "0 < n \<Longrightarrow> \<exists>c s. FormatUint n = c # s \<and> is_digit c \<and> c \<noteq> CHR ''0'' \<and> list_all is_digit s"
proof (induction n rule: FormatUint.induct)
  case (1 n)
  show ?case
  proof (cases "n < 10")
    case True
    have "dec_digit n \<noteq> CHR ''0''"
    proof
      assume "dec_digit n = CHR ''0''"
      then have "(of_char (dec_digit n) :: nat) = 48" by simp
      then show False using True 1(2) by (simp add: of_char_dec_digit)
    qed
    then show ?thesis using True by (subst FormatUint.simps) simp
  next
    case False
    then obtain c s where "FormatUint (n div 10) = c # s" "is_digit c" "c \<noteq> CHR ''0''" "list_all is_digit s"
      using 1 by (auto simp: div_greater_zero_iff)
    then show ?thesis using False by (subst FormatUint.simps) simp
  qed
qed

lemma munch_digits: "list_all is_digit s \<Longrightarrow> num_munch NInt s = Some (s, [])"
  by (induction s) (auto simp: num_accept_def num_step_def)

lemma num_munch_FormatUint:
  assumes "q \<in> {NStart, NMinus}"
  shows "num_munch q (FormatUint n) = Some (FormatUint n, [])"
proof (cases "n = 0")
  case True
  have "(of_char (CHR ''0'') :: nat) = 48" by simp
  then have "dec_digit 0 = CHR ''0''" unfolding dec_digit_def by (metis add_0_right char_of_char)
  then have "FormatUint 0 = ''0''" by (subst FormatUint.simps) simp
  then show ?thesis using True assms by (auto simp: num_step_def num_accept_def)
next
  case False
  then obtain c s where c: "FormatUint n = c # s" "is_digit c" "c \<noteq> CHR ''0''" "list_all is_digit s"
    using FormatUint_head [of n] by auto
  moreover have "c \<noteq> CHR ''-''" using c(2) by (auto simp: is_digit_def)
  ultimately show ?thesis using assms by (auto simp: num_step_def munch_digits)
qed

lemma num_ok_FormatInt [simp]: "num_ok (FormatInt i)"
  by (auto simp: num_ok_def FormatInt_def num_munch_FormatUint num_step_def)

end
