(* ===== verification/App_Config.thy ===== *)
theory App_Config
  imports Auth_Usecases
begin

text \<open>
  \<^verbatim>\<open>infrastructure/config/config.go\<close>: the configuration, its loading and the PostgreSQL
  connection string; and the views of it that the features take. Viper is a parameter.
\<close>

section \<open>The configuration\<close>

record AppConfig =
  ac_Name :: string
  ac_Environment :: string
  ac_Version :: string

record ServerConfig =
  sc_GRPCPort :: goint
  sc_HTTPPort :: goint
  sc_ReadTimeout :: duration
  sc_WriteTimeout :: duration
  sc_ShutdownTimeout :: duration
  sc_DefaultTimeout :: duration

record DatabaseConfig =
  db_Host :: string
  db_Port :: goint
  db_Name :: string
  db_User :: string
  db_Password :: string
  db_SSLMode :: string
  db_MaxOpenConns :: goint
  db_MaxIdleConns :: goint
  db_ConnMaxLifetime :: duration

record MongoConfig =
  mo_URI :: string
  mo_Database :: string

record RedisConfig =
  rd_Addr :: string
  rd_Password :: string
  rd_DB :: goint

record JWTConfig =
  jc_SecretKey :: string
  jc_AccessTokenTTL :: duration
  jc_RefreshTokenTTL :: duration

record TelemetryConfig =
  te_ServiceName :: string
  te_OTLPEndpoint :: string
  te_Enabled :: bool

record CompanyClientConfig =
  cc_GRPCAddr :: string
  cc_Timeout :: duration

text \<open>\<open>cf_LogLevel\<close> is the only field of \<^verbatim>\<open>LoggerConfig\<close>.\<close>

record Config =
  cf_App :: AppConfig
  cf_Server :: ServerConfig
  cf_Database :: DatabaseConfig
  cf_Mongo :: MongoConfig
  cf_Redis :: RedisConfig
  cf_JWT :: JWTConfig
  cf_LogLevel :: string
  cf_Telemetry :: TelemetryConfig
  cf_CompanyClient :: CompanyClientConfig

section \<open>The connection string\<close>

definition DSN :: "DatabaseConfig \<Rightarrow> string" where
  "DSN d =
     ''host='' @ db_Host d @ '' port='' @ FormatInt (sint (db_Port d)) @ '' user='' @ db_User d
     @ '' password='' @ db_Password d @ '' dbname='' @ db_Name d @ '' sslmode='' @ db_SSLMode d"

section \<open>Loading\<close>

text \<open>The defaults applied after unmarshalling.\<close>

definition set_defaults :: "Config \<Rightarrow> Config" where
  "set_defaults c0 =
     (let c1 = (if sint (sc_DefaultTimeout (cf_Server c0)) \<le> 0
                then c0\<lparr>cf_Server := (cf_Server c0)\<lparr>sc_DefaultTimeout := word_of_int (15 * second)\<rparr>\<rparr> else c0);
          c2 = (if sint (cc_Timeout (cf_CompanyClient c1)) \<le> 0
                then c1\<lparr>cf_CompanyClient := (cf_CompanyClient c1)\<lparr>cc_Timeout := word_of_int (5 * second)\<rparr>\<rparr> else c1)
      in if cc_GRPCAddr (cf_CompanyClient c2) = []
         then c2\<lparr>cf_CompanyClient := (cf_CompanyClient c2)\<lparr>cc_GRPCAddr := ''localhost:50052''\<rparr>\<rparr> else c2)"

text \<open>\<open>unmarshal\<close> is what Viper makes of the files it finds and the environment.\<close>

definition Load :: "Config result \<Rightarrow> Config result" where
  "Load unmarshal =
     (case unmarshal of
        Inl err \<Rightarrow> Inl (Wrapped ''config: unmarshal: '' err [])
      | Inr cfg \<Rightarrow> Inr (set_defaults cfg))"

definition NewTokenConfig :: "Config \<Rightarrow> TokenConfig" where
  "NewTokenConfig cfg =
     \<lparr>tc_SecretKey = jc_SecretKey (cf_JWT cfg), tc_AccessTTL = jc_AccessTokenTTL (cf_JWT cfg),
      tc_RefreshTTL = jc_RefreshTokenTTL (cf_JWT cfg)\<rparr>"

section \<open>Facts\<close>

lemma defaults_pos: "0 < sint (word_of_int (15 * second) :: duration)" "0 < sint (word_of_int (5 * second) :: duration)"
  by (simp_all add: second_def)

lemma set_defaults_usable:
  "0 < sint (sc_DefaultTimeout (cf_Server (set_defaults c)))"
  "0 < sint (cc_Timeout (cf_CompanyClient (set_defaults c)))"
  "cc_GRPCAddr (cf_CompanyClient (set_defaults c)) \<noteq> []"
  using defaults_pos by (auto simp: set_defaults_def Let_def)

lemma set_defaults_idem: "set_defaults (set_defaults c) = set_defaults c"
  using set_defaults_usable [of c] by (simp add: set_defaults_def [of "set_defaults c"])

lemma set_defaults_keeps:
  "cf_App (set_defaults c) = cf_App c" "cf_Database (set_defaults c) = cf_Database c"
  "cf_JWT (set_defaults c) = cf_JWT c" "cf_LogLevel (set_defaults c) = cf_LogLevel c"
  by (simp_all add: set_defaults_def Let_def)

text \<open>
  The connection string does not quote its values, so it does not determine them: a space
  in one of them starts another parameter.
\<close>

lemma dsn_injection:
  "DSN \<lparr>db_Host = ''h'', db_Port = 1, db_Name = ''d'', db_User = ''u'', db_Password = ''p dbname=x'',
     db_SSLMode = ''s'', db_MaxOpenConns = 0, db_MaxIdleConns = 0, db_ConnMaxLifetime = 0\<rparr> =
   DSN \<lparr>db_Host = ''h'', db_Port = 1, db_Name = ''x dbname=d'', db_User = ''u'', db_Password = ''p'',
     db_SSLMode = ''s'', db_MaxOpenConns = 0, db_MaxIdleConns = 0, db_ConnMaxLifetime = 0\<rparr>"
  by (simp add: DSN_def)

end
