(* ===== verification/Gateway.thy ===== *)
theory Gateway
  imports Http_Server App_Config
begin

text \<open>
  \<^verbatim>\<open>bootstrap/gateway.go\<close> and \<^verbatim>\<open>infrastructure/swagger/swagger.go\<close>: the HTTP gateway in
  front of the gRPC server. The grpc-gateway mux, the Prometheus, pprof and file handlers,
  the UUID generator and the OpenTelemetry wrapper are parameters.
\<close>

section \<open>Libraries\<close>

type_synonym 's error_handler = "http_request \<Rightarrow> go_error \<Rightarrow> 's world \<Rightarrow> rw_call list \<times> 's world"

text \<open>
  \<open>gl_Details\<close> is the JSON value of a status's details, or the error of marshalling them,
  \<open>None\<close> when there are none; \<open>gl_mux\<close> is \<^verbatim>\<open>runtime.ServeMux\<close> with the services registered,
  on an error handler and a header matcher; \<open>gl_redirect\<close> is \<^verbatim>\<open>http.RedirectHandler\<close>,
  \<open>gl_not_found\<close> the answer to a path without a route.
\<close>

record 's gateway_libs =
  gl_FromError :: from_error
  gl_text :: "go_error \<Rightarrow> string"
  gl_HTTPStatus :: "grpc_code \<Rightarrow> int"
  gl_Details :: "go_error \<Rightarrow> raw_json result option"
  gl_print :: "nat \<Rightarrow> bool"
  gl_uuid :: "'s world \<Rightarrow> string \<times> 's world"
  gl_lower :: "string \<Rightarrow> string"
  gl_DefaultMatcher :: "string \<Rightarrow> string option"
  gl_mux :: "'s error_handler \<Rightarrow> (string \<Rightarrow> string option) \<Rightarrow> 's http_handler"
  gl_metrics :: "'s http_handler"
  gl_pprof :: "string \<Rightarrow> 's http_handler"
  gl_files :: "'s http_handler"
  gl_redirect :: "string \<Rightarrow> 's http_handler"
  gl_not_found :: "'s http_handler"
  gl_otel :: "'s http_handler \<Rightarrow> 's http_handler"

section \<open>Envelopes\<close>

record Meta =
  me_RequestID :: string
  me_Timestamp :: string

record SuccessEnvelope =
  se_Status :: string
  se_Code :: int
  se_Message :: string
  se_Data :: "string option"
  se_Meta :: Meta

record ErrorEnvelope =
  ee_Status :: string
  ee_Code :: int
  ee_Message :: string
  ee_Errors :: "raw_json result option"
  ee_Meta :: Meta

text \<open>Marshalling by the struct tags; an empty request ID is omitted.\<close>

definition meta_json :: "Meta \<Rightarrow> raw_json" where
  "meta_json m =
     RObj ((if me_RequestID m \<noteq> [] then [(''request_id'', json_string (me_RequestID m))] else [])
           @ [(''timestamp'', json_string (me_Timestamp m))])"

definition success_json :: "SuccessEnvelope \<Rightarrow> raw_json option" where
  "success_json e =
     map_option (\<lambda>data.
       RObj [(''status'', json_string (se_Status e)), (''code'', RNum (FormatInt (se_Code e))),
             (''message'', json_string (se_Message e)), (''data'', data), (''meta'', meta_json (se_Meta e))])
       (raw_message (se_Data e))"

definition error_json :: "ErrorEnvelope \<Rightarrow> raw_json option" where
  "error_json e =
     map_option (\<lambda>errors.
       RObj [(''status'', json_string (ee_Status e)), (''code'', RNum (FormatInt (ee_Code e))),
             (''message'', json_string (ee_Message e)), (''errors'', errors), (''meta'', meta_json (ee_Meta e))])
       (case ee_Errors e of None \<Rightarrow> Some RNull | Some (Inr v) \<Rightarrow> Some v | Some (Inl _) \<Rightarrow> None)"

definition json_content :: rw_call where
  "json_content = HSet ''Content-Type'' ''application/json; charset=utf-8''"

section \<open>Errors\<close>

definition request_id_of :: "http_request \<Rightarrow> string" where
  "request_id_of r =
     (if header_Get (rq_Header r) ''X-Request-ID'' = []
      then header_Get (rq_Header r) ''Grpc-Metadata-X-Request-ID''
      else header_Get (rq_Header r) ''X-Request-ID'')"

text \<open>The texts printed when an envelope does not marshal, with \<^verbatim>\<open>%q\<close> for the strings.\<close>

definition failed_text :: "(nat \<Rightarrow> bool) \<Rightarrow> string \<Rightarrow> string \<Rightarrow> string \<Rightarrow> string \<Rightarrow> string" where
  "failed_text pr code message reqID timestamp =
     ''{'' @ quoted ''status'' @ '':'' @ quoted ''failed'' @ '','' @ quoted ''code'' @ '':'' @ code @ '',''
     @ quoted ''message'' @ '':'' @ message @ '','' @ quoted ''errors'' @ '':null,''
     @ quoted ''meta'' @ '':{'' @ quoted ''request_id'' @ '':'' @ Quote pr reqID @ '',''
     @ quoted ''timestamp'' @ '':'' @ Quote pr timestamp @ ''}}''"

definition GatewayErrorHandler :: "'s gateway_libs \<Rightarrow> 's error_handler" where
  "GatewayErrorHandler L r err w =
     (let ((c0, m0), ok) = gl_FromError L (Some err);
          (code, message) = (if ok then (c0, m0) else (Unknown, error_Error (gl_text L) err));
          details = (if ok then gl_Details L err else None);
          httpStatus = gl_HTTPStatus L code;
          reqID = request_id_of r
      in case time_Now w of
           (now, w1) \<Rightarrow>
             (case error_json
                     \<lparr>ee_Status = ''failed'', ee_Code = httpStatus, ee_Message = message, ee_Errors = details,
                      ee_Meta = \<lparr>me_RequestID = reqID, me_Timestamp = Format_RFC3339 now\<rparr>\<rparr> of
                Some v \<Rightarrow> ([json_content, WriteHeader httpStatus, WriteBody (print v)], w1)
              | None \<Rightarrow>
                  (case time_Now w1 of
                     (now', w2) \<Rightarrow>
                       ([json_content, WriteHeader httpStatus,
                         WriteBody (failed_text (gl_print L) (FormatInt httpStatus) (Quote (gl_print L) message)
                                      reqID (Format_RFC3339 now'))], w2))))"

section \<open>The response recorder\<close>

record responseRecorder =
  rr_statusCode :: int
  rr_body :: bytes
  rr_headers :: header

definition newResponseRecorder :: responseRecorder where
  "newResponseRecorder = \<lparr>rr_statusCode = 200, rr_body = [], rr_headers = Map.empty\<rparr>"

text \<open>Its \<^verbatim>\<open>Header\<close>, \<^verbatim>\<open>WriteHeader\<close> and \<^verbatim>\<open>Write\<close>: nothing is sent, the last status counts.\<close>

definition rec_Header :: "responseRecorder \<Rightarrow> header" where
  "rec_Header rec = rr_headers rec"

definition rec_WriteHeader :: "int \<Rightarrow> responseRecorder \<Rightarrow> responseRecorder" where
  "rec_WriteHeader code rec = rec\<lparr>rr_statusCode := code\<rparr>"

definition rec_Write :: "bytes \<Rightarrow> responseRecorder \<Rightarrow> responseRecorder" where
  "rec_Write bs rec = rec\<lparr>rr_body := rr_body rec @ bs\<rparr>"

fun record_call :: "rw_call \<Rightarrow> responseRecorder \<Rightarrow> responseRecorder" where
  "record_call (HSet k v) rec = rec\<lparr>rr_headers := header_Set k v (rec_Header rec)\<rparr>"
| "record_call (HMerge h) rec = rec\<lparr>rr_headers := header_merge (rec_Header rec) h\<rparr>"
| "record_call (WriteHeader code) rec = rec_WriteHeader code rec"
| "record_call (WriteBody bs) rec = rec_Write bs rec"

section \<open>The envelope middleware\<close>

definition without_length :: "header \<Rightarrow> header" where
  "without_length h = (\<lambda>k. if EqualFold_ascii k ''Content-Length'' then None else h k)"

text \<open>The data of a successful answer: JSON as it is, other text as a string, nothing as {}.\<close>

definition raw_data :: "bytes \<Rightarrow> string" where
  "raw_data body =
     (let trimmed = TrimSpace body
      in if 0 < length trimmed \<and> json_Valid trimmed then trimmed
         else if 0 < length trimmed then print (json_string trimmed)
         else ''{}'')"

definition envelope_calls ::
  "'s gateway_libs \<Rightarrow> string \<Rightarrow> responseRecorder \<Rightarrow> 's world \<Rightarrow> rw_call list \<times> 's world" where
  "envelope_calls L reqID rec w =
     (if 400 \<le> rr_statusCode rec then ([WriteHeader (rr_statusCode rec), WriteBody (rr_body rec)], w)
      else
        (case time_Now w of
           (now, w1) \<Rightarrow>
             (case success_json
                     \<lparr>se_Status = ''success'', se_Code = rr_statusCode rec, se_Message = ''success'',
                      se_Data = Some (raw_data (rr_body rec)),
                      se_Meta = \<lparr>me_RequestID = reqID, me_Timestamp = Format_RFC3339 now\<rparr>\<rparr> of
                Some v \<Rightarrow> ([json_content, WriteHeader (rr_statusCode rec), WriteBody (print v)], w1)
              | None \<Rightarrow>
                  (case time_Now w1 of
                     (now', w2) \<Rightarrow>
                       ([json_content, WriteHeader 500,
                         WriteBody (failed_text (gl_print L) ''500'' (quoted ''internal error marshaling envelope'')
                                      reqID (Format_RFC3339 now'))], w2)))))"

text \<open>The request ID of the request; a fresh one is added to it when it has none.\<close>

definition with_request_id ::
  "'s gateway_libs \<Rightarrow> http_request \<Rightarrow> 's world \<Rightarrow> (string \<times> http_request) \<times> 's world" where
  "with_request_id L r w =
     (let h = header_Get (rq_Header r) ''X-Request-ID''
      in if h = [] then
           (case gl_uuid L w of
              (i, w') \<Rightarrow> ((i, r\<lparr>rq_Header := header_Set ''X-Request-ID'' i (rq_Header r)\<rparr>), w'))
         else ((h, r), w))"

definition responseEnvelopeMiddleware :: "'s gateway_libs \<Rightarrow> 's http_handler \<Rightarrow> 's http_handler" where
  "responseEnvelopeMiddleware L next r w =
     (case with_request_id L r w of
        ((reqID, r'), w1) \<Rightarrow>
          (case next r' w1 of
             ((calls, Some p), w2) \<Rightarrow> (([HSet ''X-Request-ID'' reqID], Some p), w2)
           | ((calls, None), w2) \<Rightarrow>
               (let rec = fold record_call calls newResponseRecorder
                in case envelope_calls L reqID rec w2 of
                     (out, w3) \<Rightarrow>
                       ((HSet ''X-Request-ID'' reqID # HMerge (without_length (rec_Header rec)) # out, None), w3))))"

section \<open>Cross-origin requests\<close>

definition cors_headers :: "rw_call list" where
  "cors_headers =
     [HSet ''Access-Control-Allow-Origin'' ''*'',
      HSet ''Access-Control-Allow-Methods'' ''GET, POST, PUT, PATCH, DELETE, QUERY, OPTIONS, HEAD'',
      HSet ''Access-Control-Allow-Headers'' ''Accept, Content-Type, Content-Length, Accept-Encoding, Authorization, X-CSRF-Token, X-Request-ID, Grpc-Metadata-X-Request-ID, Idempotency-Key, X-Idempotency-Key'',
      HSet ''Access-Control-Expose-Headers'' ''Grpc-Metadata-*, Content-Length, Content-Type, Link, Idempotency-Key, X-Idempotency-Key'']"

definition withCORS :: "'s http_handler \<Rightarrow> 's http_handler" where
  "withCORS next r w =
     (if rq_Method r = ''OPTIONS'' then ((cors_headers @ [WriteHeader 204], None), w)
      else (case next r w of ((calls, p), w') \<Rightarrow> ((cors_headers @ calls, p), w')))"

section \<open>Swagger (swagger.go)\<close>

datatype swagger_route = Spec | Assets

definition Swagger_Handler :: "'s gateway_libs \<Rightarrow> bytes \<Rightarrow> 's http_handler" where
  "Swagger_Handler L spec r w =
     (case mux_lookup [(''/swagger/spec.json'', Spec), (''/swagger/'', Assets)] (rq_URL r) of
        Route Spec \<Rightarrow>
          (([HSet ''Content-Type'' ''application/json'', HSet ''Access-Control-Allow-Origin'' ''*'',
             WriteBody spec], None), w)
      | Route Assets \<Rightarrow> gl_files L (r\<lparr>rq_URL := drop (length ''/swagger/'') (rq_URL r)\<rparr>) w
      | Redirect p \<Rightarrow> gl_redirect L p r w
      | NoRoute \<Rightarrow> gl_not_found L r w)"

section \<open>The gateway\<close>

definition headerMatcher :: "'s gateway_libs \<Rightarrow> string \<Rightarrow> string option" where
  "headerMatcher L key =
     (let k = ToLower (gl_lower L) key
      in if k = ''x-request-id'' then Some ''x-request-id''
         else if k = ''idempotency-key'' \<or> k = ''x-idempotency-key'' then Some ''idempotency-key''
         else gl_DefaultMatcher L key)"

datatype gateway_route = MetricsRoute | PprofRoute string | SwaggerRoute | ApiRoute

definition gateway_patterns :: "Config \<Rightarrow> (string \<times> gateway_route) list" where
  "gateway_patterns cfg =
     [(''/metrics'', MetricsRoute)]
     @ (if ac_Environment (cf_App cfg) \<noteq> ''production''
        then [(''/debug/pprof/'', PprofRoute ''index''), (''/debug/pprof/cmdline'', PprofRoute ''cmdline''),
              (''/debug/pprof/profile'', PprofRoute ''profile''), (''/debug/pprof/symbol'', PprofRoute ''symbol''),
              (''/debug/pprof/trace'', PprofRoute ''trace'')]
        else [])
     @ [(''/swagger/'', SwaggerRoute), (''/'', ApiRoute)]"

definition gateway_mux :: "'s gateway_libs \<Rightarrow> Config \<Rightarrow> bytes \<Rightarrow> 's http_handler" where
  "gateway_mux L cfg spec r w =
     (case mux_lookup (gateway_patterns cfg) (rq_URL r) of
        Route MetricsRoute \<Rightarrow> gl_metrics L r w
      | Route (PprofRoute p) \<Rightarrow> gl_pprof L p r w
      | Route SwaggerRoute \<Rightarrow> Swagger_Handler L spec r w
      | Route ApiRoute \<Rightarrow>
          responseEnvelopeMiddleware L (gl_mux L (GatewayErrorHandler L) (headerMatcher L)) r w
      | Redirect p \<Rightarrow> gl_redirect L p r w
      | NoRoute \<Rightarrow> gl_not_found L r w)"

text \<open>\<^verbatim>\<open>http.Server\<close>: the address, the handler and the two timeouts.\<close>

record 's http_server =
  hs_Addr :: string
  hs_Handler :: "'s http_handler"
  hs_ReadTimeout :: duration
  hs_WriteTimeout :: duration

text \<open>\<open>register\<close> is the registration of the services with the gRPC address.\<close>

definition NewHTTPGateway ::
  "'s gateway_libs \<Rightarrow> bytes \<Rightarrow> (string \<Rightarrow> go_error option) \<Rightarrow> Config \<Rightarrow> 's http_server result" where
  "NewHTTPGateway L spec register cfg =
     (case register (''localhost:'' @ FormatInt (sint (sc_GRPCPort (cf_Server cfg)))) of
        Some err \<Rightarrow> Inl (Wrapped ''gateway: register services: '' err [])
      | None \<Rightarrow>
          (let handler = withCORS (gateway_mux L cfg spec)
           in Inr \<lparr>hs_Addr = '':'' @ FormatInt (sint (sc_HTTPPort (cf_Server cfg))),
                   hs_Handler = (if te_Enabled (cf_Telemetry cfg) then gl_otel L handler else handler),
                   hs_ReadTimeout = sc_ReadTimeout (cf_Server cfg),
                   hs_WriteTimeout = sc_WriteTimeout (cf_Server cfg)\<rparr>))"

end
