(* ===== verification/Gateway_Properties.thy ===== *)
theory Gateway_Properties
  imports Gateway
begin

text \<open>
  The properties of the HTTP gateway: the envelope of every successful answer, the envelope
  of every error and the correlation of both with the request, and the routes that are
  open in production.
\<close>

section \<open>What the server sends\<close>

lemma fold_append_calls: "fold f (xs @ ys) s = fold f ys (fold f xs s)"
  by simp

lemma answer_of_sent:
  assumes "\<not> no_body code"
  shows "answer_of [HSet k1 v1, HMerge h, HSet k2 v2, WriteHeader code, WriteBody bs] =
    \<lparr>an_Code = code, an_Header = header_Set k2 v2 (header_merge (header_Set k1 v1 Map.empty) h), an_Body = bs\<rparr>"
  using assms by (simp add: answer_of_def finish_def fresh_writer_def send_header_def write_body_def)

lemma answer_of_passed:
  assumes "\<not> no_body code"
  shows "answer_of [HSet k1 v1, HMerge h, WriteHeader code, WriteBody bs] =
    \<lparr>an_Code = code, an_Header = header_merge (header_Set k1 v1 Map.empty) h, an_Body = bs\<rparr>"
  using assms by (simp add: answer_of_def finish_def fresh_writer_def send_header_def write_body_def)

lemma header_Get_merge_Set [simp]: "header_Get (header_merge (header_Set k v Map.empty) h) k = v"
  by (simp add: header_Get_def header_merge_def header_Set_def split: option.splits)

lemma canonical_keys:
  "CanonicalHeaderKey ''Content-Type'' = ''Content-Type''" "CanonicalHeaderKey ''X-Request-ID'' = ''X-Request-Id''"
  by code_simp+

lemma with_request_id_header:
  "with_request_id L r w = ((i, r'), w1) \<Longrightarrow> header_Get (rq_Header r') ''X-Request-ID'' = i"
  by (auto simp: with_request_id_def Let_def split: if_splits prod.splits)

section \<open>Well-formed envelopes\<close>

lemma member_names [simp]:
  "raw_ok ''status''" "raw_ok ''code''" "raw_ok ''message''" "raw_ok ''data''" "raw_ok ''errors''"
  "raw_ok ''meta''" "raw_ok ''request_id''" "raw_ok ''timestamp''"
  by code_simp+

lemma wf_meta [simp]: "wf_json (meta_json m)"
  by (simp add: meta_json_def)

definition envelope_json :: "string \<Rightarrow> int \<Rightarrow> string \<Rightarrow> string \<Rightarrow> raw_json \<Rightarrow> string \<Rightarrow> string \<Rightarrow> raw_json" where
  "envelope_json status code message member v reqID timestamp =
     RObj [(''status'', json_string status), (''code'', RNum (FormatInt code)),
           (''message'', json_string message), (member, v),
           (''meta'', meta_json \<lparr>me_RequestID = reqID, me_Timestamp = timestamp\<rparr>)]"

lemma parse_envelope:
  "raw_ok member \<Longrightarrow> wf_json v \<Longrightarrow>
   parse_json (print (envelope_json status code message member v reqID timestamp)) =
     Some (envelope_json status code message member v reqID timestamp)"
  by (rule parse_json_print) (simp add: envelope_json_def)

text \<open>The data of the envelope around a body: its JSON value, its text, or an empty object.\<close>

definition payload :: "bytes \<Rightarrow> raw_json" where
  "payload body =
     (let t = TrimSpace body
      in if t = [] then RObj []
         else (case parse_json t of
                 Some v \<Rightarrow> html_json (if depth v \<le> 10000 then v else json_string t)
               | None \<Rightarrow> html_json (json_string t)))"

lemma raw_message_string: "raw_message (Some (print (json_string s))) = Some (html_json (json_string s))"
  using json_Valid_string [of s] parse_json_print [OF wf_json_string, of s] by (simp add: raw_message_def)

lemma raw_message_empty: "raw_message (Some ''{}'') = Some (RObj [])"
  by code_simp

lemma raw_message_data: "raw_message (Some (raw_data body)) = Some (payload body)"
proof -
  let ?t = "TrimSpace body"
  consider "?t = []" | v where "?t \<noteq> []" "parse_json ?t = Some v" "depth v \<le> 10000"
    | "?t \<noteq> []" "\<not> json_Valid ?t" by (cases "parse_json ?t") (auto simp: json_Valid_def)
  then show ?thesis
  proof cases
    case 1
    then show ?thesis by (simp add: raw_data_def payload_def raw_message_empty)
  next
    case (2 v)
    then show ?thesis by (simp add: raw_data_def payload_def Let_def json_Valid_def raw_message_def)
  next
    case 3
    then have "payload body = html_json (json_string ?t)"
      by (auto simp: payload_def Let_def json_Valid_def split: option.splits)
    then show ?thesis using 3 by (simp add: raw_data_def Let_def raw_message_string)
  qed
qed

lemma payload_wf: "wf_json (payload body)"
  by (rule raw_message_wf [OF raw_message_data])

section \<open>Successful answers\<close>

text \<open>
  C36: When the handler inside answers with a status below 400 that may carry a body, the
  client gets that status and a JSON body that parses to the success envelope: the data is
  the value the handler wrote (as a string when it was no JSON, an empty object when it was
  blank), and the request ID, in the body and in the header, is the one the handler saw in
  its request. The envelope always marshals.
\<close>

theorem success_enveloped:
  assumes "with_request_id L r w = ((i, r'), w1)" "inner r' w1 = ((calls, None), w2)"
    and "rec = fold record_call calls newResponseRecorder"
    and "rr_statusCode rec < 400" "\<not> no_body (rr_statusCode rec)"
  shows "header_Get (rq_Header r') ''X-Request-ID'' = i \<and>
    (\<exists>out w' now a. responseEnvelopeMiddleware L inner r w = ((out, None), w') \<and> a = answer_of out \<and>
       an_Code a = rr_statusCode rec \<and> header_Get (an_Header a) ''X-Request-ID'' = i \<and>
       header_Get (an_Header a) ''Content-Type'' = ''application/json; charset=utf-8'' \<and>
       parse_json (an_Body a) =
         Some (envelope_json ''success'' (rr_statusCode rec) ''success'' ''data'' (payload (rr_body rec)) i
                 (Format_RFC3339 now)))"
proof -
  obtain now w3 where now: "time_Now w2 = (now, w3)" by (metis prod.collapse)
  let ?v = "envelope_json ''success'' (rr_statusCode rec) ''success'' ''data'' (payload (rr_body rec)) i (Format_RFC3339 now)"
  let ?out = "[HSet ''X-Request-ID'' i, HMerge (without_length (rec_Header rec)), json_content,
     WriteHeader (rr_statusCode rec), WriteBody (print ?v)]"
  have "envelope_calls L i rec w2 = ([json_content, WriteHeader (rr_statusCode rec), WriteBody (print ?v)], w3)"
    using assms(4) now by (simp add: envelope_calls_def success_json_def raw_message_data envelope_json_def)
  then have run: "responseEnvelopeMiddleware L inner r w = ((?out, None), w3)"
    using assms(1-3) by (simp add: responseEnvelopeMiddleware_def Let_def)
  have ans: "answer_of ?out = \<lparr>an_Code = rr_statusCode rec,
      an_Header = header_Set ''Content-Type'' ''application/json; charset=utf-8''
        (header_merge (header_Set ''X-Request-ID'' i Map.empty) (without_length (rec_Header rec))),
      an_Body = print ?v\<rparr>"
    unfolding json_content_def using assms(5) by (rule answer_of_sent)
  have "parse_json (print ?v) = Some ?v" by (rule parse_envelope) (simp_all add: payload_wf)
  then show ?thesis using run ans with_request_id_header [OF assms(1)]
    by (intro conjI exI [of _ ?out] exI [of _ w3] exI [of _ now] exI [of _ "answer_of ?out"])
      (simp_all add: canonical_keys)
qed

text \<open>A gateway whose handler answers a registration, and the concrete libraries around it.\<close>

definition demo_gateway :: "'s gateway_libs" where
  "demo_gateway =
     \<lparr>gl_FromError = plain_FromError, gl_text = (\<lambda>_. []),
      gl_HTTPStatus = (\<lambda>c. if c = OK then 200 else if c = Unauthenticated then 401 else 500),
      gl_Details = (\<lambda>_. None), gl_print = (\<lambda>_. False), gl_uuid = (\<lambda>w. (''a-fresh-uuid'', w)),
      gl_lower = (\<lambda>s. s), gl_DefaultMatcher = (\<lambda>_. None),
      gl_mux = (\<lambda>eh hm r w. if rq_URL r = ''/api/v1/users''
                 then (([WriteHeader 200, WriteBody ''{}''], None), w)
                 else (case eh r (StatusErr Unauthenticated ''invalid or expired token'') w of
                         (calls, w') \<Rightarrow> ((calls, None), w'))),
      gl_metrics = (\<lambda>r w. (([], None), w)), gl_pprof = (\<lambda>p r w. (([], None), w)),
      gl_files = (\<lambda>r w. (([], None), w)), gl_redirect = (\<lambda>p r w. (([], None), w)),
      gl_not_found = (\<lambda>r w. (([], None), w)), gl_otel = (\<lambda>h. h)\<rparr>"

definition demo_get :: "string \<Rightarrow> http_request" where
  "demo_get path = \<lparr>rq_Method = ''GET'', rq_URL = path, rq_Header = Map.empty, rq_Body = None, rq_ctx = Background\<rparr>"

definition empty_world :: "unit world" where
  "empty_world = \<lparr>w_db = (), w_clock = int, w_ticks = 0, w_entropy = (\<lambda>_ _. Inr []), w_draws = 0, w_log = []\<rparr>"

definition demo_api :: "unit http_handler" where
  "demo_api = gl_mux demo_gateway (GatewayErrorHandler demo_gateway) (headerMatcher (demo_gateway :: unit gateway_libs))"

lemma demo_request_id:
  "with_request_id demo_gateway (demo_get path) w =
     ((''a-fresh-uuid'', (demo_get path)\<lparr>rq_Header := header_Set ''X-Request-ID'' ''a-fresh-uuid'' Map.empty\<rparr>), w)"
  by (simp add: with_request_id_def demo_gateway_def demo_get_def header_Get_def)

lemma trim_braces: "TrimSpace ''{}'' = ''{}''"
proof -
  have open_brace: "CHR ''{'' = char_of n \<Longrightarrow> n mod 256 = 123" for n :: nat
    using of_char_of [of n] by (auto dest: arg_cong [where f = "of_char :: char \<Rightarrow> nat"])
  have close_brace: "CHR ''}'' = char_of n \<Longrightarrow> n mod 256 = 125" for n :: nat
    using of_char_of [of n] by (auto dest: arg_cong [where f = "of_char :: char \<Rightarrow> nat"])
  have "\<not> HasPrefix s r" if "r \<in> set space_runes \<union> set (map rev space_runes)" "s \<in> {''{}'', ''}{''}" for r s
    using that by (auto simp: space_runes_def HasPrefix_def upt_rec dest!: open_brace close_brace)
  then have "space_at space_runes ''{}'' = None" "space_at (map rev space_runes) ''}{'' = None"
    unfolding space_at_def find_None_iff by blast+
  then show ?thesis by (simp add: TrimSpace_def)
qed

theorem success_enveloped_witness:
  "\<exists>out w' now. responseEnvelopeMiddleware demo_gateway demo_api (demo_get ''/api/v1/users'') empty_world = ((out, None), w') \<and>
     parse_json (an_Body (answer_of out)) =
       Some (envelope_json ''success'' 200 ''success'' ''data'' (RObj []) ''a-fresh-uuid'' (Format_RFC3339 now))"
proof -
  let ?r = "(demo_get ''/api/v1/users'')\<lparr>rq_Header := header_Set ''X-Request-ID'' ''a-fresh-uuid'' Map.empty\<rparr>"
  let ?calls = "[WriteHeader 200, WriteBody ''{}'']"
  let ?rec = "fold record_call ?calls newResponseRecorder"
  have run: "demo_api ?r empty_world = ((?calls, None), empty_world)"
    by (simp add: demo_api_def demo_gateway_def demo_get_def)
  have rec: "rr_statusCode ?rec = 200" "rr_body ?rec = ''{}''"
    by (simp_all add: newResponseRecorder_def rec_WriteHeader_def rec_Write_def)
  have "payload ''{}'' = RObj []"
    using raw_message_data [of "''{}''"] by (simp add: raw_data_def Let_def trim_braces json_Valid_empty raw_message_empty)
  then show ?thesis
    using success_enveloped [where inner = demo_api, OF demo_request_id [of "''/api/v1/users''" empty_world] run refl, unfolded rec] by (auto simp: no_body_def)
qed

section \<open>Errors\<close>

text \<open>
  C37: When the call behind a request fails with a gRPC status, the client gets the HTTP
  status of its code and a JSON body that parses to the error envelope with the status's
  message, its details or null, and the request ID the failed call was made under, which is
  also in the header.
\<close>

theorem error_enveloped:
  assumes "with_request_id L r w = ((i, r'), w1)" "i \<noteq> []"
    and "GatewayErrorHandler L r' (StatusErr code message) w1' = (calls, w2)" "inner r' w1 = ((calls, None), w2)"
    and "status_FromError_spec (gl_FromError L)" "code \<noteq> OK" "400 \<le> gl_HTTPStatus L code"
    and "gl_Details L (StatusErr code message) = map_option Inr details" "\<And>v. details = Some v \<Longrightarrow> wf_json v"
  shows "\<exists>out now a. responseEnvelopeMiddleware L inner r w = ((out, None), w2) \<and> a = answer_of out \<and>
     an_Code a = gl_HTTPStatus L code \<and> header_Get (an_Header a) ''X-Request-ID'' = i \<and>
     parse_json (an_Body a) =
       Some (envelope_json ''failed'' (gl_HTTPStatus L code) message ''errors''
               (case details of Some v \<Rightarrow> v | None \<Rightarrow> RNull) i (Format_RFC3339 now))"
proof -
  define s where "s = gl_HTTPStatus L code"
  define d where "d = (case details of Some v \<Rightarrow> v | None \<Rightarrow> RNull)"
  obtain now w3 where now: "time_Now w1' = (now, w3)" by (metis prod.collapse)
  let ?v = "envelope_json ''failed'' s message ''errors'' d i (Format_RFC3339 now)"
  have status: "gl_FromError L (Some (StatusErr code message)) = ((code, message), True)"
    using assms(5,6) by (simp add: status_FromError_spec_def)
  have i: "request_id_of r' = i"
    using with_request_id_header [OF assms(1)] assms(2) by (simp add: request_id_of_def)
  have calls: "calls = [json_content, WriteHeader s, WriteBody (print ?v)]"
    using assms(3,8) now status i
    by (cases details) (auto simp: GatewayErrorHandler_def Let_def error_json_def envelope_json_def s_def d_def)
  let ?rec = "fold record_call calls newResponseRecorder"
  have rec: "rr_statusCode ?rec = s" "rr_body ?rec = print ?v"
    by (simp_all add: calls json_content_def newResponseRecorder_def rec_WriteHeader_def rec_Write_def)
  let ?out = "[HSet ''X-Request-ID'' i, HMerge (without_length (rec_Header ?rec)), WriteHeader s, WriteBody (print ?v)]"
  have run: "responseEnvelopeMiddleware L inner r w = ((?out, None), w2)"
    using assms(1,4,7) rec by (simp add: responseEnvelopeMiddleware_def Let_def envelope_calls_def s_def)
  have ans: "answer_of ?out = \<lparr>an_Code = s,
      an_Header = header_merge (header_Set ''X-Request-ID'' i Map.empty) (without_length (rec_Header ?rec)),
      an_Body = print ?v\<rparr>"
    using assms(7) by (intro answer_of_passed) (simp add: no_body_def s_def)
  have "wf_json d" using assms(9) by (cases details) (simp_all add: d_def)
  then have "parse_json (print ?v) = Some ?v" by (intro parse_envelope) simp_all
  then show ?thesis using run ans unfolding s_def [symmetric] d_def [symmetric]
    by (intro exI [of _ ?out] exI [of _ now] exI [of _ "answer_of ?out"]) simp
qed

theorem error_enveloped_witness:
  "\<exists>out w' now. responseEnvelopeMiddleware demo_gateway demo_api (demo_get ''/api/v1/users/7'') empty_world = ((out, None), w') \<and>
     an_Code (answer_of out) = 401 \<and>
     parse_json (an_Body (answer_of out)) =
       Some (envelope_json ''failed'' 401 ''invalid or expired token'' ''errors'' RNull ''a-fresh-uuid'' (Format_RFC3339 now))"
proof -
  let ?e = "StatusErr Unauthenticated ''invalid or expired token''"
  let ?r = "(demo_get ''/api/v1/users/7'')\<lparr>rq_Header := header_Set ''X-Request-ID'' ''a-fresh-uuid'' Map.empty\<rparr>"
  obtain calls w2 where h: "GatewayErrorHandler demo_gateway ?r ?e empty_world = (calls, w2)"
    by (metis prod.collapse)
  have run: "demo_api ?r empty_world = ((calls, None), w2)"
    using h by (simp add: demo_api_def demo_gateway_def demo_get_def)
  have libs: "status_FromError_spec (gl_FromError (demo_gateway :: unit gateway_libs))"
    "gl_HTTPStatus (demo_gateway :: unit gateway_libs) Unauthenticated = 401"
    "gl_Details (demo_gateway :: unit gateway_libs) ?e = map_option Inr None"
    by (simp_all add: demo_gateway_def plain_FromError_spec)
  show ?thesis
    using error_enveloped [where inner = demo_api, OF demo_request_id [of "''/api/v1/users/7''" empty_world] _ h run libs(1) _ _ libs(3)] libs(2) by auto
qed

section \<open>Routes\<close>

lemma production_patterns:
  "ac_Environment (cf_App cfg) = ''production'' \<Longrightarrow>
   gateway_patterns cfg = [(''/metrics'', MetricsRoute), (''/swagger/'', SwaggerRoute), (''/'', ApiRoute)]"
  by (simp add: gateway_patterns_def)

text \<open>
  In production the profiling handlers are not reachable by any path; the metrics are
  served at their own path and the documentation below its prefix, and every other path
  that is routed at all goes to the services through the envelope.
\<close>

theorem production_routes:
  assumes "ac_Environment (cf_App cfg) = ''production''"
    and "mux_lookup (gateway_patterns cfg) path = Route x"
  shows "x = (if path = ''/metrics'' then MetricsRoute
              else if HasPrefix path ''/swagger/'' then SwaggerRoute else ApiRoute)"
proof -
  note pats = production_patterns [OF assms(1)]
  have "cleanPath path = path" and best: "best_match path None (gateway_patterns cfg) = Some (p, r) \<Longrightarrow> r = x" for p r
    using assms(2) by (auto simp: mux_lookup_def Let_def split: if_splits option.splits)
  have "best_match path None (gateway_patterns cfg) \<noteq> None"
    using assms(2) by (auto simp: mux_lookup_def Let_def split: if_splits option.splits)
  then show ?thesis using best unfolding pats
    by (auto simp: pattern_matches_def HasPrefix_def split: if_splits)
qed

definition production :: Config where
  "production = \<lparr>cf_App = \<lparr>ac_Name = ''svc'', ac_Environment = ''production'', ac_Version = ''1''\<rparr>,
     cf_Server = \<lparr>sc_GRPCPort = 50051, sc_HTTPPort = 8080, sc_ReadTimeout = 0, sc_WriteTimeout = 0,
       sc_ShutdownTimeout = 0, sc_DefaultTimeout = 0\<rparr>,
     cf_Database = \<lparr>db_Host = [], db_Port = 0, db_Name = [], db_User = [], db_Password = [], db_SSLMode = [],
       db_MaxOpenConns = 0, db_MaxIdleConns = 0, db_ConnMaxLifetime = 0\<rparr>,
     cf_Mongo = \<lparr>mo_URI = [], mo_Database = []\<rparr>, cf_Redis = \<lparr>rd_Addr = [], rd_Password = [], rd_DB = 0\<rparr>,
     cf_JWT = \<lparr>jc_SecretKey = [], jc_AccessTokenTTL = 0, jc_RefreshTokenTTL = 0\<rparr>, cf_LogLevel = [],
     cf_Telemetry = \<lparr>te_ServiceName = [], te_OTLPEndpoint = [], te_Enabled = False\<rparr>,
     cf_CompanyClient = \<lparr>cc_GRPCAddr = [], cc_Timeout = 0\<rparr>\<rparr>"

theorem production_routes_witness:
  "mux_lookup (gateway_patterns production) ''/debug/pprof/heap'' = Route ApiRoute \<and>
   ApiRoute = (if ''/debug/pprof/heap'' = ''/metrics'' then MetricsRoute
               else if HasPrefix ''/debug/pprof/heap'' ''/swagger/'' then SwaggerRoute else ApiRoute)"
proof -
  have route: "mux_lookup (gateway_patterns production) ''/debug/pprof/heap'' = Route ApiRoute" by code_simp
  have env: "ac_Environment (cf_App production) = ''production''" by (simp add: production_def)
  show ?thesis using route production_routes [OF env route] by (rule conjI)
qed

text \<open>A preflight request does not reach the routes.\<close>

lemma preflight_answered:
  "rq_Method r = ''OPTIONS'' \<Longrightarrow> \<exists>out. withCORS next r w = ((out, None), w) \<and> an_Code (answer_of out) = 204"
  by (simp add: withCORS_def answer_of_def finish_def fresh_writer_def send_header_def cors_headers_def)

text \<open>The spelling of the idempotency header does not matter.\<close>

lemma idempotency_header_matched:
  "ToLower (gl_lower L) key \<in> {''idempotency-key'', ''x-idempotency-key''} \<Longrightarrow>
   headerMatcher L key = Some ''idempotency-key''"
  by (auto simp: headerMatcher_def)

text \<open>The text printed when an error envelope does not marshal is no JSON for some messages.\<close>

lemma quoted_control_no_json: "parse_json (Quote pr [char_of (1 :: nat)]) = None"
proof -
  have "(of_char (CHR ''0'') :: nat) = 48" "(of_char (CHR ''1'') :: nat) = 49" by simp_all
  then have digits: "char_of (48 :: nat) = CHR ''0''" "char_of (49 :: nat) = CHR ''1''" by (metis char_of_char)+
  have "Quote pr [char_of (1 :: nat)] = quoted [backslash, CHR ''x'', CHR ''0'', CHR ''1'']"
    by (simp add: Quote_def quote_runes.simps quote_rune_def DecodeRune.simps is_print_def hex2_def
        quote_char_def backslash_def RuneError_def hex_digit.simps digits)
  also have "parse_json \<dots> = None" by code_simp
  finally show ?thesis .
qed

end
