(* ===== verification/Grpc_Stubs.thy ===== *)
theory Grpc_Stubs
  imports Server
begin

text \<open>
  The generated gRPC code of \<^verbatim>\<open>gen/pb/*/*_grpc.pb.go\<close>: the client stubs over a connection,
  the service descriptors with their method handlers, and the registration of the three
  services by \<^verbatim>\<open>RegisterGRPC\<close>. A connection and the decoding of a request are parameters.
\<close>

section \<open>Method names\<close>

definition UserService_GetUser_FullMethodName :: string where
  "UserService_GetUser_FullMethodName = ''/user.v1.UserService/GetUser''"

definition UserService_CreateUser_FullMethodName :: string where
  "UserService_CreateUser_FullMethodName = ''/user.v1.UserService/CreateUser''"

definition UserService_UpdateUser_FullMethodName :: string where
  "UserService_UpdateUser_FullMethodName = ''/user.v1.UserService/UpdateUser''"

definition UserService_DeleteUser_FullMethodName :: string where
  "UserService_DeleteUser_FullMethodName = ''/user.v1.UserService/DeleteUser''"

definition AuthService_Login_FullMethodName :: string where
  "AuthService_Login_FullMethodName = ''/auth.v1.AuthService/Login''"

definition AuthService_Refresh_FullMethodName :: string where
  "AuthService_Refresh_FullMethodName = ''/auth.v1.AuthService/Refresh''"

definition AuthService_Logout_FullMethodName :: string where
  "AuthService_Logout_FullMethodName = ''/auth.v1.AuthService/Logout''"

definition HealthService_Check_FullMethodName :: string where
  "HealthService_Check_FullMethodName = ''/health.v1.HealthService/Check''"

definition HealthService_Ready_FullMethodName :: string where
  "HealthService_Ready_FullMethodName = ''/health.v1.HealthService/Ready''"

lemmas method_names =
  UserService_GetUser_FullMethodName_def UserService_CreateUser_FullMethodName_def
  UserService_UpdateUser_FullMethodName_def UserService_DeleteUser_FullMethodName_def
  AuthService_Login_FullMethodName_def AuthService_Refresh_FullMethodName_def
  AuthService_Logout_FullMethodName_def HealthService_Check_FullMethodName_def
  HealthService_Ready_FullMethodName_def

section \<open>Clients\<close>

text \<open>
  The context of an outgoing call with its outgoing metadata; the header and trailer metadata
  a call brings back; \<^verbatim>\<open>Invoke\<close> of a connection, which fills the response or fails.
\<close>

record call_ctx =
  cc_ctx :: ctx
  cc_md :: "string \<Rightarrow> string list"

record ServerMetadata =
  sm_HeaderMD :: "string \<Rightarrow> string list"
  sm_TrailerMD :: "string \<Rightarrow> string list"

definition no_metadata :: ServerMetadata where
  "no_metadata = \<lparr>sm_HeaderMD = \<lambda>_. [], sm_TrailerMD = \<lambda>_. []\<rparr>"

type_synonym 's connection =
  "call_ctx \<Rightarrow> string \<Rightarrow> message \<Rightarrow> 's world \<Rightarrow> (message result \<times> ServerMetadata) \<times> 's world"

text \<open>A call in a context of type \<open>'c\<close>, as the gateway makes it.\<close>

type_synonym ('c, 's) rpc = "'c \<Rightarrow> message \<Rightarrow> 's world \<Rightarrow> (message reply \<times> ServerMetadata) \<times> 's world"

text \<open>The body every client method shares: the response, or nil and the error.\<close>

definition client_call :: "'s connection \<Rightarrow> string \<Rightarrow> (call_ctx, 's) rpc" where
  "client_call cc fullMethod c req w =
     (case cc c fullMethod req w of
        ((Inl err, md), w') \<Rightarrow> ((Reply None (Some err), md), w')
      | ((Inr out, md), w') \<Rightarrow> ((Reply (Some out) None, md), w'))"

record ('c, 's) UserServiceClient =
  uc_GetUser :: "('c, 's) rpc"
  uc_CreateUser :: "('c, 's) rpc"
  uc_UpdateUser :: "('c, 's) rpc"
  uc_DeleteUser :: "('c, 's) rpc"

record ('c, 's) AuthServiceClient =
  ac_Login :: "('c, 's) rpc"
  ac_Refresh :: "('c, 's) rpc"
  ac_Logout :: "('c, 's) rpc"

record ('c, 's) HealthServiceClient =
  hc_Check :: "('c, 's) rpc"
  hc_Ready :: "('c, 's) rpc"

text \<open>The client methods; each is the shared body at its method name.\<close>

definition userServiceClient_GetUser :: "'s connection \<Rightarrow> (call_ctx, 's) rpc" where
  [simp]: "userServiceClient_GetUser cc = client_call cc UserService_GetUser_FullMethodName"

definition userServiceClient_CreateUser :: "'s connection \<Rightarrow> (call_ctx, 's) rpc" where
  [simp]: "userServiceClient_CreateUser cc = client_call cc UserService_CreateUser_FullMethodName"

definition userServiceClient_UpdateUser :: "'s connection \<Rightarrow> (call_ctx, 's) rpc" where
  [simp]: "userServiceClient_UpdateUser cc = client_call cc UserService_UpdateUser_FullMethodName"

definition userServiceClient_DeleteUser :: "'s connection \<Rightarrow> (call_ctx, 's) rpc" where
  [simp]: "userServiceClient_DeleteUser cc = client_call cc UserService_DeleteUser_FullMethodName"

definition authServiceClient_Login :: "'s connection \<Rightarrow> (call_ctx, 's) rpc" where
  [simp]: "authServiceClient_Login cc = client_call cc AuthService_Login_FullMethodName"

definition authServiceClient_Refresh :: "'s connection \<Rightarrow> (call_ctx, 's) rpc" where
  [simp]: "authServiceClient_Refresh cc = client_call cc AuthService_Refresh_FullMethodName"

definition authServiceClient_Logout :: "'s connection \<Rightarrow> (call_ctx, 's) rpc" where
  [simp]: "authServiceClient_Logout cc = client_call cc AuthService_Logout_FullMethodName"

definition healthServiceClient_Check :: "'s connection \<Rightarrow> (call_ctx, 's) rpc" where
  [simp]: "healthServiceClient_Check cc = client_call cc HealthService_Check_FullMethodName"

definition healthServiceClient_Ready :: "'s connection \<Rightarrow> (call_ctx, 's) rpc" where
  [simp]: "healthServiceClient_Ready cc = client_call cc HealthService_Ready_FullMethodName"

definition NewUserServiceClient :: "'s connection \<Rightarrow> (call_ctx, 's) UserServiceClient" where
  "NewUserServiceClient cc =
     \<lparr>uc_GetUser = userServiceClient_GetUser cc,
      uc_CreateUser = userServiceClient_CreateUser cc,
      uc_UpdateUser = userServiceClient_UpdateUser cc,
      uc_DeleteUser = userServiceClient_DeleteUser cc\<rparr>"

definition NewAuthServiceClient :: "'s connection \<Rightarrow> (call_ctx, 's) AuthServiceClient" where
  "NewAuthServiceClient cc =
     \<lparr>ac_Login = authServiceClient_Login cc,
      ac_Refresh = authServiceClient_Refresh cc,
      ac_Logout = authServiceClient_Logout cc\<rparr>"

definition NewHealthServiceClient :: "'s connection \<Rightarrow> (call_ctx, 's) HealthServiceClient" where
  "NewHealthServiceClient cc =
     \<lparr>hc_Check = healthServiceClient_Check cc,
      hc_Ready = healthServiceClient_Ready cc\<rparr>"

section \<open>Servers\<close>

text \<open>
  The server interfaces, implemented by the handlers of \<^verbatim>\<open>internal/*/handler\<close>. A request of
  another type is refused by the type assertion.
\<close>

record 's UserServiceServer =
  ss_GetUser :: "(message, 's) handler"
  ss_CreateUser :: "(message, 's) handler"
  ss_UpdateUser :: "(message, 's) handler"
  ss_DeleteUser :: "(message, 's) handler"

record 's AuthServiceServer =
  ss_Login :: "(message, 's) handler"
  ss_Refresh :: "(message, 's) handler"
  ss_Logout :: "(message, 's) handler"

record 's HealthServiceServer =
  ss_Check :: "(message, 's) handler"
  ss_Ready :: "(message, 's) handler"

text \<open>
  What a server that embeds \<^verbatim>\<open>Unimplemented...Server\<close> answers for a method it does not define.
\<close>

definition unimplemented :: "string \<Rightarrow> (message, 's) handler" where
  "unimplemented method c req w =
     (Reply None (Some (StatusErr Unimplemented (''method '' @ method @ '' not implemented''))), w)"

definition UnimplementedUserServiceServer :: "'s UserServiceServer" where
  "UnimplementedUserServiceServer =
     \<lparr>ss_GetUser = unimplemented ''GetUser'',
      ss_CreateUser = unimplemented ''CreateUser'',
      ss_UpdateUser = unimplemented ''UpdateUser'',
      ss_DeleteUser = unimplemented ''DeleteUser''\<rparr>"

definition UnimplementedAuthServiceServer :: "'s AuthServiceServer" where
  "UnimplementedAuthServiceServer =
     \<lparr>ss_Login = unimplemented ''Login'',
      ss_Refresh = unimplemented ''Refresh'',
      ss_Logout = unimplemented ''Logout''\<rparr>"

definition UnimplementedHealthServiceServer :: "'s HealthServiceServer" where
  "UnimplementedHealthServiceServer =
     \<lparr>ss_Check = unimplemented ''Check'',
      ss_Ready = unimplemented ''Ready''\<rparr>"

lemma unimplemented_refuses: "unimplemented m c req w = (r, w') \<Longrightarrow> w' = w \<and> (\<exists>msg. r = Reply None (Some (StatusErr Unimplemented msg)))"
  by (auto simp: unimplemented_def)

definition bad_assertion :: "'s world \<Rightarrow> message reply \<times> 's world" where
  "bad_assertion w = (Panic ''interface conversion'', w)"

definition user_server :: "'s server_libs \<Rightarrow> 's services \<Rightarrow> 's UserServiceServer" where
  "user_server L sv =
     \<lparr>ss_GetUser = (\<lambda>c req w. case req of
        PbGetUserRequest i \<Rightarrow> GetUser (lb_timestamp L) (sv_user sv) c i w | _ \<Rightarrow> bad_assertion w),
      ss_CreateUser = (\<lambda>c req w. case req of
        PbCreateUserRequest name email password \<Rightarrow>
          CreateUser (lb_crypto L) (lb_timestamp L) (sv_user sv) c name email password w
      | _ \<Rightarrow> bad_assertion w),
      ss_UpdateUser = (\<lambda>c req w. case req of
        PbUpdateUserRequest i name \<Rightarrow> UpdateUser (lb_timestamp L) (sv_user sv) c i name w
      | _ \<Rightarrow> bad_assertion w),
      ss_DeleteUser = (\<lambda>c req w. case req of
        PbDeleteUserRequest i \<Rightarrow> DeleteUser (sv_user sv) c i w | _ \<Rightarrow> bad_assertion w)\<rparr>"

definition auth_server :: "'s server_libs \<Rightarrow> 's services \<Rightarrow> 's AuthServiceServer" where
  "auth_server L sv =
     \<lparr>ss_Login = (\<lambda>c req w. case req of
        PbLoginRequest email password \<Rightarrow> Login (lb_crypto L) (lb_jwt L) (sv_auth sv) c email password w
      | _ \<Rightarrow> bad_assertion w),
      ss_Refresh = (\<lambda>c req w. case req of
        PbRefreshRequest token \<Rightarrow> Refresh (lb_crypto L) (lb_jwt L) (sv_auth sv) c token w
      | _ \<Rightarrow> bad_assertion w),
      ss_Logout = (\<lambda>c req w. case req of
        PbLogoutRequest token \<Rightarrow> Logout (lb_crypto L) (sv_auth sv) c token w | _ \<Rightarrow> bad_assertion w)\<rparr>"

definition health_server :: "'s services \<Rightarrow> 's HealthServiceServer" where
  "health_server sv =
     \<lparr>ss_Check = (\<lambda>c req w. case req of PbHealthCheckRequest \<Rightarrow> Check w | _ \<Rightarrow> bad_assertion w),
      ss_Ready = (\<lambda>c req w. case req of
        PbHealthCheckRequest \<Rightarrow> Ready (sv_pinger sv) c w | _ \<Rightarrow> bad_assertion w)\<rparr>"

section \<open>Descriptors\<close>

text \<open>
  A method handler decodes the request into a new message and calls the server, through the
  interceptor when there is one.
\<close>

type_synonym 's grpc_method =
  "ctx \<Rightarrow> (message \<Rightarrow> message result) \<Rightarrow> (message, 's) interceptor option \<Rightarrow> 's world \<Rightarrow>
   message reply \<times> 's world"

definition method_handler :: "message \<Rightarrow> string \<Rightarrow> (message, 's) handler \<Rightarrow> 's grpc_method" where
  "method_handler fresh fullMethod srv c dec ic w =
     (case dec fresh of
        Inl err \<Rightarrow> (Reply None (Some err), w)
      | Inr req \<Rightarrow>
          (case ic of
             None \<Rightarrow> srv c req w
           | Some interceptor \<Rightarrow> interceptor fullMethod srv c req w))"

definition UserService_GetUser_Handler :: "'s UserServiceServer \<Rightarrow> 's grpc_method" where
  "UserService_GetUser_Handler srv =
     method_handler (PbGetUserRequest 0) UserService_GetUser_FullMethodName (ss_GetUser srv)"

definition UserService_CreateUser_Handler :: "'s UserServiceServer \<Rightarrow> 's grpc_method" where
  "UserService_CreateUser_Handler srv =
     method_handler (PbCreateUserRequest [] [] []) UserService_CreateUser_FullMethodName (ss_CreateUser srv)"

definition UserService_UpdateUser_Handler :: "'s UserServiceServer \<Rightarrow> 's grpc_method" where
  "UserService_UpdateUser_Handler srv =
     method_handler (PbUpdateUserRequest 0 []) UserService_UpdateUser_FullMethodName (ss_UpdateUser srv)"

definition UserService_DeleteUser_Handler :: "'s UserServiceServer \<Rightarrow> 's grpc_method" where
  "UserService_DeleteUser_Handler srv =
     method_handler (PbDeleteUserRequest 0) UserService_DeleteUser_FullMethodName (ss_DeleteUser srv)"

definition AuthService_Login_Handler :: "'s AuthServiceServer \<Rightarrow> 's grpc_method" where
  "AuthService_Login_Handler srv =
     method_handler (PbLoginRequest [] []) AuthService_Login_FullMethodName (ss_Login srv)"

definition AuthService_Refresh_Handler :: "'s AuthServiceServer \<Rightarrow> 's grpc_method" where
  "AuthService_Refresh_Handler srv =
     method_handler (PbRefreshRequest []) AuthService_Refresh_FullMethodName (ss_Refresh srv)"

definition AuthService_Logout_Handler :: "'s AuthServiceServer \<Rightarrow> 's grpc_method" where
  "AuthService_Logout_Handler srv =
     method_handler (PbLogoutRequest []) AuthService_Logout_FullMethodName (ss_Logout srv)"

definition HealthService_Check_Handler :: "'s HealthServiceServer \<Rightarrow> 's grpc_method" where
  "HealthService_Check_Handler srv =
     method_handler PbHealthCheckRequest HealthService_Check_FullMethodName (ss_Check srv)"

definition HealthService_Ready_Handler :: "'s HealthServiceServer \<Rightarrow> 's grpc_method" where
  "HealthService_Ready_Handler srv =
     method_handler PbHealthCheckRequest HealthService_Ready_FullMethodName (ss_Ready srv)"

lemmas method_handlers =
  UserService_GetUser_Handler_def UserService_CreateUser_Handler_def UserService_UpdateUser_Handler_def
  UserService_DeleteUser_Handler_def AuthService_Login_Handler_def AuthService_Refresh_Handler_def
  AuthService_Logout_Handler_def HealthService_Check_Handler_def HealthService_Ready_Handler_def

record 's ServiceDesc =
  sd_ServiceName :: string
  sd_Methods :: "(string \<times> 's grpc_method) list"

definition UserService_ServiceDesc :: "'s UserServiceServer \<Rightarrow> 's ServiceDesc" where
  "UserService_ServiceDesc srv =
     \<lparr>sd_ServiceName = ''user.v1.UserService'',
      sd_Methods =
        [(''GetUser'', UserService_GetUser_Handler srv), (''CreateUser'', UserService_CreateUser_Handler srv),
         (''UpdateUser'', UserService_UpdateUser_Handler srv), (''DeleteUser'', UserService_DeleteUser_Handler srv)]\<rparr>"

definition AuthService_ServiceDesc :: "'s AuthServiceServer \<Rightarrow> 's ServiceDesc" where
  "AuthService_ServiceDesc srv =
     \<lparr>sd_ServiceName = ''auth.v1.AuthService'',
      sd_Methods =
        [(''Login'', AuthService_Login_Handler srv), (''Refresh'', AuthService_Refresh_Handler srv),
         (''Logout'', AuthService_Logout_Handler srv)]\<rparr>"

definition HealthService_ServiceDesc :: "'s HealthServiceServer \<Rightarrow> 's ServiceDesc" where
  "HealthService_ServiceDesc srv =
     \<lparr>sd_ServiceName = ''health.v1.HealthService'',
      sd_Methods =
        [(''Check'', HealthService_Check_Handler srv), (''Ready'', HealthService_Ready_Handler srv)]\<rparr>"

section \<open>Registration\<close>

text \<open>
  The services a gRPC server knows; \<^verbatim>\<open>RegisterService\<close> adds one. The registers of the
  features, and \<^verbatim>\<open>Services.RegisterGRPC\<close> with the order of \<^verbatim>\<open>ProvideServices\<close>.
\<close>

type_synonym 's registrar = "'s ServiceDesc list"

definition RegisterService :: "'s ServiceDesc \<Rightarrow> 's registrar \<Rightarrow> 's registrar" where
  "RegisterService sd server = server @ [sd]"

text \<open>
  The generated registration; the check that an embedded \<^verbatim>\<open>Unimplemented...Server\<close> is no nil
  pointer passes, since the handlers embed it by value.
\<close>

definition RegisterUserServiceServer :: "'s UserServiceServer \<Rightarrow> 's registrar \<Rightarrow> 's registrar" where
  [simp]: "RegisterUserServiceServer srv s = RegisterService (UserService_ServiceDesc srv) s"

definition RegisterAuthServiceServer :: "'s AuthServiceServer \<Rightarrow> 's registrar \<Rightarrow> 's registrar" where
  [simp]: "RegisterAuthServiceServer srv s = RegisterService (AuthService_ServiceDesc srv) s"

definition RegisterHealthServiceServer :: "'s HealthServiceServer \<Rightarrow> 's registrar \<Rightarrow> 's registrar" where
  [simp]: "RegisterHealthServiceServer srv s = RegisterService (HealthService_ServiceDesc srv) s"

definition User_RegisterGRPC :: "'s UserServiceServer \<Rightarrow> 's registrar \<Rightarrow> 's registrar" where
  "User_RegisterGRPC h server = RegisterUserServiceServer h server"

definition Auth_RegisterGRPC :: "'s AuthServiceServer \<Rightarrow> 's registrar \<Rightarrow> 's registrar" where
  "Auth_RegisterGRPC h server = RegisterAuthServiceServer h server"

definition Health_RegisterGRPC :: "'s HealthServiceServer \<Rightarrow> 's registrar \<Rightarrow> 's registrar" where
  "Health_RegisterGRPC h server = RegisterHealthServiceServer h server"

definition ProvideServices :: "'s server_libs \<Rightarrow> 's services \<Rightarrow> ('s registrar \<Rightarrow> 's registrar) list" where
  "ProvideServices L sv =
     [User_RegisterGRPC (user_server L sv), Auth_RegisterGRPC (auth_server L sv),
      Health_RegisterGRPC (health_server sv)]"

definition RegisterGRPC :: "('s registrar \<Rightarrow> 's registrar) list \<Rightarrow> 's registrar \<Rightarrow> 's registrar" where
  "RegisterGRPC items server = fold (\<lambda>svc. svc) items server"

text \<open>
  How the server finds the handler of \<^verbatim>\<open>/service/method\<close>, and a call of the server made of
  the registered services, with the interceptors it is given.
\<close>

fun find_method :: "'s registrar \<Rightarrow> string \<Rightarrow> 's grpc_method option" where
  "find_method [] fullMethod = None"
| "find_method (sd # sds) fullMethod =
     (case map_of (map (\<lambda>(n, h). (''/'' @ sd_ServiceName sd @ ''/'' @ n, h)) (sd_Methods sd)) fullMethod of
        Some h \<Rightarrow> Some h
      | None \<Rightarrow> find_method sds fullMethod)"

definition serve_registered ::
  "'s server_libs \<Rightarrow> TokenConfig \<Rightarrow> duration \<Rightarrow> string \<Rightarrow> ctx \<Rightarrow> (message \<Rightarrow> message result) \<Rightarrow> 's world \<Rightarrow>
   message reply \<times> 's world" where
  "serve_registered L cfg defaultTimeout fullMethod c dec w =
     (case find_method (RegisterGRPC (ProvideServices L (InitServices L cfg)) []) fullMethod of
        None \<Rightarrow> (Reply None (Some (StatusErr Unimplemented [])), w)
      | Some h \<Rightarrow>
          h c dec (Some (chain (server_interceptors L (tc_SecretKey cfg) defaultTimeout))) w)"

end
