(* ===== verification/Grpc_Properties.thy ===== *)
theory Grpc_Properties
  imports Grpc_Stubs Demo
begin

text \<open>
  The generated descriptors against the dispatch of \<open>Server\<close>: a call of the registered
  services is a call of \<open>serve\<close>.
\<close>

section \<open>Requests by method\<close>

text \<open>The methods of the three services, each with its empty request.\<close>

definition rpc_requests :: "(string \<times> message) list" where
  "rpc_requests =
     [(''/user.v1.UserService/GetUser'', PbGetUserRequest 0),
      (''/user.v1.UserService/CreateUser'', PbCreateUserRequest [] [] []),
      (''/user.v1.UserService/UpdateUser'', PbUpdateUserRequest 0 []),
      (''/user.v1.UserService/DeleteUser'', PbDeleteUserRequest 0),
      (''/auth.v1.AuthService/Login'', PbLoginRequest [] []),
      (''/auth.v1.AuthService/Refresh'', PbRefreshRequest []),
      (''/auth.v1.AuthService/Logout'', PbLogoutRequest []),
      (''/health.v1.HealthService/Check'', PbHealthCheckRequest),
      (''/health.v1.HealthService/Ready'', PbHealthCheckRequest)]"

text \<open>The empty message of a request's type.\<close>

fun fresh_of :: "message \<Rightarrow> message" where
  "fresh_of (PbGetUserRequest _) = PbGetUserRequest 0"
| "fresh_of (PbCreateUserRequest _ _ _) = PbCreateUserRequest [] [] []"
| "fresh_of (PbUpdateUserRequest _ _) = PbUpdateUserRequest 0 []"
| "fresh_of (PbDeleteUserRequest _) = PbDeleteUserRequest 0"
| "fresh_of (PbLoginRequest _ _) = PbLoginRequest [] []"
| "fresh_of (PbRefreshRequest _) = PbRefreshRequest []"
| "fresh_of (PbLogoutRequest _) = PbLogoutRequest []"
| "fresh_of m = m"

section \<open>Interceptors look at the handler through one request\<close>

lemma interceptor_congs:
  assumes "\<And>c w. h c req w = h' c req w"
  shows "RecoveryInterceptor stack m h c req w = RecoveryInterceptor stack m h' c req w"
    "LoggingInterceptor lib m h c req w = LoggingInterceptor lib m h' c req w"
    "TimeoutInterceptor d ov m h c req w = TimeoutInterceptor d ov m h' c req w"
    "AuthInterceptor jw txt secret m h c req w = AuthInterceptor jw txt secret m h' c req w"
    "ErrorInterceptor fe txt m h c req w = ErrorInterceptor fe txt m h' c req w"
  by (simp_all add: assms RecoveryInterceptor_def LoggingInterceptor_def TimeoutInterceptor_def
      AuthInterceptor_def ErrorInterceptor_def Let_def cong: prod.case_cong sum.case_cong if_cong)

lemma chain_cong:
  assumes "\<And>c w. h c req w = h' c req w"
  shows "chain (server_interceptors L secret d) m h c req w = chain (server_interceptors L secret d) m h' c req w"
  unfolding chain_def server_interceptors_def by simp (intro interceptor_congs assms)

section \<open>The registered server\<close>

lemma find_method_registered:
  "find_method (RegisterGRPC (ProvideServices L sv) []) m =
     map_of [(''/user.v1.UserService/GetUser'', UserService_GetUser_Handler (user_server L sv)),
             (''/user.v1.UserService/CreateUser'', UserService_CreateUser_Handler (user_server L sv)),
             (''/user.v1.UserService/UpdateUser'', UserService_UpdateUser_Handler (user_server L sv)),
             (''/user.v1.UserService/DeleteUser'', UserService_DeleteUser_Handler (user_server L sv)),
             (''/auth.v1.AuthService/Login'', AuthService_Login_Handler (auth_server L sv)),
             (''/auth.v1.AuthService/Refresh'', AuthService_Refresh_Handler (auth_server L sv)),
             (''/auth.v1.AuthService/Logout'', AuthService_Logout_Handler (auth_server L sv)),
             (''/health.v1.HealthService/Check'', HealthService_Check_Handler (health_server sv)),
             (''/health.v1.HealthService/Ready'', HealthService_Ready_Handler (health_server sv))] m"
  by (simp add: RegisterGRPC_def ProvideServices_def User_RegisterGRPC_def Auth_RegisterGRPC_def
      Health_RegisterGRPC_def RegisterService_def UserService_ServiceDesc_def AuthService_ServiceDesc_def
      HealthService_ServiceDesc_def)

lemma method_handler_serves:
  assumes "\<And>req. dec fresh = Inr req \<Longrightarrow> \<forall>c w. srv c req w = dispatch L (InitServices L cfg) m c req w"
  shows "method_handler fresh m srv c dec (Some (chain (server_interceptors L (tc_SecretKey cfg) d))) w =
     (case dec fresh of Inl err \<Rightarrow> (Reply None (Some err), w) | Inr req \<Rightarrow> serve L cfg d m c req w)"
  using assms by (auto simp: method_handler_def serve_def split: sum.splits intro!: chain_cong)


lemma fresh_of_iff:
  "fresh_of r = PbGetUserRequest 0 \<longleftrightarrow> (\<exists>i. r = PbGetUserRequest i)"
  "fresh_of r = PbCreateUserRequest [] [] [] \<longleftrightarrow> (\<exists>n e p. r = PbCreateUserRequest n e p)"
  "fresh_of r = PbUpdateUserRequest 0 [] \<longleftrightarrow> (\<exists>i n. r = PbUpdateUserRequest i n)"
  "fresh_of r = PbDeleteUserRequest 0 \<longleftrightarrow> (\<exists>i. r = PbDeleteUserRequest i)"
  "fresh_of r = PbLoginRequest [] [] \<longleftrightarrow> (\<exists>e p. r = PbLoginRequest e p)"
  "fresh_of r = PbRefreshRequest [] \<longleftrightarrow> (\<exists>t. r = PbRefreshRequest t)"
  "fresh_of r = PbLogoutRequest [] \<longleftrightarrow> (\<exists>t. r = PbLogoutRequest t)"
  "fresh_of r = PbHealthCheckRequest \<longleftrightarrow> r = PbHealthCheckRequest"
  by (cases r; auto)+

text \<open>Each generated handler, with the interceptors of the server, serves its method.\<close>

definition served ::
  "'s server_libs \<Rightarrow> TokenConfig \<Rightarrow> duration \<Rightarrow> string \<Rightarrow> ctx \<Rightarrow> message result \<Rightarrow> 's world \<Rightarrow>
   message reply \<times> 's world" where
  "served L cfg d m c decoded w =
     (case decoded of Inl err \<Rightarrow> (Reply None (Some err), w) | Inr req \<Rightarrow> serve L cfg d m c req w)"

lemma handlers_serve:
  fixes L :: "'s server_libs" and cfg :: TokenConfig and d :: duration
  assumes typed: "\<And>z req. dec z = Inr req \<Longrightarrow> fresh_of req = fresh_of z"
  defines "ic \<equiv> Some (chain (server_interceptors L (tc_SecretKey cfg) d))" and "sv \<equiv> InitServices L cfg"
  shows
    "UserService_GetUser_Handler (user_server L sv) c dec ic w =
       served L cfg d UserService_GetUser_FullMethodName c (dec (PbGetUserRequest 0)) w"
    "UserService_CreateUser_Handler (user_server L sv) c dec ic w =
       served L cfg d UserService_CreateUser_FullMethodName c (dec (PbCreateUserRequest [] [] [])) w"
    "UserService_UpdateUser_Handler (user_server L sv) c dec ic w =
       served L cfg d UserService_UpdateUser_FullMethodName c (dec (PbUpdateUserRequest 0 [])) w"
    "UserService_DeleteUser_Handler (user_server L sv) c dec ic w =
       served L cfg d UserService_DeleteUser_FullMethodName c (dec (PbDeleteUserRequest 0)) w"
    "AuthService_Login_Handler (auth_server L sv) c dec ic w =
       served L cfg d AuthService_Login_FullMethodName c (dec (PbLoginRequest [] [])) w"
    "AuthService_Refresh_Handler (auth_server L sv) c dec ic w =
       served L cfg d AuthService_Refresh_FullMethodName c (dec (PbRefreshRequest [])) w"
    "AuthService_Logout_Handler (auth_server L sv) c dec ic w =
       served L cfg d AuthService_Logout_FullMethodName c (dec (PbLogoutRequest [])) w"
    "HealthService_Check_Handler (health_server sv) c dec ic w =
       served L cfg d HealthService_Check_FullMethodName c (dec PbHealthCheckRequest) w"
    "HealthService_Ready_Handler (health_server sv) c dec ic w =
       served L cfg d HealthService_Ready_FullMethodName c (dec PbHealthCheckRequest) w"
  unfolding method_handlers ic_def sv_def served_def
  by (rule method_handler_serves, drule typed,
      clarsimp simp: fresh_of_iff method_names user_server_def auth_server_def health_server_def dispatch_def)+


text \<open>
  C6: The services registered through the generated descriptors behave as \<open>serve\<close>: a method
  of the table decodes its request and, unless that fails, is answered by the chain of
  interceptors around the handler of the feature; any other method is unimplemented.
\<close>

theorem registered_serves:
  assumes "\<And>z req. dec z = Inr req \<Longrightarrow> fresh_of req = fresh_of z"
  shows "serve_registered L cfg d m c dec w =
     (case map_of rpc_requests m of
        None \<Rightarrow> (Reply None (Some (StatusErr Unimplemented [])), w)
      | Some fresh \<Rightarrow>
          (case dec fresh of
             Inl err \<Rightarrow> (Reply None (Some err), w)
           | Inr req \<Rightarrow> serve L cfg d m c req w))"
proof -
  note handlers = handlers_serve [OF assms, where L = L and cfg = cfg and d = d and c = c and w = w]
  show ?thesis
    by (simp add: rpc_requests_def serve_registered_def find_method_registered handlers method_names
        flip: served_def)
qed

definition demo_dec :: "message \<Rightarrow> message result" where
  "demo_dec z = (case z of PbDeleteUserRequest _ \<Rightarrow> Inr (PbDeleteUserRequest 7) | _ \<Rightarrow> Inl (Foreign ''eof''))"

theorem registered_serves_witness:
  "serve_registered demo_libs demo_cfg 5000000000 ''/user.v1.UserService/DeleteUser'' demo_ctx demo_dec (demo_world demo_pg) =
   serve demo_libs demo_cfg 5000000000 ''/user.v1.UserService/DeleteUser'' demo_ctx (PbDeleteUserRequest 7) (demo_world demo_pg)"
proof (rule trans [OF registered_serves])
  show "fresh_of req = fresh_of z" if "demo_dec z = Inr req" for z req
    using that by (auto simp: demo_dec_def split: message.splits)
qed (simp add: rpc_requests_def demo_dec_def)

end
