(* ===== verification/Rest_Gateway.thy ===== *)
theory Rest_Gateway
  imports Grpc_Stubs Gateway
begin

text \<open>
  The REST routes of the gateway: \<^verbatim>\<open>gen/pb/user/user.pb.gw.go\<close>, \<^verbatim>\<open>auth.pb.gw.go\<close> and
  \<^verbatim>\<open>health.pb.gw.go\<close>, which turn HTTP requests into calls of the client stubs, or of a
  server in the process. The \<^verbatim>\<open>runtime\<close> package of grpc-gateway is a parameter: its matching of
  patterns, contexts, marshalers, and the writing of replies and errors.
\<close>

section \<open>The runtime package\<close>

text \<open>\<^verbatim>\<open>runtime.Pattern\<close>, as \<^verbatim>\<open>NewPattern\<close> is given it: the operations, the pool and the verb.\<close>

record Pattern =
  pt_ops :: "nat list"
  pt_pool :: "string list"
  pt_verb :: string

type_synonym path_params = "string \<rightharpoonup> string"

type_synonym 's route_handler = "path_params \<Rightarrow> 's http_handler"

type_synonym 's rest_route = "string \<times> Pattern \<times> 's route_handler"

text \<open>
  \<^verbatim>\<open>runtime.ServeMux\<close>: its error handler and header matcher, the routes in the order of their
  registration, and the connections opened for them, each with the context that closes it.
\<close>

record 's rest_mux =
  mx_error :: "'s error_handler"
  mx_matcher :: "string \<Rightarrow> string option"
  mx_routes :: "'s rest_route list"
  mx_conns :: "(string \<times> ctx) list"

text \<open>
  \<open>rt_Annotate\<close> and \<open>rt_AnnotateIncoming\<close> make the context of a call from a request, with the
  header matcher, the method and the path pattern; \<open>rt_Decode\<close> reads a body into a message,
  which it may have changed when it fails; \<open>rt_text\<close> gives the texts of foreign errors.
\<close>

record 's gw_runtime =
  rt_Annotate :: "(string \<Rightarrow> string option) \<Rightarrow> http_request \<Rightarrow> string \<Rightarrow> string \<Rightarrow> call_ctx result"
  rt_AnnotateIncoming :: "(string \<Rightarrow> string option) \<Rightarrow> http_request \<Rightarrow> string \<Rightarrow> string \<Rightarrow> ctx result"
  rt_Decode :: "message \<Rightarrow> body option \<Rightarrow> message \<times> go_error option"
  rt_Uint64 :: "string \<Rightarrow> uint result"
  rt_text :: "go_error \<Rightarrow> string"
  rt_HTTPError :: "'s error_handler \<Rightarrow> http_request \<Rightarrow> go_error \<Rightarrow> 's world \<Rightarrow> (rw_call list \<times> string option) \<times> 's world"
  rt_Forward :: "ServerMetadata \<Rightarrow> http_request \<Rightarrow> message option \<Rightarrow> 's world \<Rightarrow> (rw_call list \<times> string option) \<times> 's world"
  rt_ServeHTTP :: "'s rest_route list \<Rightarrow> 's error_handler \<Rightarrow> 's http_handler"

text \<open>What a request function returns: the reply, and the metadata that came with it.\<close>

type_synonym 's rest_result = "(message reply \<times> ServerMetadata) \<times> 's world"

section \<open>Reading a request\<close>

text \<open>The body into a new message; an empty body leaves it as it is.\<close>

definition decode_body :: "'s gw_runtime \<Rightarrow> http_request \<Rightarrow> message \<Rightarrow> message result" where
  "decode_body R req protoReq =
     (case rt_Decode R protoReq (rq_Body req) of
        (msg, Some err) \<Rightarrow>
          if \<not> errors_Is err (Sentinel IoEOF) then Inl (StatusErr InvalidArgument (error_Error (rt_text R) err))
          else Inr msg
      | (msg, None) \<Rightarrow> Inr msg)"

definition path_id :: "'s gw_runtime \<Rightarrow> path_params \<Rightarrow> uint result" where
  "path_id R pathParams =
     (case pathParams ''id'' of
        None \<Rightarrow> Inl (StatusErr InvalidArgument ''missing parameter id'')
      | Some val \<Rightarrow>
          (case rt_Uint64 R val of
             Inl err \<Rightarrow>
               Inl (StatusErr InvalidArgument
                      (''type mismatch, parameter: id, error: '' @ error_Error (rt_text R) err))
           | Inr i \<Rightarrow> Inr i))"

text \<open>The \<^verbatim>\<open>Id\<close> field of a request is set from the path.\<close>

fun set_Id :: "uint \<Rightarrow> message \<Rightarrow> message" where
  "set_Id i (PbUpdateUserRequest _ n) = PbUpdateUserRequest i n"
| "set_Id i (PbGetUserRequest _) = PbGetUserRequest i"
| "set_Id i (PbDeleteUserRequest _) = PbDeleteUserRequest i"
| "set_Id i m = m"

definition failed :: "go_error \<Rightarrow> 's world \<Rightarrow> 's rest_result" where
  "failed err w = ((Reply None (Some err), no_metadata), w)"

text \<open>The call of a server in the process; its handlers send no metadata.\<close>

definition server_call :: "(message, 's) handler \<Rightarrow> (ctx, 's) rpc" where
  "server_call srv c req w = (case srv c req w of (r, w') \<Rightarrow> ((r, no_metadata), w'))"

section \<open>UserService (user.pb.gw.go)\<close>

definition request_UserService_GetUser_0 ::
  "'s gw_runtime \<Rightarrow> ('c, 's) UserServiceClient \<Rightarrow> 'c \<Rightarrow> http_request \<Rightarrow> path_params \<Rightarrow> 's world \<Rightarrow> 's rest_result" where
  "request_UserService_GetUser_0 R client c req pathParams w =
     (case path_id R pathParams of
        Inl err \<Rightarrow> failed err w
      | Inr i \<Rightarrow> uc_GetUser client c (set_Id i (PbGetUserRequest 0)) w)"

definition local_request_UserService_GetUser_0 ::
  "'s gw_runtime \<Rightarrow> 's UserServiceServer \<Rightarrow> ctx \<Rightarrow> http_request \<Rightarrow> path_params \<Rightarrow> 's world \<Rightarrow> 's rest_result" where
  "local_request_UserService_GetUser_0 R server c req pathParams w =
     (case path_id R pathParams of
        Inl err \<Rightarrow> failed err w
      | Inr i \<Rightarrow> server_call (ss_GetUser server) c (set_Id i (PbGetUserRequest 0)) w)"

definition request_UserService_CreateUser_0 ::
  "'s gw_runtime \<Rightarrow> ('c, 's) UserServiceClient \<Rightarrow> 'c \<Rightarrow> http_request \<Rightarrow> path_params \<Rightarrow> 's world \<Rightarrow> 's rest_result" where
  "request_UserService_CreateUser_0 R client c req pathParams w =
     (case decode_body R req (PbCreateUserRequest [] [] []) of
        Inl err \<Rightarrow> failed err w
      | Inr protoReq \<Rightarrow> uc_CreateUser client c protoReq w)"

definition local_request_UserService_CreateUser_0 ::
  "'s gw_runtime \<Rightarrow> 's UserServiceServer \<Rightarrow> ctx \<Rightarrow> http_request \<Rightarrow> path_params \<Rightarrow> 's world \<Rightarrow> 's rest_result" where
  "local_request_UserService_CreateUser_0 R server c req pathParams w =
     (case decode_body R req (PbCreateUserRequest [] [] []) of
        Inl err \<Rightarrow> failed err w
      | Inr protoReq \<Rightarrow> server_call (ss_CreateUser server) c protoReq w)"

definition request_UserService_UpdateUser_0 ::
  "'s gw_runtime \<Rightarrow> ('c, 's) UserServiceClient \<Rightarrow> 'c \<Rightarrow> http_request \<Rightarrow> path_params \<Rightarrow> 's world \<Rightarrow> 's rest_result" where
  "request_UserService_UpdateUser_0 R client c req pathParams w =
     (case decode_body R req (PbUpdateUserRequest 0 []) of
        Inl err \<Rightarrow> failed err w
      | Inr protoReq \<Rightarrow>
          (case path_id R pathParams of
             Inl err \<Rightarrow> failed err w
           | Inr i \<Rightarrow> uc_UpdateUser client c (set_Id i protoReq) w))"

definition local_request_UserService_UpdateUser_0 ::
  "'s gw_runtime \<Rightarrow> 's UserServiceServer \<Rightarrow> ctx \<Rightarrow> http_request \<Rightarrow> path_params \<Rightarrow> 's world \<Rightarrow> 's rest_result" where
  "local_request_UserService_UpdateUser_0 R server c req pathParams w =
     (case decode_body R req (PbUpdateUserRequest 0 []) of
        Inl err \<Rightarrow> failed err w
      | Inr protoReq \<Rightarrow>
          (case path_id R pathParams of
             Inl err \<Rightarrow> failed err w
           | Inr i \<Rightarrow> server_call (ss_UpdateUser server) c (set_Id i protoReq) w))"

definition request_UserService_DeleteUser_0 ::
  "'s gw_runtime \<Rightarrow> ('c, 's) UserServiceClient \<Rightarrow> 'c \<Rightarrow> http_request \<Rightarrow> path_params \<Rightarrow> 's world \<Rightarrow> 's rest_result" where
  "request_UserService_DeleteUser_0 R client c req pathParams w =
     (case path_id R pathParams of
        Inl err \<Rightarrow> failed err w
      | Inr i \<Rightarrow> uc_DeleteUser client c (set_Id i (PbDeleteUserRequest 0)) w)"

definition local_request_UserService_DeleteUser_0 ::
  "'s gw_runtime \<Rightarrow> 's UserServiceServer \<Rightarrow> ctx \<Rightarrow> http_request \<Rightarrow> path_params \<Rightarrow> 's world \<Rightarrow> 's rest_result" where
  "local_request_UserService_DeleteUser_0 R server c req pathParams w =
     (case path_id R pathParams of
        Inl err \<Rightarrow> failed err w
      | Inr i \<Rightarrow> server_call (ss_DeleteUser server) c (set_Id i (PbDeleteUserRequest 0)) w)"

section \<open>AuthService (auth.pb.gw.go)\<close>

definition request_AuthService_Login_0 ::
  "'s gw_runtime \<Rightarrow> ('c, 's) AuthServiceClient \<Rightarrow> 'c \<Rightarrow> http_request \<Rightarrow> path_params \<Rightarrow> 's world \<Rightarrow> 's rest_result" where
  "request_AuthService_Login_0 R client c req pathParams w =
     (case decode_body R req (PbLoginRequest [] []) of
        Inl err \<Rightarrow> failed err w
      | Inr protoReq \<Rightarrow> ac_Login client c protoReq w)"

definition local_request_AuthService_Login_0 ::
  "'s gw_runtime \<Rightarrow> 's AuthServiceServer \<Rightarrow> ctx \<Rightarrow> http_request \<Rightarrow> path_params \<Rightarrow> 's world \<Rightarrow> 's rest_result" where
  "local_request_AuthService_Login_0 R server c req pathParams w =
     (case decode_body R req (PbLoginRequest [] []) of
        Inl err \<Rightarrow> failed err w
      | Inr protoReq \<Rightarrow> server_call (ss_Login server) c protoReq w)"

definition request_AuthService_Refresh_0 ::
  "'s gw_runtime \<Rightarrow> ('c, 's) AuthServiceClient \<Rightarrow> 'c \<Rightarrow> http_request \<Rightarrow> path_params \<Rightarrow> 's world \<Rightarrow> 's rest_result" where
  "request_AuthService_Refresh_0 R client c req pathParams w =
     (case decode_body R req (PbRefreshRequest []) of
        Inl err \<Rightarrow> failed err w
      | Inr protoReq \<Rightarrow> ac_Refresh client c protoReq w)"

definition local_request_AuthService_Refresh_0 ::
  "'s gw_runtime \<Rightarrow> 's AuthServiceServer \<Rightarrow> ctx \<Rightarrow> http_request \<Rightarrow> path_params \<Rightarrow> 's world \<Rightarrow> 's rest_result" where
  "local_request_AuthService_Refresh_0 R server c req pathParams w =
     (case decode_body R req (PbRefreshRequest []) of
        Inl err \<Rightarrow> failed err w
      | Inr protoReq \<Rightarrow> server_call (ss_Refresh server) c protoReq w)"

definition request_AuthService_Logout_0 ::
  "'s gw_runtime \<Rightarrow> ('c, 's) AuthServiceClient \<Rightarrow> 'c \<Rightarrow> http_request \<Rightarrow> path_params \<Rightarrow> 's world \<Rightarrow> 's rest_result" where
  "request_AuthService_Logout_0 R client c req pathParams w =
     (case decode_body R req (PbLogoutRequest []) of
        Inl err \<Rightarrow> failed err w
      | Inr protoReq \<Rightarrow> ac_Logout client c protoReq w)"

definition local_request_AuthService_Logout_0 ::
  "'s gw_runtime \<Rightarrow> 's AuthServiceServer \<Rightarrow> ctx \<Rightarrow> http_request \<Rightarrow> path_params \<Rightarrow> 's world \<Rightarrow> 's rest_result" where
  "local_request_AuthService_Logout_0 R server c req pathParams w =
     (case decode_body R req (PbLogoutRequest []) of
        Inl err \<Rightarrow> failed err w
      | Inr protoReq \<Rightarrow> server_call (ss_Logout server) c protoReq w)"

section \<open>HealthService (health.pb.gw.go)\<close>

definition request_HealthService_Check_0 ::
  "'s gw_runtime \<Rightarrow> ('c, 's) HealthServiceClient \<Rightarrow> 'c \<Rightarrow> http_request \<Rightarrow> path_params \<Rightarrow> 's world \<Rightarrow> 's rest_result" where
  "request_HealthService_Check_0 R client c req pathParams w =
     hc_Check client c PbHealthCheckRequest w"

definition local_request_HealthService_Check_0 ::
  "'s gw_runtime \<Rightarrow> 's HealthServiceServer \<Rightarrow> ctx \<Rightarrow> http_request \<Rightarrow> path_params \<Rightarrow> 's world \<Rightarrow> 's rest_result" where
  "local_request_HealthService_Check_0 R server c req pathParams w =
     server_call (ss_Check server) c PbHealthCheckRequest w"

definition request_HealthService_Check_1 ::
  "'s gw_runtime \<Rightarrow> ('c, 's) HealthServiceClient \<Rightarrow> 'c \<Rightarrow> http_request \<Rightarrow> path_params \<Rightarrow> 's world \<Rightarrow> 's rest_result" where
  "request_HealthService_Check_1 R client c req pathParams w =
     hc_Check client c PbHealthCheckRequest w"

definition local_request_HealthService_Check_1 ::
  "'s gw_runtime \<Rightarrow> 's HealthServiceServer \<Rightarrow> ctx \<Rightarrow> http_request \<Rightarrow> path_params \<Rightarrow> 's world \<Rightarrow> 's rest_result" where
  "local_request_HealthService_Check_1 R server c req pathParams w =
     server_call (ss_Check server) c PbHealthCheckRequest w"

definition request_HealthService_Ready_0 ::
  "'s gw_runtime \<Rightarrow> ('c, 's) HealthServiceClient \<Rightarrow> 'c \<Rightarrow> http_request \<Rightarrow> path_params \<Rightarrow> 's world \<Rightarrow> 's rest_result" where
  "request_HealthService_Ready_0 R client c req pathParams w =
     hc_Ready client c PbHealthCheckRequest w"

definition local_request_HealthService_Ready_0 ::
  "'s gw_runtime \<Rightarrow> 's HealthServiceServer \<Rightarrow> ctx \<Rightarrow> http_request \<Rightarrow> path_params \<Rightarrow> 's world \<Rightarrow> 's rest_result" where
  "local_request_HealthService_Ready_0 R server c req pathParams w =
     server_call (ss_Ready server) c PbHealthCheckRequest w"

section \<open>Patterns\<close>

definition pattern_UserService_GetUser_0 :: Pattern where
  "pattern_UserService_GetUser_0 =
     \<lparr>pt_ops = [2, 0, 2, 1, 2, 2, 1, 0, 4, 1, 5, 3], pt_pool = [''api'', ''v1'', ''users'', ''id''], pt_verb = []\<rparr>"

definition pattern_UserService_CreateUser_0 :: Pattern where
  "pattern_UserService_CreateUser_0 =
     \<lparr>pt_ops = [2, 0, 2, 1, 2, 2], pt_pool = [''api'', ''v1'', ''users''], pt_verb = []\<rparr>"

definition pattern_UserService_UpdateUser_0 :: Pattern where
  "pattern_UserService_UpdateUser_0 =
     \<lparr>pt_ops = [2, 0, 2, 1, 2, 2, 1, 0, 4, 1, 5, 3], pt_pool = [''api'', ''v1'', ''users'', ''id''], pt_verb = []\<rparr>"

definition pattern_UserService_DeleteUser_0 :: Pattern where
  "pattern_UserService_DeleteUser_0 =
     \<lparr>pt_ops = [2, 0, 2, 1, 2, 2, 1, 0, 4, 1, 5, 3], pt_pool = [''api'', ''v1'', ''users'', ''id''], pt_verb = []\<rparr>"

definition pattern_AuthService_Login_0 :: Pattern where
  "pattern_AuthService_Login_0 =
     \<lparr>pt_ops = [2, 0, 2, 1, 2, 2, 2, 3], pt_pool = [''api'', ''v1'', ''auth'', ''login''], pt_verb = []\<rparr>"

definition pattern_AuthService_Refresh_0 :: Pattern where
  "pattern_AuthService_Refresh_0 =
     \<lparr>pt_ops = [2, 0, 2, 1, 2, 2, 2, 3], pt_pool = [''api'', ''v1'', ''auth'', ''refresh''], pt_verb = []\<rparr>"

definition pattern_AuthService_Logout_0 :: Pattern where
  "pattern_AuthService_Logout_0 =
     \<lparr>pt_ops = [2, 0, 2, 1, 2, 2, 2, 3], pt_pool = [''api'', ''v1'', ''auth'', ''logout''], pt_verb = []\<rparr>"

definition pattern_HealthService_Check_0 :: Pattern where
  "pattern_HealthService_Check_0 =
     \<lparr>pt_ops = [2, 0], pt_pool = [''healthz''], pt_verb = []\<rparr>"

definition pattern_HealthService_Check_1 :: Pattern where
  "pattern_HealthService_Check_1 =
     \<lparr>pt_ops = [2, 0], pt_pool = [''health''], pt_verb = []\<rparr>"

definition pattern_HealthService_Ready_0 :: Pattern where
  "pattern_HealthService_Ready_0 =
     \<lparr>pt_ops = [2, 0], pt_pool = [''readyz''], pt_verb = []\<rparr>"

lemmas patterns =
  pattern_UserService_GetUser_0_def pattern_UserService_CreateUser_0_def pattern_UserService_UpdateUser_0_def pattern_UserService_DeleteUser_0_def
  pattern_AuthService_Login_0_def pattern_AuthService_Refresh_0_def pattern_AuthService_Logout_0_def
  pattern_HealthService_Check_0_def pattern_HealthService_Check_1_def pattern_HealthService_Ready_0_def

section \<open>Handlers\<close>

text \<open>
  The handler registered for a method: \<open>annotate\<close> makes the context of the call, \<open>request\<close> the
  call; an error goes to \<^verbatim>\<open>runtime.HTTPError\<close>, a message to \<^verbatim>\<open>runtime.ForwardResponseMessage\<close>.
\<close>

definition rest_handler ::
  "'s gw_runtime \<Rightarrow> 's rest_mux \<Rightarrow> (http_request \<Rightarrow> 'c result) \<Rightarrow>
   ('c \<Rightarrow> http_request \<Rightarrow> path_params \<Rightarrow> 's world \<Rightarrow> 's rest_result) \<Rightarrow> 's route_handler" where
  "rest_handler R mux annotate request pathParams req w =
     (case annotate req of
        Inl err \<Rightarrow> rt_HTTPError R (mx_error mux) req err w
      | Inr annotatedContext \<Rightarrow>
          (case request annotatedContext req pathParams w of
             ((Panic p, md), w1) \<Rightarrow> (([], Some p), w1)
           | ((Reply resp (Some err), md), w1) \<Rightarrow> rt_HTTPError R (mx_error mux) req err w1
           | ((Reply resp None, md), w1) \<Rightarrow> rt_Forward R md req resp w1))"

definition client_handler ::
  "'s gw_runtime \<Rightarrow> 's rest_mux \<Rightarrow> string \<Rightarrow> string \<Rightarrow>
   (call_ctx \<Rightarrow> http_request \<Rightarrow> path_params \<Rightarrow> 's world \<Rightarrow> 's rest_result) \<Rightarrow> 's route_handler" where
  "client_handler R mux fullMethod path =
     rest_handler R mux (\<lambda>req. rt_Annotate R (mx_matcher mux) req fullMethod path)"

definition local_handler ::
  "'s gw_runtime \<Rightarrow> 's rest_mux \<Rightarrow> string \<Rightarrow> string \<Rightarrow>
   (ctx \<Rightarrow> http_request \<Rightarrow> path_params \<Rightarrow> 's world \<Rightarrow> 's rest_result) \<Rightarrow> 's route_handler" where
  "local_handler R mux fullMethod path =
     rest_handler R mux (\<lambda>req. rt_AnnotateIncoming R (mx_matcher mux) req fullMethod path)"

definition Handle :: "string \<Rightarrow> Pattern \<Rightarrow> 's route_handler \<Rightarrow> 's rest_mux \<Rightarrow> 's rest_mux" where
  "Handle meth pat h mux = mux\<lparr>mx_routes := mx_routes mux @ [(meth, pat, h)]\<rparr>"

section \<open>Registration\<close>

definition RegisterUserServiceHandlerServer ::
  "'s gw_runtime \<Rightarrow> 's UserServiceServer \<Rightarrow> 's rest_mux \<Rightarrow> 's rest_mux" where
  "RegisterUserServiceHandlerServer R server mux =
     fold (\<lambda>f. f)
       [Handle ''GET'' pattern_UserService_GetUser_0
        (local_handler R mux ''/user.v1.UserService/GetUser'' ''/api/v1/users/{id}'' (local_request_UserService_GetUser_0 R server)),
        Handle ''POST'' pattern_UserService_CreateUser_0
        (local_handler R mux ''/user.v1.UserService/CreateUser'' ''/api/v1/users'' (local_request_UserService_CreateUser_0 R server)),
        Handle ''PATCH'' pattern_UserService_UpdateUser_0
        (local_handler R mux ''/user.v1.UserService/UpdateUser'' ''/api/v1/users/{id}'' (local_request_UserService_UpdateUser_0 R server)),
        Handle ''DELETE'' pattern_UserService_DeleteUser_0
        (local_handler R mux ''/user.v1.UserService/DeleteUser'' ''/api/v1/users/{id}'' (local_request_UserService_DeleteUser_0 R server))] mux"

definition RegisterUserServiceHandlerClient ::
  "'s gw_runtime \<Rightarrow> (call_ctx, 's) UserServiceClient \<Rightarrow> 's rest_mux \<Rightarrow> 's rest_mux" where
  "RegisterUserServiceHandlerClient R client mux =
     fold (\<lambda>f. f)
       [Handle ''GET'' pattern_UserService_GetUser_0
        (client_handler R mux ''/user.v1.UserService/GetUser'' ''/api/v1/users/{id}'' (request_UserService_GetUser_0 R client)),
        Handle ''POST'' pattern_UserService_CreateUser_0
        (client_handler R mux ''/user.v1.UserService/CreateUser'' ''/api/v1/users'' (request_UserService_CreateUser_0 R client)),
        Handle ''PATCH'' pattern_UserService_UpdateUser_0
        (client_handler R mux ''/user.v1.UserService/UpdateUser'' ''/api/v1/users/{id}'' (request_UserService_UpdateUser_0 R client)),
        Handle ''DELETE'' pattern_UserService_DeleteUser_0
        (client_handler R mux ''/user.v1.UserService/DeleteUser'' ''/api/v1/users/{id}'' (request_UserService_DeleteUser_0 R client))] mux"

definition RegisterUserServiceHandler :: "'s gw_runtime \<Rightarrow> 's connection \<Rightarrow> 's rest_mux \<Rightarrow> 's rest_mux" where
  "RegisterUserServiceHandler R conn mux = RegisterUserServiceHandlerClient R (NewUserServiceClient conn) mux"

definition RegisterUserServiceHandlerFromEndpoint ::
  "'s gw_runtime \<Rightarrow> (string \<Rightarrow> 's connection result) \<Rightarrow> ctx \<Rightarrow> string \<Rightarrow> 's rest_mux \<Rightarrow>
   go_error option \<times> 's rest_mux" where
  "RegisterUserServiceHandlerFromEndpoint R NewClient c endpoint mux =
     (case NewClient endpoint of
        Inl err \<Rightarrow> (Some err, mux)
      | Inr conn \<Rightarrow>
          (None, (RegisterUserServiceHandler R conn mux)\<lparr>mx_conns := mx_conns mux @ [(endpoint, c)]\<rparr>))"

definition User_RegisterGateway ::
  "'s gw_runtime \<Rightarrow> (string \<Rightarrow> 's connection result) \<Rightarrow> ctx \<Rightarrow> string \<Rightarrow> 's rest_mux \<Rightarrow>
   go_error option \<times> 's rest_mux" where
  "User_RegisterGateway R NewClient c grpcAddr mux =
     RegisterUserServiceHandlerFromEndpoint R NewClient c grpcAddr mux"

definition RegisterAuthServiceHandlerServer ::
  "'s gw_runtime \<Rightarrow> 's AuthServiceServer \<Rightarrow> 's rest_mux \<Rightarrow> 's rest_mux" where
  "RegisterAuthServiceHandlerServer R server mux =
     fold (\<lambda>f. f)
       [Handle ''POST'' pattern_AuthService_Login_0
        (local_handler R mux ''/auth.v1.AuthService/Login'' ''/api/v1/auth/login'' (local_request_AuthService_Login_0 R server)),
        Handle ''POST'' pattern_AuthService_Refresh_0
        (local_handler R mux ''/auth.v1.AuthService/Refresh'' ''/api/v1/auth/refresh'' (local_request_AuthService_Refresh_0 R server)),
        Handle ''POST'' pattern_AuthService_Logout_0
        (local_handler R mux ''/auth.v1.AuthService/Logout'' ''/api/v1/auth/logout'' (local_request_AuthService_Logout_0 R server))] mux"

definition RegisterAuthServiceHandlerClient ::
  "'s gw_runtime \<Rightarrow> (call_ctx, 's) AuthServiceClient \<Rightarrow> 's rest_mux \<Rightarrow> 's rest_mux" where
  "RegisterAuthServiceHandlerClient R client mux =
     fold (\<lambda>f. f)
       [Handle ''POST'' pattern_AuthService_Login_0
        (client_handler R mux ''/auth.v1.AuthService/Login'' ''/api/v1/auth/login'' (request_AuthService_Login_0 R client)),
        Handle ''POST'' pattern_AuthService_Refresh_0
        (client_handler R mux ''/auth.v1.AuthService/Refresh'' ''/api/v1/auth/refresh'' (request_AuthService_Refresh_0 R client)),
        Handle ''POST'' pattern_AuthService_Logout_0
        (client_handler R mux ''/auth.v1.AuthService/Logout'' ''/api/v1/auth/logout'' (request_AuthService_Logout_0 R client))] mux"

definition RegisterAuthServiceHandler :: "'s gw_runtime \<Rightarrow> 's connection \<Rightarrow> 's rest_mux \<Rightarrow> 's rest_mux" where
  "RegisterAuthServiceHandler R conn mux = RegisterAuthServiceHandlerClient R (NewAuthServiceClient conn) mux"

definition RegisterAuthServiceHandlerFromEndpoint ::
  "'s gw_runtime \<Rightarrow> (string \<Rightarrow> 's connection result) \<Rightarrow> ctx \<Rightarrow> string \<Rightarrow> 's rest_mux \<Rightarrow>
   go_error option \<times> 's rest_mux" where
  "RegisterAuthServiceHandlerFromEndpoint R NewClient c endpoint mux =
     (case NewClient endpoint of
        Inl err \<Rightarrow> (Some err, mux)
      | Inr conn \<Rightarrow>
          (None, (RegisterAuthServiceHandler R conn mux)\<lparr>mx_conns := mx_conns mux @ [(endpoint, c)]\<rparr>))"

definition Auth_RegisterGateway ::
  "'s gw_runtime \<Rightarrow> (string \<Rightarrow> 's connection result) \<Rightarrow> ctx \<Rightarrow> string \<Rightarrow> 's rest_mux \<Rightarrow>
   go_error option \<times> 's rest_mux" where
  "Auth_RegisterGateway R NewClient c grpcAddr mux =
     RegisterAuthServiceHandlerFromEndpoint R NewClient c grpcAddr mux"

definition RegisterHealthServiceHandlerServer ::
  "'s gw_runtime \<Rightarrow> 's HealthServiceServer \<Rightarrow> 's rest_mux \<Rightarrow> 's rest_mux" where
  "RegisterHealthServiceHandlerServer R server mux =
     fold (\<lambda>f. f)
       [Handle ''GET'' pattern_HealthService_Check_0
        (local_handler R mux ''/health.v1.HealthService/Check'' ''/healthz'' (local_request_HealthService_Check_0 R server)),
        Handle ''GET'' pattern_HealthService_Check_1
        (local_handler R mux ''/health.v1.HealthService/Check'' ''/health'' (local_request_HealthService_Check_1 R server)),
        Handle ''GET'' pattern_HealthService_Ready_0
        (local_handler R mux ''/health.v1.HealthService/Ready'' ''/readyz'' (local_request_HealthService_Ready_0 R server))] mux"

definition RegisterHealthServiceHandlerClient ::
  "'s gw_runtime \<Rightarrow> (call_ctx, 's) HealthServiceClient \<Rightarrow> 's rest_mux \<Rightarrow> 's rest_mux" where
  "RegisterHealthServiceHandlerClient R client mux =
     fold (\<lambda>f. f)
       [Handle ''GET'' pattern_HealthService_Check_0
        (client_handler R mux ''/health.v1.HealthService/Check'' ''/healthz'' (request_HealthService_Check_0 R client)),
        Handle ''GET'' pattern_HealthService_Check_1
        (client_handler R mux ''/health.v1.HealthService/Check'' ''/health'' (request_HealthService_Check_1 R client)),
        Handle ''GET'' pattern_HealthService_Ready_0
        (client_handler R mux ''/health.v1.HealthService/Ready'' ''/readyz'' (request_HealthService_Ready_0 R client))] mux"

definition RegisterHealthServiceHandler :: "'s gw_runtime \<Rightarrow> 's connection \<Rightarrow> 's rest_mux \<Rightarrow> 's rest_mux" where
  "RegisterHealthServiceHandler R conn mux = RegisterHealthServiceHandlerClient R (NewHealthServiceClient conn) mux"

definition RegisterHealthServiceHandlerFromEndpoint ::
  "'s gw_runtime \<Rightarrow> (string \<Rightarrow> 's connection result) \<Rightarrow> ctx \<Rightarrow> string \<Rightarrow> 's rest_mux \<Rightarrow>
   go_error option \<times> 's rest_mux" where
  "RegisterHealthServiceHandlerFromEndpoint R NewClient c endpoint mux =
     (case NewClient endpoint of
        Inl err \<Rightarrow> (Some err, mux)
      | Inr conn \<Rightarrow>
          (None, (RegisterHealthServiceHandler R conn mux)\<lparr>mx_conns := mx_conns mux @ [(endpoint, c)]\<rparr>))"

definition Health_RegisterGateway ::
  "'s gw_runtime \<Rightarrow> (string \<Rightarrow> 's connection result) \<Rightarrow> ctx \<Rightarrow> string \<Rightarrow> 's rest_mux \<Rightarrow>
   go_error option \<times> 's rest_mux" where
  "Health_RegisterGateway R NewClient c grpcAddr mux =
     RegisterHealthServiceHandlerFromEndpoint R NewClient c grpcAddr mux"

text \<open>
  \<^verbatim>\<open>Services.RegisterGateway\<close> on the mux, and the mux of \<^verbatim>\<open>NewHTTPGateway\<close> with the services
  of \<^verbatim>\<open>ProvideServices\<close>.
\<close>

fun register_all ::
  "(string \<Rightarrow> 's rest_mux \<Rightarrow> go_error option \<times> 's rest_mux) list \<Rightarrow> string \<Rightarrow> 's rest_mux \<Rightarrow>
   go_error option \<times> 's rest_mux" where
  "register_all [] grpcAddr mux = (None, mux)"
| "register_all (svc # items) grpcAddr mux =
     (case svc grpcAddr mux of
        (Some err, mux') \<Rightarrow> (Some err, mux')
      | (None, mux') \<Rightarrow> register_all items grpcAddr mux')"

definition gateway_services ::
  "'s gw_runtime \<Rightarrow> (string \<Rightarrow> 's connection result) \<Rightarrow> ctx \<Rightarrow>
   (string \<Rightarrow> 's rest_mux \<Rightarrow> go_error option \<times> 's rest_mux) list" where
  "gateway_services R NewClient c =
     [User_RegisterGateway R NewClient c, Auth_RegisterGateway R NewClient c, Health_RegisterGateway R NewClient c]"

definition new_mux :: "'s error_handler \<Rightarrow> (string \<Rightarrow> string option) \<Rightarrow> 's rest_mux" where
  "new_mux eh matcher = \<lparr>mx_error = eh, mx_matcher = matcher, mx_routes = [], mx_conns = []\<rparr>"

text \<open>The handler the mux is once the services are registered over one connection.\<close>

definition api_mux :: "'s gw_runtime \<Rightarrow> 's connection \<Rightarrow> 's error_handler \<Rightarrow> (string \<Rightarrow> string option) \<Rightarrow> 's http_handler" where
  "api_mux R conn eh matcher =
     rt_ServeHTTP R
       (mx_routes (RegisterHealthServiceHandler R conn (RegisterAuthServiceHandler R conn
          (RegisterUserServiceHandler R conn (new_mux eh matcher))))) eh"

end
