(* ===== verification/Rest_Specs.thy ===== *)
theory Rest_Specs
  imports Rest_Gateway
begin

text \<open>
  What the registered routes mean: the operations of a pattern as grpc-gateway documents
  them, which pattern accepts which path, and the RPC that stands behind a REST call.
\<close>

section \<open>The operations of a pattern\<close>

text \<open>
  \<^verbatim>\<open>OpPush\<close> (1) pushes a component, \<^verbatim>\<open>OpLitPush\<close> (2) pushes one that equals a literal,
  \<^verbatim>\<open>OpConcatN\<close> (4) joins the topmost components, \<^verbatim>\<open>OpCapture\<close> (5) pops one into a variable.
\<close>

fun run_ops :: "string list \<Rightarrow> nat list \<Rightarrow> string list \<Rightarrow> string list \<Rightarrow> path_params \<Rightarrow> path_params option" where
  "run_ops pool [] comps stack params = (if comps = [] then Some params else None)"
| "run_ops pool [x] comps stack params = None"
| "run_ops pool (opc # k # ops) comps stack params =
     (if opc = 1 then
        (case comps of [] \<Rightarrow> None | c # cs \<Rightarrow> run_ops pool ops cs (c # stack) params)
      else if opc = 2 then
        (case comps of [] \<Rightarrow> None
         | c # cs \<Rightarrow> if c = pool ! k then run_ops pool ops cs (c # stack) params else None)
      else if opc = 4 then
        run_ops pool ops comps (Join ''/'' (rev (take k stack)) # drop k stack) params
      else if opc = 5 then
        (case stack of [] \<Rightarrow> None | v # st \<Rightarrow> run_ops pool ops comps st (params(pool ! k \<mapsto> v)))
      else None)"

definition pattern_args :: "Pattern \<Rightarrow> string list \<Rightarrow> path_params option" where
  "pattern_args pat comps = (if pt_verb pat = [] then run_ops (pt_pool pat) (pt_ops pat) comps [] Map.empty else None)"

definition users_id_args :: "string list \<Rightarrow> path_params option" where
  "users_id_args comps =
     (case comps of [a, b, c, i] \<Rightarrow> if [a, b, c] = [''api'', ''v1'', ''users''] then Some [''id'' \<mapsto> i] else None
      | _ \<Rightarrow> None)"

lemma pattern_args_users_id:
  "pattern_args pattern_UserService_GetUser_0 = users_id_args"
  "pattern_args pattern_UserService_UpdateUser_0 = users_id_args"
  "pattern_args pattern_UserService_DeleteUser_0 = users_id_args"
  by (auto simp: fun_eq_iff pattern_args_def patterns users_id_args_def split: list.split)

lemma pattern_args_literal:
  "pattern_args pattern_UserService_CreateUser_0 comps = (if comps = [''api'', ''v1'', ''users''] then Some Map.empty else None)"
  "pattern_args pattern_AuthService_Login_0 comps = (if comps = [''api'', ''v1'', ''auth'', ''login''] then Some Map.empty else None)"
  "pattern_args pattern_AuthService_Refresh_0 comps = (if comps = [''api'', ''v1'', ''auth'', ''refresh''] then Some Map.empty else None)"
  "pattern_args pattern_AuthService_Logout_0 comps = (if comps = [''api'', ''v1'', ''auth'', ''logout''] then Some Map.empty else None)"
  "pattern_args pattern_HealthService_Check_0 comps = (if comps = [''healthz''] then Some Map.empty else None)"
  "pattern_args pattern_HealthService_Check_1 comps = (if comps = [''health''] then Some Map.empty else None)"
  "pattern_args pattern_HealthService_Ready_0 comps = (if comps = [''readyz''] then Some Map.empty else None)"
  by (auto simp: pattern_args_def patterns split: list.split)


section \<open>The RPC behind a REST call\<close>

text \<open>
  The API as a table: the RPC that a method and the components of a path stand for, with the
  template of the path and the request, or the error of reading it.
\<close>

definition user_rpc :: "'s gw_runtime \<Rightarrow> string \<Rightarrow> path_params \<Rightarrow> http_request \<Rightarrow> (string \<times> string \<times> message result) option" where
  "user_rpc R meth params r =
     (if meth = ''GET'' then
        Some (''/user.v1.UserService/GetUser'', ''/api/v1/users/{id}'',
              case path_id R params of Inl err \<Rightarrow> Inl err | Inr i \<Rightarrow> Inr (PbGetUserRequest i))
      else if meth = ''PATCH'' then
        Some (''/user.v1.UserService/UpdateUser'', ''/api/v1/users/{id}'',
              case decode_body R r (PbUpdateUserRequest 0 []) of
                Inl err \<Rightarrow> Inl err
              | Inr body \<Rightarrow> (case path_id R params of Inl err \<Rightarrow> Inl err | Inr i \<Rightarrow> Inr (set_Id i body)))
      else if meth = ''DELETE'' then
        Some (''/user.v1.UserService/DeleteUser'', ''/api/v1/users/{id}'',
              case path_id R params of Inl err \<Rightarrow> Inl err | Inr i \<Rightarrow> Inr (PbDeleteUserRequest i))
      else None)"

definition fixed_rpc :: "'s gw_runtime \<Rightarrow> http_request \<Rightarrow> ((string \<times> string list) \<times> string \<times> string \<times> message result) list" where
  "fixed_rpc R r =
     [((''POST'', [''api'', ''v1'', ''users'']), ''/user.v1.UserService/CreateUser'', ''/api/v1/users'',
       decode_body R r (PbCreateUserRequest [] [] [])),
      ((''POST'', [''api'', ''v1'', ''auth'', ''login'']), ''/auth.v1.AuthService/Login'', ''/api/v1/auth/login'',
       decode_body R r (PbLoginRequest [] [])),
      ((''POST'', [''api'', ''v1'', ''auth'', ''refresh'']), ''/auth.v1.AuthService/Refresh'', ''/api/v1/auth/refresh'',
       decode_body R r (PbRefreshRequest [])),
      ((''POST'', [''api'', ''v1'', ''auth'', ''logout'']), ''/auth.v1.AuthService/Logout'', ''/api/v1/auth/logout'',
       decode_body R r (PbLogoutRequest [])),
      ((''GET'', [''healthz'']), ''/health.v1.HealthService/Check'', ''/healthz'', Inr PbHealthCheckRequest),
      ((''GET'', [''health'']), ''/health.v1.HealthService/Check'', ''/health'', Inr PbHealthCheckRequest),
      ((''GET'', [''readyz'']), ''/health.v1.HealthService/Ready'', ''/readyz'', Inr PbHealthCheckRequest)]"

definition rest_rpc :: "'s gw_runtime \<Rightarrow> string \<Rightarrow> string list \<Rightarrow> http_request \<Rightarrow> (string \<times> string \<times> message result) option" where
  "rest_rpc R meth comps r =
     (case users_id_args comps of
        Some params \<Rightarrow> user_rpc R meth params r
      | None \<Rightarrow> map_of (fixed_rpc R r) (meth, comps))"

text \<open>The answer to it: the reply of the connection, or an error on the way, to the mux.\<close>

definition answer_rpc ::
  "'s gw_runtime \<Rightarrow> 's connection \<Rightarrow> 's error_handler \<Rightarrow> (string \<Rightarrow> string option) \<Rightarrow>
   string \<times> string \<times> message result \<Rightarrow> 's http_handler" where
  "answer_rpc R conn eh hm rpc r w =
     (case rpc of
        (m, path, req) \<Rightarrow>
          (case rt_Annotate R hm r m path of
             Inl err \<Rightarrow> rt_HTTPError R eh r err w
           | Inr c \<Rightarrow>
               (case req of
                  Inl err \<Rightarrow> rt_HTTPError R eh r err w
                | Inr msg \<Rightarrow>
                    (case conn c m msg w of
                       ((Inl err, md), w') \<Rightarrow> rt_HTTPError R eh r err w'
                     | ((Inr out, md), w') \<Rightarrow> rt_Forward R md r (Some out) w'))))"

section \<open>The registered routes\<close>

definition api_routes :: "'s gw_runtime \<Rightarrow> 's connection \<Rightarrow> 's error_handler \<Rightarrow> (string \<Rightarrow> string option) \<Rightarrow> 's rest_route list" where
  "api_routes R conn eh hm =
     mx_routes (RegisterHealthServiceHandler R conn (RegisterAuthServiceHandler R conn
       (RegisterUserServiceHandler R conn (new_mux eh hm))))"

lemmas registrations =
  RegisterUserServiceHandler_def RegisterAuthServiceHandler_def RegisterHealthServiceHandler_def
  RegisterUserServiceHandlerClient_def RegisterAuthServiceHandlerClient_def
  RegisterHealthServiceHandlerClient_def Handle_def new_mux_def

lemmas client_requests =
  request_UserService_GetUser_0_def request_UserService_CreateUser_0_def
  request_UserService_UpdateUser_0_def request_UserService_DeleteUser_0_def
  request_AuthService_Login_0_def request_AuthService_Refresh_0_def request_AuthService_Logout_0_def
  request_HealthService_Check_0_def request_HealthService_Check_1_def request_HealthService_Ready_0_def

lemmas clients = NewUserServiceClient_def NewAuthServiceClient_def NewHealthServiceClient_def client_call_def

text \<open>The routes as a list of method, pattern, RPC, template and request function.\<close>

definition api_table ::
  "'s gw_runtime \<Rightarrow> 's connection \<Rightarrow>
   (string \<times> Pattern \<times> string \<times> string \<times> (call_ctx \<Rightarrow> http_request \<Rightarrow> path_params \<Rightarrow> 's world \<Rightarrow> 's rest_result)) list" where
  "api_table R conn =
     [(''GET'', pattern_UserService_GetUser_0, ''/user.v1.UserService/GetUser'', ''/api/v1/users/{id}'', request_UserService_GetUser_0 R (NewUserServiceClient conn)),
      (''POST'', pattern_UserService_CreateUser_0, ''/user.v1.UserService/CreateUser'', ''/api/v1/users'', request_UserService_CreateUser_0 R (NewUserServiceClient conn)),
      (''PATCH'', pattern_UserService_UpdateUser_0, ''/user.v1.UserService/UpdateUser'', ''/api/v1/users/{id}'', request_UserService_UpdateUser_0 R (NewUserServiceClient conn)),
      (''DELETE'', pattern_UserService_DeleteUser_0, ''/user.v1.UserService/DeleteUser'', ''/api/v1/users/{id}'', request_UserService_DeleteUser_0 R (NewUserServiceClient conn)),
      (''POST'', pattern_AuthService_Login_0, ''/auth.v1.AuthService/Login'', ''/api/v1/auth/login'', request_AuthService_Login_0 R (NewAuthServiceClient conn)),
      (''POST'', pattern_AuthService_Refresh_0, ''/auth.v1.AuthService/Refresh'', ''/api/v1/auth/refresh'', request_AuthService_Refresh_0 R (NewAuthServiceClient conn)),
      (''POST'', pattern_AuthService_Logout_0, ''/auth.v1.AuthService/Logout'', ''/api/v1/auth/logout'', request_AuthService_Logout_0 R (NewAuthServiceClient conn)),
      (''GET'', pattern_HealthService_Check_0, ''/health.v1.HealthService/Check'', ''/healthz'', request_HealthService_Check_0 R (NewHealthServiceClient conn)),
      (''GET'', pattern_HealthService_Check_1, ''/health.v1.HealthService/Check'', ''/health'', request_HealthService_Check_1 R (NewHealthServiceClient conn)),
      (''GET'', pattern_HealthService_Ready_0, ''/health.v1.HealthService/Ready'', ''/readyz'', request_HealthService_Ready_0 R (NewHealthServiceClient conn))]"

lemma api_routes_shape:
  "\<exists>muxes. length muxes = length (api_table R conn) \<and>
     (\<forall>mux\<in>set muxes. mx_error mux = eh \<and> mx_matcher mux = hm) \<and>
     api_routes R conn eh hm =
       map (\<lambda>(mux, meth, pat, m, path, request). (meth, pat, client_handler R mux m path request))
         (zip muxes (api_table R conn))"
proof -
  let ?u = "new_mux eh hm"
  let ?a = "RegisterUserServiceHandler R conn ?u"
  let ?h = "RegisterAuthServiceHandler R conn ?a"
  show ?thesis
    by (rule exI [of _ "[?u, ?u, ?u, ?u, ?a, ?a, ?a, ?h, ?h, ?h]"])
      (simp add: api_routes_def api_table_def registrations)
qed

lemma client_handler_answer:
  assumes "\<And>c w. request c r params w = (case req of Inl err \<Rightarrow> failed err w | Inr msg \<Rightarrow> client_call conn m c msg w)"
  shows "client_handler R mux m path request params r w =
     answer_rpc R conn (mx_error mux) (mx_matcher mux) (m, path, req) r w"
  by (simp add: client_handler_def rest_handler_def answer_rpc_def assms failed_def client_call_def
      split: sum.split prod.split)

definition route_ok ::
  "'s gw_runtime \<Rightarrow> 's connection \<Rightarrow> http_request \<Rightarrow>
   string \<times> Pattern \<times> string \<times> string \<times> (call_ctx \<Rightarrow> http_request \<Rightarrow> path_params \<Rightarrow> 's world \<Rightarrow> 's rest_result) \<Rightarrow> bool" where
  "route_ok R conn r row =
     (case row of (meth, pat, m, path, request) \<Rightarrow>
        \<forall>comps params. pattern_args pat comps = Some params \<longrightarrow>
          (\<exists>req. rest_rpc R meth comps r = Some (m, path, req) \<and>
            (\<forall>c w. request c r params w =
               (case req of Inl err \<Rightarrow> failed err w | Inr msg \<Rightarrow> client_call conn m c msg w))))"

lemma user_routes_ok:
  "route_ok R conn r (''GET'', pattern_UserService_GetUser_0, ''/user.v1.UserService/GetUser'', ''/api/v1/users/{id}'',
     request_UserService_GetUser_0 R (NewUserServiceClient conn))"
  "route_ok R conn r (''PATCH'', pattern_UserService_UpdateUser_0, ''/user.v1.UserService/UpdateUser'', ''/api/v1/users/{id}'',
     request_UserService_UpdateUser_0 R (NewUserServiceClient conn))"
  "route_ok R conn r (''DELETE'', pattern_UserService_DeleteUser_0, ''/user.v1.UserService/DeleteUser'', ''/api/v1/users/{id}'',
     request_UserService_DeleteUser_0 R (NewUserServiceClient conn))"
  unfolding route_ok_def
  by (simp_all add: pattern_args_users_id rest_rpc_def user_rpc_def client_requests NewUserServiceClient_def
      method_names split: sum.split)

lemma fixed_routes_ok:
  "route_ok R conn r (''POST'', pattern_UserService_CreateUser_0, ''/user.v1.UserService/CreateUser'', ''/api/v1/users'',
     request_UserService_CreateUser_0 R (NewUserServiceClient conn))"
  "route_ok R conn r (''POST'', pattern_AuthService_Login_0, ''/auth.v1.AuthService/Login'', ''/api/v1/auth/login'',
     request_AuthService_Login_0 R (NewAuthServiceClient conn))"
  "route_ok R conn r (''POST'', pattern_AuthService_Refresh_0, ''/auth.v1.AuthService/Refresh'', ''/api/v1/auth/refresh'',
     request_AuthService_Refresh_0 R (NewAuthServiceClient conn))"
  "route_ok R conn r (''POST'', pattern_AuthService_Logout_0, ''/auth.v1.AuthService/Logout'', ''/api/v1/auth/logout'',
     request_AuthService_Logout_0 R (NewAuthServiceClient conn))"
  "route_ok R conn r (''GET'', pattern_HealthService_Check_0, ''/health.v1.HealthService/Check'', ''/healthz'',
     request_HealthService_Check_0 R (NewHealthServiceClient conn))"
  "route_ok R conn r (''GET'', pattern_HealthService_Check_1, ''/health.v1.HealthService/Check'', ''/health'',
     request_HealthService_Check_1 R (NewHealthServiceClient conn))"
  "route_ok R conn r (''GET'', pattern_HealthService_Ready_0, ''/health.v1.HealthService/Ready'', ''/readyz'',
     request_HealthService_Ready_0 R (NewHealthServiceClient conn))"
  unfolding route_ok_def
  by (simp_all add: pattern_args_literal rest_rpc_def users_id_args_def fixed_rpc_def client_requests
      NewUserServiceClient_def NewAuthServiceClient_def NewHealthServiceClient_def method_names
      split: sum.split)

lemma api_table_ok: "row \<in> set (api_table R conn) \<Longrightarrow> route_ok R conn r row"
  unfolding api_table_def by (auto intro: user_routes_ok fixed_routes_ok)

lemma api_routes_answer:
  assumes "(meth, pat, h) \<in> set (api_routes R conn eh hm)" "pattern_args pat comps = Some params"
  obtains rpc where "rest_rpc R meth comps r = Some rpc" "h params r w = answer_rpc R conn eh hm rpc r w"
proof -
  obtain muxes where all: "\<forall>mux\<in>set muxes. mx_error mux = eh \<and> mx_matcher mux = hm"
    and "api_routes R conn eh hm =
      map (\<lambda>(mux, meth, pat, m, path, request). (meth, pat, client_handler R mux m path request))
        (zip muxes (api_table R conn))"
    using api_routes_shape by blast
  with assms(1) obtain mux m path request where h: "h = client_handler R mux m path request"
    and z: "(mux, meth, pat, m, path, request) \<in> set (zip muxes (api_table R conn))" by auto
  have mux: "mx_error mux = eh" "mx_matcher mux = hm" using all set_zip_leftD [OF z] by blast+
  note row = set_zip_rightD [OF z]
  from api_table_ok [OF row] assms(2) obtain req where rpc: "rest_rpc R meth comps r = Some (m, path, req)"
    and request: "\<forall>c w. request c r params w =
      (case req of Inl err \<Rightarrow> failed err w | Inr msg \<Rightarrow> client_call conn m c msg w)"
    unfolding route_ok_def by blast
  have "h params r w = answer_rpc R conn eh hm (m, path, req) r w"
    unfolding h mux [symmetric] by (rule client_handler_answer) (rule request [rule_format])
  with rpc show thesis by (rule that)
qed

text \<open>Every call that stands for an RPC is accepted by a route.\<close>

definition accepts :: "string \<Rightarrow> string list \<Rightarrow> string \<Rightarrow> Pattern \<Rightarrow> bool" where
  "accepts meth comps m pat \<longleftrightarrow> m = meth \<and> pattern_args pat comps \<noteq> None"

lemma api_table_accepts:
  assumes "rest_rpc R meth comps r = Some rpc"
  shows "\<exists>row\<in>set (api_table R conn). accepts meth comps (fst row) (fst (snd row))"
proof (cases "users_id_args comps")
  case None
  with assms have "((meth, comps), rpc) \<in> set (fixed_rpc R r)" by (simp add: rest_rpc_def map_of_SomeD)
  then show ?thesis
    unfolding fixed_rpc_def api_table_def accepts_def by (auto simp: pattern_args_literal)
next
  case (Some params)
  with assms have "meth = ''GET'' \<or> meth = ''PATCH'' \<or> meth = ''DELETE''"
    by (auto simp: rest_rpc_def user_rpc_def split: if_splits)
  with Some show ?thesis
    unfolding api_table_def accepts_def by (auto simp: pattern_args_users_id)
qed

lemma api_routes_accept:
  assumes "rest_rpc R meth comps r = Some rpc"
  shows "\<exists>(m, pat, h)\<in>set (api_routes R conn eh hm). accepts meth comps m pat"
proof -
  obtain muxes where len: "length muxes = length (api_table R conn)"
    and routes: "api_routes R conn eh hm =
      map (\<lambda>(mux, meth, pat, m, path, request). (meth, pat, client_handler R mux m path request))
        (zip muxes (api_table R conn))"
    using api_routes_shape by blast
  obtain row where row: "row \<in> set (api_table R conn)" "accepts meth comps (fst row) (fst (snd row))"
    using api_table_accepts [OF assms] by blast
  then obtain mux where "(mux, row) \<in> set (zip muxes (api_table R conn))"
    using len by (metis in_set_impl_in_set_zip2)
  then show ?thesis
    using row(2) unfolding routes by (cases row) force
qed


section \<open>Registration\<close>

text \<open>
  \<^verbatim>\<open>RegisterGateway\<close> of the three services gives the mux these routes over three connections to
  the gRPC address, or stops at the first that cannot be made.
\<close>

lemma client_handler_cong:
  assumes "mx_error mux = mx_error mux'" "mx_matcher mux = mx_matcher mux'"
  shows "client_handler R mux m path request = client_handler R mux' m path request"
  by (intro ext) (simp only: client_handler_def rest_handler_def assms)

lemma registered_fields:
  "mx_error (RegisterUserServiceHandler R conn mux) = mx_error mux"
  "mx_matcher (RegisterUserServiceHandler R conn mux) = mx_matcher mux"
  "mx_conns (RegisterUserServiceHandler R conn mux) = mx_conns mux"
  "mx_error (RegisterAuthServiceHandler R conn mux) = mx_error mux"
  "mx_matcher (RegisterAuthServiceHandler R conn mux) = mx_matcher mux"
  "mx_conns (RegisterAuthServiceHandler R conn mux) = mx_conns mux"
  "mx_error (RegisterHealthServiceHandler R conn mux) = mx_error mux"
  "mx_matcher (RegisterHealthServiceHandler R conn mux) = mx_matcher mux"
  "mx_conns (RegisterHealthServiceHandler R conn mux) = mx_conns mux"
  by (simp_all add: registrations)

lemma registered_routes:
  "mx_routes (RegisterUserServiceHandler R conn mux) = mx_routes mux @
     mx_routes (RegisterUserServiceHandler R conn (new_mux (mx_error mux) (mx_matcher mux)))"
  "mx_routes (RegisterAuthServiceHandler R conn mux) = mx_routes mux @
     mx_routes (RegisterAuthServiceHandler R conn (new_mux (mx_error mux) (mx_matcher mux)))"
  "mx_routes (RegisterHealthServiceHandler R conn mux) = mx_routes mux @
     mx_routes (RegisterHealthServiceHandler R conn (new_mux (mx_error mux) (mx_matcher mux)))"
  by (simp_all add: registrations; intro conjI client_handler_cong; simp)+

lemma api_routes_append:
  "api_routes R conn eh hm =
     mx_routes (RegisterUserServiceHandler R conn (new_mux eh hm)) @
     mx_routes (RegisterAuthServiceHandler R conn (new_mux eh hm)) @
     mx_routes (RegisterHealthServiceHandler R conn (new_mux eh hm))"
proof -
  have m: "mx_error (new_mux eh hm) = eh" "mx_matcher (new_mux eh hm) = hm" by (simp_all add: new_mux_def)
  show ?thesis
    unfolding api_routes_def registered_routes(3) [of _ _ "RegisterAuthServiceHandler _ _ _"]
      registered_routes(2) [of _ _ "RegisterUserServiceHandler _ _ _"] registered_fields m by simp
qed

lemma gateway_registered:
  "NewClient addr = Inr conn \<Longrightarrow>
   \<exists>mux. register_all (gateway_services R NewClient c) addr (new_mux eh hm) = (None, mux) \<and>
     mx_routes mux = api_routes R conn eh hm \<and> mx_conns mux = [(addr, c), (addr, c), (addr, c)]"
  "NewClient addr = Inl err \<Longrightarrow>
   register_all (gateway_services R NewClient c) addr (new_mux eh hm) = (Some err, new_mux eh hm)"
proof -
  note defs = gateway_services_def User_RegisterGateway_def Auth_RegisterGateway_def
      Health_RegisterGateway_def RegisterUserServiceHandlerFromEndpoint_def
      RegisterAuthServiceHandlerFromEndpoint_def RegisterHealthServiceHandlerFromEndpoint_def
  show "register_all (gateway_services R NewClient c) addr (new_mux eh hm) = (Some err, new_mux eh hm)"
    if "NewClient addr = Inl err" using that by (simp add: defs)
  let ?u = "(RegisterUserServiceHandler R conn (new_mux eh hm))\<lparr>mx_conns := [(addr, c)]\<rparr>"
  let ?a = "(RegisterAuthServiceHandler R conn ?u)\<lparr>mx_conns := [(addr, c), (addr, c)]\<rparr>"
  let ?h = "(RegisterHealthServiceHandler R conn ?a)\<lparr>mx_conns := [(addr, c), (addr, c), (addr, c)]\<rparr>"
  have m: "mx_error (new_mux eh hm) = eh" "mx_matcher (new_mux eh hm) = hm" "mx_conns (new_mux eh hm) = []"
    by (simp_all add: new_mux_def)
  have "mx_routes ?h = api_routes R conn eh hm"
    using registered_routes(3) [of R conn ?a] registered_routes(2) [of R conn ?u]
    by (simp add: api_routes_append registered_fields m)
  then show "\<exists>mux. register_all (gateway_services R NewClient c) addr (new_mux eh hm) = (None, mux) \<and>
      mx_routes mux = api_routes R conn eh hm \<and> mx_conns mux = [(addr, c), (addr, c), (addr, c)]"
    if "NewClient addr = Inr conn"
    using that by (simp add: defs registered_fields m)
qed

section \<open>Servers in the process\<close>

text \<open>
  The other registration calls a server directly: it is the client's way over a client that
  calls the methods of the server, with no interceptor between.
\<close>

definition in_process_users :: "'s UserServiceServer \<Rightarrow> (ctx, 's) UserServiceClient" where
  "in_process_users srv =
     \<lparr>uc_GetUser = server_call (ss_GetUser srv), uc_CreateUser = server_call (ss_CreateUser srv),
      uc_UpdateUser = server_call (ss_UpdateUser srv), uc_DeleteUser = server_call (ss_DeleteUser srv)\<rparr>"

definition in_process_auth :: "'s AuthServiceServer \<Rightarrow> (ctx, 's) AuthServiceClient" where
  "in_process_auth srv =
     \<lparr>ac_Login = server_call (ss_Login srv), ac_Refresh = server_call (ss_Refresh srv),
      ac_Logout = server_call (ss_Logout srv)\<rparr>"

definition in_process_health :: "'s HealthServiceServer \<Rightarrow> (ctx, 's) HealthServiceClient" where
  "in_process_health srv = \<lparr>hc_Check = server_call (ss_Check srv), hc_Ready = server_call (ss_Ready srv)\<rparr>"

lemma local_requests:
  "local_request_UserService_GetUser_0 R us = request_UserService_GetUser_0 R (in_process_users us)"
  "local_request_UserService_CreateUser_0 R us = request_UserService_CreateUser_0 R (in_process_users us)"
  "local_request_UserService_UpdateUser_0 R us = request_UserService_UpdateUser_0 R (in_process_users us)"
  "local_request_UserService_DeleteUser_0 R us = request_UserService_DeleteUser_0 R (in_process_users us)"
  "local_request_AuthService_Login_0 R au = request_AuthService_Login_0 R (in_process_auth au)"
  "local_request_AuthService_Refresh_0 R au = request_AuthService_Refresh_0 R (in_process_auth au)"
  "local_request_AuthService_Logout_0 R au = request_AuthService_Logout_0 R (in_process_auth au)"
  "local_request_HealthService_Check_0 R he = request_HealthService_Check_0 R (in_process_health he)"
  "local_request_HealthService_Check_1 R he = request_HealthService_Check_1 R (in_process_health he)"
  "local_request_HealthService_Ready_0 R he = request_HealthService_Ready_0 R (in_process_health he)"
  by (simp_all add: fun_eq_iff client_requests local_request_UserService_GetUser_0_def
      local_request_UserService_CreateUser_0_def local_request_UserService_UpdateUser_0_def
      local_request_UserService_DeleteUser_0_def local_request_AuthService_Login_0_def
      local_request_AuthService_Refresh_0_def local_request_AuthService_Logout_0_def
      local_request_HealthService_Check_0_def local_request_HealthService_Check_1_def
      local_request_HealthService_Ready_0_def in_process_users_def in_process_auth_def in_process_health_def
      split: sum.split)

end
