(* ===== verification/Rest_Contracts.thy ===== *)
theory Rest_Contracts
  imports Rest_Specs Server_Refinement
begin

text \<open>
  What the libraries under the gateway promise, as far as the properties of the whole way of a
  request rest on it, and the effect of a request on the database: at most one RPC's.
\<close>

section \<open>Promises\<close>

text \<open>Neither the database nor the clock changes; the ticks and the log may.\<close>

definition unchanged :: "'s world \<Rightarrow> 's world \<Rightarrow> bool" where
  "unchanged w w' \<longleftrightarrow> w_db w' = w_db w \<and> w_clock w' = w_clock w"

lemma unchanged_refl [simp]: "unchanged w w"
  by (simp add: unchanged_def)

lemma unchanged_trans [trans]: "unchanged a b \<Longrightarrow> unchanged b c \<Longrightarrow> unchanged a c"
  by (simp add: unchanged_def)

lemma unchanged_time: "time_Now w = (now, w') \<Longrightarrow> unchanged w w'"
  by (auto simp: time_Now_def unchanged_def)

definition quiet :: "'s http_handler \<Rightarrow> bool" where
  "quiet h \<longleftrightarrow> (\<forall>r w. unchanged w (snd (h r w)))"

definition quiet_errors :: "'s error_handler \<Rightarrow> bool" where
  "quiet_errors eh \<longleftrightarrow> (\<forall>r err w. unchanged w (snd (eh r err w)))"

definition quiet_gateway :: "'s gateway_libs \<Rightarrow> bool" where
  "quiet_gateway G \<longleftrightarrow>
     (\<forall>w. unchanged w (snd (gl_uuid G w))) \<and> quiet (gl_metrics G) \<and> (\<forall>p. quiet (gl_pprof G p)) \<and>
     quiet (gl_files G) \<and> (\<forall>p. quiet (gl_redirect G p)) \<and> quiet (gl_not_found G)"

text \<open>
  Errors go to the error handler of the mux and replies to the writer; the mux runs a
  registered handler whose pattern accepts some path, or answers by itself.
\<close>

definition quiet_runtime :: "'s gw_runtime \<Rightarrow> bool" where
  "quiet_runtime R \<longleftrightarrow>
     (\<forall>eh. quiet_errors eh \<longrightarrow> (\<forall>r err w. unchanged w (snd (rt_HTTPError R eh r err w)))) \<and>
     (\<forall>md r m w. unchanged w (snd (rt_Forward R md r m w)))"

definition confined :: "('s rest_route list \<Rightarrow> 's error_handler \<Rightarrow> 's http_handler) \<Rightarrow> bool" where
  "confined SH \<longleftrightarrow>
     (\<forall>routes eh r w. quiet_errors eh \<longrightarrow>
        unchanged w (snd (SH routes eh r w)) \<or>
        (\<exists>(m, pat, h)\<in>set routes. \<exists>comps params r'. rq_Header r' = rq_Header r \<and>
           pattern_args pat comps = Some params \<and> SH routes eh r w = h params r' w))"

text \<open>
  The mux finds a route: for a path of plain components that some route for the method
  accepts, it runs one of those. A request for another method under \<^verbatim>\<open>POST\<close> is set aside.
\<close>

definition path_of :: "string list \<Rightarrow> string" where
  "path_of comps = concat (map (\<lambda>c. CHR ''/'' # c) comps)"

definition plain_path :: "string list \<Rightarrow> bool" where
  "plain_path comps \<longleftrightarrow> comps \<noteq> [] \<and> (\<forall>c\<in>set comps. c \<noteq> [] \<and> CHR ''/'' \<notin> set c \<and> CHR '':'' \<notin> set c)"

definition dispatches :: "('s rest_route list \<Rightarrow> 's error_handler \<Rightarrow> 's http_handler) \<Rightarrow> bool" where
  "dispatches SH \<longleftrightarrow>
     (\<forall>routes eh r w comps.
        rq_URL r = path_of comps \<and> plain_path comps \<and>
        (rq_Method r = ''POST'' \<longrightarrow> header_Get (rq_Header r) ''X-HTTP-Method-Override'' = []) \<and>
        (\<exists>(m, pat, h)\<in>set routes. accepts (rq_Method r) comps m pat) \<longrightarrow>
        (\<exists>(m, pat, h)\<in>set routes. \<exists>params. m = rq_Method r \<and>
           pattern_args pat comps = Some params \<and> SH routes eh r w = h params r w))"

text \<open>
  The metadata of a call, for the keys the server reads: every value was sent in a header that
  is passed under the key, and a single such header is passed as it is.
\<close>

definition md_sources :: "(string \<Rightarrow> string option) \<Rightarrow> header \<Rightarrow> string \<Rightarrow> string set" where
  "md_sources hm h k =
     {key. h key \<noteq> None \<and> CanonicalHeaderKey key = key \<and>
        (k = ''authorization'' \<and> key = ''Authorization'' \<or> (\<exists>k'. hm key = Some k' \<and> map lower_byte k' = k))}"

definition annotates :: "'s gw_runtime \<Rightarrow> (string \<Rightarrow> string option) \<Rightarrow> bool" where
  "annotates R hm \<longleftrightarrow>
     (\<forall>r m path c. rt_Annotate R hm r m path = Inr c \<longrightarrow>
        (\<forall>k\<in>{''authorization'', ''x-request-id''}. \<forall>v\<in>set (cc_md c k).
           \<exists>key\<in>md_sources hm (rq_Header r) k. v \<in> set (the (rq_Header r key))) \<and>
        (\<forall>key. md_sources hm (rq_Header r) ''x-request-id'' = {key} \<longrightarrow>
           cc_md c ''x-request-id'' = the (rq_Header r key)))"

text \<open>
  A connection to a server: a call reaches it in a fresh context with the metadata of the
  caller, and a response is the server's; or it fails without reaching it.
\<close>

type_synonym 's rpc_server = "string \<Rightarrow> (message, 's) handler"

definition reached ::
  "'s rpc_server \<Rightarrow> call_ctx \<Rightarrow> string \<Rightarrow> message \<Rightarrow> 's world \<Rightarrow> ctx \<Rightarrow> 's world \<Rightarrow> message reply \<Rightarrow> 's world \<Rightarrow> 's world \<Rightarrow> bool" where
  "reached srv c m req w c' w1 rep w2 w' \<longleftrightarrow>
     unchanged w w1 \<and> incoming c' \<and> ctx_md c' = Some (cc_md c) \<and> srv m c' req w1 = (rep, w2) \<and> unchanged w2 w'"

definition delivers :: "'s rpc_server \<Rightarrow> 's connection \<Rightarrow> bool" where
  "delivers srv conn \<longleftrightarrow>
     (\<forall>c m req w res md w'. conn c m req w = ((res, md), w') \<longrightarrow>
        unchanged w w' \<and> (\<exists>err. res = Inl err) \<or>
        (\<exists>c' w1 rep w2. reached srv c m req w c' w1 rep w2 w' \<and>
           (\<forall>out. res = Inr out \<longrightarrow> rep = Reply (Some out) None)))"

section \<open>The effect of a request\<close>

text \<open>The request as it reaches the routes: with its headers, and a request ID if it had none.\<close>

definition carried :: "http_request \<Rightarrow> http_request \<Rightarrow> bool" where
  "carried r r1 \<longleftrightarrow>
     rq_Header r1 = rq_Header r \<or> (\<exists>i. rq_Header r1 = header_Set ''X-Request-ID'' i (rq_Header r))"

text \<open>Nothing happened, or one RPC of the API was served, read from the request.\<close>

definition one_rpc ::
  "'s gw_runtime \<Rightarrow> (string \<Rightarrow> string option) \<Rightarrow> 's rpc_server \<Rightarrow> http_request \<Rightarrow> 's world \<Rightarrow> 's world \<Rightarrow> bool" where
  "one_rpc R hm srv r w w' \<longleftrightarrow>
     unchanged w w' \<or>
     (\<exists>r1 meth comps m path req c c' w1 rep w2.
        carried r r1 \<and> rest_rpc R meth comps r1 = Some (m, path, Inr req) \<and>
        rt_Annotate R hm r1 m path = Inr c \<and> reached srv c m req w c' w1 rep w2 w')"

lemma reached_after: "reached srv c m req w c' w1 rep w2 w' \<Longrightarrow> unchanged w0 w \<Longrightarrow> unchanged w' w3 \<Longrightarrow>
    reached srv c m req w0 c' w1 rep w2 w3"
  unfolding reached_def by (meson unchanged_trans)

lemma one_rpc_after:
  "one_rpc R hm srv r w w' \<Longrightarrow> unchanged w0 w \<Longrightarrow> unchanged w' w3 \<Longrightarrow> one_rpc R hm srv r w0 w3"
  unfolding one_rpc_def by (meson reached_after unchanged_trans)

lemma one_rpc_quiet: "unchanged w w' \<Longrightarrow> one_rpc R hm srv r w w'"
  by (simp add: one_rpc_def)

lemma answer_rpc_effect:
  assumes R: "quiet_runtime R" and eh: "quiet_errors eh" and conn: "delivers srv conn"
    and rpc: "rest_rpc R meth comps r1 = Some rpc" and r1: "carried r r1"
  shows "one_rpc R hm srv r w (snd (answer_rpc R conn eh hm rpc r1 w))"
proof -
  obtain m path req where tuple: "rpc = (m, path, req)" by (cases rpc)
  have err: "unchanged w (snd (rt_HTTPError R eh r1 e w))" for e w
    using R eh by (simp add: quiet_runtime_def)
  have fwd: "unchanged w (snd (rt_Forward R md r1 x w))" for md x w
    using R by (simp add: quiet_runtime_def)
  show ?thesis
  proof (cases "rt_Annotate R hm r1 m path")
    case (Inl e)
    then show ?thesis by (simp add: tuple answer_rpc_def one_rpc_quiet err)
  next
    case c: (Inr c)
    show ?thesis
    proof (cases req)
      case (Inl e)
      then show ?thesis using c by (simp add: tuple answer_rpc_def one_rpc_quiet err)
    next
      case msg: (Inr msg)
      obtain res md w' where call: "conn c m msg w = ((res, md), w')" by (metis prod.collapse)
      from conn [unfolded delivers_def, rule_format, OF call]
      have "one_rpc R hm srv r w w'"
      proof
        assume "\<exists>c' w1 rep w2. reached srv c m msg w c' w1 rep w2 w' \<and>
          (\<forall>out. res = Inr out \<longrightarrow> rep = Reply (Some out) None)"
        then obtain c' w1 rep w2 where "reached srv c m msg w c' w1 rep w2 w'" by blast
        then show ?thesis using c rpc r1 unfolding one_rpc_def tuple msg by blast
      qed (simp add: one_rpc_quiet)
      then show ?thesis
        using c call by (cases res) (auto simp: tuple msg answer_rpc_def intro: one_rpc_after err fwd)
    qed
  qed
qed

lemma api_mux_effect:
  assumes "quiet_runtime R" "confined (rt_ServeHTTP R)" "quiet_errors eh" "delivers srv conn" "carried r r1"
  shows "one_rpc R hm srv r w (snd (api_mux R conn eh hm r1 w))"
proof -
  let ?routes = "api_routes R conn eh hm"
  consider "unchanged w (snd (rt_ServeHTTP R ?routes eh r1 w))"
    | m pat h comps params r2 where "(m, pat, h) \<in> set ?routes" "rq_Header r2 = rq_Header r1"
        "pattern_args pat comps = Some params" "rt_ServeHTTP R ?routes eh r1 w = h params r2 w"
    using assms(2,3) unfolding confined_def by blast
  then show ?thesis
  proof cases
    case 1
    then show ?thesis by (simp add: api_mux_def api_routes_def one_rpc_quiet)
  next
    case 2
    obtain rpc where rpc: "rest_rpc R m comps r2 = Some rpc" "h params r2 w = answer_rpc R conn eh hm rpc r2 w"
      using api_routes_answer [OF 2(1,3)] .
    have "carried r r2" using assms(5) 2(2) by (simp add: carried_def)
    from answer_rpc_effect [OF assms(1,3,4) rpc(1) this] 2(4) rpc(2)
    show ?thesis by (simp add: api_mux_def api_routes_def)
  qed
qed


lemma GatewayErrorHandler_quiet: "quiet_errors (GatewayErrorHandler G)"
  by (simp add: quiet_errors_def GatewayErrorHandler_def Let_def time_Now_def unchanged_def
      split: option.splits prod.splits)

lemma with_request_id_carried: "with_request_id G r w = ((i, r'), w') \<Longrightarrow> carried r r'"
  by (auto simp: with_request_id_def carried_def Let_def split: if_splits prod.splits)

lemma with_request_id_quiet:
  "quiet_gateway G \<Longrightarrow> with_request_id G r w = ((i, r'), w') \<Longrightarrow> unchanged w w'"
  by (auto simp: with_request_id_def quiet_gateway_def Let_def split: if_splits prod.splits)
    (metis snd_conv)

lemma envelope_calls_quiet: "unchanged w (snd (envelope_calls G i rec w))"
  by (simp add: envelope_calls_def Let_def time_Now_def unchanged_def split: option.splits prod.splits)

lemma envelope_effect:
  assumes G: "quiet_gateway G" and inner: "\<And>r1 w1. carried r r1 \<Longrightarrow> one_rpc R hm srv r w1 (snd (inner r1 w1))"
  shows "one_rpc R hm srv r w (snd (responseEnvelopeMiddleware G inner r w))"
proof -
  obtain i r1 w1 where id: "with_request_id G r w = ((i, r1), w1)" by (metis prod.collapse)
  obtain calls p w2 where run: "inner r1 w1 = ((calls, p), w2)" by (metis prod.collapse)
  note first = with_request_id_quiet [OF G id]
  have step: "one_rpc R hm srv r w1 w2" using inner [OF with_request_id_carried [OF id], of w1] by (simp add: run)
  show ?thesis
  proof (cases p)
    case None
    let ?rec = "fold record_call calls newResponseRecorder"
    have "snd (responseEnvelopeMiddleware G inner r w) = snd (envelope_calls G i ?rec w2)"
      by (simp add: responseEnvelopeMiddleware_def id run None Let_def split: prod.split)
    then show ?thesis using one_rpc_after [OF step first envelope_calls_quiet] by metis
  next
    case (Some v)
    then show ?thesis
      using one_rpc_after [OF step first unchanged_refl] by (simp add: responseEnvelopeMiddleware_def id run)
  qed
qed

lemma gateway_effect:
  assumes G: "quiet_gateway G" and R: "quiet_runtime R" "confined (rt_ServeHTTP R)"
    and conn: "delivers srv conn" and mux: "gl_mux G = api_mux R conn"
  shows "one_rpc R (headerMatcher G) srv r w (snd (withCORS (gateway_mux G cfg spec) r w))"
proof -
  have quiet: "one_rpc R (headerMatcher G) srv r w (snd (h r0 w))" if "quiet h" for h r0
    using that by (simp add: quiet_def one_rpc_quiet)
  have swagger: "quiet (Swagger_Handler G spec)"
    using G by (simp add: quiet_def quiet_gateway_def Swagger_Handler_def split: routed.split swagger_route.split)
  have api: "one_rpc R (headerMatcher G) srv r w
      (snd (responseEnvelopeMiddleware G (gl_mux G (GatewayErrorHandler G) (headerMatcher G)) r w))"
    unfolding mux by (intro envelope_effect G api_mux_effect R GatewayErrorHandler_quiet conn)
  have "one_rpc R (headerMatcher G) srv r w (snd (gateway_mux G cfg spec r w))"
    using G api swagger unfolding gateway_mux_def
    by (auto simp: quiet_gateway_def intro: quiet split: routed.split gateway_route.split)
  then show ?thesis
    by (cases "gateway_mux G cfg spec r w") (auto simp: withCORS_def one_rpc_quiet split: prod.split)
qed

end
