(* ===== verification/Rest_Properties.thy ===== *)
theory Rest_Properties
  imports Rest_Contracts Gateway_Properties Demo
begin

text \<open>
  The way of an HTTP request through the gateway to the gRPC server and back, with a
  stand-in for the libraries between them.
\<close>

section \<open>Canonical keys\<close>

lemma lower_byte_facts:
  "raise_byte (lower_byte c) = raise_byte c" "lower_byte (lower_byte c) = lower_byte c"
  "lower_byte c = CHR ''-'' \<longleftrightarrow> c = CHR ''-''"
proof -
  have n: "of_char (char_of (of_char c + (32 :: nat))) = of_char c + (32 :: nat)" if "of_char c \<le> (90 :: nat)"
    using that by (simp add: of_char_of)
  show "raise_byte (lower_byte c) = raise_byte c"
    by (simp add: raise_byte_def lower_byte_def n)
  show "lower_byte (lower_byte c) = lower_byte c"
    by (simp add: lower_byte_def n)
  show "lower_byte c = CHR ''-'' \<longleftrightarrow> c = CHR ''-''"
    by (auto simp: lower_byte_def n dest!: arg_cong [where f = "of_char :: char \<Rightarrow> nat"])
qed

lemma canonical_lower: "canonical_from up (map lower_byte s) = canonical_from up s"
  by (induction s arbitrary: up) (simp_all add: lower_byte_facts)

lemma token_lower: "token_byte (lower_byte c) \<Longrightarrow> token_byte c"
  by (auto simp: lower_byte_def token_byte_def Let_def split: if_splits)

text \<open>A canonical key is determined by its lower case.\<close>

lemma canonical_key_of_lower:
  assumes "CanonicalHeaderKey key = key" "map lower_byte key = k" "list_all token_byte k"
  shows "key = canonical_from True k"
proof -
  have "list_all token_byte key"
    using assms(2,3) token_lower by (auto simp: list_all_iff)
  then have "key = canonical_from True key" using assms(1) by (simp add: CanonicalHeaderKey_def)
  then show ?thesis using canonical_lower [of True key] assms(2) by simp
qed


section \<open>A stand-in for the libraries\<close>

text \<open>
  The mux takes the first route that accepts the components of the path; the two headers the
  server reads become metadata; a body is the name of a user; identifiers are decimal; the
  connection runs the demo server.
\<close>

definition header_values :: "header \<Rightarrow> string \<Rightarrow> string list" where
  "header_values h k = (case h k of Some vs \<Rightarrow> vs | None \<Rightarrow> [])"

definition demo_serve :: "'s rest_route list \<Rightarrow> 's error_handler \<Rightarrow> 's http_handler" where
  "demo_serve routes eh r w =
     (let comps = Split CHR ''/'' (tl (rq_URL r))
      in case List.find (\<lambda>(m, pat, h). accepts (rq_Method r) comps m pat) routes of
           Some (m, pat, h) \<Rightarrow> h (the (pattern_args pat comps)) r w
         | None \<Rightarrow> (case eh r (StatusErr NotFound ''Not Found'') w of (calls, w') \<Rightarrow> ((calls, None), w')))"

definition demo_runtime :: "'s gw_runtime" where
  "demo_runtime =
     \<lparr>rt_Annotate = (\<lambda>hm r m path. Inr \<lparr>cc_ctx = Background, cc_md = (\<lambda>k.
        if k = ''authorization'' then header_values (rq_Header r) ''Authorization''
        else if k = ''x-request-id'' then header_values (rq_Header r) ''X-Request-Id'' else [])\<rparr>),
      rt_AnnotateIncoming = (\<lambda>hm r m path. Inr Background),
      rt_Decode = (\<lambda>z b. case b of
          Some (Inr n) \<Rightarrow> (case z of PbUpdateUserRequest i _ \<Rightarrow> (PbUpdateUserRequest 9 n, None) | _ \<Rightarrow> (z, None))
        | Some (Inl e) \<Rightarrow> (z, Some e) | None \<Rightarrow> (z, Some (Sentinel IoEOF))),
      rt_Uint64 = (\<lambda>v. case ParseUint v of Some i \<Rightarrow> Inr i | None \<Rightarrow> Inl (Foreign ''syntax'')),
      rt_text = (\<lambda>_. []),
      rt_HTTPError = (\<lambda>eh r err w. case eh r err w of (calls, w') \<Rightarrow> ((calls, None), w')),
      rt_Forward = (\<lambda>md r m w. (([WriteBody ''{}''], None), w)),
      rt_ServeHTTP = demo_serve\<rparr>"

definition demo_conn :: "pg connection" where
  "demo_conn c m req w =
     (case serve demo_libs demo_cfg 5000000000 m (Background\<lparr>ctx_md := Some (cc_md c)\<rparr>) req w of
        (Reply (Some out) None, w') \<Rightarrow> ((Inr out, no_metadata), w')
      | (Reply _ (Some err), w') \<Rightarrow> ((Inl err, no_metadata), w')
      | (_, w') \<Rightarrow> ((Inl (StatusErr Internal []), no_metadata), w'))"

definition demo_gw :: "pg gateway_libs" where
  "demo_gw = demo_gateway\<lparr>gl_mux := api_mux demo_runtime demo_conn\<rparr>"

lemma Split_path_of: "plain_path comps \<Longrightarrow> Split CHR ''/'' (tl (path_of comps)) = comps"
proof -
  have part: "CHR ''/'' \<notin> set c \<Longrightarrow> Split CHR ''/'' (c @ CHR ''/'' # s) = c # Split CHR ''/'' s" for c s
    by (induction c) auto
  have last: "CHR ''/'' \<notin> set c \<Longrightarrow> Split CHR ''/'' c = [c]" for c by (induction c) auto
  have "CHR ''/'' \<notin> set c \<Longrightarrow> \<forall>c\<in>set cs. CHR ''/'' \<notin> set c \<Longrightarrow> Split CHR ''/'' (c @ path_of cs) = c # cs" for c cs
    by (induction cs arbitrary: c) (simp_all add: path_of_def last part)
  then show "plain_path comps \<Longrightarrow> Split CHR ''/'' (tl (path_of comps)) = comps"
    by (cases comps) (auto simp: plain_path_def path_of_def)
qed

lemma find_route:
  assumes "List.find (\<lambda>(m, pat, h). accepts meth comps m pat) routes = Some (m, pat, h)"
  shows "(m, pat, h) \<in> set routes" "m = meth" "pattern_args pat comps = Some (the (pattern_args pat comps))"
  using assms by (auto simp: find_Some_iff accepts_def) (metis nth_mem)

lemma demo_dispatches: "dispatches (demo_serve :: 's rest_route list \<Rightarrow> 's error_handler \<Rightarrow> 's http_handler)"
  unfolding dispatches_def
proof (intro allI impI, elim conjE)
  fix routes :: "'s rest_route list" and eh :: "'s error_handler" and r :: http_request
    and w :: "'s world" and comps
  assume url: "rq_URL r = path_of comps" "plain_path comps"
    and ex: "\<exists>(m, pat, h)\<in>set routes. accepts (rq_Method r) comps m pat"
  have "List.find (\<lambda>(m, pat, h). accepts (rq_Method r) comps m pat) routes \<noteq> None"
    using ex by (auto simp: find_None_iff)
  then obtain m pat h where f: "List.find (\<lambda>(m, pat, h). accepts (rq_Method r) comps m pat) routes = Some (m, pat, h)"
    by auto
  then have "demo_serve routes eh r w = h (the (pattern_args pat comps)) r w"
    by (simp add: demo_serve_def url Split_path_of)
  with find_route [OF f] show "\<exists>(m, pat, h)\<in>set routes. \<exists>params. m = rq_Method r \<and>
      pattern_args pat comps = Some params \<and> demo_serve routes eh r w = h params r w" by blast
qed

lemma quiet_error_answer:
  "quiet_errors eh \<Longrightarrow> unchanged w (snd (case eh r e w of (calls, w') \<Rightarrow> ((calls, None), w')))"
  unfolding quiet_errors_def by (metis (mono_tags, lifting) case_prod_unfold snd_conv)

lemma demo_confined: "confined (demo_serve :: 's rest_route list \<Rightarrow> 's error_handler \<Rightarrow> 's http_handler)"
  unfolding confined_def
proof (intro allI impI)
  fix routes :: "'s rest_route list" and eh :: "'s error_handler" and r :: http_request and w :: "'s world"
  assume eh: "quiet_errors eh"
  let ?comps = "Split CHR ''/'' (tl (rq_URL r))"
  show "unchanged w (snd (demo_serve routes eh r w)) \<or>
    (\<exists>(m, pat, h)\<in>set routes. \<exists>comps params r'. rq_Header r' = rq_Header r \<and>
       pattern_args pat comps = Some params \<and> demo_serve routes eh r w = h params r' w)"
  proof (cases "List.find (\<lambda>(m, pat, h). accepts (rq_Method r) ?comps m pat) routes")
    case None
    then show ?thesis by (simp add: demo_serve_def quiet_error_answer eh)
  next
    case (Some row)
    then obtain m pat h where f: "List.find (\<lambda>(m, pat, h). accepts (rq_Method r) ?comps m pat) routes = Some (m, pat, h)"
      by (cases row) auto
    then have "demo_serve routes eh r w = h (the (pattern_args pat ?comps)) r w"
      by (simp add: demo_serve_def)
    with find_route [OF f] show ?thesis by blast
  qed
qed

lemma demo_runtime_simps [simp]: "rt_ServeHTTP demo_runtime = demo_serve"
  by (simp add: demo_runtime_def)

lemma demo_runtime_quiet: "quiet_runtime (demo_runtime :: 's gw_runtime)"
  unfolding quiet_runtime_def by (simp add: demo_runtime_def quiet_error_answer)

lemma demo_gw_quiet: "quiet_gateway demo_gw"
  by (simp add: quiet_gateway_def quiet_def demo_gw_def demo_gateway_def)

lemma demo_conn_delivers: "delivers (serve demo_libs demo_cfg 5000000000) demo_conn"
  unfolding delivers_def
proof (intro allI impI disjI2)
  fix c m req w res md w'
  assume call: "demo_conn c m req w = ((res, md), w')"
  let ?c = "Background\<lparr>ctx_md := Some (cc_md c)\<rparr>"
  obtain rep w2 where s: "serve demo_libs demo_cfg 5000000000 m ?c req w = (rep, w2)" by fastforce
  have "incoming ?c" by (simp add: incoming_def Background_def)
  moreover have "w' = w2 \<and> (\<forall>out. res = Inr out \<longrightarrow> rep = Reply (Some out) None)"
    using call by (auto simp: demo_conn_def s split: reply.splits option.splits)
  ultimately show "\<exists>c' w1 rep w2. reached (serve demo_libs demo_cfg 5000000000) c m req w c' w1 rep w2 w' \<and>
      (\<forall>out. res = Inr out \<longrightarrow> rep = Reply (Some out) None)"
    using s by (intro exI [of _ ?c] exI [of _ w] exI [of _ rep] exI [of _ w2]) (simp add: reached_def)
qed


section \<open>REST calls are RPCs\<close>

text \<open>The mux answers a path of the table by the RPC behind it.\<close>

lemma api_mux_answers:
  assumes "dispatches (rt_ServeHTTP R)" and "rq_URL r = path_of comps" "plain_path comps"
    and "rq_Method r = ''POST'' \<longrightarrow> header_Get (rq_Header r) ''X-HTTP-Method-Override'' = []"
    and "rest_rpc R (rq_Method r) comps r = Some rpc"
  shows "api_mux R conn eh hm r w = answer_rpc R conn eh hm rpc r w"
proof -
  let ?routes = "api_routes R conn eh hm"
  from assms(1) [unfolded dispatches_def, rule_format, of r comps ?routes eh w] assms(2-4)
    api_routes_accept [OF assms(5), of conn eh hm]
  obtain pat h params where row: "(rq_Method r, pat, h) \<in> set ?routes" "pattern_args pat comps = Some params"
    and run: "rt_ServeHTTP R ?routes eh r w = h params r w" by blast
  obtain rpc' where "rest_rpc R (rq_Method r) comps r = Some rpc'" "h params r w = answer_rpc R conn eh hm rpc' r w"
    using api_routes_answer [OF row] .
  with run assms(5) show ?thesis by (simp add: api_mux_def api_routes_def)
qed

text \<open>
  C5: A REST call is answered by the RPC that the table of the API gives for its method and
  path: the request is read from the body and the path, where the identifier in the path
  overrides the one in the body, an unreadable request is an error before any call, and the
  reply or the error of the single call is what the client gets.
\<close>

theorem rest_call_is_rpc:
  assumes "dispatches (rt_ServeHTTP R)" and "rq_URL r = path_of comps" "plain_path comps"
    and "rq_Method r = ''POST'' \<longrightarrow> header_Get (rq_Header r) ''X-HTTP-Method-Override'' = []"
    and "rest_rpc R (rq_Method r) comps r = Some rpc"
  shows "api_mux R conn eh hm r w = answer_rpc R conn eh hm rpc r w"
  using assms by (rule api_mux_answers)

definition demo_patch :: http_request where
  "demo_patch = \<lparr>rq_Method = ''PATCH'', rq_URL = ''/api/v1/users/7'',
     rq_Header = [''Authorization'' \<mapsto> [''Bearer '' @ demo_access]], rq_Body = Some (Inr ''bob''), rq_ctx = Background\<rparr>"

theorem rest_call_is_rpc_witness:
  "api_mux demo_runtime demo_conn (GatewayErrorHandler demo_gw) (headerMatcher demo_gw) demo_patch (demo_world demo_pg) =
     answer_rpc demo_runtime demo_conn (GatewayErrorHandler demo_gw) (headerMatcher demo_gw)
       (''/user.v1.UserService/UpdateUser'', ''/api/v1/users/{id}'', Inr (PbUpdateUserRequest 7 ''bob''))
       demo_patch (demo_world demo_pg)"
proof (rule rest_call_is_rpc)
  show "dispatches (rt_ServeHTTP (demo_runtime :: pg gw_runtime))" by (simp add: demo_dispatches)
  show "rq_URL demo_patch = path_of [''api'', ''v1'', ''users'', ''7'']" by (simp add: demo_patch_def path_of_def)
  show "plain_path [''api'', ''v1'', ''users'', ''7'']" by (simp add: plain_path_def)
  show "rest_rpc demo_runtime (rq_Method demo_patch) [''api'', ''v1'', ''users'', ''7''] demo_patch =
    Some (''/user.v1.UserService/UpdateUser'', ''/api/v1/users/{id}'', Inr (PbUpdateUserRequest 7 ''bob''))"
    by code_simp
qed (simp add: demo_patch_def)


section \<open>Accounts over HTTP\<close>

lemma request_id_key:
  "map lower_byte ''X-Request-Id'' = ''x-request-id''" "ascii ''X-Request-Id''" "ascii ''x-request-id''"
  "map lower_byte ''x-request-id'' = ''x-request-id''" "map lower_byte ''idempotency-key'' = ''idempotency-key''"
  "list_all token_byte ''x-request-id''" "canonical_from True ''x-request-id'' = ''X-Request-Id''"
  "CanonicalHeaderKey ''X-Request-Id'' = ''X-Request-Id''" "CanonicalHeaderKey ''Authorization'' = ''Authorization''"
  by code_simp+

lemma headerMatcher_request_id: "headerMatcher G ''X-Request-Id'' = Some ''x-request-id''"
  by (simp add: headerMatcher_def ToLower_def request_id_key(1,2) Let_def del: list.map)

lemma carried_authorization:
  assumes "carried r r1" "key \<in> md_sources (headerMatcher G) (rq_Header r1) ''authorization''"
  shows "key \<in> md_sources (headerMatcher G) (rq_Header r) ''authorization'' \<and> rq_Header r1 key = rq_Header r key"
proof -
  have "key \<noteq> ''X-Request-Id''"
    using assms(2) by (auto simp: md_sources_def headerMatcher_request_id request_id_key(4) simp del: list.map)
  then show ?thesis
    using assms by (auto simp: carried_def md_sources_def header_Set_def canonical_keys)
qed

lemma bearer_value:
  "bearer_claims jw secret c w = Some cl \<Longrightarrow>
   \<exists>md v vs. ctx_md c = Some md \<and> md ''authorization'' = v # vs"
  by (auto simp: bearer_claims_def extractBearerToken_def md_Get_def split: option.splits list.splits)

text \<open>
  C4: No HTTP request to the gateway, on whatever path, changes or removes the row of an
  account unless one of its headers passed as authorization bears a valid token of that very
  account; then the request was read as that account's own update or deletion.
\<close>

theorem http_changes_by_owner:
  fixes w :: "'s world"
  assumes "gorm_db (lb_gorm L) view" and "read_only_ping view (lb_Ping L)"
    and "quiet_gateway G" and "quiet_runtime R" and "confined (rt_ServeHTTP R)"
    and "annotates R (headerMatcher G)" and "delivers (serve L cfg d) conn" and "gl_mux G = api_mux R conn"
    and "withCORS (gateway_mux G appcfg spec) r w = (out, w')"
    and "users (view (w_db w) DefaultDB) i = Some usr" and "users (view (w_db w') DefaultDB) i \<noteq> Some usr"
  shows "\<exists>c cl (wa :: 's world) md v vs key req. w_clock wa = w_clock w \<and>
     bearer_claims (lb_jwt L) (tc_SecretKey cfg) c wa = Some cl \<and> cl_UserID cl = i \<and>
     ctx_md c = Some md \<and> md ''authorization'' = v # vs \<and>
     key \<in> md_sources (headerMatcher G) (rq_Header r) ''authorization'' \<and> v \<in> set (the (rq_Header r key)) \<and>
     (deletes req \<and> users (view (w_db w') DefaultDB) i = None \<or>
      (\<exists>n now. req = PbUpdateUserRequest i n \<and> users (view (w_db w') DefaultDB) i =
         Some (usr\<lparr>u_Name := (if n = [] then u_Name usr else n), u_UpdatedAt := now\<rparr>)))"
proof -
  have "one_rpc R (headerMatcher G) (serve L cfg d) r w w'"
    using gateway_effect [OF assms(3-5,7,8), of r w appcfg spec] assms(9) by simp
  moreover have "\<not> unchanged w w'" using assms(10,11) by (auto simp: unchanged_def)
  ultimately obtain r1 m path req cc c w1 rep w2 where r1: "carried r r1"
    and ann: "rt_Annotate R (headerMatcher G) r1 m path = Inr cc"
    and call: "reached (serve L cfg d) cc m req w c w1 rep w2 w'" unfolding one_rpc_def by blast
  then have run: "serve L cfg d m c req w1 = (rep, w2)" "incoming c" "ctx_md c = Some (cc_md cc)"
    and same: "w_db w1 = w_db w" "w_clock w1 = w_clock w" "w_db w' = w_db w2"
    by (simp_all add: reached_def unchanged_def)
  from serve_step [OF assms(1) run(2) assms(2) run(1)] same obtain u where
    s: "db_step (lb_crypto L) u req (succeeded rep) (view (w_db w) DefaultDB) (view (w_db w') DefaultDB)"
    and u: "\<forall>i. u = Some i \<longrightarrow> (\<exists>cl wa :: 's world. w_clock wa = w_clock w \<and> w_ticks w1 < w_ticks wa \<and>
              bearer_claims (lb_jwt L) (tc_SecretKey cfg) c wa = Some cl \<and> cl_UserID cl = i)" by auto
  from db_step_users [OF s assms(10,11)] u obtain cl wa where
    cl: "w_clock wa = w_clock w" "bearer_claims (lb_jwt L) (tc_SecretKey cfg) c (wa :: 's world) = Some cl" "cl_UserID cl = i"
    by blast
  from bearer_value [OF cl(2)] run(3) obtain v vs where v: "cc_md cc ''authorization'' = v # vs" by auto
  with assms(6) ann obtain key where "key \<in> md_sources (headerMatcher G) (rq_Header r1) ''authorization''"
    "v \<in> set (the (rq_Header r1 key))" by (fastforce simp: annotates_def)
  with carried_authorization [OF r1] have
    "key \<in> md_sources (headerMatcher G) (rq_Header r) ''authorization''" "v \<in> set (the (rq_Header r key))" by metis+
  with cl run(3) v db_step_users [OF s assms(10,11)] show ?thesis by blast
qed

lemma md_sources_iff:
  "k \<noteq> ''authorization'' \<Longrightarrow> key \<in> md_sources hm h k \<longleftrightarrow>
     h key \<noteq> None \<and> CanonicalHeaderKey key = key \<and> (\<exists>k'. hm key = Some k' \<and> map lower_byte k' = k)"
  by (simp add: md_sources_def)

lemma demo_sources:
  "md_sources (headerMatcher demo_gw) h ''x-request-id'' = (if h ''X-Request-Id'' = None then {} else {''X-Request-Id''})"
  "md_sources (headerMatcher demo_gw) h ''authorization'' = (if h ''Authorization'' = None then {} else {''Authorization''})"
proof -
  have m: "headerMatcher demo_gw key =
      (if (if ascii key then map lower_byte key else key) = ''x-request-id'' then Some ''x-request-id''
       else if (if ascii key then map lower_byte key else key) \<in> {''idempotency-key'', ''x-idempotency-key''}
       then Some ''idempotency-key'' else None)" for key
    by (simp add: headerMatcher_def demo_gw_def demo_gateway_def ToLower_def Let_def)
  have key: "key = ''X-Request-Id''"
    if "CanonicalHeaderKey key = key" "headerMatcher demo_gw key = Some k'" "map lower_byte k' = ''x-request-id''" for key k'
  proof -
    have "map lower_byte key = ''x-request-id''"
      using that(2,3) request_id_key(3,5) by (auto simp: m split: if_splits simp del: list.map)
    from canonical_key_of_lower [OF that(1) this request_id_key(6)] show ?thesis by (simp only: request_id_key(7))
  qed
  have none: "headerMatcher demo_gw key = Some k' \<Longrightarrow> map lower_byte k' \<noteq> ''authorization''" for key k'
    using request_id_key(4,5) by (auto simp: m split: if_splits simp del: list.map)
  have ne: "''x-request-id'' \<noteq> ''authorization''" by simp
  have x: "key \<in> md_sources (headerMatcher demo_gw) h ''x-request-id'' \<longleftrightarrow>
      h ''X-Request-Id'' \<noteq> None \<and> key = ''X-Request-Id''" for key
    unfolding md_sources_iff [OF ne]
  proof (intro iffI; elim conjE exE)
    fix k' assume k: "h key \<noteq> None" "CanonicalHeaderKey key = key"
      "headerMatcher demo_gw key = Some k'" "map lower_byte k' = ''x-request-id''"
    have "key = ''X-Request-Id''" by (rule key [OF k(2-4)])
    then show "h ''X-Request-Id'' \<noteq> None \<and> key = ''X-Request-Id''" using k(1) by simp
  next
    assume k: "h ''X-Request-Id'' \<noteq> None" "key = ''X-Request-Id''"
    show "h key \<noteq> None \<and> CanonicalHeaderKey key = key \<and>
        (\<exists>k'. headerMatcher demo_gw key = Some k' \<and> map lower_byte k' = ''x-request-id'')"
      unfolding k(2)
      by (intro conjI exI [of _ "''x-request-id''"] k(1) request_id_key(4,8) headerMatcher_request_id)
  qed
  show "md_sources (headerMatcher demo_gw) h ''x-request-id'' = (if h ''X-Request-Id'' = None then {} else {''X-Request-Id''})"
    by (rule set_eqI) (simp add: x)
  have a: "key \<in> md_sources (headerMatcher demo_gw) h ''authorization'' \<longleftrightarrow>
      h ''Authorization'' \<noteq> None \<and> key = ''Authorization''" for key
  proof -
    have n: "\<not> (\<exists>k'. headerMatcher demo_gw key = Some k' \<and> map lower_byte k' = ''authorization'')"
    proof (rule notI, elim exE conjE)
      fix k' assume k: "headerMatcher demo_gw key = Some k'" "map lower_byte k' = ''authorization''"
      from none [OF k(1)] k(2) show False by (rule notE)
    qed
    have "key = ''Authorization'' \<Longrightarrow> CanonicalHeaderKey key = key" by (simp only: request_id_key(9))
    then show ?thesis unfolding md_sources_def mem_Collect_eq by (simp only: n simp_thms) metis
  qed
  show "md_sources (headerMatcher demo_gw) h ''authorization'' = (if h ''Authorization'' = None then {} else {''Authorization''})"
    by (rule set_eqI) (simp add: a)
qed


lemma demo_annotates: "annotates demo_runtime (headerMatcher demo_gw)"
  by (auto simp: annotates_def demo_sources demo_runtime_def header_values_def split: option.split if_splits)

definition demo_delete :: http_request where
  "demo_delete = \<lparr>rq_Method = ''DELETE'', rq_URL = ''/api/v1/users/7'',
     rq_Header = [''Authorization'' \<mapsto> [''Bearer '' @ demo_access]], rq_Body = None, rq_ctx = Background\<rparr>"

lemma demo_conn_world:
  "snd (demo_conn c m req w) = snd (serve demo_libs demo_cfg 5000000000 m (Background\<lparr>ctx_md := Some (cc_md c)\<rparr>) req w)"
  by (auto simp: demo_conn_def split: prod.splits reply.splits option.splits)

lemma answer_rpc_world:
  assumes "quiet_runtime R" "quiet_errors eh" "rt_Annotate R hm r m path = Inr c"
  shows "unchanged (snd (conn c m msg w)) (snd (answer_rpc R conn eh hm (m, path, Inr msg) r w))"
  using assms by (simp add: answer_rpc_def quiet_runtime_def split: prod.split sum.split)

lemma middleware_world:
  assumes "with_request_id G r w = ((i, r1), w1)"
  shows "unchanged (snd (inner r1 w1)) (snd (responseEnvelopeMiddleware G inner r w))"
proof -
  obtain calls p w2 where run: "inner r1 w1 = ((calls, p), w2)" by (metis prod.collapse)
  show ?thesis
    using envelope_calls_quiet [of w2 G i "fold record_call calls newResponseRecorder"]
    by (cases p) (auto simp: responseEnvelopeMiddleware_def assms run Let_def split: prod.split)
qed

lemma demo_delete_run:
  "users (pg_view (w_db (snd (withCORS (gateway_mux demo_gw production []) demo_delete (demo_world demo_pg)))) DefaultDB) 7 = None"
proof -
  let ?r = "demo_delete\<lparr>rq_Header := header_Set ''X-Request-ID'' ''a-fresh-uuid'' (rq_Header demo_delete)\<rparr>"
  let ?c = "Background\<lparr>ctx_md := Some (\<lambda>k. if k = ''authorization'' then [''Bearer '' @ demo_access]
     else if k = ''x-request-id'' then [''a-fresh-uuid''] else [])\<rparr>"
  let ?w = "demo_world demo_pg"
  let ?m = "''/user.v1.UserService/DeleteUser''"
  have route: "mux_lookup (gateway_patterns production) (rq_URL demo_delete) = Route ApiRoute" by code_simp
  have rpc: "rest_rpc demo_runtime (rq_Method ?r) [''api'', ''v1'', ''users'', ''7''] ?r =
    Some (?m, ''/api/v1/users/{id}'', Inr (PbDeleteUserRequest 7))" by code_simp
  have gone: "row_user (pg_main (w_db (snd (serve demo_libs demo_cfg 5000000000 ?m ?c (PbDeleteUserRequest 7) ?w)))) 7 = None"
    by code_simp
  let ?inner = "api_mux demo_runtime demo_conn (GatewayErrorHandler demo_gw) (headerMatcher demo_gw)"
  have "with_request_id demo_gw demo_delete ?w = ((''a-fresh-uuid'', ?r), ?w)"
    by (simp add: with_request_id_def demo_gw_def demo_gateway_def demo_delete_def header_Get_def canonical_keys)
  note outer = middleware_world [OF this, of ?inner]
  have url: "rq_URL ?r = path_of [''api'', ''v1'', ''users'', ''7'']" by (simp add: demo_delete_def path_of_def)
  have plain: "plain_path [''api'', ''v1'', ''users'', ''7'']" by (simp add: plain_path_def)
  have post: "rq_Method ?r = ''POST'' \<longrightarrow> header_Get (rq_Header ?r) ''X-HTTP-Method-Override'' = []"
    by (simp add: demo_delete_def)
  have "dispatches (rt_ServeHTTP (demo_runtime :: pg gw_runtime))" by (simp add: demo_dispatches)
  note inner = api_mux_answers [OF this url plain post rpc, of demo_conn "GatewayErrorHandler demo_gw" "headerMatcher demo_gw" ?w]
  have ann: "rt_Annotate demo_runtime (headerMatcher demo_gw) ?r ?m ''/api/v1/users/{id}'' =
      Inr \<lparr>cc_ctx = Background, cc_md = the (ctx_md ?c)\<rparr>"
    by (simp add: demo_runtime_def header_values_def header_Set_def canonical_keys demo_delete_def cong: if_cong)
  have "w_db (snd (?inner ?r ?w)) = w_db (snd (serve demo_libs demo_cfg 5000000000 ?m ?c (PbDeleteUserRequest 7) ?w))"
    using answer_rpc_world [OF demo_runtime_quiet GatewayErrorHandler_quiet ann, of demo_conn "PbDeleteUserRequest 7" ?w]
    unfolding inner demo_conn_world by (simp add: unchanged_def)
  then have "w_db (snd (gateway_mux demo_gw production [] demo_delete ?w)) =
      w_db (snd (serve demo_libs demo_cfg 5000000000 ?m ?c (PbDeleteUserRequest 7) ?w))"
    using outer by (simp add: gateway_mux_def route unchanged_def demo_gw_def)
  moreover have "snd (withCORS (gateway_mux demo_gw production []) demo_delete ?w) =
      snd (gateway_mux demo_gw production [] demo_delete ?w)"
    by (simp add: withCORS_def demo_delete_def split: prod.split)
  ultimately show ?thesis using gone by (simp add: pg_rows_def)
qed

theorem http_changes_by_owner_witness:
  "users (pg_view (w_db (snd (withCORS (gateway_mux demo_gw production []) demo_delete (demo_world demo_pg)))) DefaultDB) 7 = None \<and>
   (\<exists>c cl wa. bearer_claims plain_jwt ''key'' c (wa :: pg world) = Some cl \<and> cl_UserID cl = 7)"
proof -
  let ?run = "withCORS (gateway_mux demo_gw production []) demo_delete (demo_world demo_pg)"
  note gone = demo_delete_run
  have there: "users (pg_view (w_db (demo_world demo_pg)) DefaultDB) 7 = Some demo_user"
    by (simp add: pg_rows_def demo_world_def demo_pg_def row_user_def demo_user_def)
  have mux: "gl_mux demo_gw = api_mux demo_runtime demo_conn" by (simp add: demo_gw_def)
  have e: "lb_jwt demo_libs = plain_jwt" "tc_SecretKey demo_cfg = ''key''"
    by (simp_all add: demo_libs_def demo_cfg_def)
  have confined: "confined (rt_ServeHTTP (demo_runtime :: pg gw_runtime))" by (simp add: demo_confined)
  have change: "users (pg_view (w_db (snd ?run)) DefaultDB) 7 \<noteq> Some demo_user" using gone by simp
  show ?thesis
    using gone http_changes_by_owner [OF demo_contract(1) demo_ping demo_gw_quiet demo_runtime_quiet confined
        demo_annotates demo_conn_delivers mux prod.collapse [symmetric] there change] unfolding e by blast
qed


section \<open>The request ID\<close>

text \<open>
  The request ID the gateway answers with is the one the server logs, as long as no second
  header is passed under its name.
\<close>

lemma request_id_followed:
  assumes "with_request_id G r w = ((i, r1), w1)" and "i \<noteq> []" and "annotates R (headerMatcher G)"
    and "md_sources (headerMatcher G) (rq_Header r1) ''x-request-id'' = {''X-Request-Id''}"
    and "rt_Annotate R (headerMatcher G) r1 m path = Inr c" and "ctx_md c' = Some (cc_md c)"
  shows "GetRequestID (enrich_context m c') = (i, True)"
proof -
  have "header_Get (rq_Header r1) ''X-Request-ID'' = i" using assms(1) by (rule with_request_id_header)
  then obtain vs where "rq_Header r1 ''X-Request-Id'' = Some (i # vs)"
    using assms(2) by (auto simp: header_Get_def canonical_keys split: option.splits list.splits)
  with assms(3-5) have "cc_md c ''x-request-id'' = i # vs" by (auto simp: annotates_def)
  then have "first_value c' ''x-request-id'' = Some i" using assms(6) by (simp add: first_value_def md_Get_def)
  then show ?thesis
    using assms(2) by (auto simp: enrich_context_def Let_def contextutil_defs split: option.splits prod.splits)
qed

end
