(* ===== verification/Logger.thy ===== *)
theory Logger
  imports Go_Context Go_Strings
begin

text \<open>
  \<^verbatim>\<open>pkg/logger\<close>: the structured logger on top of zap (\<^verbatim>\<open>zap.go\<close>) and the package-level
  functions around the default logger (\<^verbatim>\<open>logger.go\<close>). What is handed to
  zap is a list of entries; zap's sampling and encoding are not modelled, its configuration
  builder, the host name and the OpenTelemetry span of a context are parameters.
\<close>

section \<open>Levels and configuration\<close>

datatype Level = DebugLv | InfoLv | WarnLv | ErrorLv | FatalLv

fun level_num :: "Level \<Rightarrow> nat" where
  "level_num DebugLv = 0" | "level_num InfoLv = 1" | "level_num WarnLv = 2"
| "level_num ErrorLv = 3" | "level_num FatalLv = 4"

text \<open>Levels are ordered by their numbers, as zap compares them.\<close>

instantiation Level :: linorder
begin

definition less_eq_Level :: "Level \<Rightarrow> Level \<Rightarrow> bool" where
  "a \<le> b \<longleftrightarrow> level_num a \<le> level_num b"

definition less_Level :: "Level \<Rightarrow> Level \<Rightarrow> bool" where
  "a < b \<longleftrightarrow> level_num a < level_num b"

instance
proof
  fix a b c :: Level
  show "a < b \<longleftrightarrow> a \<le> b \<and> \<not> b \<le> a" by (auto simp: less_eq_Level_def less_Level_def)
  show "a \<le> a" by (simp add: less_eq_Level_def)
  show "a \<le> c" if "a \<le> b" "b \<le> c" using that by (simp add: less_eq_Level_def)
  show "a = b" if "a \<le> b" "b \<le> a" using that by (cases a; cases b) (simp_all add: less_eq_Level_def)
  show "a \<le> b \<or> b \<le> a" by (auto simp: less_eq_Level_def)
qed

end

lemma level_order [simp]: "DebugLv \<le> l" "l \<le> FatalLv"
  by (cases l; simp add: less_eq_Level_def)+

record LoggerConfig =
  lc_Level :: string
  lc_Environment :: string
  lc_ServiceName :: string

text \<open>The text of the error quotes the level with \<^verbatim>\<open>%q\<close>, here \<open>q\<close>.\<close>

definition parseLevel :: "(string \<Rightarrow> string) \<Rightarrow> string \<Rightarrow> Level \<times> go_error option" where
  "parseLevel q s =
     (if s = ''debug'' then (DebugLv, None)
      else if s = ''info'' \<or> s = [] then (InfoLv, None)
      else if s = ''warn'' then (WarnLv, None)
      else if s = ''error'' then (ErrorLv, None)
      else (InfoLv, Some (Foreign (''logger: unknown level '' @ q s))))"

section \<open>Entries\<close>

datatype field_value =
    FString string
  | FUint uint
  | FAny string
  | FError go_error
  | FErrors "go_error list"

type_synonym field = "string \<times> field_value"

record entry =
  en_level :: Level
  en_logger :: string
  en_msg :: string
  en_caller :: string
  en_fields :: "field list"

text \<open>
  \<^verbatim>\<open>zap.Logger\<close>: the level from which its core is enabled (\<open>None\<close> for the no-op core), its
  name, the fields given to \<^verbatim>\<open>With\<close> and the number of frames skipped for the caller.
\<close>

record zap =
  za_min :: "Level option"
  za_name :: string
  za_fields :: "field list"
  za_skip :: nat

definition zap_Enabled :: "zap \<Rightarrow> Level \<Rightarrow> bool" where
  "zap_Enabled z lv = (case za_min z of Some m \<Rightarrow> m \<le> lv | None \<Rightarrow> False)"

definition zap_With :: "field list \<Rightarrow> zap \<Rightarrow> zap" where
  "zap_With fs z = z\<lparr>za_fields := za_fields z @ fs\<rparr>"

definition zap_Named :: "string \<Rightarrow> zap \<Rightarrow> zap" where
  "zap_Named s z =
     (if s = [] then z
      else z\<lparr>za_name := (if za_name z = [] then s else za_name z @ ''.'' @ s)\<rparr>)"

definition AddCallerSkip :: "nat \<Rightarrow> zap \<Rightarrow> zap" where
  "AddCallerSkip n z = z\<lparr>za_skip := za_skip z + n\<rparr>"

text \<open>
  What one call of \<^verbatim>\<open>Debug\<close> to \<^verbatim>\<open>Fatal\<close> hands to zap, as the entry zap makes of the call, and
  whether the process exits, which \<^verbatim>\<open>Fatal\<close> does in any case. Whether zap writes an entry it is
  given is not modelled: its production configuration samples repeated ones. \<open>stack\<close> are the
  functions on the stack, the one that calls zap first.
\<close>

definition zap_offer :: "zap \<Rightarrow> string list \<Rightarrow> Level \<Rightarrow> string \<Rightarrow> field list \<Rightarrow> entry list \<times> bool" where
  "zap_offer z stack lv msg flds =
     ((if zap_Enabled z lv
       then [\<lparr>en_level = lv, en_logger = za_name z, en_msg = msg,
              en_caller = (if za_skip z < length stack then stack ! za_skip z else []),
              en_fields = za_fields z @ flds\<rparr>]
       else []), lv = FatalLv)"

section \<open>The logger (zap.go)\<close>

record zapLogger =
  zl_base :: zap
  zl_service :: string
  zl_env :: string
  zl_host :: string

definition static_fields :: "string \<Rightarrow> string \<Rightarrow> string \<Rightarrow> field list" where
  "static_fields service env hostname =
     (if service \<noteq> [] then [(''service'', FString service)] else [])
     @ (if env \<noteq> [] then [(''env'', FString env)] else [])
     @ (if hostname \<noteq> [] then [(''host'', FString hostname)] else [])"

definition NewWithZap :: "string \<Rightarrow> zap \<Rightarrow> string \<Rightarrow> string \<Rightarrow> zapLogger" where
  "NewWithZap hostname base service env =
     \<lparr>zl_base = zap_With (static_fields service env hostname) (AddCallerSkip 1 base),
      zl_service = service, zl_env = env, zl_host = hostname\<rparr>"

definition NewZapLogger :: "string \<Rightarrow> zap \<Rightarrow> string \<Rightarrow> string \<Rightarrow> zapLogger" where
  "NewZapLogger hostname base service env = NewWithZap hostname base service env"

definition NewNop :: "string \<Rightarrow> zapLogger" where
  "NewNop hostname = NewWithZap hostname \<lparr>za_min = None, za_name = [], za_fields = [], za_skip = 0\<rparr> ''nop'' ''test''"

text \<open>\<open>build prod lv\<close> builds zap from its production or development configuration.\<close>

definition Logger_New ::
  "(string \<Rightarrow> string) \<Rightarrow> (bool \<Rightarrow> Level \<Rightarrow> zap result) \<Rightarrow> string \<Rightarrow> LoggerConfig \<Rightarrow> zapLogger result" where
  "Logger_New q build hostname cfg =
     (case parseLevel q (lc_Level cfg) of
        (_, Some err) \<Rightarrow> Inl err
      | (level, None) \<Rightarrow>
          (case build (lc_Environment cfg = ''production'') level of
             Inl err \<Rightarrow> Inl (Wrapped ''logger: build zap: '' err [])
           | Inr base \<Rightarrow> Inr (NewWithZap hostname base (lc_ServiceName cfg) (lc_Environment cfg))))"

text \<open>Children: the parent is not changed. A map of fields is given in the order of its iteration.\<close>

definition With :: "string \<Rightarrow> field_value \<Rightarrow> zapLogger \<Rightarrow> zapLogger" where
  "With key v l = l\<lparr>zl_base := zap_With [(key, v)] (zl_base l)\<rparr>"

definition WithFields :: "field list \<Rightarrow> zapLogger \<Rightarrow> zapLogger" where
  "WithFields flds l = (if flds = [] then l else l\<lparr>zl_base := zap_With flds (zl_base l)\<rparr>)"

definition WithData :: "field_value \<Rightarrow> zapLogger \<Rightarrow> zapLogger" where
  "WithData data l = l\<lparr>zl_base := zap_With [(''data'', data)] (zl_base l)\<rparr>"

definition Named :: "string \<Rightarrow> zapLogger \<Rightarrow> zapLogger" where
  "Named name l = l\<lparr>zl_base := zap_Named name (zl_base l)\<rparr>"

text \<open>\<open>sync\<close> is the answer of the core of zap to a flush.\<close>

definition zapLogger_Sync :: "(zap \<Rightarrow> go_error option) \<Rightarrow> zapLogger \<Rightarrow> go_error option" where
  "zapLogger_Sync sync l = sync (zl_base l)"

definition Desugar :: "zapLogger \<Rightarrow> zap" where
  "Desugar l = zl_base l"

subsection \<open>Fields of the context\<close>

text \<open>\<open>span\<close> gives the trace and span identifiers when the context carries a valid span.\<close>

definition str_field :: "string \<Rightarrow> string \<Rightarrow> field list" where
  "str_field key v = (if v \<noteq> [] then [(key, FString v)] else [])"

definition log_request_id :: "ctx \<Rightarrow> string" where
  "log_request_id c =
     (case GetRequestID c of
        (i, ok) \<Rightarrow>
          if ok \<and> i \<noteq> [] then i
          else (case ctx_md c of
                  None \<Rightarrow> []
                | Some md \<Rightarrow>
                    (case md ''x-request-id'' of
                       v # _ \<Rightarrow> if v \<noteq> [] then v
                               else (case md ''x-correlation-id'' of u # _ \<Rightarrow> u | [] \<Rightarrow> [])
                     | [] \<Rightarrow> (case md ''x-correlation-id'' of u # _ \<Rightarrow> u | [] \<Rightarrow> []))))"

definition identity_fields :: "ctx \<Rightarrow> field list" where
  "identity_fields c =
     (case GetUserID c of (u, ok) \<Rightarrow> if ok then [(''user_id'', FUint u)] else [])
     @ (case GetRole c of (r, ok) \<Rightarrow> if ok then str_field ''role'' r else [])"

definition rpc_fields :: "ctx \<Rightarrow> field list" where
  "rpc_fields c =
     (case GetRPCMetadata c of
        (m, ok) \<Rightarrow>
          if ok then str_field ''rpc.system'' (rpc_System m) @ str_field ''rpc.service'' (rpc_Service m)
                     @ str_field ''rpc.method'' (rpc_Method m) @ str_field ''client_ip'' (rpc_ClientIP m)
                     @ str_field ''user_agent'' (rpc_UserAgent m)
          else [])"

definition hasClientIP :: "ctx \<Rightarrow> bool" where
  "hasClientIP c = (case GetRPCMetadata c of (m, ok) \<Rightarrow> ok \<and> rpc_ClientIP m \<noteq> [])"

definition extractContextFields :: "(ctx \<Rightarrow> (string \<times> string) option) \<Rightarrow> ctx option \<Rightarrow> field list" where
  "extractContextFields span c0 =
     (case c0 of
        None \<Rightarrow> []
      | Some c \<Rightarrow>
          (case span c of
             Some (traceID, spanID) \<Rightarrow> [(''trace_id'', FString traceID), (''span_id'', FString spanID)]
           | None \<Rightarrow> [])
          @ str_field ''request_id'' (log_request_id c)
          @ identity_fields c @ rpc_fields c
          @ (if hasClientIP c then []
             else (case ctx_peer c of Some a \<Rightarrow> [(''client_ip'', FString a)] | None \<Rightarrow> [])))"

subsection \<open>Writing\<close>

definition error_fields :: "go_error option list \<Rightarrow> field list" where
  "error_fields errs =
     (case List.map_filter (\<lambda>e. e) errs of
        [] \<Rightarrow> []
      | [e] \<Rightarrow> [(''error'', FError e)]
      | e # es \<Rightarrow> [(''error'', FError e), (''extra_errors'', FErrors es)])"

text \<open>\<open>stack\<close> are the functions on the stack below \<^verbatim>\<open>logWithSkip\<close>.\<close>

definition logWithSkip ::
  "(ctx \<Rightarrow> (string \<times> string) option) \<Rightarrow> zapLogger \<Rightarrow> string list \<Rightarrow> ctx option \<Rightarrow> nat \<Rightarrow> Level \<Rightarrow>
   string \<Rightarrow> go_error option list \<Rightarrow> entry list \<times> bool" where
  "logWithSkip span l stack c extraSkip lv msg errs =
     (if \<not> zap_Enabled (zl_base l) lv then ([], False)
      else
        (let flds = extractContextFields span c @ error_fields errs;
             logger = (if 0 < extraSkip then AddCallerSkip extraSkip (zl_base l) else zl_base l)
         in zap_offer logger (''logger.(*zapLogger).logWithSkip'' # stack) lv msg flds))"

text \<open>The methods, called from \<open>caller\<close>.\<close>

definition log_Debug where
  "log_Debug span l caller c msg =
     logWithSkip span l [''logger.(*zapLogger).Debug'', caller] c 0 DebugLv msg []"

definition log_Info where
  "log_Info span l caller c msg =
     logWithSkip span l [''logger.(*zapLogger).Info'', caller] c 0 InfoLv msg []"

definition log_Warn where
  "log_Warn span l caller c msg =
     logWithSkip span l [''logger.(*zapLogger).Warn'', caller] c 0 WarnLv msg []"

definition log_Error where
  "log_Error span l caller c msg errs =
     logWithSkip span l [''logger.(*zapLogger).Error'', caller] c 0 ErrorLv msg errs"

definition log_Fatal where
  "log_Fatal span l caller c msg errs =
     logWithSkip span l [''logger.(*zapLogger).Fatal'', caller] c 0 FatalLv msg errs"

definition logCaller ::
  "(ctx \<Rightarrow> (string \<times> string) option) \<Rightarrow> zapLogger \<Rightarrow> string list \<Rightarrow> ctx option \<Rightarrow> nat \<Rightarrow> string \<Rightarrow>
   string \<Rightarrow> go_error option list \<Rightarrow> entry list \<times> bool" where
  "logCaller span l stack c extraSkip level msg errs =
     (let lv = (if level = ''debug'' then DebugLv else if level = ''info'' then InfoLv
                else if level = ''warn'' then WarnLv else if level = ''error'' then ErrorLv
                else if level = ''fatal'' then FatalLv else InfoLv)
      in logWithSkip span l (''logger.(*zapLogger).logCaller'' # stack) c extraSkip lv msg errs)"

section \<open>The default logger (logger.go)\<close>

text \<open>
  A value of the interface \<^verbatim>\<open>Logger\<close>: a \<^verbatim>\<open>*zapLogger\<close>, or another implementation with its
  dynamic type.
\<close>

datatype 'o Logger = ZapLogger zapLogger | OtherLogger string 'o

fun dynamic_type :: "'o Logger \<Rightarrow> string" where
  "dynamic_type (ZapLogger l) = ''*logger.zapLogger''"
| "dynamic_type (OtherLogger ty l) = ty"

text \<open>
  \<^verbatim>\<open>atomic.Value.Store\<close>: a value of another dynamic type than the first one stored panics.
  The package stores the no-op logger when it is initialised.
\<close>

definition atomic_Store :: "'o Logger \<Rightarrow> 'o Logger \<Rightarrow> 'o Logger + string" where
  "atomic_Store old new =
     (if dynamic_type new = dynamic_type old then Inl new
      else Inr ''sync/atomic: store of inconsistently typed value into Value'')"

definition init_logger :: "string \<Rightarrow> 'o Logger" where
  "init_logger hostname = ZapLogger (NewNop hostname)"

definition SetDefault :: "'o Logger option \<Rightarrow> 'o Logger \<Rightarrow> 'o Logger + string" where
  "SetDefault l d = (case l of None \<Rightarrow> Inl d | Some l' \<Rightarrow> atomic_Store d l')"

definition default_L :: "'o Logger \<Rightarrow> 'o Logger" where
  "default_L d = d"

text \<open>
  The package-level functions; \<open>other\<close> is what another implementation does with the call
  \<open>(level, context, message, errors)\<close>.
\<close>

type_synonym 'o log_other = "'o \<Rightarrow> string \<Rightarrow> ctx option \<Rightarrow> string \<Rightarrow> go_error option list \<Rightarrow> entry list \<times> bool"

definition pkg_log ::
  "(ctx \<Rightarrow> (string \<times> string) option) \<Rightarrow> 'o log_other \<Rightarrow> 'o Logger \<Rightarrow> string \<Rightarrow> string \<Rightarrow> string \<Rightarrow>
   ctx option \<Rightarrow> string \<Rightarrow> go_error option list \<Rightarrow> entry list \<times> bool" where
  "pkg_log span other d fn caller level c msg errs =
     (case default_L d of
        ZapLogger zl \<Rightarrow> logCaller span zl [fn, caller] c 1 level msg errs
      | OtherLogger ty l \<Rightarrow> other l level c msg errs)"

definition pkg_Debug where
  "pkg_Debug span other d caller c msg = pkg_log span other d ''logger.Debug'' caller ''debug'' c msg []"

definition pkg_Info where
  "pkg_Info span other d caller c msg = pkg_log span other d ''logger.Info'' caller ''info'' c msg []"

definition pkg_Warn where
  "pkg_Warn span other d caller c msg = pkg_log span other d ''logger.Warn'' caller ''warn'' c msg []"

definition pkg_Error where
  "pkg_Error span other d caller c msg errs = pkg_log span other d ''logger.Error'' caller ''error'' c msg errs"

definition pkg_Fatal where
  "pkg_Fatal span other d caller c msg errs = pkg_log span other d ''logger.Fatal'' caller ''fatal'' c msg errs"

text \<open>Children and the flush of the default logger; the record holds the methods of another implementation.\<close>

record 'o logger_methods =
  lm_With :: "string \<Rightarrow> field_value \<Rightarrow> 'o \<Rightarrow> 'o Logger"
  lm_WithFields :: "field list \<Rightarrow> 'o \<Rightarrow> 'o Logger"
  lm_WithData :: "field_value \<Rightarrow> 'o \<Rightarrow> 'o Logger"
  lm_Named :: "string \<Rightarrow> 'o \<Rightarrow> 'o Logger"
  lm_Sync :: "'o \<Rightarrow> go_error option"

fun by_type :: "(zapLogger \<Rightarrow> 'a) \<Rightarrow> ('o \<Rightarrow> 'a) \<Rightarrow> 'o Logger \<Rightarrow> 'a" where
  "by_type zl other (ZapLogger l) = zl l"
| "by_type zl other (OtherLogger ty l) = other l"

definition pkg_With :: "'o logger_methods \<Rightarrow> 'o Logger \<Rightarrow> string \<Rightarrow> field_value \<Rightarrow> 'o Logger" where
  "pkg_With M d key v = by_type (ZapLogger \<circ> With key v) (lm_With M key v) (default_L d)"

definition pkg_WithFields :: "'o logger_methods \<Rightarrow> 'o Logger \<Rightarrow> field list \<Rightarrow> 'o Logger" where
  "pkg_WithFields M d flds = by_type (ZapLogger \<circ> WithFields flds) (lm_WithFields M flds) (default_L d)"

definition pkg_WithData :: "'o logger_methods \<Rightarrow> 'o Logger \<Rightarrow> field_value \<Rightarrow> 'o Logger" where
  "pkg_WithData M d data = by_type (ZapLogger \<circ> WithData data) (lm_WithData M data) (default_L d)"

definition pkg_Named :: "'o logger_methods \<Rightarrow> 'o Logger \<Rightarrow> string \<Rightarrow> 'o Logger" where
  "pkg_Named M d name = by_type (ZapLogger \<circ> Named name) (lm_Named M name) (default_L d)"

definition pkg_Sync :: "(zap \<Rightarrow> go_error option) \<Rightarrow> 'o logger_methods \<Rightarrow> 'o Logger \<Rightarrow> go_error option" where
  "pkg_Sync sync M d = by_type (zapLogger_Sync sync) (lm_Sync M) (default_L d)"

text \<open>A logger attached to a context; a nil context starts from the background.\<close>

record 'o logger_ctx = ctx +
  ctx_logger :: "'o Logger option"

definition background_logger_ctx :: "'o logger_ctx" where
  "background_logger_ctx = ctx.extend Background \<lparr>ctx_logger = None\<rparr>"

definition WithContext :: "'o logger_ctx option \<Rightarrow> 'o Logger \<Rightarrow> 'o logger_ctx" where
  "WithContext c l =
     (case c of None \<Rightarrow> background_logger_ctx\<lparr>ctx_logger := Some l\<rparr> | Some c' \<Rightarrow> c'\<lparr>ctx_logger := Some l\<rparr>)"

definition FromContext :: "'o Logger \<Rightarrow> 'o logger_ctx option \<Rightarrow> 'o Logger" where
  "FromContext d c =
     (case c of
        None \<Rightarrow> default_L d
      | Some c' \<Rightarrow> (case ctx_logger c' of Some l \<Rightarrow> l | None \<Rightarrow> default_L d))"

section \<open>Facts\<close>

lemma FromContext_WithContext [simp]: "FromContext d (Some (WithContext c l)) = l"
  by (simp add: FromContext_def WithContext_def split: option.splits)

text \<open>Keys that are present under a condition; distinct when all of them are.\<close>

definition opt_keys :: "(bool \<times> string) list \<Rightarrow> string list" where
  "opt_keys bks = map snd (filter fst bks)"

lemma distinct_opt_keys: "distinct (map snd bks) \<Longrightarrow> distinct (opt_keys bks)"
  unfolding opt_keys_def by (rule distinct_map_filter)

lemma opt_keys_append: "opt_keys xs @ opt_keys ys = opt_keys (xs @ ys)"
  by (simp add: opt_keys_def)

lemma str_field_keys: "map fst (str_field k v) = opt_keys [(v \<noteq> [], k)]"
  by (simp add: str_field_def opt_keys_def)

lemma identity_keys:
  "map fst (identity_fields c) =
     opt_keys [(snd (GetUserID c), ''user_id''), (snd (GetRole c) \<and> fst (GetRole c) \<noteq> [], ''role'')]"
  by (cases "GetUserID c"; cases "GetRole c") (simp add: identity_fields_def opt_keys_def str_field_def)

lemma rpc_keys:
  "\<exists>b1 b2 b3 b4. map fst (rpc_fields c) =
     opt_keys [(b1, ''rpc.system''), (b2, ''rpc.service''), (b3, ''rpc.method''), (hasClientIP c, ''client_ip''),
               (b4, ''user_agent'')]"
proof -
  obtain m ok where m: "GetRPCMetadata c = (m, ok)" by (cases "GetRPCMetadata c")
  show ?thesis
  proof (cases ok)
    case True
    then have "map fst (rpc_fields c) = opt_keys ([(rpc_System m \<noteq> [], ''rpc.system'')] @ [(rpc_Service m \<noteq> [], ''rpc.service'')]
        @ [(rpc_Method m \<noteq> [], ''rpc.method'')] @ [(rpc_ClientIP m \<noteq> [], ''client_ip'')] @ [(rpc_UserAgent m \<noteq> [], ''user_agent'')])"
      by (simp only: rpc_fields_def m prod.case if_True map_append str_field_keys opt_keys_append)
    then show ?thesis using True m unfolding hasClientIP_def by auto
  next
    case False
    then have "map fst (rpc_fields c) = opt_keys [(False, ''rpc.system''), (False, ''rpc.service''),
        (False, ''rpc.method''), (hasClientIP c, ''client_ip''), (False, ''user_agent'')]"
      using m by (simp add: rpc_fields_def hasClientIP_def opt_keys_def)
    then show ?thesis by blast
  qed
qed

text \<open>The context contributes every key at most once, and the client's address from one source.\<close>

lemma distinct_context_keys: "distinct (map fst (extractContextFields span c))"
proof (cases c)
  case None
  then show ?thesis by (simp add: extractContextFields_def)
next
  case (Some c')
  define h where "h = hasClientIP c'"
  obtain b1 b2 b3 b4 where rpc: "map fst (rpc_fields c') =
      opt_keys [(b1, ''rpc.system''), (b2, ''rpc.service''), (b3, ''rpc.method''), (h, ''client_ip''), (b4, ''user_agent'')]"
    using rpc_keys [of c'] by (auto simp: h_def)
  have trace: "map fst (case span c' of
      Some (traceID, spanID) \<Rightarrow> [(''trace_id'', FString traceID), (''span_id'', FString spanID)] | None \<Rightarrow> []) =
      opt_keys [(span c' \<noteq> None, ''trace_id''), (span c' \<noteq> None, ''span_id'')]"
    by (auto simp: opt_keys_def split: option.splits)
  have ip: "map fst (if h then [] else (case ctx_peer c' of Some a \<Rightarrow> [(''client_ip'', FString a)] | None \<Rightarrow> [])) =
      opt_keys [(\<not> h \<and> ctx_peer c' \<noteq> None, ''client_ip'')]"
    by (auto simp: opt_keys_def split: option.splits)
  have "map fst (extractContextFields span c) =
      opt_keys ([(span c' \<noteq> None, ''trace_id''), (span c' \<noteq> None, ''span_id'')] @ [(log_request_id c' \<noteq> [], ''request_id'')]
        @ [(snd (GetUserID c'), ''user_id''), (snd (GetRole c') \<and> fst (GetRole c') \<noteq> [], ''role'')]
        @ [(b1, ''rpc.system''), (b2, ''rpc.service''), (b3, ''rpc.method''), (h, ''client_ip''), (b4, ''user_agent'')]
        @ [(\<not> h \<and> ctx_peer c' \<noteq> None, ''client_ip'')])"
    unfolding opt_keys_append [symmetric] str_field_keys [symmetric] rpc [symmetric] ip [symmetric] trace [symmetric]
      identity_keys [symmetric]
    by (simp add: extractContextFields_def Some h_def)
  moreover have "distinct (opt_keys (xs @ [(b, k), u] @ [(b', k)]))"
    if "distinct (map snd (xs @ [(b, k), u]))" "\<not> b \<or> \<not> b'" for xs and b b' :: bool and k u
  proof (cases b)
    case True
    then have "opt_keys (xs @ [(b, k), u] @ [(b', k)]) = opt_keys (xs @ [(b, k), u])"
      using that(2) by (simp add: opt_keys_def)
    then show ?thesis using distinct_opt_keys [OF that(1)] by (simp only:)
  next
    case False
    then have "opt_keys (xs @ [(b, k), u] @ [(b', k)]) = opt_keys (xs @ [u, (b', k)])"
      by (simp add: opt_keys_def)
    moreover have "distinct (map snd (xs @ [u, (b', k)]))" using that(1) by auto
    ultimately show ?thesis using distinct_opt_keys by (simp only:)
  qed
  note this [of "[(span c' \<noteq> None, ''trace_id''), (span c' \<noteq> None, ''span_id''), (log_request_id c' \<noteq> [], ''request_id''),
      (snd (GetUserID c'), ''user_id''), (snd (GetRole c') \<and> fst (GetRole c') \<noteq> [], ''role''),
      (b1, ''rpc.system''), (b2, ''rpc.service''), (b3, ''rpc.method'')]" h "''client_ip''" "(b4, ''user_agent'')"
      "\<not> h \<and> ctx_peer c' \<noteq> None"]
  ultimately show ?thesis by simp
qed

lemma child_levels [simp]:
  "zap_Enabled (zap_With fs z) = zap_Enabled z" "zap_Enabled (zap_Named n z) = zap_Enabled z"
  "zap_Enabled (AddCallerSkip k z) = zap_Enabled z"
  by (auto simp: zap_Enabled_def zap_With_def zap_Named_def AddCallerSkip_def fun_eq_iff)

lemma logWithSkip_eq:
  "logWithSkip span l stack c k lv msg errs =
     (if zap_Enabled (zl_base l) lv
      then ([\<lparr>en_level = lv, en_logger = za_name (zl_base l), en_msg = msg,
              en_caller = (if za_skip (zl_base l) + k < Suc (length stack)
                           then (''logger.(*zapLogger).logWithSkip'' # stack) ! (za_skip (zl_base l) + k) else []),
              en_fields = za_fields (zl_base l) @ extractContextFields span c @ error_fields errs\<rparr>], lv = FatalLv)
      else ([], False))"
  by (auto simp: logWithSkip_def zap_offer_def Let_def AddCallerSkip_def zap_Enabled_def)

text \<open>
  The caller of a record is the logging package itself, whichever function logs: with one
  frame skipped, zap reports the method of the wrapper.
\<close>

lemma caller_is_the_wrapper:
  "za_skip base = 0 \<Longrightarrow> zap_Enabled base InfoLv \<Longrightarrow>
   map en_caller (fst (log_Info span (NewWithZap hostname base service env) caller c msg)) =
     [''logger.(*zapLogger).Info'']"
  by (simp add: log_Info_def logWithSkip_eq NewWithZap_def zap_With_def AddCallerSkip_def zap_Enabled_def)

lemma pkg_caller_is_the_wrapper:
  "za_skip base = 0 \<Longrightarrow> zap_Enabled base InfoLv \<Longrightarrow>
   map en_caller (fst (pkg_Info span other (ZapLogger (NewWithZap hostname base service env)) caller c msg)) =
     [''logger.Info'']"
  by (simp add: pkg_Info_def pkg_log_def default_L_def logCaller_def logWithSkip_eq NewWithZap_def zap_With_def
      AddCallerSkip_def zap_Enabled_def)

text \<open>\<^verbatim>\<open>Fatal\<close> of the initial default logger does not end the process.\<close>

lemma fatal_of_default_returns: "pkg_Fatal span other (init_logger hostname) caller c msg errs = ([], False)"
  by (simp add: pkg_Fatal_def pkg_log_def default_L_def logCaller_def logWithSkip_eq init_logger_def NewNop_def
      NewWithZap_def zap_Enabled_def zap_With_def AddCallerSkip_def)

text \<open>Another implementation of \<^verbatim>\<open>Logger\<close> cannot become the default.\<close>

lemma set_default_panics:
  "ty \<noteq> ''*logger.zapLogger'' \<Longrightarrow>
   SetDefault (Some (OtherLogger ty l)) (init_logger hostname) =
     Inr ''sync/atomic: store of inconsistently typed value into Value''"
  by (simp add: SetDefault_def atomic_Store_def init_logger_def)

end
