(* ===== verification/Logger_Properties.thy ===== *)
theory Logger_Properties
  imports Logger Demo
begin

text \<open>
  The logger together with the interceptors: what a record written inside a handler says
  about the request.
\<close>

section \<open>Records of a handler\<close>

text \<open>
  The context the chain of the server passes to the handler of a protected method: enriched
  by the logging, perhaps with the deadline of the timeout, identified by the token.
\<close>

definition chain_ctx :: "string \<Rightarrow> ctx \<Rightarrow> Claims \<Rightarrow> ctx \<Rightarrow> bool" where
  "chain_ctx m c cl c' \<longleftrightarrow>
     (\<exists>ct. c' = authenticated_ctx ct cl \<and>
        (ct = enrich_context m c \<or> (\<exists>now d. ct = WithTimeout (enrich_context m c) now d)))"

lemma chain_passes_ctx:
  fixes w :: "'s world"
  assumes "chain (server_interceptors L secret d) m h c req w = (r, w')" "m \<notin> set publicMethods"
    and "\<And>wa :: 's world. w_clock wa = w_clock w \<Longrightarrow> w_ticks w < w_ticks wa \<Longrightarrow>
           bearer_claims (lb_jwt L) secret c wa = Some cl"
  shows "\<exists>c' w0. chain_ctx m c cl c' \<and> w_db w0 = w_db w \<and> w_db w' = w_db (snd (h c' req w0))"
proof -
  define hE where "hE = ErrorInterceptor (ll_FromError (lb_log L)) (lb_text L) m h"
  define hA where "hA = AuthInterceptor (lb_jwt L) (lb_text L) secret m hE"
  define hT where "hT = TimeoutInterceptor d (\<lambda>_. None) m hA"
  define hL where "hL = LoggingInterceptor (lb_log L) m hT"
  have R: "RecoveryInterceptor (lb_stack L) m hL c req w = (r, w')"
    using assms(1) by (simp add: chain_def server_interceptors_def hE_def hA_def hT_def hL_def)
  obtain rL wL where log: "hL c req w = (rL, wL)" "w_db w' = w_db wL" using Recovery_db [OF R] by blast
  obtain wa wb where tm: "hT (enrich_context m c) req wa = (rL, wb)" "w_db wa = w_db w" "w_db wL = w_db wb"
      "w_clock wa = w_clock w" "w_ticks w < w_ticks wa"
    using Logging_db [OF log(1) [unfolded hL_def]] by blast
  obtain ct wc rA wd where auth: "hA ct req wc = (rA, wd)" "w_db wc = w_db wa" "w_db wb = w_db wd"
      "w_clock wc = w_clock wa" "w_ticks wa \<le> w_ticks wc"
      "ct = enrich_context m c \<or> (\<exists>now. ct = WithTimeout (enrich_context m c) now (effective_timeout d (\<lambda>_. None) m))"
    using Timeout_path [OF tm(1) [unfolded hT_def]] by blast
  have "ctx_md ct = ctx_md c" using auth(6) by auto
  then have "bearer_claims (lb_jwt L) secret ct wc = Some cl"
    using assms(3) [of wc] auth(4,5) tm(4,5) by (simp add: bearer_claims_def extractBearerToken_def)
  then have E: "hE (authenticated_ctx ct cl) req (wc\<lparr>w_ticks := Suc (w_ticks wc)\<rparr>) = (rA, wd)"
    using auth(1) assms(2) by (simp add: hA_def AuthInterceptor_accepts)
  obtain r0 w1 where "h (authenticated_ctx ct cl) req (wc\<lparr>w_ticks := Suc (w_ticks wc)\<rparr>) = (r0, w1)"
      "w_db wd = w_db w1"
    using ErrorInterceptor_db [OF E [unfolded hE_def]] by blast
  then show ?thesis
    using auth tm log
    by (intro exI [of _ "authenticated_ctx ct cl"] exI [of _ "wc\<lparr>w_ticks := Suc (w_ticks wc)\<rparr>"])
      (auto simp: chain_ctx_def)
qed

lemma chain_ctx_get:
  assumes "chain_ctx m c cl c'"
  shows "GetUserID c' = (cl_UserID cl, True)"
    and "GetRequestID c' = GetRequestID (enrich_context m c)"
    and "ctx_rpc c' = ctx_rpc (enrich_context m c)"
    and "cl_Role cl \<noteq> [] \<Longrightarrow> GetRole c' = (cl_Role cl, True)"
  using assms by (auto simp: chain_ctx_def authenticated_ctx_def Let_def contextutil_defs WithTimeout_def)

lemma enrich_rpc:
  "parseFullMethod m = (svc, mth) \<Longrightarrow> \<exists>ua. ctx_rpc (enrich_context m c) =
     Some \<lparr>rpc_System = ''grpc'', rpc_Service = svc, rpc_Method = mth,
           rpc_ClientIP = (case ctx_peer c of Some a \<Rightarrow> a | None \<Rightarrow> []), rpc_UserAgent = ua\<rparr>"
  by (auto simp: enrich_context_def Let_def contextutil_defs split: option.splits)

lemma enrich_request_id:
  "first_value c ''x-request-id'' = Some i \<Longrightarrow> i \<noteq> [] \<Longrightarrow> GetRequestID (enrich_context m c) = (i, True)"
  by (auto simp: enrich_context_def Let_def contextutil_defs split: prod.splits)

lemma request_id_field:
  "GetRequestID c = (i, True) \<Longrightarrow> i \<noteq> [] \<Longrightarrow> (''request_id'', FString i) \<in> set (extractContextFields span (Some c))"
  by (simp add: extractContextFields_def log_request_id_def str_field_def)

lemma user_id_field:
  "GetUserID c = (u, True) \<Longrightarrow> (''user_id'', FUint u) \<in> set (extractContextFields span (Some c))"
  by (simp add: extractContextFields_def identity_fields_def)

lemma rpc_field:
  assumes "ctx_rpc c = Some m"
  shows "rpc_Service m \<noteq> [] \<Longrightarrow> (''rpc.service'', FString (rpc_Service m)) \<in> set (extractContextFields span (Some c))"
    "rpc_Method m \<noteq> [] \<Longrightarrow> (''rpc.method'', FString (rpc_Method m)) \<in> set (extractContextFields span (Some c))"
    "rpc_ClientIP m \<noteq> [] \<Longrightarrow> (''client_ip'', FString (rpc_ClientIP m)) \<in> set (extractContextFields span (Some c))"
  using assms by (simp_all add: extractContextFields_def rpc_fields_def GetRPCMetadata_def str_field_def)

lemma role_field:
  "GetRole c = (r, True) \<Longrightarrow> r \<noteq> [] \<Longrightarrow> (''role'', FString r) \<in> set (extractContextFields span (Some c))"
  by (simp add: extractContextFields_def identity_fields_def str_field_def)

text \<open>
  C38: The chain of the server runs the handler of a protected method, called with a valid
  token, in a context with which every error logged is handed to zap as one entry that names
  the request ID the client sent, the account and the role of the token, the service, the
  method and the peer; the context contributes each key once, and the first error is added.
\<close>

theorem handler_log_correlated:
  fixes w :: "'s world"
  assumes "chain (server_interceptors L secret d) m h c req w = (r, w')" and "m \<notin> set publicMethods"
    and "\<And>wa :: 's world. w_clock wa = w_clock w \<Longrightarrow> w_ticks w < w_ticks wa \<Longrightarrow>
           bearer_claims (lb_jwt L) secret c wa = Some cl"
    and "parseFullMethod m = (svc, mth)" "svc \<noteq> []" "mth \<noteq> []"
    and "first_value c ''x-request-id'' = Some i" "i \<noteq> []" "ctx_peer c = Some a" "a \<noteq> []"
    and "zap_Enabled (zl_base l) ErrorLv"
  shows "\<exists>c' w0. w_db w0 = w_db w \<and> w_db w' = w_db (snd (h c' req w0)) \<and>
     (\<forall>span caller msg err errs. \<exists>e fs.
        log_Error span l caller (Some c') msg (Some err # errs) = ([e], False) \<and>
        en_level e = ErrorLv \<and> en_msg e = msg \<and>
        en_fields e = za_fields (zl_base l) @ fs @ error_fields (Some err # errs) \<and>
        distinct (map fst fs) \<and> (''error'', FError err) \<in> set (en_fields e) \<and>
        {(''request_id'', FString i), (''user_id'', FUint (cl_UserID cl)), (''rpc.service'', FString svc),
         (''rpc.method'', FString mth), (''client_ip'', FString a)} \<subseteq> set fs \<and>
        (cl_Role cl \<noteq> [] \<longrightarrow> (''role'', FString (cl_Role cl)) \<in> set fs))"
proof -
  obtain c' w0 where c': "chain_ctx m c cl c'" and run: "w_db w0 = w_db w" "w_db w' = w_db (snd (h c' req w0))"
    using chain_passes_ctx [OF assms(1-3)] by blast
  note get = chain_ctx_get [OF c']
  obtain ua where rpc: "ctx_rpc c' = Some \<lparr>rpc_System = ''grpc'', rpc_Service = svc, rpc_Method = mth,
      rpc_ClientIP = a, rpc_UserAgent = ua\<rparr>"
    using enrich_rpc [OF assms(4), of c] assms(9) get(3) by auto
  have req: "GetRequestID c' = (i, True)" using enrich_request_id [OF assms(7,8), of m] get(2) by simp
  have fields: "{(''request_id'', FString i), (''user_id'', FUint (cl_UserID cl)), (''rpc.service'', FString svc),
      (''rpc.method'', FString mth), (''client_ip'', FString a)} \<subseteq> set (extractContextFields span (Some c')) \<and>
      (cl_Role cl \<noteq> [] \<longrightarrow> (''role'', FString (cl_Role cl)) \<in> set (extractContextFields span (Some c')))" for span
    using request_id_field [OF req] user_id_field [OF get(1)] rpc_field [OF rpc] role_field get(4) assms(5,6,8,10)
    by simp
  have err: "(''error'', FError err) \<in> set (error_fields (Some err # errs))" for err errs
    by (simp add: error_fields_def List.map_filter_def split: list.splits)
  show ?thesis
    using assms(11) run fields err distinct_context_keys
    by (intro exI [of _ c'] exI [of _ w0]) (simp add: log_Error_def logWithSkip_eq)
qed

definition demo_logger :: zapLogger where
  "demo_logger = NewWithZap ''host'' \<lparr>za_min = Some InfoLv, za_name = [], za_fields = [], za_skip = 0\<rparr> ''svc'' ''production''"

definition demo_md_ctx :: ctx where
  "demo_md_ctx = Background\<lparr>ctx_md := Some (\<lambda>k. if k = ''x-request-id'' then [''r-1'']
      else if k = ''authorization'' then [''Bearer '' @ demo_access] else []), ctx_peer := Some ''10.0.0.7''\<rparr>"

definition still_world :: "pg world" where
  "still_world = (demo_world demo_pg)\<lparr>w_clock := (\<lambda>_. 1000 * second)\<rparr>"

lemma bearer_claims_clock:
  assumes "w_clock w1 (w_ticks w1) = w_clock w2 (w_ticks w2)"
  shows "bearer_claims jw k c w1 = bearer_claims jw k c w2"
proof -
  have "fst (ValidateToken jw t k w1) = fst (ValidateToken jw t k w2)" for t
    using assms by (cases "jwt_ParseWithClaims jw t (hmac_keyfunc k) (w_clock w2 (w_ticks w2))")
      (auto simp: ValidateToken_def time_Now_def)
  then show ?thesis by (cases "extractBearerToken c") (simp_all add: bearer_claims_def)
qed

lemma still_claims:
  assumes "w_clock wa = w_clock still_world"
  shows "\<exists>cl. cl_UserID cl = 7 \<and> bearer_claims plain_jwt ''key'' demo_md_ctx (wa :: pg world) = Some cl"
proof -
  have "map_option cl_UserID (bearer_claims plain_jwt ''key'' demo_md_ctx still_world) = Some 7" by code_simp
  moreover have "bearer_claims plain_jwt ''key'' demo_md_ctx wa = bearer_claims plain_jwt ''key'' demo_md_ctx still_world"
    by (rule bearer_claims_clock) (simp add: assms still_world_def)
  ultimately show ?thesis by auto
qed

text \<open>A handler that logs an error and counts, in the database, the entries that name its request.\<close>

definition logging_handler :: "(message, pg) handler" where
  "logging_handler c req w =
     (let es = fst (log_Error (\<lambda>_. None) demo_logger ''handler'' (Some c) ''find failed'' [Some (Foreign ''broken'')]);
          mine = filter (\<lambda>e. (''request_id'', FString ''r-1'') \<in> set (en_fields e)) es
      in (Reply None None, w\<lparr>w_db := (w_db w)\<lparr>pg_now := int (length mine)\<rparr>\<rparr>))"

theorem handler_log_correlated_witness:
  "\<exists>r w'. chain (server_interceptors demo_libs ''key'' 5000000000) ''/user.v1.UserService/GetUser'' logging_handler
       demo_md_ctx (PbGetUserRequest 7) still_world = (r, w') \<and> pg_now (w_db w') = 1"
proof -
  obtain r w' where run: "chain (server_interceptors demo_libs ''key'' 5000000000) ''/user.v1.UserService/GetUser''
      logging_handler demo_md_ctx (PbGetUserRequest 7) still_world = (r, w')" by fastforce
  have on: "zap_Enabled (zl_base demo_logger) ErrorLv"
    by (simp add: demo_logger_def NewWithZap_def zap_Enabled_def less_eq_Level_def zap_With_def AddCallerSkip_def)
  have parse: "parseFullMethod ''/user.v1.UserService/GetUser'' = (''user.v1.UserService'', ''GetUser'')"
    by code_simp
  have np: "''/user.v1.UserService/GetUser'' \<notin> set publicMethods" by code_simp
  have req: "first_value demo_md_ctx ''x-request-id'' = Some ''r-1''" and peer: "ctx_peer demo_md_ctx = Some ''10.0.0.7''"
    by (simp_all add: first_value_def demo_md_ctx_def md_Get_def)
  have ne: "''user.v1.UserService'' \<noteq> []" "''GetUser'' \<noteq> []" "''r-1'' \<noteq> []" "''10.0.0.7'' \<noteq> []" by simp_all
  obtain cl where cl: "bearer_claims plain_jwt ''key'' demo_md_ctx still_world = Some cl"
    using still_claims [of still_world] by blast
  have valid: "bearer_claims (lb_jwt demo_libs) ''key'' demo_md_ctx wa = Some cl"
    if "w_clock wa = w_clock still_world" for wa :: "pg world"
    using bearer_claims_clock [of wa still_world plain_jwt "''key''" demo_md_ctx] that cl
    by (simp add: demo_libs_def still_world_def)
  obtain c' w0 where w': "w_db w' = w_db (snd (logging_handler c' (PbGetUserRequest 7) w0))"
    and all: "\<forall>span caller msg err errs. \<exists>e fs.
        log_Error span demo_logger caller (Some c') msg (Some err # errs) = ([e], False) \<and>
        en_level e = ErrorLv \<and> en_msg e = msg \<and>
        en_fields e = za_fields (zl_base demo_logger) @ fs @ error_fields (Some err # errs) \<and>
        distinct (map fst fs) \<and> (''error'', FError err) \<in> set (en_fields e) \<and>
        {(''request_id'', FString ''r-1''), (''user_id'', FUint (cl_UserID cl)), (''rpc.service'', FString ''user.v1.UserService''),
         (''rpc.method'', FString ''GetUser''), (''client_ip'', FString ''10.0.0.7'')} \<subseteq> set fs \<and>
        (cl_Role cl \<noteq> [] \<longrightarrow> (''role'', FString (cl_Role cl)) \<in> set fs)"
    using handler_log_correlated [OF run np valid parse ne(1,2) req ne(3) peer ne(4) on] by blast
  obtain e fs where
      e: "log_Error (\<lambda>_. None) demo_logger ''handler'' (Some c') ''find failed'' [Some (Foreign ''broken'')] = ([e], False)"
    and fs: "en_fields e = za_fields (zl_base demo_logger) @ fs @ error_fields [Some (Foreign ''broken'')]"
      "{(''request_id'', FString ''r-1''), (''user_id'', FUint (cl_UserID cl)), (''rpc.service'', FString ''user.v1.UserService''),
         (''rpc.method'', FString ''GetUser''), (''client_ip'', FString ''10.0.0.7'')} \<subseteq> set fs"
    using all [rule_format, of "\<lambda>_. None" "''handler''" "''find failed''" "Foreign ''broken''" "[]"] by blast
  have "(''request_id'', FString ''r-1'') \<in> set (en_fields e)" using fs by simp
  with e have "pg_now (w_db w') = 1" unfolding w' by (auto simp: logging_handler_def Let_def)
  then show ?thesis using run by blast
qed

end
