(* ===== verification/Lifecycle.thy ===== *)
theory Lifecycle
  imports Server Routine Logger Gateway
begin

text \<open>
  The life of the process: the constructors of \<^verbatim>\<open>bootstrap/wire_gen.go\<close> with what they
  construct (\<^verbatim>\<open>provider.go\<close>, \<^verbatim>\<open>services.go\<close>, \<^verbatim>\<open>grpc.go\<close>, \<^verbatim>\<open>infrastructure/database/postgres/db.go\<close>,
  \<^verbatim>\<open>infrastructure/telemetry\<close>), \<^verbatim>\<open>bootstrap/app.go\<close> and \<^verbatim>\<open>cmd/api/main.go\<close>. The libraries
  answer through parameters; what the process does to its resources is a list of actions.
\<close>

section \<open>Actions\<close>

datatype action =
    LoggerSet
  | PoolOpened string bool
  | PoolLimits goint goint duration
  | TracingPlugin
  | PropagatorSet
  | TracerSet bool
  | MeterSet bool
  | PanicHandlerSet
  | Listening string
  | ServingHTTP string
  | HttpShutdown
  | GracefulStop
  | AwaitRoutines
  | PoolClosed
  | TracerShutdown
  | MeterShutdown
  | LogSync
  | Logged "entry list"

type_synonym 'a boot = "'a result \<times> action list"

definition boot_then :: "'a boot \<Rightarrow> ('a \<Rightarrow> 'b boot) \<Rightarrow> 'b boot" where
  "boot_then m f =
     (case m of
        (Inl err, acts) \<Rightarrow> (Inl err, acts)
      | (Inr x, acts) \<Rightarrow> (case f x of (r, acts') \<Rightarrow> (r, acts @ acts')))"

text \<open>The answers of the libraries during the start.\<close>

record 's boot_libs =
  bl_viper :: "Config result"
  bl_quote :: "string \<Rightarrow> string"
  bl_zap :: "bool \<Rightarrow> Level \<Rightarrow> zap result"
  bl_hostname :: string
  bl_gorm_Open :: "string \<Rightarrow> go_error option"
  bl_gorm_DB :: "go_error option"
  bl_Ping :: "go_error option"
  bl_Use :: "go_error option"
  bl_exporter :: "string \<Rightarrow> go_error option"
  bl_resource :: "string \<Rightarrow> go_error option"
  bl_prometheus :: "go_error option"
  bl_services :: "(string \<Rightarrow> go_error option) list"
  bl_server :: "'s server_libs"
  bl_gateway :: "'s gateway_libs"
  bl_openapi :: bytes

section \<open>Constructors\<close>

definition ProvideLogger :: "'s boot_libs \<Rightarrow> Config \<Rightarrow> zapLogger boot" where
  "ProvideLogger B cfg =
     (case Logger_New (bl_quote B) (bl_zap B) (bl_hostname B)
             \<lparr>lc_Level = cf_LogLevel cfg, lc_Environment = ac_Environment (cf_App cfg),
              lc_ServiceName = ac_Name (cf_App cfg)\<rparr> of
        Inl err \<Rightarrow> (Inl err, [])
      | Inr log \<Rightarrow> (Inr log, [LoggerSet]))"

definition postgres_New :: "'s boot_libs \<Rightarrow> Config \<Rightarrow> unit boot" where
  "postgres_New B cfg =
     (let d = cf_Database cfg; silent = (ac_Environment (cf_App cfg) = ''production'')
      in case bl_gorm_Open B (DSN d) of
           Some err \<Rightarrow> (Inl (Wrapped ''postgres: open: '' err []), [])
         | None \<Rightarrow>
             (case bl_gorm_DB B of
                Some err \<Rightarrow> (Inl (Wrapped ''postgres: get sql.DB: '' err []), [PoolOpened (DSN d) silent])
              | None \<Rightarrow>
                  (let acts = [PoolOpened (DSN d) silent,
                               PoolLimits (db_MaxOpenConns d) (db_MaxIdleConns d) (db_ConnMaxLifetime d)]
                   in case bl_Ping B of
                        Some err \<Rightarrow> (Inl (Wrapped ''postgres: ping: '' err []), acts)
                      | None \<Rightarrow>
                          (if te_Enabled (cf_Telemetry cfg) then
                             (case bl_Use B of
                                Some err \<Rightarrow> (Inl (Wrapped ''postgres: otel plugin: '' err []), acts)
                              | None \<Rightarrow> (Inr (), acts @ [TracingPlugin]))
                           else (Inr (), acts)))))"

text \<open>\<^verbatim>\<open>telemetry/provider.go\<close>: the settings of the telemetry, taken from the configuration.\<close>

record telemetry_Config =
  tm_ServiceName :: string
  tm_OTLPEndpoint :: string
  tm_Enabled :: bool

definition telemetry_NewConfig :: "Config \<Rightarrow> telemetry_Config" where
  "telemetry_NewConfig cfg =
     \<lparr>tm_ServiceName = te_ServiceName (cf_Telemetry cfg), tm_OTLPEndpoint = te_OTLPEndpoint (cf_Telemetry cfg),
      tm_Enabled = te_Enabled (cf_Telemetry cfg)\<rparr>"

definition NewTracer :: "'s boot_libs \<Rightarrow> telemetry_Config \<Rightarrow> unit boot" where
  "NewTracer B t =
     (if \<not> tm_Enabled t then (Inr (), [PropagatorSet, TracerSet False])
      else
        (case bl_exporter B (tm_OTLPEndpoint t) of
           Some err \<Rightarrow> (Inl (Wrapped ''telemetry: create trace exporter: '' err []), [PropagatorSet])
         | None \<Rightarrow>
             (case bl_resource B (tm_ServiceName t) of
                Some err \<Rightarrow> (Inl (Wrapped ''telemetry: create resource: '' err []), [PropagatorSet])
              | None \<Rightarrow> (Inr (), [PropagatorSet, TracerSet True]))))"

definition NewMeter :: "'s boot_libs \<Rightarrow> telemetry_Config \<Rightarrow> unit boot" where
  "NewMeter B t =
     (if \<not> tm_Enabled t then (Inr (), [MeterSet False])
      else
        (case bl_prometheus B of
           Some err \<Rightarrow> (Inl (Wrapped ''telemetry: create prometheus exporter: '' err []), [])
         | None \<Rightarrow> (Inr (), [MeterSet True])))"

definition NewTracerFromConfig :: "'s boot_libs \<Rightarrow> Config \<Rightarrow> unit boot" where
  "NewTracerFromConfig B cfg = NewTracer B (telemetry_NewConfig cfg)"

definition NewMeterFromConfig :: "'s boot_libs \<Rightarrow> Config \<Rightarrow> unit boot" where
  "NewMeterFromConfig B cfg = NewMeter B (telemetry_NewConfig cfg)"

text \<open>The registration of the services with the gateway: in order, until one fails.\<close>

fun RegisterGateway :: "(string \<Rightarrow> go_error option) list \<Rightarrow> string \<Rightarrow> go_error option" where
  "RegisterGateway [] grpcAddr = None"
| "RegisterGateway (svc # items) grpcAddr =
     (case svc grpcAddr of Some err \<Rightarrow> Some err | None \<Rightarrow> RegisterGateway items grpcAddr)"

text \<open>The gRPC server: its handler by method, its keepalive parameters and the reflection service.\<close>

record 's grpc_server =
  gs_handler :: "string \<Rightarrow> (message, 's) handler"
  gs_MaxConnectionIdle :: duration
  gs_Timeout :: duration
  gs_reflection :: bool

definition NewGRPCServer :: "'s server_libs \<Rightarrow> Config \<Rightarrow> 's grpc_server" where
  "NewGRPCServer L cfg =
     \<lparr>gs_handler = serve L (NewTokenConfig cfg) (sc_DefaultTimeout (cf_Server cfg)),
      gs_MaxConnectionIdle = word_of_int (300 * second), gs_Timeout = word_of_int (20 * second),
      gs_reflection = (ac_Environment (cf_App cfg) \<noteq> ''production'')\<rparr>"

section \<open>The application (app.go)\<close>

record 's App =
  ap_cfg :: Config
  ap_logger :: zapLogger
  ap_grpcServer :: "'s grpc_server"
  ap_httpServer :: "'s http_server"

definition NewApp :: "Config \<Rightarrow> zapLogger \<Rightarrow> 's grpc_server \<Rightarrow> 's http_server \<Rightarrow> 's App boot" where
  "NewApp cfg logger grpcServer httpServer =
     (Inr \<lparr>ap_cfg = cfg, ap_logger = logger, ap_grpcServer = grpcServer, ap_httpServer = httpServer\<rparr>,
      [PanicHandlerSet])"

text \<open>The panic handler it registers with \<^verbatim>\<open>pkg/routine\<close>.\<close>

definition panic_report ::
  "(ctx \<Rightarrow> (string \<times> string) option) \<Rightarrow> zapLogger \<Rightarrow> string \<Rightarrow> entry list PanicHandler" where
  "panic_report span logger stack c r entries =
     entries @ fst (log_Error span (With ''stack'' (FAny stack) (With ''panic'' (FAny r) logger))
                      ''bootstrap.NewApp'' (Some c) ''routine: recovered from unhandled panic'' [])"

definition InitializeApp :: "'s boot_libs \<Rightarrow> 's App boot" where
  "InitializeApp B =
     boot_then (Load (bl_viper B), []) (\<lambda>cfg.
     boot_then (ProvideLogger B cfg) (\<lambda>logger.
     boot_then (postgres_New B cfg) (\<lambda>_.
     boot_then (NewHTTPGateway (bl_gateway B) (bl_openapi B) (RegisterGateway (bl_services B)) cfg, []) (\<lambda>httpServer.
     boot_then (NewTracerFromConfig B cfg) (\<lambda>_.
     boot_then (NewMeterFromConfig B cfg) (\<lambda>_.
     NewApp cfg logger (NewGRPCServer (bl_server B) cfg) httpServer))))))"

text \<open>
  \<^verbatim>\<open>StartGRPC\<close> and \<^verbatim>\<open>StartHTTPGateway\<close>: \<open>listen\<close>, \<open>srv\<close> are the errors of listening and
  serving. The flag says that the process exits.
\<close>

definition StartGRPC ::
  "(ctx \<Rightarrow> (string \<times> string) option) \<Rightarrow> 's App \<Rightarrow> go_error option \<Rightarrow> go_error option \<Rightarrow> action list \<times> bool" where
  "StartGRPC span a listen srv =
     (let addr = '':'' @ FormatInt (sint (sc_GRPCPort (cf_Server (ap_cfg a))));
          log = With ''addr'' (FAny addr) (ap_logger a);
          (failed, exits) =
            (case listen of
               Some err \<Rightarrow>
                 (case log_Fatal span log ''bootstrap.StartGRPC'' (Some Background) ''grpc: listen'' [Some err] of
                    (es, ex) \<Rightarrow> ([Logged es], ex))
             | None \<Rightarrow> ([Listening addr], False))
      in if exits then (failed, True)
         else
           (failed @ Logged (fst (log_Info span log ''bootstrap.StartGRPC'' (Some Background) ''grpc server started''))
              # (case srv of
                   Some err \<Rightarrow> [Logged (fst (log_Error span (ap_logger a) ''bootstrap.StartGRPC'' (Some Background)
                                              ''grpc server stopped'' [Some err]))]
                 | None \<Rightarrow> []), False))"

definition StartHTTPGateway ::
  "(ctx \<Rightarrow> (string \<times> string) option) \<Rightarrow> 's App \<Rightarrow> go_error option \<Rightarrow> action list" where
  "StartHTTPGateway span a srv =
     (let addr = '':'' @ FormatInt (sint (sc_HTTPPort (cf_Server (ap_cfg a))));
          log = With ''addr'' (FAny addr) (ap_logger a)
      in [Logged (fst (log_Info span log ''bootstrap.StartHTTPGateway'' (Some Background) ''http gateway started'')),
          ServingHTTP addr]
         @ (case srv of
              Some err \<Rightarrow>
                if err \<noteq> Sentinel ServerClosed
                then [Logged (fst (log_Error span (ap_logger a) ''bootstrap.StartHTTPGateway'' (Some Background)
                                     ''http gateway stopped'' [Some err]))]
                else []
            | None \<Rightarrow> []))"

text \<open>
  The answers met by \<^verbatim>\<open>Shutdown\<close>. A call that never returns answers \<open>None\<close>, or \<open>False\<close> where
  its result is not used; \<open>an_wait\<close> is the result of \<open>WaitForShutdown\<close>; \<open>an_db\<close> is the error of
  \<^verbatim>\<open>a.db.DB()\<close>, which does not block.
\<close>

record shutdown_answers =
  an_http :: "go_error option option"
  an_graceful :: bool
  an_wait :: "go_error option option"
  an_db :: "go_error option"
  an_close :: bool
  an_tracer :: "go_error option option"
  an_meter :: "go_error option option"
  an_sync :: bool

definition log_failure ::
  "(ctx \<Rightarrow> (string \<times> string) option) \<Rightarrow> zapLogger \<Rightarrow> ctx \<Rightarrow> string \<Rightarrow> go_error option \<Rightarrow> action list" where
  "log_failure span logger c msg err =
     (case err of
        None \<Rightarrow> []
      | Some e \<Rightarrow> [Logged (fst (log_Error span logger ''bootstrap.Shutdown'' (Some c) msg [Some e]))])"

text \<open>
  The steps of \<^verbatim>\<open>Shutdown\<close>, each with its actions and whether it returns: they run in order up
  to the first that does not. The whole lists its actions, the call of a step first, and
  says whether \<^verbatim>\<open>Shutdown\<close> returns.
\<close>

fun run_steps :: "(action list \<times> bool) list \<Rightarrow> action list \<times> bool" where
  "run_steps [] = ([], True)"
| "run_steps ((acts, returns) # steps) =
     (if returns then (case run_steps steps of (acts', r) \<Rightarrow> (acts @ acts', r)) else (acts, False))"

definition Shutdown ::
  "(ctx \<Rightarrow> (string \<times> string) option) \<Rightarrow> (go_error \<Rightarrow> string) \<Rightarrow> 's App \<Rightarrow> ctx \<Rightarrow> shutdown_answers \<Rightarrow>
   action list \<times> bool" where
  "Shutdown span txt a c ans =
     (let l = ap_logger a;
          failure = (\<lambda>msg res. case res of None \<Rightarrow> [] | Some err \<Rightarrow> log_failure span l c msg err)
      in run_steps
           [([Logged (fst (log_Info span l ''bootstrap.Shutdown'' (Some c) ''shutting down...''))], True),
            (HttpShutdown # failure ''http server shutdown error'' (an_http ans), an_http ans \<noteq> None),
            ([GracefulStop], an_graceful ans),
            (AwaitRoutines # (case an_wait ans of
                 Some (Some err) \<Rightarrow>
                   [Logged (fst (log_Warn span (With ''error'' (FAny (error_Error txt err)) l) ''bootstrap.Shutdown'' (Some c)
                      ''routine: shutdown timed out while waiting for background tasks''))]
               | _ \<Rightarrow> []), an_wait ans \<noteq> None),
            (case an_db ans of None \<Rightarrow> ([PoolClosed], an_close ans) | Some _ \<Rightarrow> ([], True)),
            (TracerShutdown # failure ''tracer provider shutdown error'' (an_tracer ans), an_tracer ans \<noteq> None),
            (MeterShutdown # failure ''meter provider shutdown error'' (an_meter ans), an_meter ans \<noteq> None),
            ([LogSync], an_sync ans)])"

section \<open>The process (main.go)\<close>

definition shutdown_ctx :: "time \<Rightarrow> ctx" where
  "shutdown_ctx now = WithTimeout Background now (word_of_int (30 * second))"

text \<open>
  What \<^verbatim>\<open>main\<close> does on its own goroutine when a signal arrives at \<open>now\<close>: the actions, and
  whether it got past the start.
\<close>

definition main_run ::
  "'s boot_libs \<Rightarrow> (ctx \<Rightarrow> (string \<times> string) option) \<Rightarrow> (go_error \<Rightarrow> string) \<Rightarrow> time \<Rightarrow> shutdown_answers \<Rightarrow>
   action list \<times> bool" where
  "main_run B span txt now ans =
     (case InitializeApp B of
        (Inl err, acts) \<Rightarrow> (acts, False)
      | (Inr app, acts) \<Rightarrow> (acts @ fst (Shutdown span txt app (shutdown_ctx now) ans), True))"

end
