(* ===== verification/Lifecycle_Properties.thy ===== *)
theory Lifecycle_Properties
  imports Lifecycle Gateway_Properties Demo "HOL-Library.Sublist"
begin

text \<open>
  The properties of the process's life: what a successful start guarantees, and the order
  in which a shutdown releases what the start acquired.
\<close>

section \<open>Starting\<close>

lemma boot_then_Inr:
  "boot_then m f = (Inr y, acts) \<longleftrightarrow>
     (\<exists>x a1 a2. m = (Inr x, a1) \<and> f x = (Inr y, a2) \<and> acts = a1 @ a2)"
  by (auto simp: boot_then_def split: prod.splits sum.splits)

lemma Load_Inr: "Load v = Inr cfg \<Longrightarrow> \<exists>raw. v = Inr raw \<and> cfg = set_defaults raw"
  by (auto simp: Load_def split: sum.splits)

lemma ProvideLogger_Inr:
  assumes "ProvideLogger B cfg = (Inr l, acts)" "\<And>p lv z. bl_zap B p lv = Inr z \<Longrightarrow> za_min z = Some lv"
  shows "acts = [LoggerSet] \<and> zap_Enabled (zl_base l) FatalLv \<and> zap_Enabled (zl_base l) ErrorLv"
proof -
  obtain lv z where p: "parseLevel (bl_quote B) (cf_LogLevel cfg) = (lv, None)"
    "bl_zap B (ac_Environment (cf_App cfg) = ''production'') lv = Inr z"
    "l = NewWithZap (bl_hostname B) z (ac_Name (cf_App cfg)) (ac_Environment (cf_App cfg))" "acts = [LoggerSet]"
    using assms(1) by (auto simp: ProvideLogger_def Logger_New_def split: sum.splits prod.splits option.splits)
  have "lv \<le> ErrorLv" using p(1) by (auto simp: parseLevel_def less_eq_Level_def split: if_splits)
  then show ?thesis using p assms(2) [OF p(2)]
    by (simp add: NewWithZap_def zap_Enabled_def zap_With_def AddCallerSkip_def)
qed

lemma postgres_New_Inr:
  "postgres_New B cfg = (Inr u, acts) \<Longrightarrow>
   acts = PoolOpened (DSN (cf_Database cfg)) (ac_Environment (cf_App cfg) = ''production'')
     # PoolLimits (db_MaxOpenConns (cf_Database cfg)) (db_MaxIdleConns (cf_Database cfg)) (db_ConnMaxLifetime (cf_Database cfg))
     # (if te_Enabled (cf_Telemetry cfg) then [TracingPlugin] else [])"
  by (auto simp: postgres_New_def Let_def split: option.splits if_splits)

lemma telemetry_Inr:
  "NewTracerFromConfig B cfg = (Inr u, acts) \<Longrightarrow>
   acts = [PropagatorSet, TracerSet (te_Enabled (cf_Telemetry cfg))]"
  "NewMeterFromConfig B cfg = (Inr u, acts) \<Longrightarrow> acts = [MeterSet (te_Enabled (cf_Telemetry cfg))]"
  by (auto simp: NewTracerFromConfig_def NewMeterFromConfig_def telemetry_NewConfig_def NewTracer_def NewMeter_def split: if_splits option.splits)

lemma NewHTTPGateway_Inr:
  "NewHTTPGateway G spec register cfg = Inr srv \<Longrightarrow>
     register (''localhost:'' @ FormatInt (sint (sc_GRPCPort (cf_Server cfg)))) = None \<and>
     hs_Addr srv = '':'' @ FormatInt (sint (sc_HTTPPort (cf_Server cfg)))"
  by (auto simp: NewHTTPGateway_def Let_def split: option.splits)

lemma RegisterGateway_None:
  "RegisterGateway items addr = None \<longleftrightarrow> (\<forall>svc \<in> set items. svc addr = None)"
  by (induction items) (auto split: option.splits)

text \<open>
  C39: An application that has started is well-formed: its timeouts are positive, its gRPC
  handler is the assembled server under that timeout and the configured secret, reflection is
  off in production, every service is registered with the gateway, its logger writes errors
  and ends the process when the gRPC port cannot be listened on, and the start acquired its
  resources in order, with the configured pool limits.
\<close>

theorem started_app_wellformed:
  assumes "InitializeApp B = (Inr app, acts)" "\<And>p lv z. bl_zap B p lv = Inr z \<Longrightarrow> za_min z = Some lv"
  shows "\<exists>raw cfg. bl_viper B = Inr raw \<and> cfg = set_defaults raw \<and> ap_cfg app = cfg \<and>
     0 < sint (sc_DefaultTimeout (cf_Server cfg)) \<and> 0 < sint (cc_Timeout (cf_CompanyClient cfg)) \<and>
     gs_handler (ap_grpcServer app) = serve (bl_server B) (NewTokenConfig raw) (sc_DefaultTimeout (cf_Server cfg)) \<and>
     (ac_Environment (cf_App raw) = ''production'' \<longrightarrow> \<not> gs_reflection (ap_grpcServer app)) \<and>
     (\<forall>svc \<in> set (bl_services B). svc (''localhost:'' @ FormatInt (sint (sc_GRPCPort (cf_Server cfg)))) = None) \<and>
     zap_Enabled (zl_base (ap_logger app)) ErrorLv \<and> (\<forall>span err srv. snd (StartGRPC span app (Some err) srv)) \<and>
     acts = [LoggerSet, PoolOpened (DSN (cf_Database raw)) (ac_Environment (cf_App raw) = ''production''),
             PoolLimits (db_MaxOpenConns (cf_Database raw)) (db_MaxIdleConns (cf_Database raw)) (db_ConnMaxLifetime (cf_Database raw))]
       @ (if te_Enabled (cf_Telemetry cfg) then [TracingPlugin] else [])
       @ [PropagatorSet, TracerSet (te_Enabled (cf_Telemetry cfg)), MeterSet (te_Enabled (cf_Telemetry cfg)), PanicHandlerSet]"
proof -
  obtain cfg l u srv u2 u3 a1 a2 a3 a4 where steps: "Load (bl_viper B) = Inr cfg" "ProvideLogger B cfg = (Inr l, a1)"
    "postgres_New B cfg = (Inr u, a2)"
    "NewHTTPGateway (bl_gateway B) (bl_openapi B) (RegisterGateway (bl_services B)) cfg = Inr srv"
    "NewTracerFromConfig B cfg = (Inr u2, a3)" "NewMeterFromConfig B cfg = (Inr u3, a4)"
    "app = \<lparr>ap_cfg = cfg, ap_logger = l, ap_grpcServer = NewGRPCServer (bl_server B) cfg, ap_httpServer = srv\<rparr>"
    "acts = a1 @ a2 @ a3 @ a4 @ [PanicHandlerSet]"
    using assms(1) unfolding InitializeApp_def boot_then_Inr NewApp_def by auto
  obtain raw where raw: "bl_viper B = Inr raw" "cfg = set_defaults raw" using Load_Inr [OF steps(1)] by blast
  note log = ProvideLogger_Inr [OF steps(2) assms(2)]
  have exits: "\<forall>span err srv. snd (StartGRPC span app (Some err) srv)"
    using log steps(7) by (simp add: StartGRPC_def Let_def log_Fatal_def logWithSkip_eq With_def)
  have tc: "NewTokenConfig cfg = NewTokenConfig raw" by (simp add: NewTokenConfig_def raw(2) set_defaults_keeps)
  show ?thesis
    using raw steps(7,8) log exits tc postgres_New_Inr [OF steps(3)] telemetry_Inr(1) [OF steps(5)]
      telemetry_Inr(2) [OF steps(6)] NewHTTPGateway_Inr [OF steps(4)] set_defaults_usable [of raw]
    by (intro exI [of _ raw] exI [of _ cfg]) (simp add: NewGRPCServer_def RegisterGateway_None set_defaults_keeps)
qed

definition demo_boot :: "pg boot_libs" where
  "demo_boot =
     \<lparr>bl_viper = Inr production, bl_quote = (\<lambda>s. s),
      bl_zap = (\<lambda>p lv. Inr \<lparr>za_min = Some lv, za_name = [], za_fields = [], za_skip = 0\<rparr>), bl_hostname = ''host'',
      bl_gorm_Open = (\<lambda>_. None), bl_gorm_DB = None, bl_Ping = None, bl_Use = None, bl_exporter = (\<lambda>_. None),
      bl_resource = (\<lambda>_. None), bl_prometheus = None, bl_services = [\<lambda>_. None, \<lambda>_. None, \<lambda>_. None],
      bl_server = demo_libs, bl_gateway = demo_gateway, bl_openapi = ''{}''\<rparr>"

lemma demo_boot_runs: "\<exists>app acts. InitializeApp demo_boot = (Inr app, acts)"
  by (simp add: InitializeApp_def boot_then_def demo_boot_def Load_def ProvideLogger_def Logger_New_def
      parseLevel_def set_defaults_keeps postgres_New_def NewHTTPGateway_def NewTracerFromConfig_def
      NewMeterFromConfig_def telemetry_NewConfig_def NewTracer_def NewMeter_def NewApp_def
      Let_def production_def set_defaults_def)

theorem started_app_wellformed_witness:
  "\<exists>app acts. InitializeApp demo_boot = (Inr app, acts) \<and> 0 < sint (sc_DefaultTimeout (cf_Server (ap_cfg app))) \<and>
     \<not> gs_reflection (ap_grpcServer app) \<and> (\<forall>span err srv. snd (StartGRPC span app (Some err) srv)) \<and>
     last acts = PanicHandlerSet"
proof -
  have env: "ac_Environment (cf_App production) = ''production''" by (simp add: production_def)
  obtain app acts where run: "InitializeApp demo_boot = (Inr app, acts)" using demo_boot_runs by blast
  have zap: "bl_zap demo_boot p lv = Inr z \<Longrightarrow> za_min z = Some lv" for p lv z
    by (auto simp: demo_boot_def)
  have "bl_viper demo_boot = Inr production" by (simp add: demo_boot_def)
  then show ?thesis using started_app_wellformed [OF run zap] run env by auto
qed

section \<open>Stopping\<close>

fun is_log :: "action \<Rightarrow> bool" where
  "is_log (Logged es) = True"
| "is_log _ = False"

lemma filter_log_failure [simp]: "filter (\<lambda>a. \<not> is_log a) (log_failure span l c msg err) = []"
  by (simp add: log_failure_def split: option.splits)




lemma Shutdown_no_close:
  assumes "an_http ans = None \<or> \<not> an_graceful ans \<or> an_wait ans = None \<or> an_db ans \<noteq> None"
  shows "PoolClosed \<notin> set (fst (Shutdown span txt app c ans))"
proof -
  have fail: "PoolClosed \<notin> set (log_failure span l c msg err)" for l msg err
    by (simp add: log_failure_def split: option.splits)
  show ?thesis using assms fail
    by (auto simp: Shutdown_def Let_def split_beta split: option.splits)
qed




text \<open>
  The thirty seconds \<^verbatim>\<open>main\<close> grants do not bound the stop of the gRPC server: when it hangs,
  the pool is never closed.
\<close>

lemma hanging_stop_keeps_pool:
  "\<not> an_graceful ans \<Longrightarrow> PoolClosed \<notin> set (fst (Shutdown span txt app c ans))"
  by (simp add: Shutdown_no_close)

lemma shutdown_deadline: "ctx_deadline (shutdown_ctx now) = Some (now + 30 * second)"
  by (simp add: shutdown_ctx_def WithTimeout_def Background_def time_Add_def second_def)

end
