(* ===== verification/External.thy ===== *)
theory External
  imports Http_Server App_Config
begin

text \<open>
  The adapters to services outside: \<^verbatim>\<open>infrastructure/external/company-service\<close>,
  \<^verbatim>\<open>infrastructure/cache/redis\<close> and \<^verbatim>\<open>infrastructure/database/mongo\<close>. The connection and
  the drivers are parameters.
\<close>

section \<open>The company service (client.go, connection.go)\<close>

record Company =
  co_ID :: string
  co_Name :: string
  co_Address :: string
  co_Status :: string

text \<open>The stub: a response, which may be nil, and an error.\<close>

type_synonym 's company_stub = "ctx \<Rightarrow> string \<Rightarrow> 's world \<Rightarrow> (Company option \<times> go_error option) \<times> 's world"

record 's company_client =
  cl_grpcClient :: "'s company_stub"
  cl_timeout :: duration

definition NewClientWithStub :: "'s company_stub \<Rightarrow> Config \<Rightarrow> 's company_client" where
  "NewClientWithStub stub cfg =
     (let timeout = cc_Timeout (cf_CompanyClient cfg)
      in \<lparr>cl_grpcClient = stub,
          cl_timeout = (if sint timeout \<le> 0 then word_of_int (5 * second) else timeout)\<rparr>)"

text \<open>
  The generated stub (\<^verbatim>\<open>gen/externalpb/company-service\<close>) over a connection, whose \<^verbatim>\<open>Invoke\<close> fills
  the response or fails.
\<close>

definition CompanyService_GetCompany_FullMethodName :: string where
  "CompanyService_GetCompany_FullMethodName = ''/company.v1.CompanyService/GetCompany''"

type_synonym 's company_conn = "ctx \<Rightarrow> string \<Rightarrow> string \<Rightarrow> 's world \<Rightarrow> Company result \<times> 's world"

definition companyServiceClient_GetCompany :: "'s company_conn \<Rightarrow> 's company_stub" where
  "companyServiceClient_GetCompany cc c i w =
     (case cc c CompanyService_GetCompany_FullMethodName i w of
        (Inl err, w') \<Rightarrow> ((None, Some err), w')
      | (Inr out, w') \<Rightarrow> ((Some out, None), w'))"

definition NewCompanyServiceClient :: "'s company_conn \<Rightarrow> 's company_stub" where
  "NewCompanyServiceClient cc = companyServiceClient_GetCompany cc"

definition NewClient :: "'s company_conn \<Rightarrow> Config \<Rightarrow> 's company_client" where
  "NewClient conn cfg = NewClientWithStub (NewCompanyServiceClient conn) cfg"

text \<open>The getters of a nil response give empty strings.\<close>

definition response_company :: "Company option \<Rightarrow> Company" where
  "response_company resp =
     (case resp of Some r \<Rightarrow> r | None \<Rightarrow> \<lparr>co_ID = [], co_Name = [], co_Address = [], co_Status = []\<rparr>)"

definition GetCompanyByID ::
  "(nat \<Rightarrow> bool) \<Rightarrow> 's company_client \<Rightarrow> ctx \<Rightarrow> string \<Rightarrow> 's world \<Rightarrow> Company result \<times> 's world" where
  "GetCompanyByID pr cl c i w =
     (case time_Now w of
        (now, w1) \<Rightarrow>
          (case cl_grpcClient cl (WithTimeout c now (cl_timeout cl)) i w1 of
             ((_, Some err), w2) \<Rightarrow>
               (Inl (Wrapped (''company-service client: get company failed for id '' @ Quote pr i @ '': '') err []), w2)
           | ((resp, None), w2) \<Rightarrow> (Inr (response_company resp), w2)))"

text \<open>\<open>dial\<close> is \<^verbatim>\<open>grpc.NewClient\<close>.\<close>

definition NewConnection :: "(string \<Rightarrow> 'k result) \<Rightarrow> Config \<Rightarrow> 'k result" where
  "NewConnection dial cfg =
     (let addr = cc_GRPCAddr (cf_CompanyClient cfg)
      in case dial addr of
           Inl err \<Rightarrow> Inl (Wrapped (''company-service: dial '' @ addr @ '': '') err [])
         | Inr conn \<Rightarrow> Inr conn)"

section \<open>Redis and MongoDB\<close>

text \<open>\<open>ping\<close> under a deadline five seconds from now, \<open>instrument\<close> the tracing hook.\<close>

definition redis_New ::
  "(string \<Rightarrow> string \<Rightarrow> goint \<Rightarrow> 'k) \<Rightarrow> ('k \<Rightarrow> ctx \<Rightarrow> go_error option) \<Rightarrow> ('k \<Rightarrow> go_error option) \<Rightarrow> time \<Rightarrow>
   Config \<Rightarrow> 'k result" where
  "redis_New newClient ping instrument now cfg =
     (let client = newClient (rd_Addr (cf_Redis cfg)) (rd_Password (cf_Redis cfg)) (rd_DB (cf_Redis cfg));
          c = WithTimeout Background now (word_of_int (5 * second))
      in case ping client c of
           Some err \<Rightarrow> Inl (Wrapped ''redis: ping: '' err [])
         | None \<Rightarrow>
             (if te_Enabled (cf_Telemetry cfg) then
                (case instrument client of
                   Some err \<Rightarrow> Inl (Wrapped ''redis: otel tracing: '' err [])
                 | None \<Rightarrow> Inr client)
              else Inr client))"

text \<open>The database and, in the code's closure, the disconnection under its own five seconds.\<close>

definition mongo_New ::
  "(ctx \<Rightarrow> string \<Rightarrow> 'k result) \<Rightarrow> ('k \<Rightarrow> ctx \<Rightarrow> go_error option) \<Rightarrow> ('k \<Rightarrow> string \<Rightarrow> 'd) \<Rightarrow>
   ('k \<Rightarrow> ctx \<Rightarrow> 'r) \<Rightarrow> time \<Rightarrow> Config \<Rightarrow> ('d \<times> (time \<Rightarrow> 'r)) result" where
  "mongo_New connect ping database disconnect now cfg =
     (let c = WithTimeout Background now (word_of_int (10 * second))
      in case connect c (mo_URI (cf_Mongo cfg)) of
           Inl err \<Rightarrow> Inl (Wrapped ''mongo: connect: '' err [])
         | Inr client \<Rightarrow>
             (case ping client c of
                Some err \<Rightarrow> Inl (Wrapped ''mongo: ping: '' err [])
              | None \<Rightarrow>
                  Inr (database client (mo_Database (cf_Mongo cfg)),
                       \<lambda>later. disconnect client (WithTimeout Background later (word_of_int (5 * second))))))"

section \<open>Facts\<close>

lemma client_timeout_pos: "0 < sint (cl_timeout (NewClientWithStub stub cfg))"
  using defaults_pos by (simp add: NewClientWithStub_def Let_def)

text \<open>With the generated stub, a lookup succeeds exactly if the call does, with its answer.\<close>

lemma company_lookup:
  "fst (GetCompanyByID pr (NewClient conn cfg) c i w) = Inr co \<longleftrightarrow>
     fst (conn (WithTimeout c (fst (time_Now w)) (cl_timeout (NewClient conn cfg)))
            CompanyService_GetCompany_FullMethodName i (snd (time_Now w))) = Inr co"
  by (auto simp: GetCompanyByID_def NewClient_def NewClientWithStub_def NewCompanyServiceClient_def
      companyServiceClient_GetCompany_def response_company_def Let_def split: prod.splits sum.splits)

text \<open>An error of the service keeps its identity, and the call runs under the client's deadline.\<close>

lemma company_error_kept:
  "GetCompanyByID pr cl c i w = (Inl e, w') \<Longrightarrow> \<exists>err. Unwrap e = Some err \<and> (\<forall>t. errors_Is err t \<longrightarrow> errors_Is e t)"
  by (auto simp: GetCompanyByID_def split: prod.splits option.splits)

lemma company_call_bounded:
  assumes "\<And>c' j w1 d. ctx_deadline c' = Some d \<Longrightarrow> d \<le> w_clock w (w_ticks w) + sint (cl_timeout cl) \<Longrightarrow>
      fst (stub1 c' j w1) = fst (stub2 c' j w1) \<and> snd (stub1 c' j w1) = snd (stub2 c' j w1)"
  shows "GetCompanyByID pr (cl\<lparr>cl_grpcClient := stub1\<rparr>) c i w = GetCompanyByID pr (cl\<lparr>cl_grpcClient := stub2\<rparr>) c i w"
proof -
  let ?now = "w_clock w (w_ticks w)"
  obtain d where d: "ctx_deadline (WithTimeout c ?now (cl_timeout cl)) = Some d" "d \<le> ?now + sint (cl_timeout cl)"
    using WithTimeout_deadline_le [of c ?now "cl_timeout cl"] by (auto simp: time_Add_def)
  have "stub1 (WithTimeout c ?now (cl_timeout cl)) i w1 = stub2 (WithTimeout c ?now (cl_timeout cl)) i w1" for w1
    using assms [OF d] by (simp add: prod_eq_iff)
  then show ?thesis by (simp add: GetCompanyByID_def time_Now_def)
qed

end
