(* ===== verification/Util.thy ===== *)
theory Util
  imports Utf8 Go_Errors "HOL-Library.Sublist"
begin

text \<open>
  The helpers of \<^verbatim>\<open>pkg/stringutil\<close> and \<^verbatim>\<open>pkg/pointer\<close>.
\<close>

section \<open>Strings (stringutil.go)\<close>

definition IsEmpty :: "string \<Rightarrow> bool" where
  "IsEmpty s = (TrimSpace s = [])"

text \<open>Slicing \<^verbatim>\<open>runes[:maxLen]\<close> with a negative bound panics.\<close>

definition Truncate :: "string \<Rightarrow> goint \<Rightarrow> string outcome" where
  "Truncate s maxLen =
     (let rs = runes s
      in if int (length rs) \<le> sint maxLen then Returns s None
         else if sint maxLen < 0 then Panics ''slice bounds out of range''
         else Returns (string_of_runes (take (nat (sint maxLen)) rs)) None)"

text \<open>
  \<^verbatim>\<open>unicode.IsUpper\<close> and \<^verbatim>\<open>unicode.ToLower\<close>, written out on ASCII; \<open>up\<close> and \<open>low\<close> are the
  Unicode tables beyond it.
\<close>

definition IsUpper :: "(nat \<Rightarrow> bool) \<Rightarrow> nat \<Rightarrow> bool" where
  "IsUpper up r = (if r < 128 then 65 \<le> r \<and> r \<le> 90 else up r)"

definition ToLower_rune :: "(nat \<Rightarrow> nat) \<Rightarrow> nat \<Rightarrow> nat" where
  "ToLower_rune low r = (if r < 128 then (if 65 \<le> r \<and> r \<le> 90 then r + 32 else r) else low r)"

text \<open>The loop over the runes; \<open>first\<close> holds at index 0.\<close>

fun snake_runes :: "(nat \<Rightarrow> bool) \<Rightarrow> (nat \<Rightarrow> nat) \<Rightarrow> bool \<Rightarrow> nat list \<Rightarrow> string" where
  "snake_runes up low first [] = []"
| "snake_runes up low first (r # rs) =
     (if IsUpper up r \<and> \<not> first then ''_'' else []) @ EncodeRune (ToLower_rune low r)
     @ snake_runes up low False rs"

definition ToSnakeCase :: "(nat \<Rightarrow> bool) \<Rightarrow> (nat \<Rightarrow> nat) \<Rightarrow> string \<Rightarrow> string" where
  "ToSnakeCase up low s = snake_runes up low True (runes s)"

fun Coalesce :: "string list \<Rightarrow> string" where
  "Coalesce [] = []"
| "Coalesce (v # vs) = (if \<not> IsEmpty v then v else Coalesce vs)"

section \<open>Pointers (pointer.go)\<close>

definition Of :: "'a \<Rightarrow> 'a option" where
  "Of v = Some v"

definition ValueOrDefault :: "'a option \<Rightarrow> 'a \<Rightarrow> 'a" where
  "ValueOrDefault p def = (case p of None \<Rightarrow> def | Some v \<Rightarrow> v)"

section \<open>Facts\<close>

lemma runes_truncated: "runes (string_of_runes (take n (runes s))) = take n (runes s)"
  by (rule runes_string_of_runes) (meson list_all_iff in_set_takeD runes_scalar)

lemma string_of_runes_take_prefix: "prefix (string_of_runes (take n rs)) (string_of_runes rs)"
  unfolding string_of_runes_def by (metis append_take_drop_id concat_append map_append prefixI)

lemma Coalesce_first:
  "list_all IsEmpty us \<Longrightarrow> \<not> IsEmpty v \<Longrightarrow> Coalesce (us @ v # vs) = v"
  by (induction us) auto

lemma Coalesce_none: "list_all IsEmpty vs \<Longrightarrow> Coalesce vs = []"
  by (induction vs) auto

lemma ValueOrDefault_Of [simp]: "ValueOrDefault (Of v) def = v"
  by (simp add: ValueOrDefault_def Of_def)

text \<open>On ASCII strings the letters survive in lower case, whatever the tables.\<close>

lemma runes_ascii: "ascii s \<Longrightarrow> runes s = map of_char s"
proof (induction s)
  case Nil
  then show ?case by (simp add: runes.simps)
next
  case (Cons c s)
  then show ?case by (subst runes.simps) (simp add: ascii_def)
qed

lemma EncodeRune_ascii: "r < 128 \<Longrightarrow> EncodeRune r = [char_of r]"
  by (simp add: EncodeRune_def scalar_def)

lemma lowered_not_underscore:
  assumes "65 \<le> (of_char c :: nat)" "(of_char c :: nat) \<le> 90"
  shows "char_of (of_char c + 32 :: nat) \<noteq> CHR ''_''" "c \<noteq> CHR ''_''"
proof -
  have "(of_char (char_of (of_char c + 32 :: nat) :: char) :: nat) = of_char c + 32" using assms by simp
  moreover have "(of_char (CHR ''_'') :: nat) = 95" by simp
  ultimately show "char_of (of_char c + 32 :: nat) \<noteq> CHR ''_''" "c \<noteq> CHR ''_''" using assms by force+
qed

lemma char_of_95: "char_of (95 :: nat) = CHR ''_''"
proof -
  have "(of_char (CHR ''_'') :: nat) = 95" by simp
  then show ?thesis by (metis char_of_char)
qed

lemma snake_letters:
  "ascii s \<Longrightarrow> filter (\<lambda>c. c \<noteq> CHR ''_'') (snake_runes up low first (map of_char s)) =
     map lower_byte (filter (\<lambda>c. c \<noteq> CHR ''_'') s)"
  by (induction s arbitrary: first)
    (auto simp: ascii_def IsUpper_def ToLower_rune_def EncodeRune_ascii lower_byte_def lowered_not_underscore char_of_95)

lemma ToSnakeCase_ascii:
  "ascii s \<Longrightarrow> filter (\<lambda>c. c \<noteq> CHR ''_'') (ToSnakeCase up low s) = map lower_byte (filter (\<lambda>c. c \<noteq> CHR ''_'') s)"
  by (simp add: ToSnakeCase_def runes_ascii snake_letters)

end
