(* ===== verification/Util_Properties.thy ===== *)
theory Util_Properties
  imports Util Calendar
begin

text \<open>The properties of \<^verbatim>\<open>pkg/stringutil\<close> and \<^verbatim>\<open>pkg/timeutil\<close>.\<close>

section \<open>Truncation\<close>

text \<open>
  Truncation to a bound that is not negative never panics and yields exactly the first
  runes of the string, at most as many as the bound; of a valid UTF-8 string it yields a
  prefix, so that no character is cut in the middle.
\<close>

theorem truncate_runes:
  assumes "0 \<le> sint maxLen"
  shows "\<exists>t. Truncate s maxLen = Returns t None \<and> int (length (runes t)) \<le> sint maxLen \<and>
     runes t = take (nat (sint maxLen)) (runes s) \<and>
     (string_of_runes (runes s) = s \<longrightarrow> prefix t s \<and> string_of_runes (runes t) = t)"
proof (cases "int (length (runes s)) \<le> sint maxLen")
  case True
  then have "take (nat (sint maxLen)) (runes s) = runes s" by simp
  then show ?thesis using True by (auto simp: Truncate_def)
next
  case False
  let ?t = "string_of_runes (take (nat (sint maxLen)) (runes s))"
  have "prefix ?t (string_of_runes (runes s))" by (rule string_of_runes_take_prefix)
  then show ?thesis using False assms runes_truncated [of "nat (sint maxLen)" s]
    by (intro exI [of _ ?t]) (auto simp: Truncate_def Let_def)
qed

theorem truncate_runes_witness:
  "\<exists>t. Truncate ''verification'' 3 = Returns t None \<and> int (length (runes t)) \<le> 3"
  using truncate_runes [of 3 "''verification''"] by auto

text \<open>A negative bound panics whatever the string.\<close>

lemma truncate_negative: "sint maxLen < 0 \<Longrightarrow> Truncate s maxLen = Panics ''slice bounds out of range''"
  by (simp add: Truncate_def Let_def)

section \<open>Days\<close>

text \<open>
  The start and the end of a day, which the code computes through the calendar, are what
  arithmetic on the time line gives: the last midnight not after the moment, and one
  nanosecond before the next one. Both have the date of the moment, which is a date of the
  calendar.
\<close>

theorem day_bounds:
  "StartOfDay t = t - t mod day_ns \<and> EndOfDay t = t - t mod day_ns + day_ns - 1 \<and>
   StartOfDay t \<le> t \<and> t \<le> EndOfDay t \<and>
   Date (StartOfDay t) = Date t \<and> Date (EndOfDay t) = Date t \<and>
   (case Date t of (y, m, d) \<Rightarrow> valid_date y m d)"
proof -
  have pos: "0 < day_ns" by (simp add: day_ns_def second_def)
  then have r: "0 \<le> t mod day_ns" "t mod day_ns < day_ns" by simp_all
  have start: "StartOfDay t = t - t mod day_ns" by (rule StartOfDay_eq)
  have ends: "EndOfDay t = t - t mod day_ns + day_ns - 1" using EndOfDay_eq [of t] start by simp
  have same: "Date u = Date t" if "t - t mod day_ns \<le> u" "u < t - t mod day_ns + day_ns" for u
  proof -
    have "(u - zero_time) div day_ns = (t - zero_time) div day_ns"
    proof -
      have z: "t - zero_time - t mod day_ns = (t - zero_time) div day_ns * day_ns"
        using zero_time_day [of t] by (simp add: minus_mod_eq_div_mult [symmetric])
      define k v where "k = (t - zero_time) div day_ns" and "v = u - zero_time - k * day_ns"
      have "0 \<le> v" "v < day_ns" using that z unfolding v_def k_def by linarith+
      moreover have "u - zero_time = v + k * day_ns" by (simp add: v_def)
      ultimately have "(u - zero_time) div day_ns = k" using pos by simp
      then show ?thesis by (simp add: k_def)
    qed
    then show ?thesis by (simp add: Date_def)
  qed
  have "Date (StartOfDay t) = Date t" "Date (EndOfDay t) = Date t"
    by (rule same; use start ends pos in simp)+
  moreover have "case Date t of (y, m, d) \<Rightarrow> valid_date y m d"
    using Date_valid [of t] by (cases "Date t") simp
  ultimately show ?thesis using start ends r by simp
qed

end
