(* ===== verification/Spec2Isabelle.thy ===== *)
theory Spec2Isabelle
  imports Account_Properties Interceptor_Properties Idempotency_Properties Routine_Properties
    Pagination_Properties Http_Properties Gateway_Properties Grpc_Properties Rest_Properties
    Logger_Properties Lifecycle_Properties External Util_Properties
begin

text \<open>
  A verification development for the Go feature-based boilerplate: a service with user
  accounts and sessions behind gRPC, an HTTP gateway in front of it, and the packages both
  are built from.

  \<^bold>\<open>The program and its model.\<close> A request comes in over HTTP (\<^verbatim>\<open>bootstrap/gateway.go\<close>), is turned
  into a gRPC call by the generated routes (\<^verbatim>\<open>gen/pb/*/*.pb.gw.go\<close>), passes the interceptors
  of the gRPC server (\<^verbatim>\<open>infrastructure/middleware\<close>), and reaches a handler
  (\<^verbatim>\<open>internal/*/handler\<close>), which calls a use case (\<^verbatim>\<open>internal/*/usecase\<close>), which calls
  repositories (\<^verbatim>\<open>internal/*/repository/postgres\<close>) on a GORM handle, in a transaction where the
  use case asks for one. \<^verbatim>\<open>bootstrap\<close> and \<^verbatim>\<open>cmd/api\<close> build, start and stop all this; the
  packages under \<^verbatim>\<open>pkg\<close> serve it or stand on their own. Every Go function is a HOL function
  with explicit state: it takes the \<open>world\<close> (database, clock, entropy, log) and returns it
  changed. A pair \<^verbatim>\<open>(T, error)\<close> is a sum, a panic a constructor of \<open>reply\<close> or \<open>outcome\<close>, a
  context a record, a machine integer a word, a duration a 64-bit word of nanoseconds, a string
  its bytes. Code that runs side by side is a step relation over the states of its goroutines.

  \<^bold>\<open>Foundations.\<close> \<open>Go_Prelude\<close> (types, the world, logging), \<open>Go_Errors\<close> (\<^verbatim>\<open>pkg/errorutil\<close>,
  error chains, gRPC codes), \<open>Go_Context\<close> (\<^verbatim>\<open>pkg/contextutil\<close>, deadlines), \<open>Go_Strings\<close>
  (\<^verbatim>\<open>strings\<close>, \<^verbatim>\<open>strconv\<close>), \<open>Go_Float\<close> (\<^verbatim>\<open>float64\<close> of the backoff), \<open>Utf8\<close>, \<open>Base64\<close>,
  \<open>Calendar\<close> (\<^verbatim>\<open>pkg/timeutil\<close>), \<open>Util\<close> (\<^verbatim>\<open>pkg/stringutil\<close>, \<^verbatim>\<open>pkg/pointer\<close>), \<open>Json_Text\<close>
  (\<^verbatim>\<open>encoding/json\<close> on text), \<open>Http_Header\<close>, \<open>Http_Server\<close> (response writer, \<^verbatim>\<open>ServeMux\<close>).

  \<^bold>\<open>Accounts and sessions.\<close> \<open>Entities\<close> (data, requests, domain errors), \<open>Gorm_DB\<close> (the
  database calls as a record, their documented behaviour as the locales \<open>gorm_db\<close> and
  \<open>gorm_db_up\<close>), \<open>Repositories\<close> (repositories and transaction manager), \<open>Repo_Contracts\<close> (the
  repository interfaces as locales, and that the repositories keep them over any such
  database), \<open>Pg_Reference\<close> (an executable database with the schema of the migrations, which
  interprets the locales), \<open>Crypto_Jwt\<close> (\<^verbatim>\<open>pkg/cryptoutil\<close>, \<^verbatim>\<open>pkg/jwtutil\<close>, with bcrypt and
  the JWT library as locales) and \<open>Reference_Libs\<close> (stand-ins that interpret them),
  \<open>User_Usecases\<close>, \<open>Auth_Usecases\<close>, \<open>Auth_Specs\<close> (what the auth use cases do to the tables).

  \<^bold>\<open>The server.\<close> \<open>Middleware\<close> (the five interceptors), \<open>Handlers\<close>, \<open>Server\<close> (\<^verbatim>\<open>grpc.go\<close> and
  the object graph of Wire: \<open>serve\<close> is one call), \<open>Server_Specs\<close> (the chain whatever the handler
  does), \<open>Server_Refinement\<close> (the abstract specification: the step relation \<open>db_step\<close> on the two
  tables, that every call of the server is a step of it, and its invariants by induction over
  histories), \<open>Grpc_Stubs\<close> and \<open>Grpc_Properties\<close> (client stubs, descriptors and registration, and
  that the registered services are \<open>serve\<close>), \<open>Demo\<close> (a deployment for the witnesses),
  \<open>Session_Races\<close> (refreshes that interleave with each other and with calls of the server).

  \<^bold>\<open>The edges.\<close> \<open>App_Config\<close>, \<open>Gateway\<close> (\<^verbatim>\<open>gateway.go\<close>, \<^verbatim>\<open>swagger.go\<close>), \<open>Rest_Gateway\<close> (the
  generated routes), \<open>Rest_Specs\<close> (the RPC behind each REST call), \<open>Rest_Contracts\<close> (what the
  libraries on the way promise, and that a request has the effect of at most one RPC), \<open>Logger\<close>
  (\<^verbatim>\<open>pkg/logger\<close>), \<open>Lifecycle\<close> (\<^verbatim>\<open>InitializeApp\<close>, \<^verbatim>\<open>app.go\<close>, \<^verbatim>\<open>main.go\<close>, telemetry and the
  connection pool), \<open>External\<close> (company client, Redis, MongoDB).

  \<^bold>\<open>Packages.\<close> \<open>Idempotency\<close> with \<open>Idempotency_Specs\<close> (the storage contract as the locale
  \<open>idem_storage\<close>, with \<open>idem_locking\<close> for the keys that are free, interpreted by the memory storage
  and, over the locales \<open>redis_server\<close> and \<open>redis_server_nx\<close>, by the Redis storage) and \<open>Idempotency_Races\<close> (concurrent calls); \<open>Routine\<close>, \<open>Retry\<close>, \<open>Group\<close>, \<open>Pool\<close>,
  \<open>Singleflight\<close> (\<^verbatim>\<open>pkg/routine\<close>); \<open>Pagination\<close>; \<open>Http_Client\<close> (\<^verbatim>\<open>pkg/httpclient\<close>).

  \<^bold>\<open>What is proved.\<close> The theories \<open>*_Properties\<close> hold the properties, each with a run that meets
  its hypotheses. \<open>Account_Properties\<close>: refinement of the specification, a refresh token is
  granted once, also among interleaved refreshes unless they overlap, rows change for their owners
  only, and what login, rotation, replay, logout and registration do. \<open>Rest_Properties\<close> and \<open>Grpc_Properties\<close> carry this to HTTP: a REST call is the
  RPC of the API table, and no request of any kind touches a foreign account.
  \<open>Interceptor_Properties\<close>: authentication, uniform errors, deadlines, masked logs.
  \<open>Gateway_Properties\<close>: envelopes that parse back. \<open>Logger_Properties\<close>: in the context the chain of
  interceptors passes to a handler, the entries handed to zap name request and account.
  \<open>Lifecycle_Properties\<close>: what a started application is, and what has ended before a shutdown
  closes the database pool. \<open>Idempotency_Properties\<close>: replay, exclusion, release for a retry.
  \<open>Routine_Properties\<close>: termination and results of retries, the wait for shutdown, groups, pool
  and call coordinator, with liveness. \<open>Pagination_Properties\<close>,
  \<open>Http_Properties\<close>, \<open>Util_Properties\<close>: pages that partition, ORDER BY texts from the whitelist,
  cursors that round-trip, attempts that repeat the same request and return its answer, truncation and day bounds. Where
  the code falls short of its purpose, a lemma beside the property shows the run (for example
  \<open>two_grants_of_one_token\<close>, \<open>rotation_survives_revocation\<close>, \<open>pool_submit_panics\<close>, \<open>forget_breaks_next_execution\<close>,
  \<open>unmarshalled_value_keeps_lock\<close>,
  \<open>far_page_wraps\<close>, \<open>backoff_overflow_panics\<close>, \<open>hanging_stop_keeps_pool\<close>).

  \<^bold>\<open>Parameters and hypotheses.\<close> Libraries are parameters: GORM and PostgreSQL, bcrypt, SHA-256,
  the JWT library, the validator, Viper, zap's builder, OpenTelemetry, \<^verbatim>\<open>net/http\<close>'s transport,
  the Redis client, gRPC's wire, grpc-gateway's \<^verbatim>\<open>runtime\<close>, and the Unicode tables beyond ASCII.
  What a theorem needs of one is a locale assumption or a named predicate that states its
  documented behaviour (\<open>gorm_db\<close>, \<open>bcrypt_lib\<close>, \<open>jwt_lib\<close>, \<open>redis_server\<close>, \<open>read_only_ping\<close>,
  \<open>status_FromError_spec\<close>, \<open>cursor_json_spec\<close>, \<open>Int64N_spec\<close>, \<open>dispatches\<close>, \<open>confined\<close>,
  \<open>annotates\<close>, \<open>delivers\<close>, \<open>quiet_runtime\<close>, \<open>quiet_gateway\<close>); each has an executable instance.

  \<^bold>\<open>Choices.\<close> Effects of HTTP handlers are scripts of calls on the response writer. JSON is a
  tree of raw texts with a reader whose fuel is \<open>2 * length s + 2\<close>: every level of nesting and
  every element takes a byte, so it never runs out (\<open>parse_json_print\<close>). \<^verbatim>\<open>float64\<close> is a rounded
  binary number, enough for the backoff factors. The retry and round-trip loops terminate by the
  attempts left. A year is estimated from the mean length and corrected once. \<^verbatim>\<open>atomic.Value\<close>
  keeps the dynamic type of what it holds. A caller in a log record is a frame of a stack. Critical
  sections, channel operations and the effects of deferred functions are single steps; in
  between, any other goroutine moves, for example between the look of a group's task at its
  context and the call of its function, or between the storing of the group's first error and
  the cancellation. A call of \<^verbatim>\<open>Shutdown\<close> that never returns is an answer of its own. Calls of the server are atomic, except for refreshes in \<open>Session_Races\<close>: there
  the read of the token's row, which takes no lock at PostgreSQL's default isolation, and the
  writes, which the lock on the row holds together, are two steps.

  \<^bold>\<open>Not modelled.\<close> The protobuf messages' reflection tables and accessors (\<^verbatim>\<open>gen/pb/*.pb.go\<close>,
  \<^verbatim>\<open>gen/externalpb/*.pb.go\<close>): messages are a datatype, their wire format a parameter. The embedded
  OpenAPI document. The server half of the company service's stub, which nothing calls, and the
  declarations from which Wire generates \<^verbatim>\<open>wire_gen.go\<close>. Tests, mocks, migrations as SQL text, Docker and make files. Inside libraries:
  keepalive, exporters of telemetry, and what zap does with an entry it is handed (its production
  configuration samples repeated ones). Streaming and informational HTTP statuses, which the
  program does not use. The reflection service outside production: \<open>NewGRPCServer\<close> records whether
  it is registered, the registered services are those of the business. The services that
  \<open>InitializeApp\<close> registers with the gateway are a parameter there; \<open>Rest_Gateway\<close> models them. Rows keep
  nanoseconds where PostgreSQL keeps microseconds. The goroutines that close the
  gateway's connections when their context ends: the context is recorded, it never ends.
\<close>

end
